(* ===== verification/Prelude.thy ===== *)
theory Prelude
  imports Main "HOL-Library.List_Lexorder" "HOL-Library.Char_ord" "HOL-Library.Sublist"
    "HOL-Library.Code_Target_Nat"
begin

text \<open>
  Shared vocabulary of the development: the exceptions of the Python code as values, the
  operations of Python's \<^verbatim>\<open>str\<close> that the control plane uses, and the generic lemmas on
  lists, options and sums that the component theories build on.

  A Python \<^verbatim>\<open>str\<close> is a \<^typ>\<open>string\<close>; a \<^typ>\<open>char\<close> stands for one code point below 256
  (the Latin-1 range). All character classifications below (\<^verbatim>\<open>isspace\<close>, \<^verbatim>\<open>lower\<close>, \<^verbatim>\<open>isdigit\<close>,
  \<^verbatim>\<open>isalnum\<close>) are those of CPython 3.12 on that range. Ordering of strings is the
  lexicographic order of code points, as Python's \<^verbatim>\<open>sorted\<close> uses.
\<close>

section \<open>Collections of facts\<close>

named_theorems pystr_simps \<open>rewrite rules for the Python string operations\<close>
named_theorems monad_simps \<open>rewrite rules for results of fallible operations\<close>

section \<open>Exceptions as values\<close>

text \<open>
  Every \<^verbatim>\<open>raise\<close> of the modelled code is a value of this type on the left of a sum. The string
  is the exception's message (for \<^verbatim>\<open>ValidationError\<close>: the list of \<^verbatim>\<open>errors()[i]['type']\<close>).
\<close>

datatype py_error =
    ValueError string
  | TypeError string
  | KeyError string
  | OverflowError string
  | YAMLError string
  | ValidationError "string list"
  | LLMAdapterError string
  | ConfigurationError string
  | PolicyIntegrityError string
  | RuntimeError string
  | FileNotFoundError string

type_synonym 'a result = "py_error + 'a"

definition bind_result :: "'a result \<Rightarrow> ('a \<Rightarrow> 'b result) \<Rightarrow> 'b result" where
  "bind_result r f = (case r of Inl e \<Rightarrow> Inl e | Inr a \<Rightarrow> f a)"

lemma bind_result_simps [simp, monad_simps]:
  "bind_result (Inl e) f = Inl e"
  "bind_result (Inr a) f = f a"
  by (simp_all add: bind_result_def)

lemma bind_result_eq_Inr [monad_simps]:
  "bind_result r f = Inr b \<longleftrightarrow> (\<exists>a. r = Inr a \<and> f a = Inr b)"
  by (cases r) auto

lemma bind_result_eq_Inl [monad_simps]:
  "bind_result r f = Inl e \<longleftrightarrow> r = Inl e \<or> (\<exists>a. r = Inr a \<and> f a = Inl e)"
  by (cases r) auto

lemma bind_result_assoc: "bind_result (bind_result r f) g = bind_result r (\<lambda>a. bind_result (f a) g)"
  by (cases r) auto

text \<open>A comprehension that evaluates left to right and stops at the first exception.\<close>

fun map_result :: "('a \<Rightarrow> 'b result) \<Rightarrow> 'a list \<Rightarrow> 'b list result" where
  "map_result f [] = Inr []"
| "map_result f (x # xs) = bind_result (f x) (\<lambda>y. bind_result (map_result f xs) (\<lambda>ys. Inr (y # ys)))"

lemma map_result_eq_Inr:
  "map_result f xs = Inr ys \<longleftrightarrow> list_all2 (\<lambda>x y. f x = Inr y) xs ys"
  by (induction xs arbitrary: ys) (auto simp: monad_simps list_all2_Cons1)

lemma map_result_pure [simp]: "map_result (\<lambda>x. Inr (f x)) xs = Inr (map f xs)"
  by (induction xs) auto

section \<open>Runs of a step relation\<close>

text \<open>A run lists the labels of its steps, each with the state it started from.\<close>

inductive run_of :: "('s \<Rightarrow> 'l \<Rightarrow> 's \<Rightarrow> bool) \<Rightarrow> 's \<Rightarrow> ('s \<times> 'l) list \<Rightarrow> 's \<Rightarrow> bool" for step where
  run_nil: "run_of step s [] s"
| run_cons: "step s l s1 \<Longrightarrow> run_of step s1 ls s2 \<Longrightarrow> run_of step s ((s, l) # ls) s2"

inductive_simps run_of_simps [simp]: "run_of step s [] s'" "run_of step s (sl # ls) s'"

lemma run_of_invariant:
  "run_of step s ls s' \<Longrightarrow> P s \<Longrightarrow> (\<And>s l s'. step s l s' \<Longrightarrow> P s \<Longrightarrow> P s') \<Longrightarrow> P s'"
  by (induction rule: run_of.induct) blast+

section \<open>Characters and strings\<close>

definition ord :: "char \<Rightarrow> nat" where
  "ord c = of_char c"

definition py_isspace :: "char \<Rightarrow> bool" where
  "py_isspace c = (let n = ord c in
     (9 \<le> n \<and> n \<le> 13) \<or> (28 \<le> n \<and> n \<le> 32) \<or> n = 133 \<or> n = 160)"

definition ascii_digit :: "char \<Rightarrow> bool" where
  "ascii_digit c = (let n = ord c in 48 \<le> n \<and> n \<le> 57)"

definition ascii_upper :: "char \<Rightarrow> bool" where
  "ascii_upper c = (let n = ord c in 65 \<le> n \<and> n \<le> 90)"

definition ascii_lower :: "char \<Rightarrow> bool" where
  "ascii_lower c = (let n = ord c in 97 \<le> n \<and> n \<le> 122)"

definition ascii_alnum :: "char \<Rightarrow> bool" where
  "ascii_alnum c = (ascii_digit c \<or> ascii_upper c \<or> ascii_lower c)"

definition py_isdigit_char :: "char \<Rightarrow> bool" where
  "py_isdigit_char c = (let n = ord c in ascii_digit c \<or> n = 178 \<or> n = 179 \<or> n = 185)"

text \<open>The word characters of \<^verbatim>\<open>re\<close> (\<^verbatim>\<open>\w\<close>): alphanumerics of the Latin-1 range and the underscore.\<close>

definition py_word_char :: "char \<Rightarrow> bool" where
  "py_word_char c = (let n = ord c in
     ascii_alnum c \<or> n = 95 \<or> n = 170 \<or> n = 178 \<or> n = 179 \<or> n = 181 \<or> n = 185 \<or> n = 186 \<or>
     (188 \<le> n \<and> n \<le> 190) \<or> (192 \<le> n \<and> n \<le> 214) \<or> (216 \<le> n \<and> n \<le> 246) \<or> 248 \<le> n)"

definition py_lower_char :: "char \<Rightarrow> char" where
  "py_lower_char c = (let n = ord c in
     if ascii_upper c \<or> (192 \<le> n \<and> n \<le> 222 \<and> n \<noteq> 215) then char_of (n + 32) else c)"

definition py_lower :: "string \<Rightarrow> string" where
  "py_lower = map py_lower_char"

definition py_lstrip :: "string \<Rightarrow> string" where
  "py_lstrip = dropWhile py_isspace"

definition py_rstrip :: "string \<Rightarrow> string" where
  "py_rstrip s = rev (dropWhile py_isspace (rev s))"

definition py_strip :: "string \<Rightarrow> string" where
  "py_strip s = py_rstrip (py_lstrip s)"

text \<open>\<^verbatim>\<open>s.startswith(p)\<close> and \<^verbatim>\<open>needle in s\<close>.\<close>

definition py_startswith :: "string \<Rightarrow> string \<Rightarrow> bool" where
  "py_startswith s p = prefix p s"

definition py_in :: "string \<Rightarrow> string \<Rightarrow> bool" where
  "py_in needle s = sublist needle s"

text \<open>\<^verbatim>\<open>s.isdigit()\<close>: non-empty and all digits.\<close>

definition py_isdigit :: "string \<Rightarrow> bool" where
  "py_isdigit s = (s \<noteq> [] \<and> list_all py_isdigit_char s)"

text \<open>\<^verbatim>\<open>sep.join(parts)\<close>.\<close>

fun py_join :: "string \<Rightarrow> string list \<Rightarrow> string" where
  "py_join sep [] = []"
| "py_join sep [p] = p"
| "py_join sep (p # q # ps) = p @ sep @ py_join sep (q # ps)"

text \<open>\<^verbatim>\<open>str(n)\<close> of an integer: decimal digits, a leading minus sign for negative numbers.\<close>

definition digit_char :: "nat \<Rightarrow> char" where
  "digit_char d = char_of (48 + d)"

fun nat_digits :: "nat \<Rightarrow> string" where
  "nat_digits n = (if n < 10 then [digit_char n] else nat_digits (n div 10) @ [digit_char (n mod 10)])"

declare nat_digits.simps [simp del]

definition int_str :: "int \<Rightarrow> string" where
  "int_str i = (if i < 0 then CHR ''-'' # nat_digits (nat (- i)) else nat_digits (nat i))"

text \<open>\<^verbatim>\<open>repr(s)\<close> of a string.\<close>

definition hex_digit :: "nat \<Rightarrow> char" where
  "hex_digit d = (if d < 10 then char_of (48 + d) else char_of (87 + d))"

definition hex2 :: "nat \<Rightarrow> string" where
  "hex2 n = [hex_digit (n div 16), hex_digit (n mod 16)]"

definition repr_char :: "char \<Rightarrow> char \<Rightarrow> string" where
  "repr_char quote c =
    (if c = quote \<or> c = CHR 0x5C then [CHR 0x5C, c]
     else if c = CHR 0x09 then [CHR 0x5C, CHR ''t'']
     else if c = CHR 0x0A then [CHR 0x5C, CHR ''n'']
     else if c = CHR 0x0D then [CHR 0x5C, CHR ''r'']
     else if ord c < 32 \<or> (127 \<le> ord c \<and> ord c \<le> 160) \<or> ord c = 173 then CHR 0x5C # CHR ''x'' # hex2 (ord c)
     else [c])"

definition py_repr :: "string \<Rightarrow> string" where
  "py_repr s =
    (let quote = (if CHR 0x27 \<in> set s \<and> CHR 0x22 \<notin> set s then CHR 0x22 else CHR 0x27)
     in quote # concat (map (repr_char quote) s) @ [quote])"

section \<open>Facts about strings\<close>

lemma ord_less_256 [simp]: "ord c < 256"
  by (simp add: ord_def)

lemma ord_inject [simp]: "ord c = ord d \<longleftrightarrow> c = d"
  by (simp add: ord_def)

lemma ord_char_of [simp]: "n < 256 \<Longrightarrow> ord (char_of n) = n"
  by (simp add: ord_def)

lemma char_of_ord [simp]: "char_of (ord c) = c"
  by (simp add: ord_def)

lemma ascii_digit_digit_char [simp]: "d < 10 \<Longrightarrow> ascii_digit (digit_char d)"
  by (simp add: ascii_digit_def digit_char_def Let_def)

lemma digit_char_inject: "a < 10 \<Longrightarrow> b < 10 \<Longrightarrow> digit_char a = digit_char b \<longleftrightarrow> a = b"
proof -
  assume "a < 10" and "b < 10"
  then have "ord (digit_char a) = 48 + a" and "ord (digit_char b) = 48 + b"
    by (simp_all add: digit_char_def)
  then show ?thesis by (metis add_left_cancel)
qed

lemma py_join_Cons: "py_join sep (p # ps) = p @ (if ps = [] then [] else sep @ py_join sep ps)"
  by (cases ps) auto

text \<open>Stripping removes white space only, and leaves nothing exactly when there was nothing else.\<close>

lemma py_strip_empty [pystr_simps]: "py_strip s = [] \<longleftrightarrow> list_all py_isspace s"
  by (auto simp: py_strip_def py_rstrip_def py_lstrip_def list_all_iff dest: set_dropWhileD)
    (metis dropWhile_eq_Nil_conv list.set_sel(1) set_dropWhileD hd_dropWhile)

lemma py_strip_sublist: "sublist (py_strip s) s"
proof -
  have "suffix (py_lstrip s) s" by (simp add: py_lstrip_def suffix_dropWhile)
  moreover have "prefix (py_strip s) (py_lstrip s)"
    unfolding py_strip_def py_rstrip_def by (metis rev_rev_ident suffix_dropWhile suffix_to_prefix)
  ultimately show ?thesis by (metis prefix_imp_sublist sublist_order.order_trans suffix_imp_sublist)
qed

text \<open>Reading decimal digits back.\<close>

definition digit_val :: "char \<Rightarrow> nat" where
  "digit_val c = ord c - 48"

definition digits_val :: "string \<Rightarrow> nat" where
  "digits_val s = foldl (\<lambda>a c. 10 * a + digit_val c) 0 s"

lemma digits_val_nat_digits [simp]: "digits_val (nat_digits n) = n"
proof (induction n rule: nat_digits.induct)
  case (1 n)
  show ?case
  proof (cases "n < 10")
    case True
    then show ?thesis
      by (simp add: nat_digits.simps[of n] digits_val_def digit_val_def digit_char_def)
  next
    case False
    with 1 have "digits_val (nat_digits (n div 10)) = n div 10" by simp
    then show ?thesis using False
      by (simp add: nat_digits.simps[of n] digits_val_def digit_val_def digit_char_def)
  qed
qed

text \<open>Fixed-width decimal fields (\<^verbatim>\<open>%02d\<close>, \<^verbatim>\<open>%04d\<close>, \<^verbatim>\<open>%06d\<close> of a number that fits) and their reading.\<close>

fun fixed_digits :: "nat \<Rightarrow> nat \<Rightarrow> string" where
  "fixed_digits k n = (if k = 0 then [] else fixed_digits (k - 1) (n div 10) @ [digit_char (n mod 10)])"

declare fixed_digits.simps [simp del]

definition parse_fixed :: "nat \<Rightarrow> string \<Rightarrow> nat option" where
  "parse_fixed k s = (if length s = k \<and> list_all ascii_digit s then Some (digits_val s) else None)"

lemma fixed_digits_0 [simp]: "fixed_digits 0 n = []"
  by (simp add: fixed_digits.simps)

lemma fixed_digits_Suc: "fixed_digits (Suc k) n = fixed_digits k (n div 10) @ [digit_char (n mod 10)]"
  by (simp add: fixed_digits.simps[of "Suc k"])

lemma length_fixed_digits [simp]: "length (fixed_digits k n) = k"
  by (induction k arbitrary: n) (simp_all add: fixed_digits_Suc)

lemma fixed_digits_ascii: "list_all ascii_digit (fixed_digits k n)"
  by (induction k arbitrary: n) (simp_all add: fixed_digits_Suc)

lemma digits_val_snoc: "digits_val (s @ [c]) = 10 * digits_val s + digit_val c"
  by (simp add: digits_val_def)

lemma digit_val_char [simp]: "d < 10 \<Longrightarrow> digit_val (digit_char d) = d"
  by (simp add: digit_val_def digit_char_def)

lemma digits_val_fixed [simp]: "n < 10 ^ k \<Longrightarrow> digits_val (fixed_digits k n) = n"
proof (induction k arbitrary: n)
  case 0
  then show ?case by (simp add: digits_val_def)
next
  case (Suc k)
  then have "n div 10 < 10 ^ k" by (simp add: less_mult_imp_div_less mult.commute)
  with Suc.IH show ?case by (simp add: fixed_digits_Suc digits_val_snoc)
qed

lemma parse_fixed_digits: "n < 10 ^ k \<Longrightarrow> parse_fixed k (fixed_digits k n) = Some n"
  by (simp add: parse_fixed_def fixed_digits_ascii)

end
