(* ===== verification/Json.thy ===== *)
theory Json
  imports Prelude
begin

text \<open>
  JSON values and \<^verbatim>\<open>json.dumps\<close> as the control plane calls it (\<^verbatim>\<open>ensure_ascii\<close>, no indentation,
  optional \<^verbatim>\<open>sort_keys\<close>, explicit or default separators), with the fact every fingerprint and
  signature of the program rests on: the serialisation is uniquely readable, so equal texts come
  from equal values.

  A Python \<^verbatim>\<open>float\<close> is represented by the text \<^verbatim>\<open>json.dumps\<close> emits for it (its \<^verbatim>\<open>repr\<close>, or
  \<^verbatim>\<open>NaN\<close>/\<^verbatim>\<open>Infinity\<close>/\<^verbatim>\<open>-Infinity\<close>); an object is the list of its items in insertion order.
\<close>

datatype json =
    JNull
  | JBool bool
  | JInt int
  | JFloat string
  | JStr string
  | JList "json list"
  | JDict "(string \<times> json) list"

section \<open>Serialisation\<close>

definition json_escape_char :: "char \<Rightarrow> string" where
  "json_escape_char c =
    (if c = CHR 0x22 then [CHR 0x5C, CHR 0x22]
     else if c = CHR 0x5C then [CHR 0x5C, CHR 0x5C]
     else if c = CHR 0x0A then [CHR 0x5C, CHR ''n'']
     else if c = CHR 0x0D then [CHR 0x5C, CHR ''r'']
     else if c = CHR 0x09 then [CHR 0x5C, CHR ''t'']
     else if c = CHR 0x0C then [CHR 0x5C, CHR ''f'']
     else if c = CHR 0x08 then [CHR 0x5C, CHR ''b'']
     else if 32 \<le> ord c \<and> ord c \<le> 126 then [c]
     else [CHR 0x5C, CHR ''u'', CHR ''0'', CHR ''0'', hex_digit (ord c div 16), hex_digit (ord c mod 16)])"

definition json_string :: "string \<Rightarrow> string" where
  "json_string s = CHR 0x22 # concat (map json_escape_char s) @ [CHR 0x22]"

fun jdump :: "string \<Rightarrow> string \<Rightarrow> json \<Rightarrow> string" where
  "jdump isep ksep JNull = ''null''"
| "jdump isep ksep (JBool b) = (if b then ''true'' else ''false'')"
| "jdump isep ksep (JInt i) = int_str i"
| "jdump isep ksep (JFloat s) = s"
| "jdump isep ksep (JStr s) = json_string s"
| "jdump isep ksep (JList vs) = ''['' @ py_join isep (map (jdump isep ksep) vs) @ '']''"
| "jdump isep ksep (JDict kvs) =
     ''{'' @ py_join isep (map (\<lambda>(k, v). json_string k @ ksep @ jdump isep ksep v) kvs) @ ''}''"

text \<open>\<^verbatim>\<open>sort_keys=True\<close>: items of every object in the order of their keys.\<close>

fun json_sort :: "json \<Rightarrow> json" where
  "json_sort (JList vs) = JList (map json_sort vs)"
| "json_sort (JDict kvs) = JDict (sort_key fst (map (\<lambda>(k, v). (k, json_sort v)) kvs))"
| "json_sort v = v"

text \<open>The three calls of the program: compact and sorted, default separators and sorted, compact.\<close>

definition json_dumps_canonical :: "json \<Rightarrow> string" where
  "json_dumps_canonical v = jdump '','' '':'' (json_sort v)"

definition json_dumps_sorted :: "json \<Rightarrow> string" where
  "json_dumps_sorted v = jdump '', '' '': '' (json_sort v)"

definition json_dumps_compact :: "json \<Rightarrow> string" where
  "json_dumps_compact v = jdump '','' '':'' v"

section \<open>Well-formed values\<close>

definition num_char :: "char \<Rightarrow> bool" where
  "num_char c = (c \<in> set ''0123456789-+.eNaInfity'')"

definition float_text :: "string \<Rightarrow> bool" where
  "float_text s = (s \<noteq> [] \<and> list_all num_char s \<and> hd s \<notin> set ''ntf'' \<and>
     list_ex (\<lambda>c. \<not> ascii_digit c \<and> c \<noteq> CHR ''-'') s)"

fun wf_json :: "json \<Rightarrow> bool" where
  "wf_json (JFloat s) = float_text s"
| "wf_json (JList vs) = list_all wf_json vs"
| "wf_json (JDict kvs) = list_all (\<lambda>(k, v). wf_json v) kvs"
| "wf_json v = True"

section \<open>Unique readability of strings\<close>

definition hex_val :: "char \<Rightarrow> nat" where
  "hex_val c = (if ord c < 58 then ord c - 48 else ord c - 87)"

lemma hex_val_digit [simp]: "d < 16 \<Longrightarrow> hex_val (hex_digit d) = d"
  by (simp add: hex_val_def hex_digit_def)

fun json_unescape :: "string \<Rightarrow> (char \<times> string) option" where
  "json_unescape (c # d # r) =
     (if c \<noteq> CHR 0x5C then (if c = CHR 0x22 then None else Some (c, d # r))
      else if d = CHR ''n'' then Some (CHR 0x0A, r)
      else if d = CHR ''r'' then Some (CHR 0x0D, r)
      else if d = CHR ''t'' then Some (CHR 0x09, r)
      else if d = CHR ''f'' then Some (CHR 0x0C, r)
      else if d = CHR ''b'' then Some (CHR 0x08, r)
      else if d = CHR ''u'' then
        (case r of z # y # h # l # r' \<Rightarrow> Some (char_of (16 * hex_val h + hex_val l), r') | _ \<Rightarrow> None)
      else Some (d, r))"
| "json_unescape _ = None"

lemma ord_div_16 [simp]: "ord c div 16 < 16"
  using ord_less_256[of c] by linarith

lemma json_unescape_escape:
  assumes "r \<noteq> []"
  shows "json_unescape (json_escape_char c @ r) = Some (c, r)"
proof -
  from assms obtain d r' where "r = d # r'" by (cases r) auto
  then show ?thesis by (simp add: json_escape_char_def)
qed

lemma json_escape_char_inj:
  assumes "json_escape_char c @ r = json_escape_char d @ r'" and "r \<noteq> []" and "r' \<noteq> []"
  shows "c = d \<and> r = r'"
proof -
  from assms have "Some (c, r) = Some (d, r')" by (metis json_unescape_escape)
  then show ?thesis by simp
qed

lemma json_escape_char_hd: "json_escape_char c \<noteq> [] \<and> hd (json_escape_char c) \<noteq> CHR 0x22"
  by (simp add: json_escape_char_def)

lemma json_escape_char_no_quote: "json_escape_char c @ r \<noteq> CHR 0x22 # r'"
  using json_escape_char_hd[of c] by (cases "json_escape_char c") auto

lemma json_string_body_unique:
  "concat (map json_escape_char s) @ CHR 0x22 # r = concat (map json_escape_char t) @ CHR 0x22 # r'
     \<Longrightarrow> s = t \<and> r = r'"
proof (induction s arbitrary: t)
  case Nil
  then show ?case using json_escape_char_no_quote by (cases t) (auto dest: sym)
next
  case (Cons c s)
  show ?case
  proof (cases t)
    case Nil
    with Cons.prems json_escape_char_no_quote[of c] show ?thesis by auto
  next
    case (Cons d t')
    with Cons.prems have "json_escape_char c @ (concat (map json_escape_char s) @ CHR 0x22 # r) =
        json_escape_char d @ (concat (map json_escape_char t') @ CHR 0x22 # r')" by simp
    from json_escape_char_inj[OF this] have "c = d" and
      "concat (map json_escape_char s) @ CHR 0x22 # r = concat (map json_escape_char t') @ CHR 0x22 # r'"
      by auto
    with Cons.IH Cons show ?thesis by blast
  qed
qed

lemma json_string_unique: "json_string s @ r = json_string t @ r' \<Longrightarrow> s = t \<and> r = r'"
  unfolding json_string_def using json_string_body_unique[of s r t r'] by simp

section \<open>Unique readability of numbers\<close>

lemma nat_digits_ascii: "list_all ascii_digit (nat_digits n)"
proof (induction n rule: nat_digits.induct)
  case (1 n)
  then show ?case by (cases "n < 10") (simp_all add: nat_digits.simps[of n])
qed

lemma nat_digits_nonempty [simp]: "nat_digits n \<noteq> []"
  by (subst nat_digits.simps) simp

lemma not_ascii_digit_minus [simp]: "\<not> ascii_digit CHR ''-''"
  by (simp add: ascii_digit_def ord_def)

lemma nat_digits_not_minus: "nat_digits n \<noteq> CHR ''-'' # s"
  using nat_digits_ascii[of n] by auto

lemma int_str_inject [simp]: "int_str i = int_str j \<longleftrightarrow> i = j"
proof
  assume eq: "int_str i = int_str j"
  then have sgn: "i < 0 \<longleftrightarrow> j < 0"
    using nat_digits_not_minus nat_digits_not_minus[symmetric]
    by (auto simp: int_str_def split: if_splits)
  have "digits_val (nat_digits (nat \<bar>i\<bar>)) = digits_val (nat_digits (nat \<bar>j\<bar>))"
    using eq sgn by (auto simp: int_str_def simp del: digits_val_nat_digits split: if_splits)
  with sgn show "i = j" by (auto split: if_splits)
qed simp

lemma int_str_chars: "list_all (\<lambda>c. ascii_digit c \<or> c = CHR ''-'') (int_str i)"
  using nat_digits_ascii by (auto simp: int_str_def list_all_iff)

lemma int_str_nonempty [simp]: "int_str i \<noteq> []"
  by (simp add: int_str_def)

lemma ascii_digit_cases:
  assumes "ascii_digit c"
  shows "c \<in> set ''0123456789''"
proof -
  have "ord c = 48 \<or> ord c = 49 \<or> ord c = 50 \<or> ord c = 51 \<or> ord c = 52 \<or> ord c = 53 \<or> ord c = 54
      \<or> ord c = 55 \<or> ord c = 56 \<or> ord c = 57"
    using assms unfolding ascii_digit_def Let_def by arith
  then have "ord c \<in> ord ` set ''0123456789''" by (simp add: ord_def)
  then show ?thesis by (metis imageE ord_inject)
qed

lemma ascii_digit_num_char: "ascii_digit c \<Longrightarrow> num_char c"
proof -
  assume "ascii_digit c"
  moreover have "set ''0123456789'' \<subseteq> set ''0123456789-+.eNaInfity''" by simp
  ultimately show ?thesis using ascii_digit_cases[of c] unfolding num_char_def by blast
qed

lemma int_str_num_chars: "list_all num_char (int_str i)"
  unfolding list_all_iff
proof
  fix c
  assume "c \<in> set (int_str i)"
  then have "ascii_digit c \<or> c = CHR ''-''" using int_str_chars[of i] by (auto simp: list_all_iff)
  moreover have "num_char CHR ''-''" by (simp add: num_char_def)
  ultimately show "num_char c" using ascii_digit_num_char by metis
qed

section \<open>Unique readability of values\<close>

text \<open>What may follow a serialised value inside a document: nothing, a separator or a closing bracket.\<close>

definition closes :: "string \<Rightarrow> bool" where
  "closes r = (r = [] \<or> hd r \<in> {CHR '','', CHR '']'', CHR ''}''})"

lemma num_unique:
  assumes "list_all num_char s" and "list_all num_char t" and "closes r" and "closes r'"
    and "s @ r = t @ r'"
  shows "s = t \<and> r = r'"
proof -
  have stop: "closes x \<Longrightarrow> list_all num_char y \<Longrightarrow> takeWhile num_char (y @ x) = y" for x y
    by (cases x) (auto simp: closes_def num_char_def list_all_iff takeWhile_append)
  from stop[OF assms(3,1)] stop[OF assms(4,2)] assms(5) have "s = t" by simp
  with assms(5) show ?thesis by simp
qed

text \<open>The first character of a serialised value tells its kind.\<close>

datatype jkind = KNull | KTrue | KFalse | KNum | KStr | KList | KDict

fun kind_of_char :: "char \<Rightarrow> jkind" where
  "kind_of_char c =
    (if c = CHR ''n'' then KNull else if c = CHR ''t'' then KTrue else if c = CHR ''f'' then KFalse
     else if c = CHR 0x22 then KStr else if c = CHR ''['' then KList else if c = CHR ''{'' then KDict
     else KNum)"

fun kind_of :: "json \<Rightarrow> jkind" where
  "kind_of JNull = KNull"
| "kind_of (JBool b) = (if b then KTrue else KFalse)"
| "kind_of (JInt i) = KNum"
| "kind_of (JFloat s) = KNum"
| "kind_of (JStr s) = KStr"
| "kind_of (JList vs) = KList"
| "kind_of (JDict kvs) = KDict"

lemma num_kind: "num_char c \<Longrightarrow> c \<notin> set ''ntf'' \<Longrightarrow> kind_of_char c = KNum"
  by (auto simp: num_char_def)

lemma int_str_kind: "kind_of_char (hd (int_str i)) = KNum"
proof -
  have "hd (int_str i) \<in> set (int_str i)" by simp
  then have "ascii_digit (hd (int_str i)) \<or> hd (int_str i) = CHR ''-''"
    using int_str_chars[of i] by (auto simp: list_all_iff)
  then show ?thesis using ascii_digit_cases[of "hd (int_str i)"] by auto
qed

lemma jdump_kind:
  assumes "wf_json v"
  shows "jdump isep ksep v \<noteq> [] \<and> kind_of_char (hd (jdump isep ksep v)) = kind_of v
     \<and> hd (jdump isep ksep v) \<notin> {CHR '','', CHR '']'', CHR ''}''}"
proof (cases v)
  case (JInt i)
  have "hd (int_str i) \<in> set (int_str i)" by simp
  then have "num_char (hd (int_str i))" using int_str_num_chars[of i] by (auto simp: list_all_iff)
  with JInt int_str_kind[of i] show ?thesis by (auto simp: num_char_def)
next
  case (JFloat s)
  with assms have "num_char (hd s)" and "hd s \<notin> set ''ntf''" and "s \<noteq> []"
    by (auto simp: float_text_def list_all_iff)
  with JFloat num_kind[of "hd s"] show ?thesis by (auto simp: num_char_def)
qed (auto simp: json_string_def)

text \<open>
  A sequence of items, each uniquely readable before a closing character, is uniquely readable
  before its closing bracket. \<^term>\<open>d\<close> serialises one item; every separator starts with a comma.
\<close>

definition readable :: "('a \<Rightarrow> string) \<Rightarrow> 'a \<Rightarrow> 'a set \<Rightarrow> bool" where
  "readable d x A = (\<forall>y \<in> A. \<forall>r r'. closes r \<longrightarrow> closes r' \<longrightarrow> d x @ r = d y @ r' \<longrightarrow> x = y \<and> r = r')"

definition opens :: "('a \<Rightarrow> string) \<Rightarrow> 'a \<Rightarrow> bool" where
  "opens d x = (d x \<noteq> [] \<and> hd (d x) \<notin> {CHR '','', CHR '']'', CHR ''}''})"

lemma opens_no_close: "opens d x \<Longrightarrow> q \<in> {CHR '','', CHR '']'', CHR ''}''} \<Longrightarrow> d x @ s \<noteq> q # r"
  by (cases "d x") (auto simp: opens_def)

lemma join_unique:
  assumes q: "q \<in> {CHR '']'', CHR ''}''}"
  shows "\<forall>x \<in> set xs. readable d x A \<and> opens d x \<Longrightarrow> set ys \<subseteq> A \<Longrightarrow> \<forall>y \<in> A. opens d y \<Longrightarrow>
    py_join (CHR '','' # w) (map d xs) @ q # r = py_join (CHR '','' # w) (map d ys) @ q # r'
    \<Longrightarrow> xs = ys \<and> r = r'"
proof (induction xs arbitrary: ys)
  case Nil
  have q': "q \<in> {CHR '','', CHR '']'', CHR ''}''}" using q by blast
  show ?case
  proof (cases ys)
    case (Cons y ys')
    have op: "opens d y" using Nil.prems(2,3) Cons by auto
    have "d y @ (if ys' = [] then [] else CHR '','' # w @ py_join (CHR '','' # w) (map d ys')) @ q # r' = q # r"
      using Nil.prems(4) Cons by (simp add: py_join_Cons)
    then show ?thesis using opens_no_close[OF op q'] by simp
  qed (use Nil.prems(4) in simp)
next
  case (Cons x xs)
  have q': "q \<in> {CHR '','', CHR '']'', CHR ''}''}" using q by blast
  let ?rest = "\<lambda>zs u. (if zs = [] then q # u else CHR '','' # w @ py_join (CHR '','' # w) (map d zs) @ q # u)"
  have split: "py_join (CHR '','' # w) (map d (z # zs)) @ q # u = d z @ ?rest zs u" for z zs u
    by (simp add: py_join_Cons)
  have cl: "closes (?rest zs u)" for zs u
    using q by (auto simp: closes_def)
  show ?case
  proof (cases ys)
    case Nil
    with Cons.prems(4) have "d x @ ?rest xs r = q # r'"
      unfolding split by simp
    moreover have "opens d x" using Cons.prems(1) by simp
    ultimately show ?thesis using opens_no_close[OF _ q'] by metis
  next
    case ys: (Cons y ys')
    from Cons.prems(4) have "d x @ ?rest xs r = d y @ ?rest ys' r'"
      unfolding ys split .
    moreover have "readable d x A" using Cons.prems(1) by simp
    moreover have "y \<in> A" using Cons.prems(2) ys by simp
    ultimately have "x = y" and rest: "?rest xs r = ?rest ys' r'"
      using cl unfolding readable_def by blast+
    have "xs = ys' \<and> r = r'"
    proof (cases "xs = [] \<or> ys' = []")
      case True
      with rest q show ?thesis by (auto split: if_splits)
    next
      case False
      with rest have "py_join (CHR '','' # w) (map d xs) @ q # r =
          py_join (CHR '','' # w) (map d ys') @ q # r'" by simp
      moreover have "set ys' \<subseteq> A" using Cons.prems(2) ys by simp
      ultimately show ?thesis using Cons.IH[of ys'] Cons.prems(1,3) by simp
    qed
    with \<open>x = y\<close> ys show ?thesis by simp
  qed
qed

text \<open>The serialiser of one item of an object, and its reading.\<close>

definition jitem :: "string \<Rightarrow> string \<Rightarrow> string \<times> json \<Rightarrow> string" where
  "jitem isep ksep kv = json_string (fst kv) @ ksep @ jdump isep ksep (snd kv)"

lemma jdump_dict: "jdump isep ksep (JDict kvs) = ''{'' @ py_join isep (map (jitem isep ksep) kvs) @ ''}''"
proof -
  have "(\<lambda>(k, v). json_string k @ ksep @ jdump isep ksep v) = jitem isep ksep"
    by (auto simp: jitem_def fun_eq_iff)
  then show ?thesis by simp
qed

lemma opens_jdump: "wf_json v \<Longrightarrow> opens (jdump isep ksep) v"
  using jdump_kind by (simp add: opens_def)

lemma opens_jitem: "opens (jitem isep ksep) kv"
  by (simp add: opens_def jitem_def json_string_def)

lemma readable_jitem:
  assumes "readable (jdump isep ksep) (snd kv) {v. wf_json v}"
  shows "readable (jitem isep ksep) kv {kv. wf_json (snd kv)}"
  unfolding readable_def
proof (intro ballI allI impI)
  fix lw r r'
  assume lw: "lw \<in> {kv. wf_json (snd kv)}" and cl: "closes r" "closes r'"
    and eq: "jitem isep ksep kv @ r = jitem isep ksep lw @ r'"
  from eq have "json_string (fst kv) @ (ksep @ jdump isep ksep (snd kv) @ r) =
      json_string (fst lw) @ (ksep @ jdump isep ksep (snd lw) @ r')"
    by (simp add: jitem_def)
  from json_string_unique[OF this] have "fst kv = fst lw"
    and "jdump isep ksep (snd kv) @ r = jdump isep ksep (snd lw) @ r'" by auto
  with assms lw cl show "kv = lw \<and> r = r'"
    unfolding readable_def by (auto simp: prod_eq_iff)
qed

lemma same_kind:
  assumes "wf_json v" and "wf_json y" and "jdump isep ksep v @ r = jdump isep ksep y @ r'"
  shows "kind_of v = kind_of y"
proof -
  have "hd (jdump isep ksep v) = hd (jdump isep ksep y)"
    using assms(3) jdump_kind[OF assms(1)] jdump_kind[OF assms(2)] by (metis hd_append2)
  then show ?thesis using jdump_kind[OF assms(1)] jdump_kind[OF assms(2)] by metis
qed

lemma float_text_not_int: "float_text s \<Longrightarrow> s \<noteq> int_str i"
  using int_str_chars[of i] by (auto simp: float_text_def list_all_iff list_ex_iff)

lemma jnum_cases: "kind_of v = KNum \<Longrightarrow> (\<exists>i. v = JInt i) \<or> (\<exists>s. v = JFloat s)"
  by (cases v) (auto split: if_splits)

lemma jnum_chars: "kind_of v = KNum \<Longrightarrow> wf_json v \<Longrightarrow> list_all num_char (jdump isep ksep v)"
  using jnum_cases[of v] int_str_num_chars by (auto simp: float_text_def)

lemma jnum_inject:
  "kind_of v = KNum \<Longrightarrow> kind_of y = KNum \<Longrightarrow> wf_json v \<Longrightarrow> wf_json y \<Longrightarrow>
   jdump isep ksep v = jdump isep ksep y \<Longrightarrow> v = y"
  using jnum_cases[of v] jnum_cases[of y] float_text_not_int by (auto dest: sym)

lemma readable_jdump_num:
  assumes "kind_of v = KNum" and "wf_json v"
  shows "readable (jdump isep ksep) v {v. wf_json v}"
  unfolding readable_def
proof (intro ballI allI impI)
  fix y r r'
  assume y: "y \<in> {v. wf_json v}" and cl: "closes r" "closes r'"
    and eq: "jdump isep ksep v @ r = jdump isep ksep y @ r'"
  have k: "kind_of y = KNum" using same_kind[OF assms(2) _ eq] y assms(1) by simp
  then have "jdump isep ksep v = jdump isep ksep y \<and> r = r'"
    using num_unique jnum_chars assms y cl eq by blast
  then show "v = y \<and> r = r'" using jnum_inject assms k y by blast
qed

lemma readable_jdump_list:
  assumes "list_all wf_json vs" and "\<And>v. v \<in> set vs \<Longrightarrow> readable (jdump (CHR '','' # w) ksep) v {v. wf_json v}"
  shows "readable (jdump (CHR '','' # w) ksep) (JList vs) {v. wf_json v}"
  unfolding readable_def
proof (intro ballI allI impI)
  fix y r r'
  assume y: "y \<in> {v. wf_json v}"
    and eq: "jdump (CHR '','' # w) ksep (JList vs) @ r = jdump (CHR '','' # w) ksep y @ r'"
  have "kind_of y = KList" using same_kind[OF _ _ eq] y assms(1) by simp
  then obtain ws where ws: "y = JList ws" by (cases y) (auto split: if_splits)
  have "vs = ws \<and> r = r'"
    using y eq assms
    by (intro join_unique[where q = "CHR '']''" and d = "jdump (CHR '','' # w) ksep" and A = "{v. wf_json v}"])
      (auto simp: ws list_all_iff opens_jdump)
  then show "JList vs = y \<and> r = r'" by (simp add: ws)
qed

lemma readable_jdump_dict:
  assumes "\<And>kv. kv \<in> set kvs \<Longrightarrow> wf_json (snd kv)"
    and "\<And>kv. kv \<in> set kvs \<Longrightarrow> readable (jdump (CHR '','' # w) ksep) (snd kv) {v. wf_json v}"
  shows "readable (jdump (CHR '','' # w) ksep) (JDict kvs) {v. wf_json v}"
  unfolding readable_def
proof (intro ballI allI impI)
  fix y r r'
  assume y: "y \<in> {v. wf_json v}"
    and eq: "jdump (CHR '','' # w) ksep (JDict kvs) @ r = jdump (CHR '','' # w) ksep y @ r'"
  have "wf_json (JDict kvs)" using assms(1) by (auto simp: list_all_iff)
  then have "kind_of y = KDict" using same_kind[OF _ _ eq] y by simp
  then obtain lws where ws: "y = JDict lws" by (cases y) (auto split: if_splits)
  have "set lws \<subseteq> {kv. wf_json (snd kv)}" using y ws by (auto simp: list_all_iff)
  moreover have "py_join (CHR '','' # w) (map (jitem (CHR '','' # w) ksep) kvs) @ CHR ''}'' # r =
      py_join (CHR '','' # w) (map (jitem (CHR '','' # w) ksep) lws) @ CHR ''}'' # r'"
    using eq unfolding ws jdump_dict by simp
  ultimately have "kvs = lws \<and> r = r'"
    using readable_jitem[OF assms(2)] opens_jitem
    by (intro join_unique[where q = "CHR ''}''" and d = "jitem (CHR '','' # w) ksep"
          and A = "{kv. wf_json (snd kv)}"]) auto
  then show "JDict kvs = y \<and> r = r'" by (simp add: ws)
qed

lemma readable_jdump:
  "wf_json v \<Longrightarrow> readable (jdump (CHR '','' # w) ksep) v {v. wf_json v}"
proof (induction v)
  case (JList vs)
  then show ?case by (intro readable_jdump_list) (auto simp: list_all_iff)
next
  case (JDict kvs)
  then have "wf_json (snd kv)" if "kv \<in> set kvs" for kv
    using that by (auto simp: list_all_iff)
  with JDict.IH show ?case by (intro readable_jdump_dict) (auto simp: snds.simps)
next
  case (JStr s)
  show ?case
    unfolding readable_def
  proof (intro ballI allI impI)
    fix y r r'
    assume y: "y \<in> {v. wf_json v}"
      and eq: "jdump (CHR '','' # w) ksep (JStr s) @ r = jdump (CHR '','' # w) ksep y @ r'"
    have "kind_of y = KStr" using same_kind[OF _ _ eq] y by simp
    then obtain t where "y = JStr t" by (cases y) (auto split: if_splits)
    with eq show "JStr s = y \<and> r = r'" using json_string_unique[of s r t r'] by simp
  qed
next
  case JNull
  show ?case
    unfolding readable_def
  proof (intro ballI allI impI)
    fix y r r'
    assume y: "y \<in> {v. wf_json v}"
      and eq: "jdump (CHR '','' # w) ksep JNull @ r = jdump (CHR '','' # w) ksep y @ r'"
    have "kind_of y = KNull" using same_kind[OF _ _ eq] y by simp
    then have "y = JNull" by (cases y) (auto split: if_splits)
    with eq show "JNull = y \<and> r = r'" by simp
  qed
next
  case (JBool b)
  show ?case
    unfolding readable_def
  proof (intro ballI allI impI)
    fix y r r'
    assume y: "y \<in> {v. wf_json v}"
      and eq: "jdump (CHR '','' # w) ksep (JBool b) @ r = jdump (CHR '','' # w) ksep y @ r'"
    have "kind_of y = (if b then KTrue else KFalse)" using same_kind[OF _ _ eq] y by simp
    then have "y = JBool b" by (cases y) (auto split: if_splits)
    with eq show "JBool b = y \<and> r = r'" by (simp split: if_splits)
  qed
qed (simp_all add: readable_jdump_num)

theorem jdump_inject:
  assumes "wf_json v" and "wf_json y" and "jdump (CHR '','' # w) ksep v = jdump (CHR '','' # w) ksep y"
  shows "v = y"
  using readable_jdump[OF assms(1), of w ksep] assms(2,3)
  unfolding readable_def by (auto simp: closes_def)

section \<open>The calls of the program\<close>

lemma wf_json_sort: "wf_json v \<Longrightarrow> wf_json (json_sort v)"
proof (induction v)
  case (JDict kvs)
  then have "wf_json (json_sort (snd kv))" if "kv \<in> set kvs" for kv
    using that by (auto simp: list_all_iff snds.simps)
  then show ?case by (auto simp: list_all_iff)
qed (auto simp: list_all_iff)

lemma json_dumps_canonical_inject:
  assumes "wf_json v" and "wf_json y" and "json_dumps_canonical v = json_dumps_canonical y"
  shows "json_sort v = json_sort y"
  using assms jdump_inject[OF wf_json_sort wf_json_sort] by (simp add: json_dumps_canonical_def)

lemma json_dumps_sorted_inject:
  assumes "wf_json v" and "wf_json y" and "json_dumps_sorted v = json_dumps_sorted y"
  shows "json_sort v = json_sort y"
  using assms jdump_inject[OF wf_json_sort wf_json_sort] by (simp add: json_dumps_sorted_def)

text \<open>Sorting keeps the items of an object: the value bound to a key is the sorted value.\<close>

lemma json_sort_dict_items:
  "json_sort (JDict kvs) = JDict kvs' \<Longrightarrow> set kvs' = (\<lambda>(k, v). (k, json_sort v)) ` set kvs"
  by auto

lemma json_sort_dict_map_of:
  assumes "json_sort (JDict kvs) = json_sort (JDict lws)"
    and "distinct (map fst kvs)" and "distinct (map fst lws)"
  shows "map_option json_sort (map_of kvs k) = map_option json_sort (map_of lws k)"
proof -
  let ?g = "map (\<lambda>(k, v). (k, json_sort v))"
  have fst_g: "map fst (?g xs) = map fst xs" for xs :: "(string \<times> json) list"
    by (simp add: case_prod_unfold)
  have mo: "map_of (?g xs) k = map_option json_sort (map_of xs k)" for xs
    by (induction xs) auto
  from assms(1) have "sort_key fst (?g kvs) = sort_key fst (?g lws)" by simp
  then have "set (?g kvs) = set (?g lws)" by (metis set_sort)
  moreover have "distinct (map fst (?g kvs))" and "distinct (map fst (?g lws))"
    unfolding fst_g by (fact assms)+
  ultimately have "map_of (?g kvs) = map_of (?g lws)"
    by (simp add: map_of_inject_set)
  then show ?thesis using mo by metis
qed

text \<open>Every character \<^verbatim>\<open>json.dumps\<close> emits is printable ASCII: a document is a single line.\<close>

definition printable :: "char \<Rightarrow> bool" where
  "printable c = (32 \<le> ord c \<and> ord c \<le> 126)"

lemma printable_hex [simp]: "d < 16 \<Longrightarrow> printable (hex_digit d)"
  by (simp add: printable_def hex_digit_def)

lemma printable_escape: "list_all printable (json_escape_char c)"
  by (simp add: json_escape_char_def) (simp add: printable_def ord_def)

lemma printable_json_string: "list_all printable (json_string s)"
proof -
  have "list_all printable (concat (map json_escape_char s))"
    using printable_escape by (induction s) auto
  then show ?thesis by (simp add: json_string_def) (simp add: printable_def ord_def)
qed

lemma printable_num: "num_char c \<Longrightarrow> printable c"
proof -
  have "list_all printable ''0123456789-+.eNaInfity''" by (simp add: printable_def ord_def)
  then show "num_char c \<Longrightarrow> printable c" unfolding num_char_def list_all_iff by blast
qed

lemma printable_join:
  "list_all printable sep \<Longrightarrow> \<forall>p \<in> set ps. list_all printable p \<Longrightarrow> list_all printable (py_join sep ps)"
  by (induction ps) (auto simp: py_join_Cons)

fun numbers_ok :: "json \<Rightarrow> bool" where
  "numbers_ok (JFloat s) = float_text s"
| "numbers_ok (JList vs) = list_all numbers_ok vs"
| "numbers_ok (JDict kvs) = list_all (\<lambda>(k, v). numbers_ok v) kvs"
| "numbers_ok _ = True"

lemma printable_jdump:
  assumes "list_all printable isep" and "list_all printable ksep"
  shows "numbers_ok v \<Longrightarrow> list_all printable (jdump isep ksep v)"
proof (induction v)
  case (JInt i)
  show ?case using int_str_num_chars[of i] printable_num by (auto simp: list_all_iff)
next
  case (JFloat s)
  then show ?case using printable_num by (auto simp: float_text_def list_all_iff)
next
  case (JStr s)
  show ?case using printable_json_string by simp
next
  case (JList vs)
  then have "\<forall>p \<in> set (map (jdump isep ksep) vs). list_all printable p" by (auto simp: list_all_iff)
  from printable_join[OF assms(1) this] show ?case by simp (simp add: printable_def ord_def)
next
  case (JDict kvs)
  then have "list_all printable (jdump isep ksep (snd kv))" if "kv \<in> set kvs" for kv
    using that by (auto simp: list_all_iff snds.simps)
  then have "\<forall>p \<in> set (map (jitem isep ksep) kvs). list_all printable p"
    using assms(2) printable_json_string by (auto simp: jitem_def)
  from printable_join[OF assms(1) this] show ?case
    unfolding jdump_dict by simp (simp add: printable_def ord_def)
qed (simp_all add: printable_def ord_def)

lemma printable_not_newline: "printable c \<Longrightarrow> c \<noteq> CHR 0x0A"
  by (auto simp: printable_def ord_def)

end
