(* ===== verification/Py_Host.thy ===== *)
theory Py_Host
  imports Json
begin

text \<open>
  What the configuration, the HTTP boundary and the scripts use of Python's runtime and of the
  machine they run on: \<^verbatim>\<open>int(text)\<close>, \<^verbatim>\<open>str.split\<close>, \<^verbatim>\<open>pathlib\<close> paths on a POSIX system,
  \<^verbatim>\<open>os.environ\<close>, and the files that a path names. Reading back what was printed is the identity for
  numbers and for paths.
\<close>

section \<open>Integers from text\<close>

text \<open>
  \<^verbatim>\<open>int(text)\<close> skips the white space that the C parser knows (unlike \<^verbatim>\<open>str.strip\<close> not the separators
  28 to 31), takes a sign and decimal digits with single underscores between them, and refuses more
  than 4300 digits. \<^verbatim>\<open>None\<close> is \<^verbatim>\<open>ValueError\<close>.
\<close>

definition int_space :: "char \<Rightarrow> bool" where
  "int_space c = (let n = ord c in (9 \<le> n \<and> n \<le> 13) \<or> n = 32 \<or> n = 133 \<or> n = 160)"

definition MAX_STR_DIGITS :: nat where
  "MAX_STR_DIGITS = 4300"

fun int_digits :: "string \<Rightarrow> string option" where
  "int_digits [] = None"
| "int_digits [c] = (if ascii_digit c then Some [c] else None)"
| "int_digits (c # d # s) =
     (if \<not> ascii_digit c then None
      else map_option ((#) c) (int_digits (if d = CHR ''_'' then s else d # s)))"

definition nat_of_text :: "string \<Rightarrow> nat option" where
  "nat_of_text s = (case int_digits s of None \<Rightarrow> None
     | Some ds \<Rightarrow> if length ds \<le> MAX_STR_DIGITS then Some (digits_val ds) else None)"

definition int_strip :: "string \<Rightarrow> string" where
  "int_strip s = rev (dropWhile int_space (rev (dropWhile int_space s)))"

definition py_int :: "string \<Rightarrow> int option" where
  "py_int raw =
    (case int_strip raw of
       [] \<Rightarrow> None
     | c # s \<Rightarrow>
         if c = CHR ''-'' then map_option (\<lambda>n. - int n) (nat_of_text s)
         else map_option int (nat_of_text (if c = CHR ''+'' then s else c # s)))"

section \<open>Splitting\<close>

text \<open>\<^verbatim>\<open>s.split(c)\<close> for a separator of one character.\<close>

fun py_split :: "char \<Rightarrow> string \<Rightarrow> string list" where
  "py_split c [] = [[]]"
| "py_split c (d # s) =
     (if d = c then [] # py_split c s
      else (case py_split c s of [] \<Rightarrow> [[d]] | p # ps \<Rightarrow> (d # p) # ps))"

text \<open>\<^verbatim>\<open>s.split()[0]\<close> of a text that is not blank.\<close>

definition first_word :: "string \<Rightarrow> string" where
  "first_word s = takeWhile (\<lambda>c. \<not> py_isspace c) (py_lstrip s)"

section \<open>Paths\<close>

record path =
  p_root :: string
  p_tail :: "string list"

definition split_root :: "string \<Rightarrow> string \<times> string" where
  "split_root s =
    (case s of
       a # b # r \<Rightarrow>
         if a \<noteq> CHR ''/'' then ([], s)
         else if b \<noteq> CHR ''/'' \<or> (r \<noteq> [] \<and> hd r = CHR ''/'') then ([a], b # r)
         else ([a, b], r)
     | [a] \<Rightarrow> if a = CHR ''/'' then ([a], []) else ([], [a])
     | [] \<Rightarrow> ([], []))"

definition path_parts :: "string \<Rightarrow> string list" where
  "path_parts s = filter (\<lambda>x. x \<noteq> [] \<and> x \<noteq> ''.'') (py_split (CHR ''/'') s)"

text \<open>\<^verbatim>\<open>Path(s)\<close>, \<^verbatim>\<open>str(p)\<close>, \<^verbatim>\<open>p.name\<close> and \<^verbatim>\<open>p / name\<close> for a relative name of one part.\<close>

definition mk_path :: "string \<Rightarrow> path" where
  "mk_path s = (case split_root s of (root, rel) \<Rightarrow> \<lparr>p_root = root, p_tail = path_parts rel\<rparr>)"

definition path_str :: "path \<Rightarrow> string" where
  "path_str p = (if p_root p = [] \<and> p_tail p = [] then ''.'' else p_root p @ py_join ''/'' (p_tail p))"

definition path_name :: "path \<Rightarrow> string" where
  "path_name p = (if p_tail p = [] then [] else last (p_tail p))"

definition path_join :: "path \<Rightarrow> string \<Rightarrow> path" where
  "path_join p name = p\<lparr>p_tail := p_tail p @ [name]\<rparr>"

section \<open>The machine\<close>

text \<open>
  A regular file is known by its bytes and by the text \<^verbatim>\<open>read_text\<close> decodes from them; the accounts
  database gives the home directory of a named user, and of the current one under the empty name.
\<close>

record host_file =
  hf_text :: string
  hf_bytes :: string

record host =
  h_file :: "path \<Rightarrow> host_file option"
  h_home :: "string \<Rightarrow> string option"

type_synonym environ = "string \<rightharpoonup> string"

definition is_file :: "host \<Rightarrow> path \<Rightarrow> bool" where
  "is_file h p = (h_file h p \<noteq> None)"

definition read_text :: "host \<Rightarrow> path \<Rightarrow> string result" where
  "read_text h p = (case h_file h p of None \<Rightarrow> Inl (FileNotFoundError (path_str p)) | Some f \<Rightarrow> Inr (hf_text f))"

definition read_bytes :: "host \<Rightarrow> path \<Rightarrow> string result" where
  "read_bytes h p = (case h_file h p of None \<Rightarrow> Inl (FileNotFoundError (path_str p)) | Some f \<Rightarrow> Inr (hf_bytes f))"

definition env_get :: "environ \<Rightarrow> string \<Rightarrow> string \<Rightarrow> string" where
  "env_get env name d = (case env name of None \<Rightarrow> d | Some v \<Rightarrow> v)"

text \<open>\<^verbatim>\<open>Path.expanduser\<close> over \<^verbatim>\<open>os.path.expanduser\<close> of the first part.\<close>

definition home_text :: "host \<Rightarrow> environ \<Rightarrow> string \<Rightarrow> string" where
  "home_text h env part =
    (let user = tl part;
         found = (if user = [] then (case env ''HOME'' of Some d \<Rightarrow> Some d | None \<Rightarrow> h_home h []) else h_home h user)
     in case found of
          None \<Rightarrow> part
        | Some d \<Rightarrow> let t = rev (dropWhile (\<lambda>c. c = CHR ''/'') (rev d)) in if t = [] then ''/'' else t)"

definition expanduser :: "host \<Rightarrow> environ \<Rightarrow> path \<Rightarrow> path result" where
  "expanduser h env p =
    (if p_root p = [] \<and> p_tail p \<noteq> [] \<and> hd (p_tail p) \<noteq> [] \<and> hd (hd (p_tail p)) = CHR ''~'' then
       (let homedir = home_text h env (hd (p_tail p))
        in if homedir \<noteq> [] \<and> hd homedir = CHR ''~''
           then Inl (RuntimeError ''Could not determine home directory.'')
           else Inr \<lparr>p_root = p_root (mk_path homedir), p_tail = p_tail (mk_path homedir) @ tl (p_tail p)\<rparr>)
     else Inr p)"

section \<open>Facts\<close>

lemma int_space_not_digit: "ascii_digit c \<Longrightarrow> \<not> int_space c"
  by (auto simp: ascii_digit_def int_space_def Let_def)

lemma int_digits_all: "s \<noteq> [] \<Longrightarrow> list_all ascii_digit s \<Longrightarrow> int_digits s = Some s"
  by (induction s rule: int_digits.induct) (auto simp: ascii_digit_def ord_def Let_def)

lemma int_digits_ascii: "int_digits s = Some ds \<Longrightarrow> ds \<noteq> [] \<and> list_all ascii_digit ds"
  by (induction s arbitrary: ds rule: int_digits.induct) (auto split: if_splits)

lemma int_strip_id:
  "s \<noteq> [] \<Longrightarrow> \<not> int_space (hd s) \<Longrightarrow> \<not> int_space (last s) \<Longrightarrow> int_strip s = s"
  by (cases s rule: rev_cases) (auto simp: int_strip_def neq_Nil_conv hd_append split: if_splits)

lemma nat_of_text_digits:
  "length (nat_digits n) \<le> MAX_STR_DIGITS \<Longrightarrow> nat_of_text (nat_digits n) = Some n"
  by (simp add: nat_of_text_def int_digits_all nat_digits_ascii)

lemma nat_digits_edge:
  shows "ascii_digit (hd (nat_digits n))" and "ascii_digit (last (nat_digits n))"
  using nat_digits_ascii[of n] by (simp_all add: list_all_iff)

text \<open>A number that is printed is read back.\<close>

lemma py_int_int_str:
  assumes "length (nat_digits (nat \<bar>i\<bar>)) \<le> MAX_STR_DIGITS"
  shows "py_int (int_str i) = Some i"
proof (cases "i < 0")
  case True
  then have "int_strip (int_str i) = CHR ''-'' # nat_digits (nat (- i))"
    using nat_digits_edge int_space_not_digit
    by (subst int_strip_id) (auto simp: int_str_def int_space_def ord_def)
  with True assms show ?thesis by (simp add: py_int_def nat_of_text_digits)
next
  case False
  then have strip: "int_strip (int_str i) = nat_digits (nat i)"
    using nat_digits_edge int_space_not_digit by (subst int_strip_id) (auto simp: int_str_def)
  obtain c s where cs: "nat_digits (nat i) = c # s" by (cases "nat_digits (nat i)") auto
  with nat_digits_edge(1)[of "nat i"] have "c \<noteq> CHR ''-''" and "c \<noteq> CHR ''+''"
    by (auto simp: ascii_digit_def ord_def)
  with False assms strip cs show ?thesis
    using nat_of_text_digits[of "nat i"] by (simp add: py_int_def)
qed

lemma py_split_nonempty [simp]: "py_split c s \<noteq> []"
  by (induction s) (auto split: list.splits)

lemma py_split_no_sep: "p \<in> set (py_split c s) \<Longrightarrow> c \<notin> set p"
  by (induction s arbitrary: p) (auto split: list.splits if_splits)

lemma py_split_word: "c \<notin> set p \<Longrightarrow> py_split c p = [p]"
  by (induction p) auto

lemma py_split_append: "c \<notin> set p \<Longrightarrow> py_split c (p @ c # s) = p # py_split c s"
  by (induction p) auto

lemma py_split_join:
  "ps \<noteq> [] \<Longrightarrow> \<forall>p\<in>set ps. c \<notin> set p \<Longrightarrow> py_split c (py_join [c] ps) = ps"
  by (induction "[c]" ps rule: py_join.induct) (auto simp: py_split_word py_split_append)

text \<open>The paths that \<^verbatim>\<open>Path\<close> builds: no empty part, no dot, no slash inside a part.\<close>

definition wf_path :: "path \<Rightarrow> bool" where
  "wf_path p = (p_root p \<in> {[], ''/'', ''//''} \<and> (\<forall>x\<in>set (p_tail p). x \<noteq> [] \<and> x \<noteq> ''.'' \<and> CHR ''/'' \<notin> set x))"

lemma split_root_root: "fst (split_root s) \<in> {[], ''/'', ''//''}"
  by (auto simp: split_root_def split: list.splits)

lemma wf_mk_path [simp]: "wf_path (mk_path s)"
  using split_root_root[of s] py_split_no_sep
  by (fastforce simp: mk_path_def wf_path_def path_parts_def split: prod.splits)

lemma path_parts_join:
  assumes "\<forall>x\<in>set ps. x \<noteq> [] \<and> x \<noteq> ''.'' \<and> CHR ''/'' \<notin> set x"
  shows "path_parts (py_join ''/'' ps) = ps"
proof (cases "ps = []")
  case True
  then show ?thesis by (simp add: path_parts_def)
next
  case False
  with assms have "py_split (CHR ''/'') (py_join ''/'' ps) = ps" by (intro py_split_join) auto
  with assms show ?thesis by (simp add: path_parts_def)
qed

lemma join_no_slash_first:
  "\<forall>x\<in>set ps. x \<noteq> [] \<and> x \<noteq> ''.'' \<and> CHR ''/'' \<notin> set x \<Longrightarrow> py_join ''/'' ps \<noteq> CHR ''/'' # s"
  by (cases ps; cases "hd ps") (auto simp: py_join_Cons)

lemma split_root_append:
  assumes "r \<in> {[], ''/'', ''//''}" and "\<And>s. rel \<noteq> CHR ''/'' # s"
  shows "split_root (r @ rel) = (r, rel)"
proof -
  have "rel = [] \<or> hd rel \<noteq> CHR ''/''" using assms(2) by (metis list.exhaust_sel)
  with assms(1) show ?thesis
    by (cases rel; cases "tl rel") (auto simp: split_root_def split: list.splits)
qed

text \<open>A path is the path of its text.\<close>

lemma mk_path_path_str: "wf_path p \<Longrightarrow> mk_path (path_str p) = p"
proof (cases "p_root p = [] \<and> p_tail p = []")
  case True
  then show ?thesis by (simp add: path_str_def mk_path_def split_root_def path_parts_def)
next
  case False
  assume "wf_path p"
  then have r: "p_root p \<in> {[], ''/'', ''//''}"
    and parts: "\<forall>x\<in>set (p_tail p). x \<noteq> [] \<and> x \<noteq> ''.'' \<and> CHR ''/'' \<notin> set x"
    unfolding wf_path_def by (rule conjunct1, rule conjunct2)
  from split_root_append[OF r join_no_slash_first[OF parts]] path_parts_join[OF parts] False
  show ?thesis by (auto simp: path_str_def mk_path_def)
qed

lemma wf_path_append:
  "wf_path \<lparr>p_root = r, p_tail = xs @ ys\<rparr> \<longleftrightarrow>
     wf_path \<lparr>p_root = r, p_tail = xs\<rparr> \<and> wf_path \<lparr>p_root = r, p_tail = ys\<rparr>"
  unfolding wf_path_def by (simp add: ball_Un) blast

lemma wf_path_tl: "wf_path p \<Longrightarrow> wf_path q \<Longrightarrow> wf_path \<lparr>p_root = p_root q, p_tail = tl (p_tail p)\<rparr>"
  unfolding wf_path_def by (metis list.set_sel(2) list.sel(2) path.select_convs)

lemma expanduser_wf:
  assumes "wf_path p" and "expanduser h env p = Inr q"
  shows "wf_path q"
proof -
  define m where "m = mk_path (home_text h env (hd (p_tail p)))"
  have "wf_path m" by (simp add: m_def)
  then have "wf_path \<lparr>p_root = p_root m, p_tail = p_tail m\<rparr>" by (cases m) simp
  moreover from \<open>wf_path p\<close> \<open>wf_path m\<close> have "wf_path \<lparr>p_root = p_root m, p_tail = tl (p_tail p)\<rparr>"
    by (rule wf_path_tl)
  ultimately have "wf_path \<lparr>p_root = p_root m, p_tail = p_tail m @ tl (p_tail p)\<rparr>"
    by (simp only: wf_path_append)
  with assms show ?thesis by (simp add: expanduser_def Let_def m_def split: if_splits)
qed

end
