(* ===== verification/Models.thy ===== *)
theory Models
  imports Json
begin

text \<open>
  The shared domain models of \<^verbatim>\<open>models.py\<close>, \<^verbatim>\<open>policy_types.py\<close> and the two data classes of
  \<^verbatim>\<open>approval_tokens.py\<close> that the request refers to. Every pydantic model is a record with the
  fields of the class in their order; a field name carries a short prefix for its class, since
  record fields are global. \<^verbatim>\<open>str | None\<close> is \<^typ>\<open>string option\<close>; \<^verbatim>\<open>dict[str, Any]\<close> is the list of
  its items in insertion order, with JSON values.
\<close>

section \<open>Enumerations\<close>

datatype ContextTrust = TRUSTED | UNTRUSTED

fun ContextTrust_value :: "ContextTrust \<Rightarrow> string" where
  "ContextTrust_value TRUSTED = ''trusted''"
| "ContextTrust_value UNTRUSTED = ''untrusted''"

datatype ProvenanceSource =
  USER | MODEL | RETRIEVED | TOOL_OUTPUT | SYSTEM | EXTERNAL | WEB | EMAIL | SUPPORT_TICKET
  | INTERNAL_REVIEWED

fun ProvenanceSource_value :: "ProvenanceSource \<Rightarrow> string" where
  "ProvenanceSource_value USER = ''user''"
| "ProvenanceSource_value MODEL = ''model''"
| "ProvenanceSource_value RETRIEVED = ''retrieved''"
| "ProvenanceSource_value TOOL_OUTPUT = ''tool_output''"
| "ProvenanceSource_value SYSTEM = ''system''"
| "ProvenanceSource_value EXTERNAL = ''external''"
| "ProvenanceSource_value WEB = ''web''"
| "ProvenanceSource_value EMAIL = ''email''"
| "ProvenanceSource_value SUPPORT_TICKET = ''support_ticket''"
| "ProvenanceSource_value INTERNAL_REVIEWED = ''internal_reviewed''"

datatype RiskLevel = LOW | MEDIUM | HIGH | CRITICAL

fun RiskLevel_value :: "RiskLevel \<Rightarrow> string" where
  "RiskLevel_value LOW = ''low''"
| "RiskLevel_value MEDIUM = ''medium''"
| "RiskLevel_value HIGH = ''high''"
| "RiskLevel_value CRITICAL = ''critical''"

section \<open>Context and provenance\<close>

record RetrievedChunk =
  rc_id :: string
  rc_content :: string
  rc_trust :: ContextTrust
  rc_tenant_id :: string

record ToolOutputSegment =
  ts_execution_id :: string
  ts_tool_name :: string
  ts_content :: string
  ts_trust :: ContextTrust

record Provenance =
  pv_source :: ProvenanceSource
  pv_trust :: ContextTrust
  pv_context_ids :: "string list"
  pv_tenant_id :: "string option"
  pv_chunk_id :: "string option"
  pv_content_hash :: "string option"
  pv_signature :: "string option"

section \<open>Approval tokens\<close>

record ApprovalRequestFingerprint =
  fp_user_id :: string
  fp_tenant_id :: string
  fp_tool_name :: string
  fp_target :: "string option"
  fp_action :: string
  fp_risk_level :: string
  fp_source_context_ids :: "string list"
  fp_provenance_fingerprint :: string
  fp_action_fingerprint :: string

record ApprovalToken =
  at_approval_id :: string
  at_approver_id :: string
  at_approved_at :: string
  at_expires_at :: string
  at_one_time_use :: bool
  at_used :: bool
  at_user_id :: string
  at_tenant_id :: string
  at_tool_name :: string
  at_target :: "string option"
  at_action :: string
  at_risk_level :: string
  at_source_context_ids :: "string list"
  at_provenance_fingerprint :: string
  at_action_fingerprint :: string
  at_approval_reason :: string

section \<open>Requests and model output\<close>

record AgentRequest =
  ar_request_id :: string
  ar_correlation_id :: "string option"
  ar_user_id :: string
  ar_session_id :: string
  ar_tenant_id :: string
  ar_role :: string
  ar_model :: string
  ar_human_approval :: bool
  ar_approval_token :: "ApprovalToken option"
  ar_user_message :: string
  ar_retrieved_chunks :: "RetrievedChunk list"
  ar_tool_output_segments :: "ToolOutputSegment list"
  ar_scenario :: string

type_synonym arguments = "(string \<times> json) list"

record ToolCallPayload =
  tc_tool_name :: string
  tc_arguments :: arguments
  tc_target :: "string option"
  tc_provenance :: "Provenance option"

record ModelTurnResult =
  mt_natural_language :: string
  mt_tool_call :: "ToolCallPayload option"

section \<open>Policy\<close>

record ToolPolicy =
  tp_enabled :: bool
  tp_risk_level :: RiskLevel
  tp_external_effect :: bool
  tp_destructive :: bool
  tp_requires_human_approval :: bool
  tp_allowed_roles :: "string list"

record PolicyDocument =
  pd_default_decision :: string
  pd_tools :: "(string \<times> ToolPolicy) list"
  pd_tenant_isolation :: string

section \<open>Decisions and results\<close>

record PolicyDecision =
  pdec_allowed :: bool
  pdec_reason :: string
  pdec_risk_level :: "RiskLevel option"
  pdec_requires_human_approval :: bool
  pdec_external_effect :: bool

record BrokerDecision =
  bd_allowed :: bool
  bd_reason :: string
  bd_policy_decision :: "PolicyDecision option"
  bd_schema_valid :: bool
  bd_approval_id :: "string option"
  bd_approver_id :: "string option"
  bd_approval_decision :: "string option"
  bd_approval_reason :: "string option"
  bd_approval_token_valid :: "bool option"
  bd_approval_token_failure_reason :: "string option"

record SimulationResult =
  sr_success :: bool
  sr_message :: string
  sr_simulated_output :: arguments

record PipelineResult =
  pr_request_id :: string
  pr_path :: string
  pr_allowed :: bool
  pr_stage :: string
  pr_reason :: string
  pr_model_text :: string
  pr_filtered_output :: string
  pr_tool_executed :: bool
  pr_simulation :: "SimulationResult option"

section \<open>Facts about the enumerations\<close>

text \<open>The string values of the enumerations are distinct, so a value names one member.\<close>

lemma ContextTrust_value_inject [simp]: "ContextTrust_value a = ContextTrust_value b \<longleftrightarrow> a = b"
  by (cases a; cases b) simp_all

lemma ProvenanceSource_value_inject [simp]:
  "ProvenanceSource_value a = ProvenanceSource_value b \<longleftrightarrow> a = b"
  by (cases a; cases b) simp_all

lemma RiskLevel_value_inject [simp]: "RiskLevel_value a = RiskLevel_value b \<longleftrightarrow> a = b"
  by (cases a; cases b) simp_all

text \<open>A Python \<^verbatim>\<open>dict\<close> has one value per key.\<close>

definition wf_arguments :: "arguments \<Rightarrow> bool" where
  "wf_arguments kvs = (distinct (map fst kvs) \<and> list_all (\<lambda>(k, v). wf_json v) kvs)"

lemma wf_arguments_json: "wf_arguments kvs \<Longrightarrow> wf_json (JDict kvs)"
  by (simp add: wf_arguments_def)

section \<open>Sample values\<close>

text \<open>A request, a tool call and a tool policy of the laboratory's scenarios, for concrete instances.\<close>

definition sample_request :: AgentRequest where
  "sample_request =
    \<lparr>ar_request_id = ''req-1'', ar_correlation_id = None, ar_user_id = ''user-1'', ar_session_id = ''sess-1'',
     ar_tenant_id = ''tenant-a'', ar_role = ''analyst'', ar_model = ''sim'', ar_human_approval = False,
     ar_approval_token = None, ar_user_message = ''Read records'', ar_retrieved_chunks = [],
     ar_tool_output_segments = [], ar_scenario = ''safe_read''\<rparr>"

definition sample_provenance :: Provenance where
  "sample_provenance =
    \<lparr>pv_source = MODEL, pv_trust = TRUSTED, pv_context_ids = [''model-turn''], pv_tenant_id = None,
     pv_chunk_id = None, pv_content_hash = None, pv_signature = None\<rparr>"

definition sample_call :: ToolCallPayload where
  "sample_call =
    \<lparr>tc_tool_name = ''read_records'', tc_arguments = [(''record_ids'', JList [JStr ''r-100''])],
     tc_target = Some ''tenant-a'', tc_provenance = Some sample_provenance\<rparr>"

definition sample_tool_policy :: ToolPolicy where
  "sample_tool_policy =
    \<lparr>tp_enabled = True, tp_risk_level = LOW, tp_external_effect = False, tp_destructive = False,
     tp_requires_human_approval = False, tp_allowed_roles = [''analyst'']\<rparr>"

definition sample_policy :: PolicyDocument where
  "sample_policy =
    \<lparr>pd_default_decision = ''deny'', pd_tools = [(''read_records'', sample_tool_policy)],
     pd_tenant_isolation = ''strict''\<rparr>"

lemmas sample_defs = sample_request_def sample_provenance_def sample_call_def sample_tool_policy_def
  sample_policy_def

end
