(* ===== verification/Sha256.thy ===== *)
theory Sha256
  imports Prelude "HOL-Library.Word"
begin

text \<open>
  The digests of Python's \<^verbatim>\<open>hashlib\<close> and \<^verbatim>\<open>hmac\<close> that the control plane computes: SHA-256
  (FIPS 180-4) and HMAC-SHA-256 (RFC 2104), over bytes, rendered by \<^verbatim>\<open>hexdigest\<close>; and
  \<^verbatim>\<open>str.encode("utf-8")\<close>. All are executable. The development never reasons from an assumed
  collision freedom: the binding theorems of the client theories conclude "equal, or here are two
  different texts with the same digest". The locale \<open>digest_binding\<close> states that argument once.
\<close>

unbundle bit_operations_syntax

type_synonym u32 = "32 word"
type_synonym u8 = "8 word"

section \<open>UTF-8\<close>

text \<open>A code point below 128 is one byte, one between 128 and 255 is two.\<close>

definition utf8_char :: "char \<Rightarrow> u8 list" where
  "utf8_char c = (let n = ord c in
     if n < 128 then [of_nat n] else [of_nat (192 + n div 64), of_nat (128 + n mod 64)])"

definition utf8_encode :: "string \<Rightarrow> u8 list" where
  "utf8_encode s = concat (map utf8_char s)"

section \<open>SHA-256\<close>

definition rotr :: "nat \<Rightarrow> u32 \<Rightarrow> u32" where
  "rotr n x = drop_bit n x OR push_bit (32 - n) x"

definition sha_ch :: "u32 \<Rightarrow> u32 \<Rightarrow> u32 \<Rightarrow> u32" where
  "sha_ch x y z = (x AND y) XOR (NOT x AND z)"

definition sha_maj :: "u32 \<Rightarrow> u32 \<Rightarrow> u32 \<Rightarrow> u32" where
  "sha_maj x y z = (x AND y) XOR (x AND z) XOR (y AND z)"

definition big_sigma0 :: "u32 \<Rightarrow> u32" where
  "big_sigma0 x = rotr 2 x XOR rotr 13 x XOR rotr 22 x"

definition big_sigma1 :: "u32 \<Rightarrow> u32" where
  "big_sigma1 x = rotr 6 x XOR rotr 11 x XOR rotr 25 x"

definition small_sigma0 :: "u32 \<Rightarrow> u32" where
  "small_sigma0 x = rotr 7 x XOR rotr 18 x XOR drop_bit 3 x"

definition small_sigma1 :: "u32 \<Rightarrow> u32" where
  "small_sigma1 x = rotr 17 x XOR rotr 19 x XOR drop_bit 10 x"

text \<open>The round constants and the initial state of the standard, in decimal.\<close>

definition sha_k :: "u32 list" where
  "sha_k = [
    1116352408, 1899447441, 3049323471, 3921009573, 961987163, 1508970993, 2453635748, 2870763221,
    3624381080, 310598401, 607225278, 1426881987, 1925078388, 2162078206, 2614888103, 3248222580,
    3835390401, 4022224774, 264347078, 604807628, 770255983, 1249150122, 1555081692, 1996064986,
    2554220882, 2821834349, 2952996808, 3210313671, 3336571891, 3584528711, 113926993, 338241895,
    666307205, 773529912, 1294757372, 1396182291, 1695183700, 1986661051, 2177026350, 2456956037,
    2730485921, 2820302411, 3259730800, 3345764771, 3516065817, 3600352804, 4094571909, 275423344,
    430227734, 506948616, 659060556, 883997877, 958139571, 1322822218, 1537002063, 1747873779,
    1955562222, 2024104815, 2227730452, 2361852424, 2428436474, 2756734187, 3204031479, 3329325298]"

definition sha_h0 :: "u32 list" where
  "sha_h0 = [1779033703, 3144134277, 1013904242, 2773480762,
             1359893119, 2600822924, 528734635, 1541459225]"

text \<open>
  The message schedule as a sliding window of sixteen words: the head is emitted and the word
  sixteen places further is appended.
\<close>

fun sha_schedule :: "nat \<Rightarrow> u32 list \<Rightarrow> u32 list" where
  "sha_schedule n [] = []"
| "sha_schedule n (w # ws) =
     (if n = 0 then []
      else w # sha_schedule (n - 1) (ws @ [small_sigma1 (ws ! 13) + ws ! 8 + small_sigma0 (ws ! 0) + w]))"

fun sha_round :: "u32 list \<Rightarrow> u32 \<times> u32 \<Rightarrow> u32 list" where
  "sha_round [a, b, c, d, e, f, g, h] (k, w) =
     (let t1 = h + big_sigma1 e + sha_ch e f g + k + w; t2 = big_sigma0 a + sha_maj a b c
      in [t1 + t2, a, b, c, d + t1, e, f, g])"
| "sha_round s _ = s"

definition sha_compress :: "u32 list \<Rightarrow> u32 list \<Rightarrow> u32 list" where
  "sha_compress h m = map2 (+) h (foldl sha_round h (zip sha_k (sha_schedule 64 m)))"

text \<open>Padding: a one bit, zero bits, and the length in bits as a 64-bit big-endian number.\<close>

definition be_bytes :: "nat \<Rightarrow> nat \<Rightarrow> u8 list" where
  "be_bytes k n = map (\<lambda>i. of_nat (n div 256 ^ i)) (rev [0..<k])"

definition sha_pad :: "u8 list \<Rightarrow> u8 list" where
  "sha_pad m = (let l = length m in
     m @ [0x80] @ replicate ((119 - l mod 64) mod 64) 0 @ be_bytes 8 (8 * l))"

fun words_of_bytes :: "u8 list \<Rightarrow> u32 list" where
  "words_of_bytes (a # b # c # d # r) =
     of_nat (((unat a * 256 + unat b) * 256 + unat c) * 256 + unat d) # words_of_bytes r"
| "words_of_bytes _ = []"

function sha_blocks :: "u32 list \<Rightarrow> u32 list \<Rightarrow> u32 list" where
  "sha_blocks h ws = (if length ws < 16 then h else sha_blocks (sha_compress h (take 16 ws)) (drop 16 ws))"
  by pat_completeness auto
termination by (relation "measure (\<lambda>(h, ws). length ws)") auto

declare sha_blocks.simps [simp del]

definition sha256 :: "u8 list \<Rightarrow> u8 list" where
  "sha256 m = concat (map (\<lambda>w. be_bytes 4 (unat w)) (sha_blocks sha_h0 (words_of_bytes (sha_pad m))))"

section \<open>HMAC\<close>

definition hmac_key_block :: "u8 list \<Rightarrow> u8 list" where
  "hmac_key_block k = (let k' = (if length k > 64 then sha256 k else k)
     in k' @ replicate (64 - length k') 0)"

definition hmac_sha256 :: "u8 list \<Rightarrow> u8 list \<Rightarrow> u8 list" where
  "hmac_sha256 k m = (let b = hmac_key_block k
     in sha256 (map (\<lambda>x. x XOR 0x5c) b @ sha256 (map (\<lambda>x. x XOR 0x36) b @ m)))"

section \<open>Hexadecimal rendering\<close>

definition hex_nibble :: "nat \<Rightarrow> char" where
  "hex_nibble d = ''0123456789abcdef'' ! d"

definition hexdigest :: "u8 list \<Rightarrow> string" where
  "hexdigest bs = concat (map (\<lambda>b. [hex_nibble (unat b div 16), hex_nibble (unat b mod 16)]) bs)"

text \<open>\<^verbatim>\<open>hashlib.sha256(value.encode("utf-8")).hexdigest()\<close>\<close>

definition sha256_hex_text :: "string \<Rightarrow> string" where
  "sha256_hex_text s = hexdigest (sha256 (utf8_encode s))"

section \<open>Shape of the digests\<close>

lemma length_sha_round [simp]: "length (sha_round s kw) = length s"
  by (cases "(s, kw)" rule: sha_round.cases) (auto simp: Let_def)

lemma length_foldl_sha_round [simp]: "length (foldl sha_round s kws) = length s"
  by (induction kws arbitrary: s) auto

lemma length_sha_compress [simp]: "length (sha_compress h m) = length h"
  by (simp add: sha_compress_def)

lemma length_sha_blocks: "length (sha_blocks h ws) = length h"
proof (induction h ws rule: sha_blocks.induct)
  case (1 h ws)
  then show ?case by (cases "length ws < 16") (simp_all add: sha_blocks.simps[of h ws])
qed

lemma length_be_bytes [simp]: "length (be_bytes k n) = k"
  by (simp add: be_bytes_def)

lemma length_concat_map_const: "(\<And>x. length (f x) = k) \<Longrightarrow> length (concat (map f xs)) = k * length xs"
  by (induction xs) auto

lemma length_sha256 [simp]: "length (sha256 m) = 32"
  by (simp add: sha256_def length_concat_map_const[where k = 4] length_sha_blocks sha_h0_def)

lemma length_hmac_sha256 [simp]: "length (hmac_sha256 k m) = 32"
  by (simp add: hmac_sha256_def Let_def)

text \<open>The padded message is a whole number of 64-byte blocks, so no byte is dropped.\<close>

lemma pad_arith: "r < 64 \<Longrightarrow> 64 dvd r + (9 + (119 - r) mod 64)" for r :: nat
proof (cases "r \<le> 55")
  case True
  then have "119 - r = (55 - r) + 64" by linarith
  then have "(119 - r) mod 64 = (55 - r) mod 64" by (metis mod_add_self2)
  also have "\<dots> = 55 - r" by (rule mod_less) linarith
  finally have "r + (9 + (119 - r) mod 64) = 64" using True by linarith
  then show ?thesis by (metis dvd_refl)
next
  case False
  assume "r < 64"
  with False have "(119 - r) mod 64 = 119 - r" by (intro mod_less) linarith
  with \<open>r < 64\<close> have "r + (9 + (119 - r) mod 64) = 64 * 2" by linarith
  then show ?thesis by (metis dvd_triv_left)
qed

lemma length_sha_pad: "64 dvd length (sha_pad m)"
proof -
  have "length (sha_pad m) = 64 * (length m div 64) + (length m mod 64 + (9 + (119 - length m mod 64) mod 64))"
    unfolding sha_pad_def Let_def by simp
  moreover have "64 dvd length m mod 64 + (9 + (119 - length m mod 64) mod 64)"
    by (rule pad_arith) simp
  ultimately show ?thesis by (metis dvd_add dvd_triv_left)
qed

lemma length_hexdigest [simp]: "length (hexdigest bs) = 2 * length bs"
  by (simp add: hexdigest_def length_concat_map_const[where k = 2])

lemma hex_nibble_range: "d < 16 \<Longrightarrow> hex_nibble d \<in> set ''0123456789abcdef''"
  unfolding hex_nibble_def by (rule nth_mem) simp

lemma hexdigest_chars: "set (hexdigest bs) \<subseteq> set ''0123456789abcdef''"
proof
  fix c
  assume "c \<in> set (hexdigest bs)"
  then obtain b :: u8 where "c = hex_nibble (unat b div 16) \<or> c = hex_nibble (unat b mod 16)"
    by (auto simp: hexdigest_def)
  moreover have "unat b div 16 < 16" using unsigned_less[where 'a = nat, of b] by simp
  ultimately show "c \<in> set ''0123456789abcdef''"
    using hex_nibble_range[of "unat b div 16"] hex_nibble_range[of "unat b mod 16"] by force
qed

lemma hex_lower: "c \<in> set ''0123456789abcdef'' \<Longrightarrow> py_lower_char c = c"
proof -
  have "list_all (\<lambda>c. py_lower_char c = c) ''0123456789abcdef''"
    by (simp add: py_lower_char_def ascii_upper_def ord_def)
  then show "c \<in> set ''0123456789abcdef'' \<Longrightarrow> py_lower_char c = c" unfolding list_all_iff by blast
qed

lemma py_lower_hexdigest [simp]: "py_lower (hexdigest bs) = hexdigest bs"
  unfolding py_lower_def using hexdigest_chars[of bs] hex_lower by (intro map_idI) blast

lemma hexdigest_nonempty: "bs \<noteq> [] \<Longrightarrow> hexdigest bs \<noteq> []"
  by (cases bs) (auto simp: hexdigest_def)

section \<open>UTF-8 is injective\<close>

fun utf8_decode1 :: "u8 list \<Rightarrow> (char \<times> u8 list) option" where
  "utf8_decode1 (a # r) =
     (if unat a < 128 then Some (char_of (unat a), r)
      else case r of b # r' \<Rightarrow> Some (char_of ((unat a - 192) * 64 + (unat b - 128)), r') | [] \<Rightarrow> None)"
| "utf8_decode1 [] = None"

lemma utf8_decode1_char: "utf8_decode1 (utf8_char c @ r) = Some (c, r)"
proof -
  have "ord c div 64 < 4" using ord_less_256[of c] by linarith
  then have "unat (of_nat (192 + ord c div 64) :: u8) = 192 + ord c div 64"
    and "unat (of_nat (128 + ord c mod 64) :: u8) = 128 + ord c mod 64"
    by (simp_all add: unat_of_nat del: of_nat_add)
  moreover have "ord c < 128 \<Longrightarrow> unat (of_nat (ord c) :: u8) = ord c" by (simp add: unat_of_nat)
  ultimately show ?thesis by (simp add: utf8_char_def Let_def del: of_nat_add)
qed

lemma utf8_encode_inject: "utf8_encode s = utf8_encode t \<Longrightarrow> s = t"
proof (induction s arbitrary: t)
  case Nil
  then show ?case by (cases t) (auto simp: utf8_encode_def utf8_char_def Let_def split: if_splits)
next
  case (Cons c s)
  show ?case
  proof (cases t)
    case Nil
    with Cons.prems show ?thesis by (auto simp: utf8_encode_def utf8_char_def Let_def split: if_splits)
  next
    case t: (Cons d t')
    with Cons.prems have "utf8_char c @ utf8_encode s = utf8_char d @ utf8_encode t'"
      by (simp add: utf8_encode_def)
    then have "Some (c, utf8_encode s) = Some (d, utf8_encode t')" by (metis utf8_decode1_char)
    with Cons.IH t show ?thesis by simp
  qed
qed

section \<open>Binding by digest\<close>

text \<open>
  A value is bound by the digest of its encoding. The encoding is injective up to a normal form
  (JSON objects up to the order of their keys), so two values with one digest have one normal form,
  or their encodings are a collision of the digest. No hypothesis on the digest is needed.
\<close>

definition collision :: "('b \<Rightarrow> 'c) \<Rightarrow> 'b \<Rightarrow> 'b \<Rightarrow> bool" where
  "collision h x y = (x \<noteq> y \<and> h x = h y)"

locale digest_binding =
  fixes digest :: "'b \<Rightarrow> 'c" and encode :: "'a \<Rightarrow> 'b" and normal :: "'a \<Rightarrow> 'n" and valid :: "'a \<Rightarrow> bool"
  assumes encode_inject: "valid a \<Longrightarrow> valid b \<Longrightarrow> encode a = encode b \<Longrightarrow> normal a = normal b"
begin

lemma digest_binds:
  assumes "valid a" and "valid b" and "digest (encode a) = digest (encode b)"
  shows "normal a = normal b \<or> collision digest (encode a) (encode b)"
  using assms encode_inject unfolding collision_def by blast

lemma digest_separates:
  assumes "valid a" and "valid b" and "normal a \<noteq> normal b" and "\<not> collision digest (encode a) (encode b)"
  shows "digest (encode a) \<noteq> digest (encode b)"
  using assms digest_binds by blast

end

interpretation sha_text: digest_binding "\<lambda>bs. hexdigest (sha256 bs)" utf8_encode "\<lambda>s. s" "\<lambda>s. True"
  by unfold_locales (simp add: utf8_encode_inject)

end
