(* ===== verification/Provenance_Integrity.thy ===== *)
theory Provenance_Integrity
  imports Models Sha256
begin

text \<open>
  \<^verbatim>\<open>provenance.py\<close> (which provenance may support a tool request) and \<^verbatim>\<open>provenance_integrity.py\<close>
  (the HMAC over canonical provenance metadata). The key is a byte string; the signature text is
  compared with \<^verbatim>\<open>hmac.compare_digest\<close>, which raises TypeError on a \<^verbatim>\<open>str\<close> with non-ASCII
  characters.
\<close>

section \<open>Declarative provenance checks\<close>

definition SOURCES_CANNOT_AUTHORIZE :: "ProvenanceSource set" where
  "SOURCES_CANNOT_AUTHORIZE = {USER, RETRIEVED, TOOL_OUTPUT, EXTERNAL, WEB, EMAIL, SUPPORT_TICKET}"

definition validate_provenance_for_tool :: "ToolPolicy \<Rightarrow> Provenance option \<Rightarrow> bool \<times> string" where
  "validate_provenance_for_tool tool_policy provenance =
    (case provenance of
       None \<Rightarrow> (False, ''missing_provenance_denied'')
     | Some p \<Rightarrow>
        (if pv_source p \<in> SOURCES_CANNOT_AUTHORIZE
         then (False, ProvenanceSource_value (pv_source p) @ ''_cannot_authorize_tool_execution'')
         else if pv_trust p = UNTRUSTED then (False, ''untrusted_provenance_denied'')
         else if pv_source p = INTERNAL_REVIEWED then
           (if tp_external_effect tool_policy \<or> tp_destructive tool_policy
            then (False, ''internal_reviewed_cannot_authorize_external_or_destructive'')
            else (True, ''internal_reviewed_provenance_allowed''))
         else if pv_source p \<in> {MODEL, SYSTEM} then (True, ''provenance_allowed'')
         else (False, ''provenance_source_not_permitted'')))"

section \<open>Canonical form and signature\<close>

definition jopt_str :: "string option \<Rightarrow> json" where
  "jopt_str s = (case s of None \<Rightarrow> JNull | Some t \<Rightarrow> JStr t)"

definition LAB_DEMO_HMAC_KEY :: "u8 list" where
  "LAB_DEMO_HMAC_KEY = utf8_encode ''llm-agent-control-plane-lab-fake-hmac-key-for-tests-only''"

definition compute_content_hash :: "string \<Rightarrow> string" where
  "compute_content_hash content = hexdigest (sha256 (utf8_encode content))"

definition canonicalize_provenance :: "Provenance \<Rightarrow> json" where
  "canonicalize_provenance p = JDict
    [(''source'', JStr (ProvenanceSource_value (pv_source p))),
     (''trust'', JStr (ContextTrust_value (pv_trust p))),
     (''context_ids'', JList (map JStr (sort (pv_context_ids p)))),
     (''tenant_id'', jopt_str (pv_tenant_id p)),
     (''chunk_id'', jopt_str (pv_chunk_id p)),
     (''content_hash'', jopt_str (pv_content_hash p))]"

definition canonical_provenance_json :: "Provenance \<Rightarrow> string" where
  "canonical_provenance_json p = json_dumps_canonical (canonicalize_provenance p)"

definition compute_provenance_hmac :: "Provenance \<Rightarrow> u8 list \<Rightarrow> string" where
  "compute_provenance_hmac p key = hexdigest (hmac_sha256 key (utf8_encode (canonical_provenance_json p)))"

definition sign_provenance :: "Provenance \<Rightarrow> u8 list \<Rightarrow> Provenance" where
  "sign_provenance p key = p\<lparr>pv_signature := Some (compute_provenance_hmac p key)\<rparr>"

text \<open>\<^verbatim>\<open>hmac.compare_digest\<close> of two \<^verbatim>\<open>str\<close> arguments.\<close>

definition compare_digest :: "string \<Rightarrow> string \<Rightarrow> bool result" where
  "compare_digest a b =
    (if list_all (\<lambda>c. ord c < 128) (a @ b) then Inr (a = b)
     else Inl (TypeError ''comparing strings with non-ASCII characters is not supported''))"

definition verify_provenance_signature :: "Provenance \<Rightarrow> u8 list \<Rightarrow> (bool \<times> string) result" where
  "verify_provenance_signature p key =
    (case pv_signature p of
       None \<Rightarrow> Inr (False, ''provenance_signature_missing'')
     | Some sig \<Rightarrow>
        (if sig = [] then Inr (False, ''provenance_signature_missing'')
         else bind_result (compare_digest (py_lower sig) (py_lower (compute_provenance_hmac p key)))
           (\<lambda>same. if \<not> same then Inr (False, ''provenance_signature_invalid'')
                   else Inr (True, ''provenance_signature_valid''))))"

definition verify_provenance_integrity ::
  "Provenance option \<Rightarrow> u8 list \<Rightarrow> bool \<Rightarrow> (bool \<times> string) result" where
  "verify_provenance_integrity provenance key require_signature =
    (case provenance of
       None \<Rightarrow> Inr (False, ''missing_provenance_denied'')
     | Some p \<Rightarrow>
        (if \<not> require_signature then Inr (True, ''provenance_signature_not_required'')
         else verify_provenance_signature p key))"

section \<open>What supports a tool request\<close>

text \<open>The specification of the check: the sources and trust that may authorise a tool.\<close>

definition provenance_supports :: "ToolPolicy \<Rightarrow> Provenance \<Rightarrow> bool" where
  "provenance_supports tp p =
    (pv_trust p = TRUSTED \<and>
     (pv_source p = MODEL \<or> pv_source p = SYSTEM \<or>
      (pv_source p = INTERNAL_REVIEWED \<and> \<not> tp_external_effect tp \<and> \<not> tp_destructive tp)))"

lemma validate_provenance_for_tool_iff:
  "fst (validate_provenance_for_tool tp prov) \<longleftrightarrow> (\<exists>p. prov = Some p \<and> provenance_supports tp p)"
proof (cases prov)
  case (Some p)
  then show ?thesis
    by (cases "pv_source p"; cases "pv_trust p")
      (simp_all add: validate_provenance_for_tool_def SOURCES_CANNOT_AUTHORIZE_def provenance_supports_def)
qed (simp add: validate_provenance_for_tool_def)

text \<open>The signature field is not part of the signed material.\<close>

lemma canonicalize_signature [simp]: "canonicalize_provenance (p\<lparr>pv_signature := s\<rparr>) = canonicalize_provenance p"
  by (simp add: canonicalize_provenance_def)

lemma hmac_signature [simp]: "compute_provenance_hmac (p\<lparr>pv_signature := s\<rparr>) key = compute_provenance_hmac p key"
  by (simp add: compute_provenance_hmac_def canonical_provenance_json_def)

lemma compute_provenance_hmac_nonempty [simp]: "compute_provenance_hmac p key \<noteq> []"
proof -
  have "hmac_sha256 key m \<noteq> []" for m
    using length_hmac_sha256[of key m] by (metis list.size(3) zero_neq_numeral)
  then show ?thesis by (simp add: compute_provenance_hmac_def hexdigest_nonempty)
qed

lemma hex_ascii: "list_all (\<lambda>c. ord c < 128) (hexdigest bs)"
proof -
  have "list_all (\<lambda>c. ord c < 128) ''0123456789abcdef''" by (simp add: ord_def)
  then show ?thesis using hexdigest_chars[of bs] unfolding list_all_iff by blast
qed

lemma hmac_ascii [simp]: "list_all (\<lambda>c. ord c < 128) (compute_provenance_hmac p key)"
  by (simp add: compute_provenance_hmac_def hex_ascii)

lemma hmac_lower [simp]: "py_lower (compute_provenance_hmac p key) = compute_provenance_hmac p key"
  by (simp add: compute_provenance_hmac_def)

lemma verify_provenance_signature_iff:
  "verify_provenance_signature p key = Inr (True, r) \<longleftrightarrow>
     r = ''provenance_signature_valid'' \<and>
     (\<exists>sig. pv_signature p = Some sig \<and> py_lower sig = compute_provenance_hmac p key)"
proof -
  have "py_lower [] \<noteq> compute_provenance_hmac p key"
    using compute_provenance_hmac_nonempty[of p key] by (simp add: py_lower_def eq_commute)
  then show ?thesis
    by (auto simp: verify_provenance_signature_def compare_digest_def monad_simps
        split: option.splits if_splits)
qed

section \<open>Signatures bind the metadata\<close>

lemma wf_canonicalize [simp]: "wf_json (canonicalize_provenance p)"
  by (simp add: canonicalize_provenance_def jopt_str_def list_all_iff split: option.splits)

lemma jopt_str_inject [simp]: "jopt_str a = jopt_str b \<longleftrightarrow> a = b"
  by (auto simp: jopt_str_def split: option.splits)

text \<open>The metadata the signature covers: everything but the signature, context ids up to order.\<close>

definition signed_material where
  "signed_material p = (pv_source p, pv_trust p, sort (pv_context_ids p), pv_tenant_id p, pv_chunk_id p,
     pv_content_hash p)"

lemma json_sort_jopt [simp]: "json_sort (jopt_str s) = jopt_str s"
  by (simp add: jopt_str_def split: option.splits)

lemma map_JStr_inject [simp]: "map JStr xs = map JStr ys \<longleftrightarrow> xs = ys"
  by (simp add: inj_map_eq_map inj_def)

lemma canonical_sort_inject:
  assumes "json_sort (canonicalize_provenance p) = json_sort (canonicalize_provenance q)"
  shows "signed_material p = signed_material q"
proof -
  have "\<And>k. map_option json_sort (map_of (case canonicalize_provenance p of JDict xs \<Rightarrow> xs) k) =
             map_option json_sort (map_of (case canonicalize_provenance q of JDict xs \<Rightarrow> xs) k)"
    using assms unfolding canonicalize_provenance_def json.case
    by (rule json_sort_dict_map_of) simp_all
  from this[of "''source''"] this[of "''trust''"] this[of "''context_ids''"] this[of "''tenant_id''"]
    this[of "''chunk_id''"] this[of "''content_hash''"]
  show ?thesis by (simp add: canonicalize_provenance_def signed_material_def o_def)
qed

interpretation provenance_mac: digest_binding "\<lambda>bs. hexdigest (hmac_sha256 key bs)"
  "\<lambda>p. utf8_encode (canonical_provenance_json p)" signed_material "\<lambda>p. True"
  for key
proof
  fix a b :: Provenance
  assume "utf8_encode (canonical_provenance_json a) = utf8_encode (canonical_provenance_json b)"
  then have "canonical_provenance_json a = canonical_provenance_json b" by (rule utf8_encode_inject)
  then show "signed_material a = signed_material b"
    unfolding canonical_provenance_json_def
    by (intro canonical_sort_inject json_dumps_canonical_inject) simp_all
qed

lemma sign_verifies:
  "verify_provenance_signature (sign_provenance p key) key = Inr (True, ''provenance_signature_valid'')"
  by (simp add: verify_provenance_signature_iff sign_provenance_def)

section \<open>Properties\<close>

text \<open>
  C35. Signing then verifying succeeds: for every provenance and key the signature that
  \<^verbatim>\<open>sign_provenance\<close> attaches passes the strict integrity check under that key, whatever signature
  was there before.
\<close>

theorem sign_verify_round_trip:
  "verify_provenance_integrity (Some (sign_provenance p key)) key True = Inr (True, ''provenance_signature_valid'')"
  by (simp add: verify_provenance_integrity_def sign_verifies)

text \<open>
  C16. A signature binds the metadata: two provenances that verify with the same signature under one
  key agree on source, trust, tenant, chunk, content hash and context ids (up to order), or their two
  canonical texts are a collision of HMAC-SHA-256 under that key.
\<close>

theorem signature_binds_metadata:
  assumes "verify_provenance_signature p key = Inr (True, r)"
    and "verify_provenance_signature q key = Inr (True, r')"
    and "pv_signature p = pv_signature q"
  shows "signed_material p = signed_material q
    \<or> collision (\<lambda>bs. hexdigest (hmac_sha256 key bs))
        (utf8_encode (canonical_provenance_json p)) (utf8_encode (canonical_provenance_json q))"
proof -
  have "compute_provenance_hmac p key = compute_provenance_hmac q key"
    using assms by (auto simp: verify_provenance_signature_iff)
  then show ?thesis
    by (intro provenance_mac.digest_binds) (simp_all add: compute_provenance_hmac_def)
qed

theorem signature_binds_metadata_witness:
  "let p = sign_provenance (sample_provenance\<lparr>pv_context_ids := [''b'', ''a'']\<rparr>) LAB_DEMO_HMAC_KEY;
       q = p\<lparr>pv_context_ids := [''a'', ''b'']\<rparr>
   in pv_context_ids p \<noteq> pv_context_ids q \<and>
      (signed_material p = signed_material q
       \<or> collision (\<lambda>bs. hexdigest (hmac_sha256 LAB_DEMO_HMAC_KEY bs))
           (utf8_encode (canonical_provenance_json p)) (utf8_encode (canonical_provenance_json q)))"
proof -
  define p0 where "p0 = sample_provenance\<lparr>pv_context_ids := [''b'', ''a'']\<rparr>"
  define p where "p = sign_provenance p0 LAB_DEMO_HMAC_KEY"
  define q where "q = p\<lparr>pv_context_ids := [''a'', ''b'']\<rparr>"
  have "sort [''b'', ''a''] = sort [''a'', ''b'']" by code_simp
  then have "canonicalize_provenance q = canonicalize_provenance p"
    by (simp add: p_def q_def p0_def canonicalize_provenance_def sign_provenance_def)
  then have "q = sign_provenance q LAB_DEMO_HMAC_KEY"
    by (simp add: q_def p_def sign_provenance_def compute_provenance_hmac_def canonical_provenance_json_def)
  then have vq: "verify_provenance_signature q LAB_DEMO_HMAC_KEY = Inr (True, ''provenance_signature_valid'')"
    by (metis sign_verifies)
  have vp: "verify_provenance_signature p LAB_DEMO_HMAC_KEY = Inr (True, ''provenance_signature_valid'')"
    unfolding p_def by (rule sign_verifies)
  show ?thesis
    using signature_binds_metadata[OF vp vq] unfolding p0_def[symmetric] p_def[symmetric] Let_def q_def[symmetric]
    by (simp add: q_def p_def p0_def sign_provenance_def)
qed

end
