(* ===== verification/Regex.thy ===== *)
theory Regex
  imports Prelude
begin

text \<open>
  Python's \<^verbatim>\<open>re\<close> on the fragment the control plane uses: character classes, sequence, ordered choice,
  greedy and lazy repetition of a class, one capture group, and the anchors \<^verbatim>\<open>^\<close>, \<^verbatim>\<open>$\<close> and \<^verbatim>\<open>\b\<close>.
  \<open>rmatch\<close> is the backtracking engine: from a position it gives the ends it can reach, in the order
  in which the engine tries them, so that the head of the list is the match Python reports.
  \<open>search\<close>, \<open>finditer\<close> and \<open>sub\<close> are the scans of the module. \<open>mat\<close> is the declarative reading of a
  pattern; the two are equivalent (\<open>rmatch_iff\<close>), so a scan finds something exactly when the text has a
  matching part (\<open>search_iff\<close>).
\<close>

section \<open>Patterns and the engine\<close>

datatype regex =
    Eps
  | Cls "char \<Rightarrow> bool"
  | Sq regex regex
  | Alt regex regex
  | Star bool "char \<Rightarrow> bool"
  | Bol
  | Eol
  | Wordb
  | Grp regex

text \<open>A position: the text before it, reversed, the text from it on, and the captured group.\<close>

type_synonym pos = "string \<times> string \<times> string option"

fun at_word :: "string \<Rightarrow> bool" where
  "at_word [] = False"
| "at_word (c # s) = py_word_char c"

fun star_ends :: "bool \<Rightarrow> (char \<Rightarrow> bool) \<Rightarrow> string \<Rightarrow> string \<Rightarrow> string option \<Rightarrow> pos list" where
  "star_ends greedy p b [] g = [(b, [], g)]"
| "star_ends greedy p b (c # cs) g =
     (if \<not> p c then [(b, c # cs, g)]
      else if greedy then star_ends greedy p (c # b) cs g @ [(b, c # cs, g)]
      else (b, c # cs, g) # star_ends greedy p (c # b) cs g)"

fun rmatch :: "regex \<Rightarrow> pos \<Rightarrow> pos list" where
  "rmatch Eps st = [st]"
| "rmatch (Cls p) (b, a, g) = (case a of [] \<Rightarrow> [] | c # cs \<Rightarrow> if p c then [(c # b, cs, g)] else [])"
| "rmatch (Sq r s) st = concat (map (rmatch s) (rmatch r st))"
| "rmatch (Alt r s) st = rmatch r st @ rmatch s st"
| "rmatch (Star greedy p) (b, a, g) = star_ends greedy p b a g"
| "rmatch Bol (b, a, g) = (if b = [] then [(b, a, g)] else [])"
| "rmatch Eol (b, a, g) = (if a = [] \<or> a = [CHR 0x0A] then [(b, a, g)] else [])"
| "rmatch Wordb (b, a, g) = (if at_word b \<noteq> at_word a then [(b, a, g)] else [])"
| "rmatch (Grp r) (b, a, g) =
     map (\<lambda>(b', a', g'). (b', a', Some (rev (take (length b' - length b) b')))) (rmatch r (b, a, g))"

text \<open>Derived forms of the pattern syntax: literal texts (also without case), \<^verbatim>\<open>r?\<close>, \<^verbatim>\<open>[..]+\<close>, \<^verbatim>\<open>[..]{n,}\<close>.\<close>

abbreviation Lit :: "char \<Rightarrow> regex" where
  "Lit c \<equiv> Cls (\<lambda>x. x = c)"

fun Str :: "string \<Rightarrow> regex" where
  "Str [] = Eps"
| "Str (c # s) = Sq (Lit c) (Str s)"

fun StrI :: "string \<Rightarrow> regex" where
  "StrI [] = Eps"
| "StrI (c # s) = Sq (Cls (\<lambda>x. py_lower_char x = c)) (StrI s)"

definition Opt :: "regex \<Rightarrow> regex" where
  "Opt r = Alt r Eps"

fun Rep :: "nat \<Rightarrow> (char \<Rightarrow> bool) \<Rightarrow> regex" where
  "Rep n p = (if n = 0 then Star True p else Sq (Cls p) (Rep (n - 1) p))"

declare Rep.simps [simp del]

section \<open>Scanning\<close>

record match_obj =
  m_before :: string
  m_group0 :: string
  m_group1 :: "string option"
  m_rest :: string

definition match_at :: "regex \<Rightarrow> string \<Rightarrow> string \<Rightarrow> match_obj option" where
  "match_at r b a = (case rmatch r (b, a, None) of
     [] \<Rightarrow> None
   | (b', a', g) # _ \<Rightarrow>
       Some \<lparr>m_before = rev b, m_group0 = take (length a - length a') a, m_group1 = g, m_rest = a'\<rparr>)"

fun search_from :: "regex \<Rightarrow> string \<Rightarrow> string \<Rightarrow> match_obj option" where
  "search_from r b [] = match_at r b []"
| "search_from r b (c # cs) = (case match_at r b (c # cs) of
     Some m \<Rightarrow> Some m | None \<Rightarrow> search_from r (c # b) cs)"

definition search :: "regex \<Rightarrow> string \<Rightarrow> match_obj option" where
  "search r t = search_from r [] t"

text \<open>
  Non-overlapping matches from left to right. Every pattern of the program consumes at least one
  character (\<open>consuming\<close> below), so a scan goes on right behind a match; an empty match would only
  be stepped over.
\<close>

function finditer_from :: "regex \<Rightarrow> string \<Rightarrow> string \<Rightarrow> match_obj list" where
  "finditer_from r b a = (case match_at r b a of
      Some m \<Rightarrow>
        if length (m_rest m) < length a then m # finditer_from r (rev (m_group0 m) @ b) (m_rest m)
        else m # (case a of [] \<Rightarrow> [] | c # cs \<Rightarrow> finditer_from r (c # b) cs)
    | None \<Rightarrow> (case a of [] \<Rightarrow> [] | c # cs \<Rightarrow> finditer_from r (c # b) cs))"
  by pat_completeness auto
termination
  by (relation "measure (\<lambda>(r, b, a). length a)") auto

declare finditer_from.simps [simp del]

definition finditer :: "regex \<Rightarrow> string \<Rightarrow> match_obj list" where
  "finditer r t = finditer_from r [] t"

function sub_from :: "regex \<Rightarrow> string \<Rightarrow> string \<Rightarrow> string \<Rightarrow> string" where
  "sub_from r repl b a = (case match_at r b a of
      Some m \<Rightarrow>
        if length (m_rest m) < length a then repl @ sub_from r repl (rev (m_group0 m) @ b) (m_rest m)
        else repl @ (case a of [] \<Rightarrow> [] | c # cs \<Rightarrow> c # sub_from r repl (c # b) cs)
    | None \<Rightarrow> (case a of [] \<Rightarrow> [] | c # cs \<Rightarrow> c # sub_from r repl (c # b) cs))"
  by pat_completeness auto
termination
  by (relation "measure (\<lambda>(r, repl, b, a). length a)") auto

declare sub_from.simps [simp del]

definition sub :: "regex \<Rightarrow> string \<Rightarrow> string \<Rightarrow> string" where
  "sub r repl t = sub_from r repl [] t"

section \<open>The declarative reading of a pattern\<close>

text \<open>\<open>mat r b w a\<close>: the part \<open>w\<close> between \<open>b\<close> (reversed) and \<open>a\<close> matches \<open>r\<close>.\<close>

fun mat :: "regex \<Rightarrow> string \<Rightarrow> string \<Rightarrow> string \<Rightarrow> bool" where
  "mat Eps b w a = (w = [])"
| "mat (Cls p) b w a = (\<exists>c. w = [c] \<and> p c)"
| "mat (Sq r s) b w a = (\<exists>u v. w = u @ v \<and> mat r b u (v @ a) \<and> mat s (rev u @ b) v a)"
| "mat (Alt r s) b w a = (mat r b w a \<or> mat s b w a)"
| "mat (Star greedy p) b w a = list_all p w"
| "mat Bol b w a = (w = [] \<and> b = [])"
| "mat Eol b w a = (w = [] \<and> (a = [] \<or> a = [CHR 0x0A]))"
| "mat Wordb b w a = (w = [] \<and> at_word b \<noteq> at_word a)"
| "mat (Grp r) b w a = mat r b w a"

lemma star_ends_iff:
  "(b', a', g') \<in> set (star_ends greedy p b t g) \<longleftrightarrow>
     g' = g \<and> (\<exists>w. t = w @ a' \<and> b' = rev w @ b \<and> list_all p w)"
proof (induction greedy p b t g rule: star_ends.induct)
  case (2 greedy p b c cs g)
  have "(\<exists>w. c # cs = w @ a' \<and> b' = rev w @ b \<and> list_all p w) \<longleftrightarrow>
      (a' = c # cs \<and> b' = b) \<or> (p c \<and> (\<exists>w. cs = w @ a' \<and> b' = rev w @ (c # b) \<and> list_all p w))"
    by (auto simp: Cons_eq_append_conv)
  with 2 show ?case by auto
qed auto

theorem rmatch_iff:
  "(\<exists>g'. (b', a', g') \<in> set (rmatch r (b, t, g))) \<longleftrightarrow> (\<exists>w. t = w @ a' \<and> b' = rev w @ b \<and> mat r b w a')"
proof (induction r arbitrary: b' a' b t g)
  case (Cls p)
  then show ?case by (auto split: list.splits)
next
  case (Sq r s)
  have "(\<exists>g'. (b', a', g') \<in> set (rmatch (Sq r s) (b, t, g))) \<longleftrightarrow>
      (\<exists>b1 a1 g1. (b1, a1, g1) \<in> set (rmatch r (b, t, g)) \<and> (\<exists>g'. (b', a', g') \<in> set (rmatch s (b1, a1, g1))))"
    by (simp add: Bex_def split_paired_Ex) blast
  also have "\<dots> \<longleftrightarrow> (\<exists>b1 a1. (\<exists>g1. (b1, a1, g1) \<in> set (rmatch r (b, t, g))) \<and>
      (\<exists>w. a1 = w @ a' \<and> b' = rev w @ b1 \<and> mat s b1 w a'))"
    unfolding Sq.IH(2) by blast
  also have "\<dots> \<longleftrightarrow> (\<exists>u v. t = u @ v @ a' \<and> b' = rev v @ rev u @ b \<and> mat r b u (v @ a') \<and> mat s (rev u @ b) v a')"
    unfolding Sq.IH(1) by auto
  also have "\<dots> \<longleftrightarrow> (\<exists>w. t = w @ a' \<and> b' = rev w @ b \<and> mat (Sq r s) b w a')"
    unfolding mat.simps by (metis append_assoc rev_append)
  finally show ?case .
next
  case (Alt r s)
  have "(\<exists>g'. (b', a', g') \<in> set (rmatch (Alt r s) (b, t, g))) \<longleftrightarrow>
      (\<exists>g'. (b', a', g') \<in> set (rmatch r (b, t, g))) \<or> (\<exists>g'. (b', a', g') \<in> set (rmatch s (b, t, g)))"
    by auto
  then show ?case unfolding Alt.IH by auto
next
  case (Grp r)
  have "(\<exists>g'. (b', a', g') \<in> set (rmatch (Grp r) (b, t, g))) \<longleftrightarrow> (\<exists>g'. (b', a', g') \<in> set (rmatch r (b, t, g)))"
    by force
  then show ?case unfolding Grp.IH by simp
qed (auto simp: star_ends_iff)

section \<open>What the scans find\<close>

lemma match_at_None: "match_at r b t = None \<longleftrightarrow> \<not> (\<exists>w a. t = w @ a \<and> mat r b w a)"
proof -
  have "match_at r b t = None \<longleftrightarrow> rmatch r (b, t, None) = []"
    by (simp add: match_at_def split: list.splits)
  also have "\<dots> \<longleftrightarrow> \<not> (\<exists>b' a' g'. (b', a', g') \<in> set (rmatch r (b, t, None)))"
    by (cases "rmatch r (b, t, None)") auto
  also have "\<dots> \<longleftrightarrow> \<not> (\<exists>w a. t = w @ a \<and> mat r b w a)"
    using rmatch_iff[of _ _ r b t None] by blast
  finally show ?thesis .
qed

lemma match_at_Some:
  assumes "match_at r b t = Some m"
  shows "t = m_group0 m @ m_rest m" and "mat r b (m_group0 m) (m_rest m)" and "m_before m = rev b"
proof -
  obtain b' a' g rest where h: "rmatch r (b, t, None) = (b', a', g) # rest"
    and m: "m = \<lparr>m_before = rev b, m_group0 = take (length t - length a') t, m_group1 = g, m_rest = a'\<rparr>"
    using assms by (auto simp: match_at_def split: list.splits)
  have "\<exists>g'. (b', a', g') \<in> set (rmatch r (b, t, None))" using h by auto
  then obtain w where w: "t = w @ a'" "mat r b w a'" using rmatch_iff[of b' a' r b t None] by blast
  then show "t = m_group0 m @ m_rest m" "mat r b (m_group0 m) (m_rest m)" "m_before m = rev b"
    by (simp_all add: m)
qed

lemma search_from_None:
  "search_from r b t = None \<longleftrightarrow> \<not> (\<exists>x w y. t = x @ w @ y \<and> mat r (rev x @ b) w y)"
proof (induction r b t rule: search_from.induct)
  case (1 r b)
  then show ?case by (simp add: match_at_None)
next
  case (2 r b c cs)
  have "(\<exists>x w y. c # cs = x @ w @ y \<and> mat r (rev x @ b) w y) \<longleftrightarrow>
      (\<exists>w y. c # cs = w @ y \<and> mat r b w y) \<or> (\<exists>x w y. cs = x @ w @ y \<and> mat r (rev x @ (c # b)) w y)"
    (is "?l \<longleftrightarrow> ?r1 \<or> ?r2")
  proof
    assume ?l
    then obtain x w y where h: "c # cs = x @ w @ y" "mat r (rev x @ b) w y" by blast
    then show "?r1 \<or> ?r2" by (cases x) auto
  next
    assume "?r1 \<or> ?r2"
    then show ?l
    proof
      assume ?r1
      then show ?l by (metis append_Nil rev.simps(1))
    next
      assume ?r2
      then obtain x w y where "cs = x @ w @ y" "mat r (rev (c # x) @ b) w y" by auto
      then show ?l by (metis append_Cons)
    qed
  qed
  then show ?case
    using 2 match_at_None[of r b "c # cs"] by (cases "match_at r b (c # cs)") simp_all
qed

lemma search_iff:
  "search r t \<noteq> None \<longleftrightarrow> (\<exists>x w y. t = x @ w @ y \<and> mat r (rev x) w y)"
  using search_from_None[of r "[]" t] by (simp add: search_def)

section \<open>Languages of the derived forms\<close>

lemma mat_Cls_Sq: "mat (Sq (Cls p) s) b w a \<longleftrightarrow> (\<exists>c v. w = c # v \<and> p c \<and> mat s (c # b) v a)"
proof
  assume "\<exists>c v. w = c # v \<and> p c \<and> mat s (c # b) v a"
  then obtain c v where "w = [c] @ v" "p c" "mat s (rev [c] @ b) v a" by auto
  then show "mat (Sq (Cls p) s) b w a" unfolding mat.simps by blast
qed auto

lemma mat_Str [simp]: "mat (Str s) b w a \<longleftrightarrow> w = s"
  by (induction s arbitrary: b w) auto

lemma mat_StrI [simp]: "mat (StrI s) b w a \<longleftrightarrow> py_lower w = s"
proof (induction s arbitrary: b w)
  case (Cons c s)
  show ?case by (cases w) (auto simp: mat_Cls_Sq Cons py_lower_def simp del: mat.simps(3))
qed (simp add: py_lower_def)

lemma mat_Opt [simp]: "mat (Opt r) b w a \<longleftrightarrow> mat r b w a \<or> w = []"
  by (simp add: Opt_def)

lemma mat_Rep [simp]: "mat (Rep n p) b w a \<longleftrightarrow> n \<le> length w \<and> list_all p w"
proof (induction n arbitrary: b w)
  case 0
  then show ?case by (simp add: Rep.simps)
next
  case (Suc n)
  show ?case by (cases w) (auto simp: Rep.simps[of "Suc n"] mat_Cls_Sq Suc.IH simp del: mat.simps(3))
qed

text \<open>A pattern without anchors matches whatever surrounds the part.\<close>

fun plain :: "regex \<Rightarrow> bool" where
  "plain (Sq r s) = (plain r \<and> plain s)"
| "plain (Alt r s) = (plain r \<and> plain s)"
| "plain (Grp r) = plain r"
| "plain Bol = False"
| "plain Eol = False"
| "plain Wordb = False"
| "plain _ = True"

definition lang :: "regex \<Rightarrow> string \<Rightarrow> bool" where
  "lang r w = mat r [] w []"

lemma plain_mat: "plain r \<Longrightarrow> mat r b w a = mat r b' w a'"
proof (induction r arbitrary: b w a b' a')
  case (Sq r s)
  then have "mat r b u (v @ a) = mat r b' u (v @ a')" "mat s (rev u @ b) v a = mat s (rev u @ b') v a'" for u v
    by (metis plain.simps(1))+
  then show ?case by simp
next
  case (Alt r s)
  then show ?case by (metis mat.simps(4) plain.simps(2))
next
  case (Grp r)
  then show ?case by (metis mat.simps(9) plain.simps(3))
qed simp_all

lemma plain_lang: "plain r \<Longrightarrow> mat r b w a = lang r w"
  unfolding lang_def by (rule plain_mat)

lemma lang_Sq: "plain s \<Longrightarrow> plain r \<Longrightarrow> lang (Sq r s) w \<longleftrightarrow> (\<exists>u v. w = u @ v \<and> lang r u \<and> lang s v)"
  by (simp only: lang_def[of "Sq r s"] mat.simps plain_lang)

lemma plain_Str [simp]: "plain (Str s)" "plain (StrI s)"
  by (induction s) auto

declare Str.simps [simp del] StrI.simps [simp del]

lemma plain_Opt [simp]: "plain (Opt r) = plain r"
  by (simp add: Opt_def)

lemma plain_Rep [simp]: "plain (Rep n p)"
  by (induction n) (simp_all add: Rep.simps)

text \<open>The languages of compound patterns, piece by piece.\<close>

lemma lang_simps:
  "lang Eps w \<longleftrightarrow> w = []"
  "lang (Cls p) w \<longleftrightarrow> (\<exists>c. w = [c] \<and> p c)"
  "lang (Alt r s) w \<longleftrightarrow> lang r w \<or> lang s w"
  "lang (Star greedy p) w \<longleftrightarrow> list_all p w"
  "lang (Grp r) w \<longleftrightarrow> lang r w"
  "lang (Str t) w \<longleftrightarrow> w = t"
  "lang (StrI t) w \<longleftrightarrow> py_lower w = t"
  "lang (Opt r) w \<longleftrightarrow> lang r w \<or> w = []"
  "lang (Rep n p) w \<longleftrightarrow> n \<le> length w \<and> list_all p w"
  by (simp_all add: lang_def)

lemma lang_Str_Sq: "plain r \<Longrightarrow> lang (Sq (Str t) r) w \<longleftrightarrow> (\<exists>v. w = t @ v \<and> lang r v)"
  by (subst lang_Sq) (auto simp: lang_simps)

lemma three_parts:
  "(\<exists>v. w = s1 @ v \<and> (\<exists>a v1. v = a @ v1 \<and> P a \<and> (\<exists>v2. v1 = s2 @ v2 \<and>
      (\<exists>b v3. v2 = b @ v3 \<and> P b \<and> (\<exists>c. v3 = s3 @ c \<and> P c)))))
   \<longleftrightarrow> (\<exists>a b c. w = s1 @ a @ s2 @ b @ s3 @ c \<and> P a \<and> P b \<and> P c)"
  by blast

lemma two_parts:
  "(\<exists>v. w = s1 @ v \<and> (\<exists>k v1. v = k @ v1 \<and> Q k \<and> (\<exists>v2. v1 = s2 @ v2 \<and> P v2)))
   \<longleftrightarrow> (\<exists>k m. Q k \<and> P m \<and> w = s1 @ k @ s2 @ m)"
  by blast

lemma header_parts:
  "(\<exists>k v. k \<in> K \<and> (\<exists>m. v = m @ e) \<and> w = s1 @ k @ s2 @ v) \<longleftrightarrow> (\<exists>h m. h \<in> (\<lambda>k. s1 @ k @ s2) ` K \<and> w = h @ m @ e)"
  by auto

definition occurs :: "regex \<Rightarrow> string \<Rightarrow> bool" where
  "occurs r t = (\<exists>w. lang r w \<and> sublist w t)"

lemma search_occurs: "plain r \<Longrightarrow> search r t \<noteq> None \<longleftrightarrow> occurs r t"
proof -
  assume p: "plain r"
  have "mat r (rev x) w y = lang r w" for x w y by (rule plain_lang[OF p])
  then have "search r t \<noteq> None \<longleftrightarrow> (\<exists>x w y. t = x @ w @ y \<and> lang r w)" by (simp only: search_iff)
  then show ?thesis unfolding occurs_def sublist_def by blast
qed

section \<open>Substitution as a relation\<close>

text \<open>
  For a pattern without anchors that never matches the empty text, \<^verbatim>\<open>sub\<close> copies a character when no
  match starts there and otherwise puts the replacement for a match.
\<close>

inductive substituted :: "regex \<Rightarrow> string \<Rightarrow> string \<Rightarrow> string \<Rightarrow> bool" for r repl where
  sub_nil: "substituted r repl [] []"
| sub_keep: "\<not> (\<exists>w y. c # cs = w @ y \<and> lang r w) \<Longrightarrow> substituted r repl cs out
     \<Longrightarrow> substituted r repl (c # cs) (c # out)"
| sub_hit: "lang r w \<Longrightarrow> substituted r repl y out \<Longrightarrow> substituted r repl (w @ y) (repl @ out)"

definition consuming :: "regex \<Rightarrow> bool" where
  "consuming r = (\<forall>w. lang r w \<longrightarrow> w \<noteq> [])"

lemma substituted_sub_from:
  assumes "plain r" and "consuming r"
  shows "substituted r repl t (sub_from r repl b t)"
proof (induction "length t" arbitrary: b t rule: less_induct)
  case less
  show ?case
  proof (cases "match_at r b t")
    case None
    then have none: "\<not> (\<exists>w y. t = w @ y \<and> lang r w)"
      using assms(1) by (simp add: match_at_None plain_lang)
    show ?thesis
    proof (cases t)
      case Nil
      with None show ?thesis by (simp add: sub_from.simps sub_nil)
    next
      case (Cons c cs)
      with None have "sub_from r repl b t = c # sub_from r repl (c # b) cs"
        by (simp add: sub_from.simps[of r repl b "c # cs"])
      with Cons sub_keep[OF none[unfolded Cons] less[of cs "c # b"]] show ?thesis by simp
    qed
  next
    case (Some m)
    note t = match_at_Some[OF Some]
    then have l: "lang r (m_group0 m)" using assms(1) by (simp add: plain_lang)
    then have "m_group0 m \<noteq> []" using assms(2) by (simp add: consuming_def)
    moreover have "length t = length (m_group0 m) + length (m_rest m)" using t(1) by (metis length_append)
    ultimately have len: "length (m_rest m) < length t" by simp
    then have "sub_from r repl b t = repl @ sub_from r repl (rev (m_group0 m) @ b) (m_rest m)"
      using Some by (simp add: sub_from.simps[of r repl b t])
    with sub_hit[OF l less[OF len]] t(1) show ?thesis by metis
  qed
qed

lemma substituted_sub: "plain r \<Longrightarrow> consuming r \<Longrightarrow> substituted r repl t (sub r repl t)"
  by (simp add: sub_def substituted_sub_from)

lemma substituted_nothing:
  "substituted r repl t out \<Longrightarrow> \<not> occurs r t \<Longrightarrow> out = t"
proof (induction rule: substituted.induct)
  case (sub_keep c cs out)
  then have "\<not> occurs r cs" unfolding occurs_def by (meson sublist_Cons_right)
  with sub_keep show ?case by simp
next
  case (sub_hit w y out)
  then show ?case unfolding occurs_def by (metis sublist_appendI append_Nil)
qed simp

lemma substituted_chars:
  "substituted r repl t out \<Longrightarrow> list_all p t \<Longrightarrow> list_all p repl \<Longrightarrow> list_all p out"
  by (induction rule: substituted.induct) auto

section \<open>Fenced replacements\<close>

text \<open>
  A replacement text between two fence characters that no sensitive part contains. Then whatever
  the output shows of such a part was in the input already, and a pattern whose matches are free of
  the fences is gone from the output.
\<close>

definition unfenced :: "char \<Rightarrow> string \<Rightarrow> char \<Rightarrow> string \<Rightarrow> bool" where
  "unfenced l inner e w = (w \<noteq> [] \<and> l \<notin> set w \<and> e \<notin> set w \<and> \<not> sublist w inner)"

lemma fence_skips:
  assumes "unfenced l inner e w" and "(l # inner @ [e]) @ out = x @ w @ z"
  shows "\<exists>x'. out = x' @ w @ z"
proof -
  obtain x1 where x1: "x = l # x1" "(inner @ [e]) @ out = x1 @ w @ z"
    using assms by (cases x; cases w) (auto simp: unfenced_def)
  then consider us where "inner @ [e] = x1 @ us" "us @ out = w @ z" | us where "out = us @ w @ z"
    using append_eq_append_conv2[of "inner @ [e]" out x1 "w @ z"] by blast
  then show ?thesis
  proof cases
    case 1
    show ?thesis
    proof (cases us rule: rev_cases)
      case Nil
      with 1 show ?thesis by (metis append_Nil)
    next
      case (snoc us' d)
      with 1(1) have us: "inner = x1 @ us'" "us = us' @ [e]" by (auto simp: append_eq_append_conv2)
      from 1(2) consider v where "us = w @ v" | v where "us @ v = w"
        by (auto simp: append_eq_append_conv2)
      then show ?thesis
      proof cases
        case 1
        with us assms(1) show ?thesis
          by (cases v rule: rev_cases) (auto simp: unfenced_def sublist_def)
      next
        case 2
        with us assms(1) show ?thesis by (auto simp: unfenced_def)
      qed
    qed
  qed blast
qed

lemma substituted_prefix:
  "substituted r (l # inner) t out \<Longrightarrow> out = w @ z \<Longrightarrow> l \<notin> set w \<Longrightarrow>
     \<exists>t'. t = w @ t' \<and> substituted r (l # inner) t' z"
proof (induction arbitrary: w rule: substituted.induct)
  case (sub_keep c cs out)
  show ?case
  proof (cases w)
    case Nil
    with substituted.sub_keep[OF sub_keep.hyps(1,2)] sub_keep.prems show ?thesis by simp
  next
    case (Cons d w')
    with sub_keep have "\<exists>t'. cs = w' @ t' \<and> substituted r (l # inner) t' z" by auto
    with Cons sub_keep.prems show ?thesis by auto
  qed
next
  case (sub_hit v y out)
  then have "w = []" by (cases w) auto
  with substituted.sub_hit[OF sub_hit.hyps(1,2)] sub_hit.prems show ?case by simp
qed (auto intro: substituted.intros)

lemma substituted_occurrence:
  assumes "substituted r (l # inner @ [e]) t out" and "unfenced l inner e w" and "sublist w out"
  shows "sublist w t"
  using assms
proof (induction rule: substituted.induct)
  case (sub_keep c cs out)
  then obtain x z where xz: "c # out = x @ w @ z" unfolding sublist_def by blast
  show ?case
  proof (cases x)
    case Nil
    have "l \<notin> set w" using sub_keep.prems(1) by (simp add: unfenced_def)
    with substituted_prefix[OF substituted.sub_keep[OF sub_keep.hyps(1,2)], of w z] Nil xz
    have "\<exists>t'. c # cs = w @ t'" by auto
    then show ?thesis by (metis sublist_append_rightI)
  next
    case (Cons d x')
    with xz have "sublist w out" by (metis append_Cons list.inject sublist_appendI)
    with sub_keep show ?thesis by (simp add: sublist_Cons_right)
  qed
next
  case (sub_hit v y out)
  then obtain x z where "(l # inner @ [e]) @ out = x @ w @ z" unfolding sublist_def by blast
  with fence_skips[OF sub_hit.prems(1)] have "sublist w out" by (metis sublist_appendI)
  with sub_hit have "sublist w y" by blast
  then show ?case by (metis sublist_append)
qed (simp add: unfenced_def)

text \<open>
  The contract of a pattern that such a replacement removes, and what follows from it: \<^verbatim>\<open>sub\<close> leaves no
  match, a second \<^verbatim>\<open>sub\<close> changes nothing, and no other substitution with the same replacement brings a
  match back.
\<close>

locale fenced_pattern =
  fixes r :: regex and l :: char and inner :: string and e :: char
  assumes plain: "plain r"
    and lang_unfenced: "lang r w \<Longrightarrow> unfenced l inner e w"
begin

lemma is_consuming: "consuming r"
  using lang_unfenced by (auto simp: consuming_def unfenced_def)

lemma substituted_none_left:
  "substituted r (l # inner @ [e]) t out \<Longrightarrow> \<not> occurs r out"
proof (induction rule: substituted.induct)
  case sub_nil
  then show ?case using lang_unfenced by (auto simp: occurs_def unfenced_def)
next
  case (sub_keep c cs out)
  show ?case
  proof
    assume "occurs r (c # out)"
    then obtain w x z where w: "lang r w" "c # out = x @ w @ z" unfolding occurs_def sublist_def by blast
    show False
    proof (cases x)
      case Nil
      have "l \<notin> set w" using lang_unfenced[OF w(1)] by (simp add: unfenced_def)
      with substituted_prefix[OF substituted.sub_keep[OF sub_keep.hyps(1,2)], of w z] Nil w
      have "\<exists>t'. c # cs = w @ t'" by auto
      with sub_keep.hyps(1) w(1) show False by blast
    next
      case (Cons d x')
      with w have "sublist w out" by (metis append_Cons list.inject sublist_appendI)
      with sub_keep.IH w(1) show False unfolding occurs_def by blast
    qed
  qed
next
  case (sub_hit v y out)
  show ?case
  proof
    assume "occurs r ((l # inner @ [e]) @ out)"
    then obtain w x z where w: "lang r w" "(l # inner @ [e]) @ out = x @ w @ z"
      unfolding occurs_def sublist_def by blast
    with fence_skips[OF lang_unfenced[OF w(1)] w(2)] sub_hit.IH show False
      unfolding occurs_def sublist_def by blast
  qed
qed

lemma sub_none_left: "\<not> occurs r (sub r (l # inner @ [e]) t)"
  using substituted_none_left substituted_sub[OF plain is_consuming] by blast

lemma sub_keeps_none:
  assumes "plain q" and "consuming q" and "\<not> occurs r t"
  shows "\<not> occurs r (sub q (l # inner @ [e]) t)"
proof
  assume "occurs r (sub q (l # inner @ [e]) t)"
  then obtain w where "lang r w" "sublist w (sub q (l # inner @ [e]) t)" unfolding occurs_def by blast
  with substituted_occurrence[OF substituted_sub[OF assms(1,2)] lang_unfenced] have "occurs r t"
    unfolding occurs_def by blast
  with assms(3) show False by blast
qed

lemma sub_none: "\<not> occurs r t \<Longrightarrow> sub r (l # inner @ [e]) t = t"
  using substituted_nothing[OF substituted_sub[OF plain is_consuming]] by blast

end

end
