(* ===== verification/Py_Datetime.thy ===== *)
theory Py_Datetime
  imports Prelude
begin

text \<open>
  The part of Python's \<^verbatim>\<open>datetime\<close> that approval tokens and audit records use: aware and naive
  date-times, addition of seconds, \<^verbatim>\<open>isoformat\<close>, \<^verbatim>\<open>fromisoformat\<close> and comparison, after the
  reference implementation of CPython 3.12 (\<^verbatim>\<open>Lib/_pydatetime.py\<close>; numeric fields of a parsed
  text are plain ASCII digits, as in the C accelerator).

  A date-time is the number of microseconds of its wall-clock reading since 0001-01-01T00:00 and,
  when aware, its offset from UTC in microseconds. The main theorem is the round trip
  \<^verbatim>\<open>fromisoformat(d.isoformat()) == d\<close> for UTC date-times.
\<close>

record datetime =
  dt_wall :: int
  dt_offset :: "int option"

abbreviation us_per_second :: int where "us_per_second \<equiv> 1000000"
abbreviation us_per_day :: int where "us_per_day \<equiv> 86400000000"

section \<open>The proleptic Gregorian calendar\<close>

definition is_leap :: "nat \<Rightarrow> bool" where
  "is_leap y = (y mod 4 = 0 \<and> (y mod 100 \<noteq> 0 \<or> y mod 400 = 0))"

definition days_before_year :: "nat \<Rightarrow> nat" where
  "days_before_year year = (let y = year - 1 in y * 365 + y div 4 - y div 100 + y div 400)"

definition month_lengths :: "nat list" where
  "month_lengths = [0, 31, 28, 31, 30, 31, 30, 31, 31, 30, 31, 30, 31]"

definition month_starts :: "nat list" where
  "month_starts = [0, 0, 31, 59, 90, 120, 151, 181, 212, 243, 273, 304, 334]"

definition days_in_month :: "bool \<Rightarrow> nat \<Rightarrow> nat" where
  "days_in_month leap month = (if month = 2 \<and> leap then 29 else month_lengths ! month)"

definition days_before_month :: "bool \<Rightarrow> nat \<Rightarrow> nat" where
  "days_before_month leap month = month_starts ! month + (if 2 < month \<and> leap then 1 else 0)"

definition ymd2ord :: "nat \<Rightarrow> nat \<Rightarrow> nat \<Rightarrow> nat" where
  "ymd2ord y m d = days_before_year y + days_before_month (is_leap y) m + d"

text \<open>Month and day of the zero-based day \<^term>\<open>n\<close> of a year: an estimate, corrected by one.\<close>

definition month_day :: "bool \<Rightarrow> nat \<Rightarrow> nat \<times> nat" where
  "month_day leap n =
    (let month = (n + 50) div 32; preceding = days_before_month leap month
     in if n < preceding
        then (month - 1, n - (preceding - days_in_month leap (month - 1)) + 1)
        else (month, n - preceding + 1))"

definition ord2ymd :: "nat \<Rightarrow> nat \<times> nat \<times> nat" where
  "ord2ymd n =
    (let a = (n - 1) div 146097; b = (n - 1) mod 146097;
         c = b div 36524; d = b mod 36524;
         e = d div 1461; f = d mod 1461;
         g = f div 365; h = f mod 365;
         year = a * 400 + 1 + c * 100 + e * 4 + g
     in if g = 4 \<or> c = 4 then (year - 1, 12, 31)
        else (year, month_day (g = 3 \<and> (e \<noteq> 24 \<or> c = 3)) h))"

definition max_ordinal :: nat where
  "max_ordinal = 3652059"

section \<open>Rendering\<close>

definition format_time :: "int \<Rightarrow> string" where
  "format_time t =
    (let us = nat (t mod us_per_second); s = nat (t div us_per_second)
     in fixed_digits 2 (s div 3600) @ '':'' @ fixed_digits 2 (s div 60 mod 60) @ '':''
        @ fixed_digits 2 (s mod 60) @ (if us = 0 then [] else ''.'' @ fixed_digits 6 us))"

definition format_offset :: "int option \<Rightarrow> string" where
  "format_offset off =
    (case off of None \<Rightarrow> []
     | Some o' \<Rightarrow>
         (let a = \<bar>o'\<bar>; us = nat (a mod us_per_second); s = nat (a div us_per_second)
          in (if o' < 0 then ''-'' else ''+'') @ fixed_digits 2 (s div 3600) @ '':''
             @ fixed_digits 2 (s div 60 mod 60)
             @ (if s mod 60 = 0 \<and> us = 0 then []
                else '':'' @ fixed_digits 2 (s mod 60)
                  @ (if us = 0 then [] else ''.'' @ fixed_digits 6 us))))"

definition isoformat :: "datetime \<Rightarrow> string" where
  "isoformat dt =
    (case ord2ymd (nat (dt_wall dt div us_per_day) + 1) of (y, m, d) \<Rightarrow>
       fixed_digits 4 y @ ''-'' @ fixed_digits 2 m @ ''-'' @ fixed_digits 2 d @ ''T''
       @ format_time (dt_wall dt mod us_per_day) @ format_offset (dt_offset dt))"

section \<open>Parsing\<close>

text \<open>Where the date ends: 7, 8 or 10 characters, depending on the calendar notation.\<close>

definition find_separator :: "string \<Rightarrow> nat option" where
  "find_separator s = (let n = length s in
     if n = 7 then Some 7
     else if s ! 4 = CHR ''-'' then
       (if s ! 5 = CHR ''W'' then
          (if 8 < n \<and> s ! 8 = CHR ''-'' then
             (if n = 9 then None
              else if 10 < n \<and> ascii_digit (s ! 10) then Some 8 else Some 10)
           else Some 8)
        else Some 10)
     else if s ! 4 = CHR ''W'' then
       (let idx = 7 + length (takeWhile ascii_digit (drop 7 s))
        in if idx < 9 then Some idx else if even idx then Some 7 else Some 8)
     else Some 8)"

definition isoweek1monday :: "nat \<Rightarrow> int" where
  "isoweek1monday year =
    (let firstday = int (ymd2ord year 1 1); firstweekday = (firstday + 6) mod 7;
         week1monday = firstday - firstweekday
     in if 3 < firstweekday then week1monday + 7 else week1monday)"

definition isoweek_ordinal :: "nat \<Rightarrow> nat \<Rightarrow> nat \<Rightarrow> int option" where
  "isoweek_ordinal year week day =
    (let first = ymd2ord year 1 1 mod 7;
         week_ok = ((1 \<le> week \<and> week \<le> 52) \<or>
           (week = 53 \<and> (first = 4 \<or> (first = 3 \<and> is_leap year))))
     in if 1 \<le> year \<and> year \<le> 9999 \<and> week_ok \<and> 1 \<le> day \<and> day \<le> 7
        then Some (isoweek1monday year + (int week - 1) * 7 + (int day - 1)) else None)"

definition ordinal_ok :: "int \<Rightarrow> int option" where
  "ordinal_ok n = (if 1 \<le> n \<and> n \<le> int max_ordinal then Some n else None)"

definition parse_date :: "string \<Rightarrow> int option" where
  "parse_date s =
    (case parse_fixed 4 (take 4 s) of None \<Rightarrow> None
     | Some year \<Rightarrow>
        (let has_sep = (s ! 4 = CHR ''-''); pos = (if has_sep then 5 else 4); k = (if has_sep then 1 else 0)
         in if take 1 (drop pos s) = ''W'' then
              (case parse_fixed 2 (take 2 (drop (pos + 1) s)) of None \<Rightarrow> None
               | Some week \<Rightarrow>
                  (if length s \<le> pos + 3 then Option.bind (isoweek_ordinal year week 1) ordinal_ok
                   else if (s ! (pos + 3) = CHR ''-'') \<noteq> has_sep then None
                   else (case parse_fixed 1 (take 1 (drop (pos + 3 + k) s)) of None \<Rightarrow> None
                         | Some day \<Rightarrow> Option.bind (isoweek_ordinal year week day) ordinal_ok)))
            else
              (case parse_fixed 2 (take 2 (drop pos s)) of None \<Rightarrow> None
               | Some month \<Rightarrow>
                  (if (take 1 (drop (pos + 2) s) = ''-'') \<noteq> has_sep then None
                   else (case parse_fixed 2 (take 2 (drop (pos + 2 + k) s)) of None \<Rightarrow> None
                         | Some day \<Rightarrow>
                            (if 1 \<le> year \<and> 1 \<le> month \<and> month \<le> 12 \<and> 1 \<le> day
                                \<and> day \<le> days_in_month (is_leap year) month
                             then Some (int (ymd2ord year month day)) else None))))))"

text \<open>\<^verbatim>\<open>HH[:MM[:SS]]\<close> (or without colons): the components read and the unread rest.\<close>

function parse_hms :: "nat \<Rightarrow> bool \<Rightarrow> string \<Rightarrow> (nat list \<times> string) option" where
  "parse_hms part sep s =
    (case parse_fixed 2 (take 2 s) of None \<Rightarrow> None
     | Some v \<Rightarrow>
        (let r = drop 2 s; sep' = (if part = 0 then take 1 r = '':'' else sep)
         in if r = [] \<or> 2 \<le> part then Some ([v], r)
            else if sep' \<and> hd r \<noteq> CHR '':'' then None
            else map_option (\<lambda>(vs, r'). (v # vs, r'))
                   (parse_hms (part + 1) sep' (if sep' then tl r else r))))"
  by pat_completeness auto
termination by (relation "measure (\<lambda>(part, sep, s). 3 - part)") auto

declare parse_hms.simps [simp del]

definition parse_fraction :: "string \<Rightarrow> nat option" where
  "parse_fraction r =
    (if r = [] then Some 0
     else if hd r \<noteq> CHR ''.'' \<and> hd r \<noteq> CHR '','' then None
     else (let f = tl r; n = min 6 (length f)
           in if n = 0 \<or> \<not> list_all ascii_digit (drop n f) then None
              else map_option (\<lambda>v. v * 10 ^ (6 - n)) (parse_fixed n (take n f))))"

text \<open>A clock reading or an offset, as a list of components and microseconds.\<close>

definition parse_clock :: "string \<Rightarrow> (nat list \<times> nat) option" where
  "parse_clock s =
    (case parse_hms 0 False s of None \<Rightarrow> None
     | Some (vs, r) \<Rightarrow> map_option (\<lambda>us. (vs, us)) (parse_fraction r))"

definition comp_at :: "nat list \<Rightarrow> nat \<Rightarrow> nat" where
  "comp_at vs i = (if i < length vs then vs ! i else 0)"

definition clock_us :: "nat list \<times> nat \<Rightarrow> int" where
  "clock_us c = (case c of (vs, us) \<Rightarrow>
     int ((comp_at vs 0 * 60 + comp_at vs 1) * 60 + comp_at vs 2) * us_per_second + int us)"

definition clock_ok :: "nat list \<times> nat \<Rightarrow> bool" where
  "clock_ok c = (case c of (vs, us) \<Rightarrow> comp_at vs 0 < 24 \<and> comp_at vs 1 < 60 \<and> comp_at vs 2 < 60)"

fun py_find :: "char \<Rightarrow> string \<Rightarrow> nat option" where
  "py_find c [] = None"
| "py_find c (x # xs) = (if x = c then Some 0 else map_option Suc (py_find c xs))"

definition find_tz :: "string \<Rightarrow> nat option" where
  "find_tz s = (case py_find CHR ''-'' s of Some i \<Rightarrow> Some i
     | None \<Rightarrow> (case py_find CHR ''+'' s of Some i \<Rightarrow> Some i | None \<Rightarrow> py_find CHR ''Z'' s))"

definition parse_offset :: "bool \<Rightarrow> string \<Rightarrow> int option" where
  "parse_offset negative s =
    (if length s \<in> {0, 1, 3} then None
     else case parse_clock s of None \<Rightarrow> None
       | Some c \<Rightarrow> (if clock_us c < us_per_day
                    then Some (if negative then - clock_us c else clock_us c) else None))"

text \<open>The time of day in microseconds and the offset, if any.\<close>

definition parse_time :: "string \<Rightarrow> (int \<times> int option) option" where
  "parse_time s =
    (if length s < 2 then None
     else (let tz = find_tz s;
               clock = parse_clock (case tz of None \<Rightarrow> s | Some i \<Rightarrow> take i s)
           in case clock of None \<Rightarrow> None
              | Some c \<Rightarrow>
                  (if \<not> clock_ok c then None
                   else case tz of None \<Rightarrow> Some (clock_us c, None)
                     | Some i \<Rightarrow>
                         (if i + 1 = length s \<and> s ! i = CHR ''Z'' then Some (clock_us c, Some 0)
                          else map_option (\<lambda>z. (clock_us c, Some z))
                                 (parse_offset (s ! i = CHR ''-'') (drop (i + 1) s))))))"

definition parse_iso :: "string \<Rightarrow> datetime option" where
  "parse_iso s =
    (if length s < 7 then None
     else case find_separator s of None \<Rightarrow> None
       | Some k \<Rightarrow>
          (case parse_date (take k s) of None \<Rightarrow> None
           | Some n \<Rightarrow>
              (let tstr = drop (k + 1) s; base = (n - 1) * us_per_day
               in if tstr = [] then Some \<lparr>dt_wall = base, dt_offset = None\<rparr>
                  else map_option (\<lambda>(t, off). \<lparr>dt_wall = base + t, dt_offset = off\<rparr>) (parse_time tstr))))"

definition fromisoformat :: "string \<Rightarrow> datetime result" where
  "fromisoformat s = (case parse_iso s of Some d \<Rightarrow> Inr d
     | None \<Rightarrow> Inl (ValueError ''Invalid isoformat string''))"

section \<open>Arithmetic and comparison\<close>

definition valid_wall :: "int \<Rightarrow> bool" where
  "valid_wall w = (0 \<le> w \<and> w < int max_ordinal * us_per_day)"

text \<open>\<^verbatim>\<open>d + timedelta(seconds=n)\<close>: raises OverflowError outside the years 1 to 9999.\<close>

definition add_seconds :: "datetime \<Rightarrow> int \<Rightarrow> datetime result" where
  "add_seconds dt n =
    (let w = dt_wall dt + n * us_per_second
     in if valid_wall w then Inr (dt\<lparr>dt_wall := w\<rparr>) else Inl (OverflowError ''date value out of range''))"

text \<open>
  \<^verbatim>\<open>a > b\<close>: two aware (or two naive) values compare by their instants; mixing an aware and a naive
  value raises TypeError.
\<close>

definition dt_greater :: "datetime \<Rightarrow> datetime \<Rightarrow> bool result" where
  "dt_greater a b =
    (case (dt_offset a, dt_offset b) of
       (Some x, Some y) \<Rightarrow> Inr (dt_wall b - y < dt_wall a - x)
     | (None, None) \<Rightarrow> Inr (dt_wall b < dt_wall a)
     | _ \<Rightarrow> Inl (TypeError ''can't compare offset-naive and offset-aware datetimes''))"

definition utc :: "datetime \<Rightarrow> bool" where
  "utc dt = (dt_offset dt = Some 0 \<and> valid_wall (dt_wall dt))"

section \<open>The calendar is consistent\<close>

lemmas calendar_tables = days_in_month_def days_before_month_def month_starts_def month_lengths_def

lemma month_day_ok:
  assumes n: "n < (if leap then 366 else 365)" and md: "month_day leap n = (m, d)"
  shows "1 \<le> m \<and> m \<le> 12 \<and> 1 \<le> d \<and> d \<le> days_in_month leap m \<and> days_before_month leap m + d = n + 1"
proof -
  define q where "q = (n + 50) div 32"
  have q: "32 * q \<le> n + 50" "n + 50 < 32 * q + 32" unfolding q_def by simp_all
  from n have "n < 366" by (auto split: if_splits)
  with q have "1 \<le> q" "q \<le> 12" by linarith+
  then have "q = 1 \<or> q = 2 \<or> q = 3 \<or> q = 4 \<or> q = 5 \<or> q = 6 \<or> q = 7 \<or> q = 8 \<or> q = 9 \<or> q = 10 \<or> q = 11 \<or> q = 12"
    by arith
  moreover from md have "(if n < days_before_month leap q
        then (q - 1, n - (days_before_month leap q - days_in_month leap (q - 1)) + 1)
        else (q, n - days_before_month leap q + 1)) = (m, d)"
    unfolding month_day_def Let_def q_def .
  ultimately show ?thesis using q n
    by (elim disjE; cases leap) (auto simp: calendar_tables split: if_splits)
qed

lemma days_before_year_cycles:
  assumes "c < 4" and "e < 25" and "g < 4"
  shows "days_before_year (a * 400 + 1 + c * 100 + e * 4 + g) = a * 146097 + c * 36524 + e * 1461 + g * 365"
proof -
  define y where "y = a * 400 + c * 100 + e * 4 + g"
  have "y div 4 = a * 100 + c * 25 + e" using assms unfolding y_def by linarith
  moreover have "y div 100 = a * 4 + c" using assms unfolding y_def by linarith
  moreover have "y div 400 = a" using assms unfolding y_def by linarith
  moreover have "a * 400 + 1 + c * 100 + e * 4 + g - 1 = y" by (simp add: y_def)
  ultimately have "days_before_year (a * 400 + 1 + c * 100 + e * 4 + g) =
      y * 365 + (a * 100 + c * 25 + e) - (a * 4 + c) + a"
    unfolding days_before_year_def Let_def by simp
  then show ?thesis by (simp add: y_def)
qed

lemma is_leap_cycles:
  assumes "c < 4" and "e < 25" and "g < 4"
  shows "is_leap (a * 400 + 1 + c * 100 + e * 4 + g) \<longleftrightarrow> g = 3 \<and> (e \<noteq> 24 \<or> c = 3)"
proof -
  define y where "y = a * 400 + 1 + c * 100 + e * 4 + g"
  have "y mod 4 = (g + 1 + 4 * (a * 100 + c * 25 + e)) mod 4" by (simp add: y_def algebra_simps)
  also have "\<dots> = (g + 1) mod 4" by (rule mod_mult_self2)
  finally have m4: "y mod 4 = 0 \<longleftrightarrow> g = 3" using assms(3) by presburger
  have "y mod 100 = (e * 4 + g + 1 + 100 * (a * 4 + c)) mod 100" by (simp add: y_def algebra_simps)
  also have "\<dots> = (e * 4 + g + 1) mod 100" by (rule mod_mult_self2)
  also have "\<dots> = 0 \<longleftrightarrow> e * 4 + g + 1 = 100" using assms(2,3) by (cases "e * 4 + g + 1 = 100") auto
  also have "\<dots> \<longleftrightarrow> e = 24 \<and> g = 3" using assms(2,3) by presburger
  finally have m100: "y mod 100 = 0 \<longleftrightarrow> e = 24 \<and> g = 3" .
  have "y mod 400 = (c * 100 + e * 4 + g + 1 + 400 * a) mod 400" by (simp add: y_def algebra_simps)
  also have "\<dots> = (c * 100 + e * 4 + g + 1) mod 400" by (rule mod_mult_self2)
  also have "\<dots> = 0 \<longleftrightarrow> c * 100 + e * 4 + g + 1 = 400" using assms
    by (cases "c * 100 + e * 4 + g + 1 = 400") auto
  also have "\<dots> \<longleftrightarrow> c = 3 \<and> e = 24 \<and> g = 3" using assms by presburger
  finally have m400: "y mod 400 = 0 \<longleftrightarrow> c = 3 \<and> e = 24 \<and> g = 3" .
  show ?thesis unfolding is_leap_def y_def[symmetric] m4 m100 m400 by auto
qed

text \<open>The conversion from ordinals to dates is inverse to the one from dates to ordinals.\<close>

definition valid_date :: "nat \<Rightarrow> nat \<Rightarrow> nat \<Rightarrow> bool" where
  "valid_date y m d = (1 \<le> y \<and> y \<le> 9999 \<and> 1 \<le> m \<and> m \<le> 12 \<and> 1 \<le> d \<and> d \<le> days_in_month (is_leap y) m)"

lemma ord2ymd_cycles:
  fixes a :: nat
  assumes "c < 4" and "e < 25" and "g < 4" and h: "h < (if g = 3 \<and> (e \<noteq> 24 \<or> c = 3) then 366 else 365)"
    and md: "month_day (g = 3 \<and> (e \<noteq> 24 \<or> c = 3)) h = (m, d)"
  defines "y \<equiv> a * 400 + 1 + c * 100 + e * 4 + g"
  shows "ymd2ord y m d = a * 146097 + c * 36524 + e * 1461 + g * 365 + h + 1
    \<and> 1 \<le> m \<and> m \<le> 12 \<and> 1 \<le> d \<and> d \<le> days_in_month (is_leap y) m"
proof -
  have leap: "is_leap y \<longleftrightarrow> g = 3 \<and> (e \<noteq> 24 \<or> c = 3)"
    unfolding y_def by (rule is_leap_cycles[OF assms(1-3)])
  have dby: "days_before_year y = a * 146097 + c * 36524 + e * 1461 + g * 365"
    unfolding y_def by (rule days_before_year_cycles[OF assms(1-3)])
  from month_day_ok[OF h md] show ?thesis
    unfolding ymd2ord_def leap dby by simp
qed

lemma dec31: "month_day True 365 = (12, 31)"
  by (simp add: month_day_def calendar_tables)

lemma ord2ymd_ok:
  assumes n: "1 \<le> n" "n \<le> max_ordinal" and ymd: "ord2ymd n = (y, m, d)"
  shows "valid_date y m d \<and> ymd2ord y m d = n"
proof -
  define a where "a = (n - 1) div 146097"
  define b where "b = (n - 1) mod 146097"
  define c where "c = b div 36524"
  define k where "k = b mod 36524"
  define e where "e = k div 1461"
  define f where "f = k mod 1461"
  define g where "g = f div 365"
  define h where "h = f mod 365"
  have 1: "n - 1 = a * 146097 + b" "b < 146097" unfolding a_def b_def by simp_all
  have 2: "b = c * 36524 + k" "k < 36524" unfolding c_def k_def by simp_all
  have 3: "k = e * 1461 + f" "f < 1461" unfolding e_def f_def by simp_all
  have 4: "f = g * 365 + h" "h < 365" unfolding g_def h_def by simp_all
  have bounds: "c \<le> 4" "e < 25" "g \<le> 4" using 1 2 3 4 by linarith+
  have a24: "a \<le> 24" using 1(1) n by (simp add: max_ordinal_def)
  have res: "(y, m, d) = (if g = 4 \<or> c = 4 then (a * 400 + 1 + c * 100 + e * 4 + g - 1, 12, 31)
      else (a * 400 + 1 + c * 100 + e * 4 + g, month_day (g = 3 \<and> (e \<noteq> 24 \<or> c = 3)) h))"
    using ymd unfolding ord2ymd_def Let_def a_def b_def c_def k_def e_def f_def g_def h_def by simp
  have nn: "n = a * 146097 + c * 36524 + e * 1461 + g * 365 + h + 1" using 1 2 3 4 n by linarith
  consider (last100) "c = 4" | (last4) "c < 4" "g = 4" | (plain) "c < 4" "g < 4" using bounds by linarith
  then show ?thesis
  proof cases
    case last100
    with 1 2 3 4 have z: "k = 0" "e = 0" "f = 0" "g = 0" "h = 0" by linarith+
    with last100 res have ymd: "y = a * 400 + 1 + 3 * 100 + 24 * 4 + 3" "m = 12" "d = 31" by simp_all
    have "ymd2ord y 12 31 = a * 146097 + 3 * 36524 + 24 * 1461 + 3 * 365 + 365 + 1 \<and> 31 \<le> days_in_month (is_leap y) 12"
      using ord2ymd_cycles[of 3 24 3 365 12 31 a] dec31 unfolding ymd by simp
    moreover have "a \<le> 23" using nn n last100 z by (simp add: max_ordinal_def)
    ultimately show ?thesis using nn z last100 by (simp add: valid_date_def ymd)
  next
    case last4
    with 4 3 2 have z: "h = 0" "e < 24" by linarith+
    with last4 res have ymd: "y = a * 400 + 1 + c * 100 + e * 4 + 3" "m = 12" "d = 31" by simp_all
    have "ymd2ord y 12 31 = a * 146097 + c * 36524 + e * 1461 + 3 * 365 + 365 + 1 \<and> 31 \<le> days_in_month (is_leap y) 12"
      using ord2ymd_cycles[of c e 3 365 12 31 a] dec31 last4 z unfolding ymd by simp
    moreover have "y \<le> 9999" using ymd a24 last4 z nn n by (simp add: max_ordinal_def)
    ultimately show ?thesis using nn z last4 by (simp add: valid_date_def ymd)
  next
    case plain
    with res have y: "y = a * 400 + 1 + c * 100 + e * 4 + g"
      and md: "month_day (g = 3 \<and> (e \<noteq> 24 \<or> c = 3)) h = (m, d)" by auto
    have "h < (if g = 3 \<and> (e \<noteq> 24 \<or> c = 3) then 366 else 365)" using 4(2) by simp
    from ord2ymd_cycles[OF plain(1) bounds(2) plain(2) this md, of a]
    have "ymd2ord y m d = n \<and> 1 \<le> m \<and> m \<le> 12 \<and> 1 \<le> d \<and> d \<le> days_in_month (is_leap y) m"
      unfolding y nn .
    moreover have "y \<le> 9999" using y a24 plain bounds nn n by (simp add: max_ordinal_def)
    ultimately show ?thesis by (simp add: valid_date_def y)
  qed
qed

section \<open>Round trip of UTC date-times\<close>

lemma digit_not_mark:
  "ascii_digit c \<Longrightarrow> c \<noteq> CHR ''-'' \<and> c \<noteq> CHR ''W'' \<and> c \<noteq> CHR ''+'' \<and> c \<noteq> CHR ''Z'' \<and> c \<noteq> CHR '':'' \<and> c \<noteq> CHR ''.''"
  by (auto simp: ascii_digit_def ord_def)

lemma fixed2E:
  assumes "n < 100"
  obtains a b where "fixed_digits 2 n = [a, b]" and "ascii_digit a" and "ascii_digit b"
    and "parse_fixed 2 [a, b] = Some n"
proof -
  obtain a b where ab: "fixed_digits 2 n = [a, b]"
    using length_fixed_digits[of 2 n] by (auto simp: length_Suc_conv numeral_eq_Suc simp del: length_fixed_digits)
  with fixed_digits_ascii[of 2 n] parse_fixed_digits[of n 2] assms that show thesis by simp
qed

lemma fixed4E:
  assumes "n < 10000"
  obtains a b c d where "fixed_digits 4 n = [a, b, c, d]" and "parse_fixed 4 [a, b, c, d] = Some n"
    and "ascii_digit a" "ascii_digit b" "ascii_digit c" "ascii_digit d"
proof -
  obtain a b c d where ab: "fixed_digits 4 n = [a, b, c, d]"
    using length_fixed_digits[of 4 n] by (auto simp: length_Suc_conv numeral_eq_Suc simp del: length_fixed_digits)
  with fixed_digits_ascii[of 4 n] parse_fixed_digits[of n 4] assms that show thesis by simp
qed

lemma parse_date_iso:
  assumes "1 \<le> y" "y < 10000" "1 \<le> m" "m \<le> 12" "1 \<le> d" "d \<le> days_in_month (is_leap y) m" "d < 100"
  shows "parse_date (fixed_digits 4 y @ ''-'' @ fixed_digits 2 m @ ''-'' @ fixed_digits 2 d) = Some (int (ymd2ord y m d))"
proof -
  have "m < 100" using assms by simp
  obtain y1 y2 y3 y4 where Y: "fixed_digits 4 y = [y1, y2, y3, y4]" "parse_fixed 4 [y1, y2, y3, y4] = Some y"
    "ascii_digit y1" "ascii_digit y2" "ascii_digit y3" "ascii_digit y4"
    by (rule fixed4E[OF assms(2)])
  obtain m1 m2 where M: "fixed_digits 2 m = [m1, m2]" "ascii_digit m1" "parse_fixed 2 [m1, m2] = Some m"
    using fixed2E[OF \<open>m < 100\<close>] by metis
  obtain d1 d2 where D: "fixed_digits 2 d = [d1, d2]" "parse_fixed 2 [d1, d2] = Some d"
    using fixed2E[OF assms(7)] by metis
  show ?thesis using assms digit_not_mark[OF M(2)]
    by (simp add: Y M D parse_date_def Let_def)
qed

lemma find_separator_iso:
  assumes "y < 10000" "m < 100"
  shows "find_separator (fixed_digits 4 y @ ''-'' @ fixed_digits 2 m @ ''-'' @ fixed_digits 2 d @ ''T'' @ t) = Some 10"
proof -
  obtain y1 y2 y3 y4 where Y: "fixed_digits 4 y = [y1, y2, y3, y4]" "parse_fixed 4 [y1, y2, y3, y4] = Some y"
    "ascii_digit y1" "ascii_digit y2" "ascii_digit y3" "ascii_digit y4"
    by (rule fixed4E[OF assms(1)])
  obtain m1 m2 where M: "fixed_digits 2 m = [m1, m2]" "ascii_digit m1" using fixed2E[OF assms(2)] by metis
  show ?thesis using digit_not_mark[OF M(2)] by (simp add: find_separator_def Y M Let_def)
qed

lemma parse_hms_iso:
  assumes "hh < 100" "mm < 100" "ss < 100"
  shows "parse_hms 0 False (fixed_digits 2 hh @ '':'' @ fixed_digits 2 mm @ '':'' @ fixed_digits 2 ss @ r) = Some ([hh, mm, ss], r)"
proof -
  obtain h1 h2 where H: "fixed_digits 2 hh = [h1, h2]" "parse_fixed 2 [h1, h2] = Some hh" using fixed2E[OF assms(1)] by metis
  obtain m1 m2 where M: "fixed_digits 2 mm = [m1, m2]" "parse_fixed 2 [m1, m2] = Some mm" using fixed2E[OF assms(2)] by metis
  obtain s1 s2 where S: "fixed_digits 2 ss = [s1, s2]" "parse_fixed 2 [s1, s2] = Some ss" using fixed2E[OF assms(3)] by metis
  show ?thesis
    by (simp add: H M S parse_hms.simps)
qed

lemma parse_fraction_iso:
  assumes "us < 1000000"
  shows "parse_fraction (if us = 0 then [] else ''.'' @ fixed_digits 6 us) = Some us"
  using assms parse_fixed_digits[of us 6] by (simp add: parse_fraction_def Let_def)

lemma parse_clock_iso:
  assumes "0 \<le> t" and "t < us_per_day"
  shows "\<exists>c. parse_clock (format_time t) = Some c \<and> clock_us c = t \<and> clock_ok c"
proof -
  define us where "us = nat (t mod us_per_second)"
  define s where "s = nat (t div us_per_second)"
  have "s < 86400" using assms unfolding s_def by auto
  then have lt: "s div 3600 < 24" "s div 60 mod 60 < 60" "s mod 60 < 60" by auto
  have us: "us < 1000000" unfolding us_def using pos_mod_bound[of us_per_second t] by linarith
  have hms: "(s div 3600 * 60 + s div 60 mod 60) * 60 + s mod 60 = s"
  proof -
    have "s div 3600 = s div 60 div 60" by (simp add: div_mult2_eq[symmetric])
    then show ?thesis by simp
  qed
  have "clock_us ([s div 3600, s div 60 mod 60, s mod 60], us) =
      int ((s div 3600 * 60 + s div 60 mod 60) * 60 + s mod 60) * us_per_second + int us"
    by (simp add: clock_us_def comp_at_def)
  also have "\<dots> = int s * us_per_second + int us" unfolding hms ..
  also have "\<dots> = t" using assms by (simp add: s_def us_def pos_imp_zdiv_nonneg_iff)
  finally have cu: "clock_us ([s div 3600, s div 60 mod 60, s mod 60], us) = t" .
  have "parse_clock (format_time t) = Some ([s div 3600, s div 60 mod 60, s mod 60], us)"
    using parse_hms_iso[of "s div 3600" "s div 60 mod 60" "s mod 60"] parse_fraction_iso[OF us] lt
    unfolding parse_clock_def format_time_def Let_def us_def[symmetric] s_def[symmetric] by simp
  moreover have "clock_ok ([s div 3600, s div 60 mod 60, s mod 60], us)" using lt by (simp add: clock_ok_def comp_at_def)
  ultimately show ?thesis using cu by blast
qed


lemma py_find_none: "\<forall>x \<in> set s. x \<noteq> c \<Longrightarrow> py_find c (s @ r) = map_option (\<lambda>i. length s + i) (py_find c r)"
  by (cases "py_find c r"; induction s) auto

lemma format_time_chars: "\<forall>x \<in> set (format_time t). x \<noteq> CHR ''-'' \<and> x \<noteq> CHR ''+''"
proof -
  have "\<forall>x \<in> set (fixed_digits k n). x \<noteq> CHR ''-'' \<and> x \<noteq> CHR ''+''" for k n
    using fixed_digits_ascii[of k n] digit_not_mark by (auto simp: list_all_iff)
  then show ?thesis by (auto simp: format_time_def Let_def)
qed

lemma find_tz_iso: "find_tz (format_time t @ ''+00:00'') = Some (length (format_time t))"
  using format_time_chars[of t] by (simp add: find_tz_def py_find_none)

lemma parse_offset_zero: "parse_offset False ''00:00'' = Some 0"
  by (simp add: parse_offset_def parse_clock_def parse_hms.simps parse_fixed_def ascii_digit_def ord_def
      digits_val_def digit_val_def parse_fraction_def clock_us_def comp_at_def)

lemma parse_time_iso:
  assumes "0 \<le> t" and "t < us_per_day"
  shows "parse_time (format_time t @ ''+00:00'') = Some (t, Some 0)"
proof -
  obtain c where c: "parse_clock (format_time t) = Some c" "clock_us c = t" "clock_ok c"
    using parse_clock_iso[OF assms] by blast
  show ?thesis
    unfolding parse_time_def find_tz_iso Let_def by (simp add: c parse_offset_zero)
qed

lemma fixed_digits_00: "fixed_digits 2 0 = ''00''"
  by code_simp

theorem fromisoformat_isoformat:
  assumes "utc dt"
  shows "fromisoformat (isoformat dt) = Inr dt"
proof -
  define n where "n = nat (dt_wall dt div us_per_day) + 1"
  define t where "t = dt_wall dt mod us_per_day"
  obtain y m d where ymd: "ord2ymd n = (y, m, d)" by (cases "ord2ymd n") auto
  have w: "0 \<le> dt_wall dt" "dt_wall dt < int max_ordinal * us_per_day"
    and off: "dt_offset dt = Some 0" using assms by (auto simp: utc_def valid_wall_def)
  have t: "0 \<le> t" "t < us_per_day" by (simp_all add: t_def)
  have n: "1 \<le> n" "n \<le> max_ordinal" using w by (auto simp: n_def max_ordinal_def)
  from ord2ymd_ok[OF n ymd] have v: "valid_date y m d" and ord: "ymd2ord y m d = n" by auto
  have "days_in_month l k \<le> 31" if "k \<le> 12" for l k
    using that by (auto simp: days_in_month_def month_lengths_def nth_Cons split: nat.splits)
  with v have d: "d \<le> 31" unfolding valid_date_def by (meson le_trans)
  have iso: "isoformat dt = (fixed_digits 4 y @ ''-'' @ fixed_digits 2 m @ ''-'' @ fixed_digits 2 d @ ''T''
      @ (format_time t @ ''+00:00''))"
    using ymd off by (simp add: isoformat_def n_def t_def format_offset_def fixed_digits_00)
  have date: "parse_date (fixed_digits 4 y @ ''-'' @ fixed_digits 2 m @ ''-'' @ fixed_digits 2 d) = Some (int n)"
    using parse_date_iso[of y m d] v d unfolding valid_date_def ord by simp
  have sep: "find_separator (isoformat dt) = Some 10"
    unfolding iso using v by (intro find_separator_iso) (auto simp: valid_date_def)
  have tk: "take 10 (isoformat dt) = fixed_digits 4 y @ ''-'' @ fixed_digits 2 m @ ''-'' @ fixed_digits 2 d"
    and dr: "drop 11 (isoformat dt) = format_time t @ ''+00:00''" and len: "7 \<le> length (isoformat dt)"
    unfolding iso by simp_all
  have "(int n - 1) * us_per_day + t = dt_wall dt"
    using w by (simp add: n_def t_def pos_imp_zdiv_nonneg_iff)
  then have "parse_iso (isoformat dt) = Some dt"
    unfolding parse_iso_def sep using len tk date dr parse_time_iso[OF t] off by (simp add: Let_def)
  then show ?thesis by (simp add: fromisoformat_def)
qed

end
