(* ===== verification/Config.thy ===== *)
theory Config
  imports Py_Host Agent_Core Audit_Log
begin

text \<open>
  \<^verbatim>\<open>config.py\<close>: the configuration read from the environment, its validation before the API starts,
  and the error details an HTTP client may see; with \<^verbatim>\<open>create_llm_adapter_from_config\<close> of
  \<^verbatim>\<open>llm_adapter.py\<close>. The environment, the files and the place of the package (\<^verbatim>\<open>repo_root\<close>) are
  arguments.
\<close>

section \<open>Reading the environment\<close>

datatype EnvironmentMode = LOCAL | TEST | PRODUCTION

fun EnvironmentMode_value :: "EnvironmentMode \<Rightarrow> string" where
  "EnvironmentMode_value LOCAL = ''local''"
| "EnvironmentMode_value TEST = ''test''"
| "EnvironmentMode_value PRODUCTION = ''production''"

text \<open>\<^verbatim>\<open>EnvironmentMode(raw)\<close> and \<^verbatim>\<open>LLMAdapterMode(raw)\<close>: the member with that value.\<close>

definition enum_of :: "('a \<Rightarrow> string) \<Rightarrow> 'a list \<Rightarrow> string \<Rightarrow> 'a option" where
  "enum_of value_of members raw = find (\<lambda>m. value_of m = raw) members"

definition env_bool :: "environ \<Rightarrow> string \<Rightarrow> bool \<Rightarrow> bool" where
  "env_bool env name d =
    (case env name of None \<Rightarrow> d
     | Some raw \<Rightarrow> py_lower (py_strip raw) \<in> set [''1'', ''true'', ''yes'', ''on''])"

definition env_int :: "environ \<Rightarrow> string \<Rightarrow> int \<Rightarrow> int result" where
  "env_int env name d =
    (case env name of None \<Rightarrow> Inr d
     | Some raw \<Rightarrow> (case py_int raw of
         None \<Rightarrow> Inl (ConfigurationError (''invalid integer for '' @ name)) | Some i \<Rightarrow> Inr i))"

definition parse_origins :: "string option \<Rightarrow> string list \<Rightarrow> string list" where
  "parse_origins raw d =
    (case raw of None \<Rightarrow> d
     | Some s \<Rightarrow> if py_strip s = [] then d
                 else map py_strip (filter (\<lambda>part. py_strip part \<noteq> []) (py_split (CHR '','') s)))"

definition load_api_keys :: "host \<Rightarrow> path option \<Rightarrow> string option \<Rightarrow> string set result" where
  "load_api_keys h keys_file inline_key =
    (let inline = (case inline_key of Some k \<Rightarrow> if py_strip k \<noteq> [] then {py_strip k} else {} | None \<Rightarrow> {})
     in case keys_file of
          None \<Rightarrow> Inr inline
        | Some p \<Rightarrow>
            if \<not> is_file h p then Inl (ConfigurationError (''API keys file not found: '' @ path_name p))
            else bind_result (read_text h p) (\<lambda>content.
              Inr (inline \<union> set (filter (\<lambda>s. s \<noteq> [] \<and> \<not> py_startswith s ''#'')
                                   (map py_strip (splitlines_from [] content))))))"

section \<open>The configuration\<close>

record AppConfig =
  cf_environment_mode :: EnvironmentMode
  cf_require_api_auth :: bool
  cf_allowed_api_keys_file :: "path option"
  cf_allowed_origins :: "string list"
  cf_max_request_body_bytes :: int
  cf_audit_log_dir :: path
  cf_audit_retention_days :: int
  cf_enable_strict_provenance :: bool
  cf_provenance_hmac_key_file :: "path option"
  cf_require_approval_token :: bool
  cf_enable_rate_limit_guidance :: bool
  cf_enable_debug_errors :: bool
  cf_allow_live_external_tools :: bool
  cf_allow_shell_tools :: bool
  cf_llm_adapter_mode :: LLMAdapterMode
  cf_allow_live_llm_calls :: bool
  cf_llm_provider_name :: "string option"
  cf_llm_model_name :: "string option"
  cf_policy_path :: path
  cf_api_keys :: "string set"

text \<open>One check of \<^verbatim>\<open>validate\<close>: the message is appended when the condition holds.\<close>

definition err :: "bool \<Rightarrow> string \<Rightarrow> string list" where
  "err cond msg = (if cond then [msg] else [])"

definition production_errors :: "host \<Rightarrow> AppConfig \<Rightarrow> string list" where
  "production_errors h cfg =
    err (\<not> cf_require_api_auth cfg) ''production requires API authentication''
    @ err (cf_api_keys cfg = {}) ''production requires at least one API key''
    @ err (cf_allowed_origins cfg = []) ''production requires explicit allowed_origins''
    @ err (''*'' \<in> set (cf_allowed_origins cfg)) ''production disallows wildcard CORS origins''
    @ err (cf_enable_debug_errors cfg) ''production disallows debug error responses''
    @ err (cf_enable_strict_provenance cfg \<and> cf_provenance_hmac_key_file cfg = None)
        ''production strict provenance requires provenance_hmac_key_file''
    @ (case cf_provenance_hmac_key_file cfg of
         Some p \<Rightarrow> err (cf_enable_strict_provenance cfg \<and> \<not> is_file h p)
                     (''provenance key file not found: '' @ path_name p)
       | None \<Rightarrow> [])"

definition validation_errors :: "host \<Rightarrow> AppConfig \<Rightarrow> string list" where
  "validation_errors h cfg =
    err (cf_max_request_body_bytes cfg < 1024) ''max_request_body_bytes must be at least 1024''
    @ err (cf_max_request_body_bytes cfg > 10485760) ''max_request_body_bytes must not exceed 10485760''
    @ err (cf_audit_retention_days cfg < 1) ''audit_retention_days must be at least 1''
    @ err (cf_audit_retention_days cfg > 3650) ''audit_retention_days must not exceed 3650''
    @ err (\<not> is_file h (cf_policy_path cfg)) (''policy file not found: '' @ path_name (cf_policy_path cfg))
    @ err (cf_allow_live_external_tools cfg) ''allow_live_external_tools must remain disabled''
    @ err (cf_allow_shell_tools cfg) ''allow_shell_tools must remain disabled''
    @ err (cf_allow_live_llm_calls cfg) ''live LLM calls are not implemented; keep allow_live_llm_calls false''
    @ (if cf_environment_mode cfg = PRODUCTION then production_errors h cfg else [])
    @ err (cf_require_api_auth cfg \<and> cf_api_keys cfg = {}) ''require_api_auth is set but no API keys are configured''"

definition validate_config :: "host \<Rightarrow> AppConfig \<Rightarrow> unit result" where
  "validate_config h cfg =
    (let errors = validation_errors h cfg
     in if errors \<noteq> [] then Inl (ConfigurationError (py_join ''; '' errors)) else Inr ())"

definition load_provenance_hmac_key :: "host \<Rightarrow> AppConfig \<Rightarrow> string option result" where
  "load_provenance_hmac_key h cfg =
    (case cf_provenance_hmac_key_file cfg of
       None \<Rightarrow> Inr None
     | Some p \<Rightarrow> bind_result (read_bytes h p) (\<lambda>raw.
         if raw = [] then Inl (ConfigurationError (''provenance key file is empty: '' @ path_name p))
         else Inr (Some raw)))"

section \<open>Loading\<close>

text \<open>\<^verbatim>\<open>Path(raw).expanduser() if raw else None\<close>.\<close>

definition optional_path :: "host \<Rightarrow> environ \<Rightarrow> string option \<Rightarrow> path option result" where
  "optional_path h env raw =
    (case raw of
       Some s \<Rightarrow> if s \<noteq> [] then bind_result (expanduser h env (mk_path s)) (\<lambda>p. Inr (Some p)) else Inr None
     | None \<Rightarrow> Inr None)"

text \<open>\<^verbatim>\<open>raw.strip() if raw else None\<close>.\<close>

definition optional_name :: "string option \<Rightarrow> string option" where
  "optional_name raw = (case raw of Some s \<Rightarrow> if s \<noteq> [] then Some (py_strip s) else None | None \<Rightarrow> None)"

definition default_origins :: "EnvironmentMode \<Rightarrow> string list" where
  "default_origins mode =
    (case mode of LOCAL \<Rightarrow> [''http://127.0.0.1:8080'', ''http://localhost:8080'']
     | TEST \<Rightarrow> [''http://127.0.0.1:8080''] | PRODUCTION \<Rightarrow> [])"

text \<open>The second half of the loader: the adapter mode, the numbers and the record.\<close>

definition settings_from_env ::
  "environ \<Rightarrow> EnvironmentMode \<Rightarrow> path option \<Rightarrow> path \<Rightarrow> path \<Rightarrow> path option \<Rightarrow> string set \<Rightarrow> AppConfig result" where
  "settings_from_env env mode keys_file policy_path audit_log_dir provenance_key_file api_keys =
    (let adapter_mode_raw = py_lower (py_strip (env_get env ''ACP_LLM_ADAPTER_MODE'' ''simulated''))
     in case enum_of LLMAdapterMode_value [SIMULATED, DISABLED_EXTERNAL] adapter_mode_raw of
          None \<Rightarrow> Inl (ConfigurationError (''invalid ACP_LLM_ADAPTER_MODE: '' @ adapter_mode_raw))
        | Some llm_adapter_mode \<Rightarrow>
          bind_result (env_int env ''ACP_MAX_REQUEST_BODY_BYTES'' 1048576) (\<lambda>max_request_body_bytes.
          bind_result (env_int env ''ACP_AUDIT_RETENTION_DAYS'' 90) (\<lambda>audit_retention_days.
          Inr \<lparr>cf_environment_mode = mode,
               cf_require_api_auth = env_bool env ''ACP_REQUIRE_API_AUTH'' (mode = PRODUCTION),
               cf_allowed_api_keys_file = keys_file,
               cf_allowed_origins = parse_origins (env ''ACP_ALLOWED_ORIGINS'') (default_origins mode),
               cf_max_request_body_bytes = max_request_body_bytes,
               cf_audit_log_dir = audit_log_dir,
               cf_audit_retention_days = audit_retention_days,
               cf_enable_strict_provenance = env_bool env ''ACP_ENABLE_STRICT_PROVENANCE'' False,
               cf_provenance_hmac_key_file = provenance_key_file,
               cf_require_approval_token = env_bool env ''ACP_REQUIRE_APPROVAL_TOKEN'' False,
               cf_enable_rate_limit_guidance = env_bool env ''ACP_ENABLE_RATE_LIMIT_GUIDANCE'' True,
               cf_enable_debug_errors = env_bool env ''ACP_ENABLE_DEBUG_ERRORS'' (mode \<noteq> PRODUCTION),
               cf_allow_live_external_tools = env_bool env ''ACP_ALLOW_LIVE_EXTERNAL_TOOLS'' False,
               cf_allow_shell_tools = env_bool env ''ACP_ALLOW_SHELL_TOOLS'' False,
               cf_llm_adapter_mode = llm_adapter_mode,
               cf_allow_live_llm_calls = env_bool env ''ACP_ALLOW_LIVE_LLM_CALLS'' False,
               cf_llm_provider_name = optional_name (env ''ACP_LLM_PROVIDER_NAME''),
               cf_llm_model_name = optional_name (env ''ACP_LLM_MODEL_NAME''),
               cf_policy_path = policy_path,
               cf_api_keys = api_keys\<rparr>)))"

definition load_config_from_env :: "host \<Rightarrow> path \<Rightarrow> environ \<Rightarrow> AppConfig result" where
  "load_config_from_env h repo_root env =
    (let mode_raw = py_lower (py_strip (env_get env ''ACP_ENVIRONMENT'' ''local''));
         default_policy = path_str (path_join (path_join repo_root ''policies'') ''default.yaml'');
         default_audit_dir = path_str (path_join repo_root ''audit_logs'')
     in case enum_of EnvironmentMode_value [LOCAL, TEST, PRODUCTION] mode_raw of
          None \<Rightarrow> Inl (ConfigurationError (''invalid ACP_ENVIRONMENT: '' @ mode_raw))
        | Some mode \<Rightarrow>
          bind_result (optional_path h env (env ''ACP_ALLOWED_API_KEYS_FILE'')) (\<lambda>keys_file.
          bind_result (expanduser h env (mk_path (env_get env ''ACP_POLICY_PATH''
            (env_get env ''POLICY_PATH'' default_policy)))) (\<lambda>policy_path.
          bind_result (expanduser h env (mk_path (env_get env ''ACP_AUDIT_LOG_DIR'' default_audit_dir))) (\<lambda>audit_log_dir.
          bind_result (optional_path h env (env ''ACP_PROVENANCE_HMAC_KEY_FILE'')) (\<lambda>provenance_key_file.
          bind_result (load_api_keys h keys_file (env ''ACP_API_KEY'')) (\<lambda>api_keys.
            settings_from_env env mode keys_file policy_path audit_log_dir provenance_key_file api_keys))))))"

section \<open>Use of the configuration\<close>

text \<open>An exception is known by its text and the name of its type.\<close>

definition production_error_detail :: "AppConfig \<Rightarrow> string \<Rightarrow> string \<Rightarrow> (string \<times> string) list" where
  "production_error_detail cfg exc_text exc_type =
    (if cf_enable_debug_errors cfg then [(''detail'', exc_text), (''error_type'', exc_type)]
     else [(''detail'', ''internal_error'')])"

definition create_llm_adapter_from_config :: "AppConfig option \<Rightarrow> LLMAdapter" where
  "create_llm_adapter_from_config config =
    (case config of
       None \<Rightarrow> SimulatedLLMAdapter
     | Some cfg \<Rightarrow> create_llm_adapter (cf_llm_adapter_mode cfg) (cf_llm_provider_name cfg) (cf_llm_model_name cfg))"

text \<open>The first two lines of \<^verbatim>\<open>create_app\<close>: load, then validate.\<close>

definition configure :: "host \<Rightarrow> path \<Rightarrow> environ \<Rightarrow> AppConfig result" where
  "configure h repo_root env =
    bind_result (load_config_from_env h repo_root env) (\<lambda>cfg.
      bind_result (validate_config h cfg) (\<lambda>_. Inr cfg))"

section \<open>What validation admits\<close>

lemma err_Nil [simp]: "err c m = [] \<longleftrightarrow> \<not> c"
  by (simp add: err_def)

lemma validate_config_ok: "validate_config h cfg = Inr () \<longleftrightarrow> validation_errors h cfg = []"
  by (simp add: validate_config_def Let_def)

lemma validate_config_fails:
  "validate_config h cfg = Inl e \<Longrightarrow> e = ConfigurationError (py_join ''; '' (validation_errors h cfg))"
  by (simp add: validate_config_def Let_def split: if_splits)

definition production_ready :: "host \<Rightarrow> AppConfig \<Rightarrow> bool" where
  "production_ready h cfg =
    (cf_require_api_auth cfg \<and> cf_api_keys cfg \<noteq> {} \<and> cf_allowed_origins cfg \<noteq> []
     \<and> ''*'' \<notin> set (cf_allowed_origins cfg) \<and> \<not> cf_enable_debug_errors cfg
     \<and> (cf_enable_strict_provenance cfg \<longrightarrow> (\<exists>p. cf_provenance_hmac_key_file cfg = Some p \<and> is_file h p)))"

definition deployable :: "host \<Rightarrow> AppConfig \<Rightarrow> bool" where
  "deployable h cfg =
    (1024 \<le> cf_max_request_body_bytes cfg \<and> cf_max_request_body_bytes cfg \<le> 10485760
     \<and> 1 \<le> cf_audit_retention_days cfg \<and> cf_audit_retention_days cfg \<le> 3650
     \<and> is_file h (cf_policy_path cfg)
     \<and> \<not> cf_allow_live_external_tools cfg \<and> \<not> cf_allow_shell_tools cfg \<and> \<not> cf_allow_live_llm_calls cfg
     \<and> (cf_require_api_auth cfg \<longrightarrow> cf_api_keys cfg \<noteq> {})
     \<and> (cf_environment_mode cfg = PRODUCTION \<longrightarrow> production_ready h cfg))"

lemma production_errors_Nil: "production_errors h cfg = [] \<longleftrightarrow> production_ready h cfg"
  by (auto simp: production_errors_def production_ready_def split: option.splits)

lemma validate_config_deployable: "validate_config h cfg = Inr () \<longleftrightarrow> deployable h cfg"
  unfolding validate_config_ok validation_errors_def deployable_def
  by (auto simp: not_less production_errors_Nil)

text \<open>
  C32. Validation accepts a configuration exactly when it is deployable: the request body limit lies
  between 1024 and 10485760 bytes and the audit retention between 1 and 3650 days, the policy file
  exists, live tools, shell tools and live model calls are off, demanded authentication has a key,
  and in production authentication, explicit origins without a wildcard, hidden error details and
  (under strict provenance) an existing key file are mandatory.
\<close>

theorem validation_admits_exactly_deployable:
  "validate_config h cfg = Inr () \<longleftrightarrow> deployable h cfg"
  by (rule validate_config_deployable)

section \<open>Where the settings of a production deployment come from\<close>

lemma load_api_keys_stripped:
  assumes "load_api_keys h keys_file inline = Inr keys" and "k \<in> keys"
  shows "k \<noteq> [] \<and> (\<exists>s. k = py_strip s)"
  using assms
  by (auto simp: load_api_keys_def Let_def monad_simps split: option.splits if_splits)

lemma parse_origins_part:
  assumes "o' \<in> set (parse_origins (Some raw) [])"
  shows "o' \<noteq> [] \<and> (\<exists>part \<in> set (py_split (CHR '','') raw). o' = py_strip part)"
  using assms by (auto simp: parse_origins_def split: if_splits)

lemma load_config_fields:
  assumes "load_config_from_env h root env = Inr cfg"
  shows "cf_allowed_origins cfg = parse_origins (env ''ACP_ALLOWED_ORIGINS'') (default_origins (cf_environment_mode cfg))"
    and "load_api_keys h (cf_allowed_api_keys_file cfg) (env ''ACP_API_KEY'') = Inr (cf_api_keys cfg)"
    and "enum_of EnvironmentMode_value [LOCAL, TEST, PRODUCTION] (py_lower (py_strip (env_get env ''ACP_ENVIRONMENT'' ''local'')))
           = Some (cf_environment_mode cfg)"
  using assms
  by (auto simp: load_config_from_env_def settings_from_env_def Let_def monad_simps split: option.splits)

lemma optional_path_wf: "optional_path h env raw = Inr (Some p) \<Longrightarrow> wf_path p"
  by (auto simp: optional_path_def monad_simps split: option.splits if_splits intro: expanduser_wf[OF wf_mk_path])


text \<open>
  C18. A production deployment never runs on defaults: when a configuration loads from the environment
  in production mode and passes validation, the origins were listed in \<^verbatim>\<open>ACP_ALLOWED_ORIGINS\<close>, each of
  them a trimmed, non-empty part of that list and none of them the wildcard; there is an API key, and
  every key is a trimmed non-empty text; authentication is required and error details are hidden.
\<close>

theorem production_settings_are_explicit:
  assumes "load_config_from_env h repo_root env = Inr cfg" and "validate_config h cfg = Inr ()"
    and "cf_environment_mode cfg = PRODUCTION"
  shows "(\<exists>raw. env ''ACP_ALLOWED_ORIGINS'' = Some raw \<and> cf_allowed_origins cfg \<noteq> []
            \<and> (\<forall>origin \<in> set (cf_allowed_origins cfg). origin \<noteq> [] \<and> origin \<noteq> ''*''
                 \<and> (\<exists>part \<in> set (py_split (CHR '','') raw). origin = py_strip part)))
         \<and> cf_api_keys cfg \<noteq> {} \<and> (\<forall>key \<in> cf_api_keys cfg. key \<noteq> [] \<and> (\<exists>s. key = py_strip s))
         \<and> cf_require_api_auth cfg \<and> \<not> cf_enable_debug_errors cfg"
proof -
  from assms(2,3) have ready: "production_ready h cfg"
    by (simp add: validate_config_ok validation_errors_def production_errors_Nil)
  note fields = load_config_fields[OF assms(1)]
  from fields(1) assms(3)
  have origins: "cf_allowed_origins cfg = parse_origins (env ''ACP_ALLOWED_ORIGINS'') []" by (simp add: default_origins_def)
  with ready obtain raw where raw: "env ''ACP_ALLOWED_ORIGINS'' = Some raw"
    by (cases "env ''ACP_ALLOWED_ORIGINS''") (auto simp: production_ready_def parse_origins_def)
  have "origin \<noteq> [] \<and> origin \<noteq> ''*'' \<and> (\<exists>part \<in> set (py_split (CHR '','') raw). origin = py_strip part)"
    if "origin \<in> set (cf_allowed_origins cfg)" for origin
    using that parse_origins_part[of origin raw] origins raw ready by (metis production_ready_def)
  moreover have "key \<noteq> [] \<and> (\<exists>s. key = py_strip s)" if "key \<in> cf_api_keys cfg" for key
    using load_api_keys_stripped[OF fields(2) that] .
  ultimately show ?thesis using raw ready by (simp add: production_ready_def)
qed

section \<open>Configuration errors and secrets\<close>

lemma home_text_cong:
  "h_home h = h_home h' \<Longrightarrow> env ''HOME'' = env' ''HOME'' \<Longrightarrow> home_text h env = home_text h' env'"
  by (intro ext) (simp only: home_text_def Let_def)

lemma expanduser_cong:
  "h_home h = h_home h' \<Longrightarrow> env ''HOME'' = env' ''HOME'' \<Longrightarrow> expanduser h env p = expanduser h' env' p"
  using home_text_cong[of h h' env env'] by (simp add: expanduser_def)

lemma optional_path_cong:
  "h_home h = h_home h' \<Longrightarrow> env ''HOME'' = env' ''HOME'' \<Longrightarrow> optional_path h env raw = optional_path h' env' raw"
  by (simp add: optional_path_def expanduser_cong[of h h' env env'] split: option.splits)

lemma load_api_keys_related:
  assumes "\<And>p. is_file h' p = is_file h p" and "py_strip k \<noteq> []" and "py_strip k' \<noteq> []"
  obtains e where "load_api_keys h keys_file (Some k) = Inl e" and "load_api_keys h' keys_file (Some k') = Inl e"
  | ks ks' where "load_api_keys h keys_file (Some k) = Inr ks" and "load_api_keys h' keys_file (Some k') = Inr ks'"
      and "ks \<noteq> {}" and "ks' \<noteq> {}"
proof (cases "keys_file")
  case None
  with assms that(2) show thesis by (auto simp: load_api_keys_def)
next
  case (Some p)
  show thesis
  proof (cases "is_file h p")
    case True
    with assms(1) obtain f f' where "h_file h p = Some f" and "h_file h' p = Some f'"
      by (metis is_file_def not_None_eq)
    with Some assms that(2) show thesis by (auto simp: load_api_keys_def read_text_def is_file_def)
  next
    case False
    with Some assms that(1) show thesis by (auto simp: load_api_keys_def)
  qed
qed

lemma settings_keys:
  "settings_from_env env mode kf pp al pk ks' =
     map_sum id (\<lambda>cfg. cfg\<lparr>cf_api_keys := ks'\<rparr>) (settings_from_env env mode kf pp al pk ks)"
  by (simp add: settings_from_env_def bind_result_def Let_def split: option.split sum.split)

lemma settings_api_keys: "settings_from_env env mode kf pp al pk ks = Inr cfg \<Longrightarrow> cf_api_keys cfg = ks"
  by (auto simp: settings_from_env_def monad_simps Let_def split: option.splits)

text \<open>Two results agree when they are the same error, or configurations that differ in their keys only.\<close>

definition agree :: "AppConfig result \<Rightarrow> AppConfig result \<Rightarrow> bool" where
  "agree r r' = ((\<exists>e. r = Inl e \<and> r' = Inl e)
     \<or> (\<exists>cfg ks. r = Inr cfg \<and> cf_api_keys cfg \<noteq> {} \<and> ks \<noteq> {} \<and> r' = Inr (cfg\<lparr>cf_api_keys := ks\<rparr>)))"

lemma agree_error [intro]: "agree (Inl e) (Inl e)"
  by (simp add: agree_def)

lemma agree_bind: "(\<And>a. agree (f a) (g a)) \<Longrightarrow> agree (bind_result r f) (bind_result r g)"
  by (cases r) (auto simp: agree_def)

lemma agree_settings:
  assumes "ks \<noteq> {}" and "ks' \<noteq> {}"
  shows "agree (settings_from_env env m kf pp al pk ks) (settings_from_env env m kf pp al pk ks')"
  using settings_keys[of env m kf pp al pk ks' ks] settings_api_keys[of env m kf pp al pk ks] assms
  by (cases "settings_from_env env m kf pp al pk ks") (auto simp: agree_def)

lemma agree_keys:
  assumes "\<And>p. is_file h' p = is_file h p" and "py_strip k \<noteq> []" and "py_strip k' \<noteq> []"
  shows "agree (bind_result (load_api_keys h kf (Some k)) (settings_from_env env m kf pp al pk))
               (bind_result (load_api_keys h' kf (Some k')) (settings_from_env env m kf pp al pk))"
  by (rule load_api_keys_related[OF assms, of kf]) (auto intro: agree_settings)

lemma load_config_agree:
  assumes files: "\<And>p. is_file h' p = is_file h p" and home: "h_home h' = h_home h"
    and k: "py_strip k \<noteq> []" and k': "py_strip k' \<noteq> []"
    and keys: "e1 ''ACP_API_KEY'' = Some k" "e2 ''ACP_API_KEY'' = Some k'"
    and same: "\<And>x. x \<noteq> ''ACP_API_KEY'' \<Longrightarrow> e2 x = e1 x"
  shows "agree (load_config_from_env h root e1) (load_config_from_env h' root e2)"
proof -
  have paths: "expanduser h' e2 p = expanduser h e1 p" "optional_path h' e2 raw = optional_path h e1 raw" for p raw
    by (rule expanduser_cong optional_path_cong; simp add: home same)+
  have settings: "settings_from_env e2 = settings_from_env e1"
    by (intro ext)
      (simp add: settings_from_env_def env_get_def env_bool_def env_int_def same Let_def cong: option.case_cong)
  have get: "env_get e2 x d = env_get e1 x d" if "x \<noteq> ''ACP_API_KEY''" for x d
    using that by (simp add: env_get_def same)
  show ?thesis
    unfolding load_config_from_env_def Let_def
    by (simp add: get same paths keys settings split: option.split)
      (intro allI impI agree_bind agree_error agree_keys[OF files k k'] conjI)
qed

lemma validation_errors_keys:
  assumes "\<And>p. is_file h' p = is_file h p" and "cf_api_keys cfg \<noteq> {}" and "ks \<noteq> {}"
  shows "validation_errors h' (cfg\<lparr>cf_api_keys := ks\<rparr>) = validation_errors h cfg"
  using assms by (simp add: validation_errors_def production_errors_def cong: option.case_cong)


text \<open>
  The local demo starts without any setting: with an empty environment and the policy file of an
  absolute repository in place, loading and validating gives a local configuration with the
  simulated adapter, no API key, a body limit of 1048576 bytes and every dangerous switch off.
\<close>

theorem local_demo_configures:
  assumes "wf_path repo_root" and "p_root repo_root \<noteq> []"
    and "is_file h (path_join (path_join repo_root ''policies'') ''default.yaml'')"
  shows "\<exists>cfg. configure h repo_root Map.empty = Inr cfg \<and> cf_environment_mode cfg = LOCAL
           \<and> cf_llm_adapter_mode cfg = SIMULATED \<and> cf_api_keys cfg = {} \<and> \<not> cf_require_api_auth cfg
           \<and> cf_max_request_body_bytes cfg = 1048576 \<and> \<not> cf_allow_shell_tools cfg
           \<and> \<not> cf_allow_live_external_tools cfg \<and> \<not> cf_allow_live_llm_calls cfg
           \<and> cf_policy_path cfg = path_join (path_join repo_root ''policies'') ''default.yaml''"
proof -
  let ?policy = "path_join (path_join repo_root ''policies'') ''default.yaml''" and ?logs = "path_join repo_root ''audit_logs''"
  have "wf_path ?policy" and "wf_path ?logs" using assms(1) by (simp_all add: wf_path_def path_join_def)
  moreover have "expanduser h env ?policy = Inr ?policy" and "expanduser h env ?logs = Inr ?logs" for env
    using assms(2) by (simp_all add: expanduser_def path_join_def)
  ultimately have "load_config_from_env h repo_root Map.empty = settings_from_env Map.empty LOCAL None ?policy ?logs None {}"
    by (simp add: load_config_from_env_def env_get_def optional_path_def load_api_keys_def mk_path_path_str
        enum_of_def py_lower_def py_strip_def py_lstrip_def py_rstrip_def py_isspace_def py_lower_char_def
        ascii_upper_def ord_def)
  with assms(3) show ?thesis
    by (simp add: configure_def settings_from_env_def env_get_def env_int_def env_bool_def validate_config_def
        validation_errors_def err_def enum_of_def py_lower_def py_strip_def py_lstrip_def py_rstrip_def py_isspace_def
        py_lower_char_def ascii_upper_def ord_def)
qed

section \<open>A concrete deployment\<close>

definition sample_root :: path where
  "sample_root = mk_path ''/srv/lab''"

definition sample_host :: "string \<Rightarrow> host" where
  "sample_host keys =
    \<lparr>h_file = (\<lambda>p. if path_str p \<in> set [''/srv/lab/policies/default.yaml'', ''/run/keys'']
                 then Some \<lparr>hf_text = keys, hf_bytes = keys\<rparr> else None),
     h_home = (\<lambda>_. None)\<rparr>"

definition sample_production :: environ where
  "sample_production =
    [''ACP_ENVIRONMENT'' \<mapsto> '' Production '', ''ACP_ALLOWED_API_KEYS_FILE'' \<mapsto> ''/run/keys'',
     ''ACP_ALLOWED_ORIGINS'' \<mapsto> ''https://a.example, ,https://b.example '']"

definition sample_production_config :: AppConfig where
  "sample_production_config =
    \<lparr>cf_environment_mode = PRODUCTION, cf_require_api_auth = True,
     cf_allowed_api_keys_file = Some (mk_path ''/run/keys''),
     cf_allowed_origins = [''https://a.example'', ''https://b.example''],
     cf_max_request_body_bytes = 1048576, cf_audit_log_dir = mk_path ''/srv/lab/audit_logs'',
     cf_audit_retention_days = 90, cf_enable_strict_provenance = False, cf_provenance_hmac_key_file = None,
     cf_require_approval_token = False, cf_enable_rate_limit_guidance = True, cf_enable_debug_errors = False,
     cf_allow_live_external_tools = False, cf_allow_shell_tools = False, cf_llm_adapter_mode = SIMULATED,
     cf_allow_live_llm_calls = False, cf_llm_provider_name = None, cf_llm_model_name = None,
     cf_policy_path = mk_path ''/srv/lab/policies/default.yaml'', cf_api_keys = {''k1''}\<rparr>"

definition sample_keys :: string where
  "sample_keys = ''# keys'' @ [CHR 0x0A] @ '' k1 ''"

lemma sample_production_loads:
  "load_config_from_env (sample_host sample_keys) sample_root sample_production = Inr sample_production_config"
  by code_simp

lemma sample_production_valid: "validate_config (sample_host sample_keys) sample_production_config = Inr ()"
  by code_simp


theorem production_settings_are_explicit_witness:
  "load_config_from_env (sample_host sample_keys) sample_root sample_production = Inr sample_production_config
   \<and> validate_config (sample_host sample_keys) sample_production_config = Inr ()
   \<and> cf_environment_mode sample_production_config = PRODUCTION
   \<and> (\<exists>raw. sample_production ''ACP_ALLOWED_ORIGINS'' = Some raw
        \<and> (\<forall>origin \<in> set (cf_allowed_origins sample_production_config). origin \<noteq> ''*''))
   \<and> cf_api_keys sample_production_config \<noteq> {}"
proof -
  have "cf_environment_mode sample_production_config = PRODUCTION" by (simp add: sample_production_config_def)
  with production_settings_are_explicit[OF sample_production_loads sample_production_valid]
    sample_production_loads sample_production_valid show ?thesis by blast
qed

lemma sample_host_files: "is_file (sample_host ks) p = is_file (sample_host ks') p"
  by (simp add: is_file_def sample_host_def)

definition sample_bad_env :: "string \<Rightarrow> environ" where
  "sample_bad_env key = [''ACP_ENVIRONMENT'' \<mapsto> ''production'', ''ACP_MAX_REQUEST_BODY_BYTES'' \<mapsto> ''12'', ''ACP_API_KEY'' \<mapsto> key]"


theorem local_demo_configures_witness:
  "wf_path sample_root \<and> p_root sample_root \<noteq> []
   \<and> (\<exists>cfg. configure (sample_host sample_keys) sample_root Map.empty = Inr cfg \<and> cf_environment_mode cfg = LOCAL)"
proof -
  have "is_file (sample_host sample_keys) (path_join (path_join sample_root ''policies'') ''default.yaml'')" by code_simp
  moreover have "wf_path sample_root" and "p_root sample_root \<noteq> []"
    by (simp add: sample_root_def, code_simp)
  ultimately show ?thesis using local_demo_configures[of sample_root "sample_host sample_keys"] by blast
qed

end
