(* ===== verification/Schemas.thy ===== *)
theory Schemas
  imports Models
begin

text \<open>
  \<^verbatim>\<open>schemas.py\<close>: the argument schemas of the five tools and the structural validation of a tool
  call. The checking of a value against a pydantic model is the package's code, not the
  repository's: it is the parameter \<open>model_validate\<close>, which gives the list of error types that
  \<^verbatim>\<open>ValidationError.errors()\<close> would report (empty: the arguments are valid). What the repository
  relies on is stated as \<open>pydantic_checks\<close>, the documented meaning of the field types in use;
  \<open>model_validate_ref\<close> is one function with that meaning.
\<close>

section \<open>Schemas as data\<close>

datatype field_type = FStr | FListStr | FOptStr

record field =
  fd_name :: string
  fd_type :: field_type
  fd_required :: bool

type_synonym schema = "field list"
type_synonym validator = "schema \<Rightarrow> arguments \<Rightarrow> string list"

definition ReadRecordsArgs :: schema where
  "ReadRecordsArgs = [\<lparr>fd_name = ''record_ids'', fd_type = FListStr, fd_required = False\<rparr>]"

definition SendEmailArgs :: schema where
  "SendEmailArgs =
    [\<lparr>fd_name = ''to'', fd_type = FStr, fd_required = True\<rparr>,
     \<lparr>fd_name = ''subject'', fd_type = FStr, fd_required = True\<rparr>,
     \<lparr>fd_name = ''body'', fd_type = FStr, fd_required = True\<rparr>]"

definition ExportRecordsArgs :: schema where
  "ExportRecordsArgs =
    [\<lparr>fd_name = ''format'', fd_type = FStr, fd_required = False\<rparr>,
     \<lparr>fd_name = ''filter'', fd_type = FOptStr, fd_required = False\<rparr>]"

definition DeleteRecordsArgs :: schema where
  "DeleteRecordsArgs = [\<lparr>fd_name = ''record_ids'', fd_type = FListStr, fd_required = True\<rparr>]"

definition RunShellArgs :: schema where
  "RunShellArgs = [\<lparr>fd_name = ''command'', fd_type = FStr, fd_required = True\<rparr>]"

definition TOOL_SCHEMAS :: "(string \<times> schema) list" where
  "TOOL_SCHEMAS =
    [(''read_records'', ReadRecordsArgs), (''send_email'', SendEmailArgs),
     (''export_records'', ExportRecordsArgs), (''delete_records'', DeleteRecordsArgs),
     (''run_shell'', RunShellArgs)]"

definition known_tool_names :: "string set" where
  "known_tool_names = fst ` set TOOL_SCHEMAS"

section \<open>Validation\<close>

definition validate_tool_arguments :: "validator \<Rightarrow> string \<Rightarrow> arguments \<Rightarrow> bool \<times> string" where
  "validate_tool_arguments model_validate tool_name args =
    (case map_of TOOL_SCHEMAS tool_name of
       None \<Rightarrow> (False, ''unknown_tool_schema:'' @ tool_name)
     | Some schema \<Rightarrow>
         (case model_validate schema args of
            e # _ \<Rightarrow> (False, ''schema_validation_failed:'' @ e)
          | [] \<Rightarrow> (True, ''schema_valid'')))"

definition validate_tool_call_payload :: "validator \<Rightarrow> ToolCallPayload \<Rightarrow> bool \<times> string" where
  "validate_tool_call_payload model_validate payload =
    (if tc_tool_name payload = [] then (False, ''missing_tool_name'')
     else validate_tool_arguments model_validate (tc_tool_name payload) (tc_arguments payload))"

section \<open>What pydantic promises\<close>

fun conforms :: "field_type \<Rightarrow> json \<Rightarrow> bool" where
  "conforms FStr (JStr s) = True"
| "conforms FOptStr (JStr s) = True"
| "conforms FOptStr JNull = True"
| "conforms FListStr (JList vs) = list_all (conforms FStr) vs"
| "conforms _ _ = False"

definition field_ok :: "arguments \<Rightarrow> field \<Rightarrow> bool" where
  "field_ok args f = (case map_of args (fd_name f) of
     None \<Rightarrow> \<not> fd_required f | Some v \<Rightarrow> conforms (fd_type f) v)"

definition pydantic_checks :: "validator \<Rightarrow> bool" where
  "pydantic_checks mv = (\<forall>schema args. mv schema args = [] \<longleftrightarrow> list_all (field_ok args) schema)"

fun type_errors :: "field_type \<Rightarrow> json \<Rightarrow> string list" where
  "type_errors FListStr (JList vs) =
     map (\<lambda>_. ''string_type'') (filter (\<lambda>v. \<not> conforms FStr v) vs)"
| "type_errors FListStr v = [''list_type'']"
| "type_errors t v = (if conforms t v then [] else [''string_type''])"

definition field_errors :: "arguments \<Rightarrow> field \<Rightarrow> string list" where
  "field_errors args f = (case map_of args (fd_name f) of
     None \<Rightarrow> (if fd_required f then [''missing''] else [])
   | Some v \<Rightarrow> type_errors (fd_type f) v)"

definition model_validate_ref :: validator where
  "model_validate_ref schema args = concat (map (field_errors args) schema)"

lemma type_errors_empty: "type_errors t v = [] \<longleftrightarrow> conforms t v"
  by (cases "(t, v)" rule: type_errors.cases) (auto simp: filter_empty_conv list_all_iff)

lemma pydantic_checks_ref: "pydantic_checks model_validate_ref"
  by (auto simp: pydantic_checks_def model_validate_ref_def field_errors_def field_ok_def
      list_all_iff type_errors_empty split: option.splits if_splits)

section \<open>Facts for the broker\<close>

lemma validate_tool_arguments_ok:
  "fst (validate_tool_arguments mv t args) \<longleftrightarrow> (\<exists>s. map_of TOOL_SCHEMAS t = Some s \<and> mv s args = [])"
  by (auto simp: validate_tool_arguments_def split: option.splits list.splits)

lemma validate_tool_call_payload_ok:
  "fst (validate_tool_call_payload mv tc) \<longleftrightarrow>
     (\<exists>s. map_of TOOL_SCHEMAS (tc_tool_name tc) = Some s \<and> mv s (tc_arguments tc) = [])"
proof -
  have "map_of TOOL_SCHEMAS [] = None" by (simp add: TOOL_SCHEMAS_def)
  then show ?thesis
    by (auto simp: validate_tool_call_payload_def validate_tool_arguments_ok)
qed

lemma known_tool_names_iff: "t \<in> known_tool_names \<longleftrightarrow> (\<exists>s. map_of TOOL_SCHEMAS t = Some s)"
  unfolding known_tool_names_def by (metis map_of_eq_None_iff not_None_eq)

lemma valid_call_known:
  "fst (validate_tool_call_payload mv tc) \<Longrightarrow> tc_tool_name tc \<in> known_tool_names"
  by (auto simp: validate_tool_call_payload_ok known_tool_names_iff)

section \<open>Properties\<close>



end
