(* ===== verification/Policy_Engine.thy ===== *)
theory Policy_Engine
  imports Provenance_Integrity
begin

text \<open>
  \<^verbatim>\<open>policy_engine.py\<close>: loading the YAML policy and the deterministic policy decision.

  PyYAML's \<^verbatim>\<open>safe_load\<close> and pydantic's \<^verbatim>\<open>ToolPolicy.model_validate\<close> are third-party code; they are
  the fields of the record \<open>policy_externals\<close>. A loaded document is a \<open>yaml\<close> value: the Python
  object \<^verbatim>\<open>safe_load\<close> builds, with a value of any other type (dates, bytes) known by its \<^verbatim>\<open>str\<close> and
  \<^verbatim>\<open>repr\<close> texts. A file is its decoded text, or absent.
\<close>

section \<open>Documents\<close>

datatype yaml =
    YNull
  | YBool bool
  | YInt int
  | YFloat string
  | YStr string
  | YOther string string
  | YList "yaml list"
  | YMap "(yaml \<times> yaml) list"

text \<open>\<^verbatim>\<open>repr\<close> and \<^verbatim>\<open>str\<close> of a document value.\<close>

fun yaml_repr :: "yaml \<Rightarrow> string" where
  "yaml_repr YNull = ''None''"
| "yaml_repr (YBool b) = (if b then ''True'' else ''False'')"
| "yaml_repr (YInt i) = int_str i"
| "yaml_repr (YFloat s) = s"
| "yaml_repr (YStr s) = py_repr s"
| "yaml_repr (YOther st re) = re"
| "yaml_repr (YList vs) = ''['' @ py_join '', '' (map yaml_repr vs) @ '']''"
| "yaml_repr (YMap kvs) = ''{'' @ py_join '', '' (map (\<lambda>(k, v). yaml_repr k @ '': '' @ yaml_repr v) kvs) @ ''}''"

fun yaml_str :: "yaml \<Rightarrow> string" where
  "yaml_str (YStr s) = s"
| "yaml_str (YOther st re) = st"
| "yaml_str v = yaml_repr v"

text \<open>\<^verbatim>\<open>d.get(key, default)\<close> for a string key.\<close>

definition yaml_get :: "(yaml \<times> yaml) list \<Rightarrow> string \<Rightarrow> yaml \<Rightarrow> yaml" where
  "yaml_get m k d = (case map_of m (YStr k) of Some v \<Rightarrow> v | None \<Rightarrow> d)"

section \<open>Loading\<close>

record policy_externals =
  pe_safe_load :: "string \<Rightarrow> yaml result"
  pe_tool_policy_validate :: "(yaml \<times> yaml) list \<Rightarrow> ToolPolicy result"

definition deny_all :: PolicyDocument where
  "deny_all = \<lparr>pd_default_decision = ''deny'', pd_tools = [], pd_tenant_isolation = ''strict''\<rparr>"

text \<open>
  The loop over \<^verbatim>\<open>tools_raw.items()\<close>: entries that are not mappings are skipped. The result goes
  into a field of type \<^verbatim>\<open>dict[str, ToolPolicy]\<close>, which rejects a key that is not a string.
\<close>

fun load_tools ::
  "policy_externals \<Rightarrow> (yaml \<times> yaml) list \<Rightarrow> (yaml \<times> ToolPolicy) list result" where
  "load_tools pe [] = Inr []"
| "load_tools pe ((name, YMap cfg) # rest) =
     bind_result (pe_tool_policy_validate pe cfg)
       (\<lambda>tp. bind_result (load_tools pe rest) (\<lambda>ts. Inr ((name, tp) # ts)))"
| "load_tools pe ((name, cfg) # rest) = load_tools pe rest"

fun string_keys :: "(yaml \<times> ToolPolicy) list \<Rightarrow> (string \<times> ToolPolicy) list result" where
  "string_keys [] = Inr []"
| "string_keys ((YStr s, tp) # rest) = bind_result (string_keys rest) (\<lambda>ts. Inr ((s, tp) # ts))"
| "string_keys ((k, tp) # rest) = Inl (ValidationError [''string_type''])"

definition load_policy :: "policy_externals \<Rightarrow> string option \<Rightarrow> PolicyDocument result" where
  "load_policy pe file =
    (case file of
       None \<Rightarrow> Inr deny_all
     | Some text \<Rightarrow>
        bind_result (pe_safe_load pe text) (\<lambda>raw.
          case raw of
            YMap m \<Rightarrow>
              bind_result (case yaml_get m ''tools'' (YMap []) of YMap ts \<Rightarrow> load_tools pe ts | _ \<Rightarrow> Inr [])
                (\<lambda>tools. bind_result (string_keys tools) (\<lambda>named.
                   Inr \<lparr>pd_default_decision = yaml_str (yaml_get m ''default_decision'' (YStr ''deny'')),
                        pd_tools = named,
                        pd_tenant_isolation = yaml_str (yaml_get m ''tenant_isolation'' (YStr ''strict''))\<rparr>))
          | _ \<Rightarrow> Inr deny_all))"

section \<open>Evaluation\<close>

definition denied_for :: "ToolPolicy \<Rightarrow> string \<Rightarrow> PolicyDecision" where
  "denied_for tp reason =
    \<lparr>pdec_allowed = False, pdec_reason = reason, pdec_risk_level = Some (tp_risk_level tp),
     pdec_requires_human_approval = tp_requires_human_approval tp,
     pdec_external_effect = tp_external_effect tp\<rparr>"

definition evaluate_policy :: "PolicyDocument \<Rightarrow> AgentRequest \<Rightarrow> ToolCallPayload \<Rightarrow> PolicyDecision" where
  "evaluate_policy policy request tool_call =
    (let default_deny = (pd_default_decision policy \<noteq> ''allow'')
     in case map_of (pd_tools policy) (tc_tool_name tool_call) of
          None \<Rightarrow>
            \<lparr>pdec_allowed = False, pdec_reason = ''unknown_tool_denied_by_policy'', pdec_risk_level = None,
             pdec_requires_human_approval = False, pdec_external_effect = False\<rparr>
        | Some tool_policy \<Rightarrow>
            if \<not> tp_enabled tool_policy then denied_for tool_policy ''tool_disabled_by_policy''
            else if ar_role request \<notin> set (tp_allowed_roles tool_policy)
              then denied_for tool_policy ''role_not_permitted_for_tool''
            else if pd_tenant_isolation policy = ''strict'' \<and> tc_target tool_call \<noteq> Some (ar_tenant_id request)
              then denied_for tool_policy ''cross_tenant_target_denied''
            else (case validate_provenance_for_tool tool_policy (tc_provenance tool_call) of
                (provenance_ok, provenance_reason) \<Rightarrow>
                  if \<not> provenance_ok then denied_for tool_policy provenance_reason
                  else if default_deny then
                    \<lparr>pdec_allowed = True, pdec_reason = ''explicit_allow_after_policy_checks'',
                     pdec_risk_level = Some (tp_risk_level tool_policy),
                     pdec_requires_human_approval = tp_requires_human_approval tool_policy,
                     pdec_external_effect = tp_external_effect tool_policy\<rparr>
                  else
                    \<lparr>pdec_allowed = False, pdec_reason = ''default_deny_policy'',
                     pdec_risk_level = Some (tp_risk_level tool_policy),
                     pdec_requires_human_approval = False, pdec_external_effect = False\<rparr>))"

section \<open>The decision against its specification\<close>

text \<open>
  The abstract access-control rule: a tool is permitted when the policy lists it, it is enabled for
  the role, the target is the caller's tenant (under strict isolation) and trusted provenance
  supports it. The engine also refuses everything under a document whose default is ``allow''.
\<close>

definition tenant_ok :: "PolicyDocument \<Rightarrow> AgentRequest \<Rightarrow> ToolCallPayload \<Rightarrow> bool" where
  "tenant_ok policy request tc =
    (pd_tenant_isolation policy = ''strict'' \<longrightarrow> tc_target tc = Some (ar_tenant_id request))"

definition permitted :: "PolicyDocument \<Rightarrow> AgentRequest \<Rightarrow> ToolCallPayload \<Rightarrow> ToolPolicy \<Rightarrow> bool" where
  "permitted policy request tc tp =
    (map_of (pd_tools policy) (tc_tool_name tc) = Some tp \<and> tp_enabled tp
     \<and> ar_role request \<in> set (tp_allowed_roles tp) \<and> tenant_ok policy request tc
     \<and> (\<exists>p. tc_provenance tc = Some p \<and> provenance_supports tp p))"

lemma denied_for_simps [simp]:
  "pdec_allowed (denied_for tp r) = False" "pdec_reason (denied_for tp r) = r"
  "pdec_risk_level (denied_for tp r) = Some (tp_risk_level tp)"
  "pdec_requires_human_approval (denied_for tp r) = tp_requires_human_approval tp"
  by (simp_all add: denied_for_def)

lemma evaluate_policy_allowed_iff:
  "pdec_allowed (evaluate_policy policy request tc) \<longleftrightarrow>
     pd_default_decision policy \<noteq> ''allow'' \<and> (\<exists>tp. permitted policy request tc tp)"
proof (cases "map_of (pd_tools policy) (tc_tool_name tc)")
  case None
  then show ?thesis by (simp add: evaluate_policy_def permitted_def)
next
  case (Some tp)
  obtain ok r where v: "validate_provenance_for_tool tp (tc_provenance tc) = (ok, r)" by fastforce
  with validate_provenance_for_tool_iff[of tp "tc_provenance tc"]
  have "ok \<longleftrightarrow> (\<exists>p. tc_provenance tc = Some p \<and> provenance_supports tp p)" by simp
  with Some v show ?thesis
    by (auto simp: evaluate_policy_def permitted_def tenant_ok_def)
qed

lemma evaluate_policy_allowed_reason:
  assumes "pdec_allowed (evaluate_policy policy request tc)"
  shows "pdec_reason (evaluate_policy policy request tc) = ''explicit_allow_after_policy_checks''"
  using assms by (auto simp: evaluate_policy_def Let_def split: option.splits if_splits prod.splits)

section \<open>What a loaded document holds\<close>

lemma load_tools_from_file:
  assumes "load_tools pe items = Inr tools" and "(k, tp) \<in> set tools"
  shows "\<exists>cfg. (k, YMap cfg) \<in> set items \<and> pe_tool_policy_validate pe cfg = Inr tp"
  using assms
proof (induction pe items arbitrary: tools rule: load_tools.induct)
  case (2 pe name cfg rest)
  then obtain tp' ts where "pe_tool_policy_validate pe cfg = Inr tp'" "load_tools pe rest = Inr ts"
    "tools = (name, tp') # ts" by (auto simp: monad_simps)
  with 2 show ?case by auto
qed auto

lemma string_keys_from: "string_keys tools = Inr named \<Longrightarrow> (t, tp) \<in> set named \<Longrightarrow> (YStr t, tp) \<in> set tools"
  by (induction tools arbitrary: named rule: string_keys.induct) (auto simp: monad_simps)

section \<open>Properties\<close>

text \<open>
  C15. The policy decision is the access-control rule: a call is allowed if and only if the document
  does not carry the default \<^verbatim>\<open>allow\<close>, lists the tool, enables it for the caller's role, the target is
  the caller's own tenant under strict isolation, and trusted provenance of a permitted source
  supports it.
\<close>

theorem policy_allows_exactly_permitted:
  "pdec_allowed (evaluate_policy policy request tc) \<longleftrightarrow>
     pd_default_decision policy \<noteq> ''allow'' \<and>
     (\<exists>tp p. map_of (pd_tools policy) (tc_tool_name tc) = Some tp \<and> tp_enabled tp
        \<and> ar_role request \<in> set (tp_allowed_roles tp)
        \<and> tenant_ok policy request tc
        \<and> tc_provenance tc = Some p \<and> provenance_supports tp p)"
  by (auto simp: evaluate_policy_allowed_iff permitted_def)



text \<open>
  No tool policy comes from nowhere: every tool of a loaded document is a mapping entry of the
  file's \<^verbatim>\<open>tools\<close> section, under that name, and its policy is what the validation of that entry gave.
\<close>

theorem loaded_tools_from_file:
  assumes "load_policy pe file = Inr doc" and "map_of (pd_tools doc) t = Some tp"
  shows "\<exists>text m ts cfg. file = Some text \<and> pe_safe_load pe text = Inr (YMap m)
    \<and> yaml_get m ''tools'' (YMap []) = YMap ts \<and> (YStr t, YMap cfg) \<in> set ts
    \<and> pe_tool_policy_validate pe cfg = Inr tp"
proof -
  have "doc \<noteq> deny_all" using assms(2) by (auto simp: deny_all_def)
  then obtain body raw where b: "file = Some body" "pe_safe_load pe body = Inr raw"
    using assms(1) by (cases "file") (auto simp: load_policy_def monad_simps)
  then obtain m where m: "raw = YMap m"
    using assms(1) \<open>doc \<noteq> deny_all\<close> by (cases raw) (auto simp: load_policy_def)
  note f = b[unfolded m]
  obtain tools where tools: "(case yaml_get m ''tools'' (YMap []) of YMap ts \<Rightarrow> load_tools pe ts | _ \<Rightarrow> Inr []) = Inr tools"
    "string_keys tools = Inr (pd_tools doc)"
    using assms(1) f by (auto simp: load_policy_def monad_simps)
  have k: "(YStr t, tp) \<in> set tools"
    using string_keys_from[OF tools(2)] map_of_SomeD[OF assms(2)] by simp
  then obtain ts where ts: "yaml_get m ''tools'' (YMap []) = YMap ts" "load_tools pe ts = Inr tools"
    using tools(1) by (auto split: yaml.splits)
  from load_tools_from_file[OF ts(2) k] f ts(1) show ?thesis by blast
qed

theorem loaded_tools_from_file_witness:
  "let cfg = [(YStr ''enabled'', YBool True)];
       m = [(YStr ''tools'', YMap [(YStr ''read_records'', YMap cfg)])];
       pe = \<lparr>pe_safe_load = (\<lambda>t. Inr (YMap m)), pe_tool_policy_validate = (\<lambda>c. Inr sample_tool_policy)\<rparr>
   in (\<exists>ts c. yaml_get m ''tools'' (YMap []) = YMap ts \<and> (YStr ''read_records'', YMap c) \<in> set ts
        \<and> pe_tool_policy_validate pe c = Inr sample_tool_policy)"
proof -
  define m where "m = [(YStr ''tools'', YMap [(YStr ''read_records'', YMap [(YStr ''enabled'', YBool True)])])]"
  define pe where "pe = \<lparr>pe_safe_load = (\<lambda>t :: string. Inr (YMap m)), pe_tool_policy_validate = (\<lambda>c :: (yaml \<times> yaml) list. Inr sample_tool_policy)\<rparr>"
  define doc where "doc = \<lparr>pd_default_decision = ''deny'', pd_tools = [(''read_records'', sample_tool_policy)], pd_tenant_isolation = ''strict''\<rparr>"
  have "load_policy pe (Some []) = Inr doc"
    by (simp add: load_policy_def pe_def m_def doc_def yaml_get_def)
  from loaded_tools_from_file[OF this, of "''read_records''" sample_tool_policy]
  show ?thesis by (simp add: doc_def pe_def m_def Let_def)
qed

end
