(* ===== verification/Approval_Tokens.thy ===== *)
theory Approval_Tokens
  imports Provenance_Integrity Py_Datetime
begin

text \<open>
  \<^verbatim>\<open>approval_tokens.py\<close>: fingerprints of a tool action, minting of a token, the process-wide
  registry of consumed approval ids (the module global \<^verbatim>\<open>_USED_APPROVAL_IDS\<close>, passed explicitly) and
  the verification of a token. The clock and \<^verbatim>\<open>uuid4\<close> are arguments.
\<close>

section \<open>The registry of consumed approvals\<close>

type_synonym registry = "string set"

definition USED_APPROVAL_IDS_init :: registry where
  "USED_APPROVAL_IDS_init = {}"

definition clear_used_approval_tokens :: "registry \<Rightarrow> registry" where
  "clear_used_approval_tokens used = {}"

definition mark_approval_token_used :: "string \<Rightarrow> registry \<Rightarrow> registry" where
  "mark_approval_token_used approval_id used = insert approval_id used"

definition is_approval_token_used :: "registry \<Rightarrow> string \<Rightarrow> bool" where
  "is_approval_token_used used approval_id = (approval_id \<in> used)"

section \<open>Fingerprints\<close>

definition sha256_hex :: "string \<Rightarrow> string" where
  "sha256_hex value = hexdigest (sha256 (utf8_encode value))"

definition compute_provenance_fingerprint :: "Provenance option \<Rightarrow> string" where
  "compute_provenance_fingerprint provenance =
    (let payload = (case provenance of None \<Rightarrow> JDict [(''provenance'', JNull)]
                    | Some p \<Rightarrow> canonicalize_provenance p)
     in sha256_hex (json_dumps_canonical payload))"

definition action_label :: "ToolCallPayload \<Rightarrow> string" where
  "action_label tool_call = json_dumps_canonical (JDict
    [(''tool_name'', JStr (tc_tool_name tool_call)), (''arguments'', JDict (tc_arguments tool_call))])"

definition context_ids_of :: "Provenance option \<Rightarrow> string list" where
  "context_ids_of provenance = (case provenance of None \<Rightarrow> [] | Some p \<Rightarrow> sort (pv_context_ids p))"

definition canonical_action_payload :: "AgentRequest \<Rightarrow> ToolCallPayload \<Rightarrow> string \<Rightarrow> json" where
  "canonical_action_payload request tool_call risk_level = JDict
    [(''user_id'', JStr (ar_user_id request)),
     (''tenant_id'', JStr (ar_tenant_id request)),
     (''tool_name'', JStr (tc_tool_name tool_call)),
     (''target'', jopt_str (tc_target tool_call)),
     (''action'', JStr (action_label tool_call)),
     (''risk_level'', JStr risk_level),
     (''source_context_ids'', JList (map JStr (context_ids_of (tc_provenance tool_call)))),
     (''provenance_fingerprint'', JStr (compute_provenance_fingerprint (tc_provenance tool_call)))]"

definition compute_action_fingerprint :: "AgentRequest \<Rightarrow> ToolCallPayload \<Rightarrow> string \<Rightarrow> string" where
  "compute_action_fingerprint request tool_call risk_level =
    sha256_hex (json_dumps_sorted (canonical_action_payload request tool_call risk_level))"

definition build_approval_fingerprint ::
  "AgentRequest \<Rightarrow> ToolCallPayload \<Rightarrow> string \<Rightarrow> ApprovalRequestFingerprint" where
  "build_approval_fingerprint request tool_call risk_level =
    (let action_fp = sha256_hex (json_dumps_sorted (canonical_action_payload request tool_call risk_level))
     in \<lparr>fp_user_id = ar_user_id request,
         fp_tenant_id = ar_tenant_id request,
         fp_tool_name = tc_tool_name tool_call,
         fp_target = tc_target tool_call,
         fp_action = action_label tool_call,
         fp_risk_level = risk_level,
         fp_source_context_ids = context_ids_of (tc_provenance tool_call),
         fp_provenance_fingerprint = compute_provenance_fingerprint (tc_provenance tool_call),
         fp_action_fingerprint = action_fp\<rparr>)"

section \<open>Minting\<close>

text \<open>\<^verbatim>\<open>clock\<close> is the reading of \<^verbatim>\<open>datetime.now(UTC)\<close>, \<^verbatim>\<open>uuid_hex\<close> that of \<^verbatim>\<open>uuid.uuid4().hex\<close>.\<close>

definition create_approval_token ::
  "string \<Rightarrow> AgentRequest \<Rightarrow> ToolCallPayload \<Rightarrow> ToolPolicy \<Rightarrow> string \<Rightarrow> int \<Rightarrow> datetime option
     \<Rightarrow> datetime \<Rightarrow> string \<Rightarrow> ApprovalToken result" where
  "create_approval_token approver_id request tool_call tool_policy approval_reason ttl_seconds approved_at
     clock uuid_hex =
    (let now = (case approved_at of Some d \<Rightarrow> d | None \<Rightarrow> clock);
         fingerprint = build_approval_fingerprint request tool_call (RiskLevel_value (tp_risk_level tool_policy))
     in bind_result (add_seconds now ttl_seconds) (\<lambda>expires.
          Inr \<lparr>at_approval_id = ''apr-'' @ uuid_hex,
               at_approver_id = approver_id,
               at_approved_at = isoformat now,
               at_expires_at = isoformat expires,
               at_one_time_use = True,
               at_used = False,
               at_user_id = fp_user_id fingerprint,
               at_tenant_id = fp_tenant_id fingerprint,
               at_tool_name = fp_tool_name fingerprint,
               at_target = fp_target fingerprint,
               at_action = fp_action fingerprint,
               at_risk_level = fp_risk_level fingerprint,
               at_source_context_ids = fp_source_context_ids fingerprint,
               at_provenance_fingerprint = fp_provenance_fingerprint fingerprint,
               at_action_fingerprint = fp_action_fingerprint fingerprint,
               at_approval_reason = approval_reason\<rparr>))"

section \<open>Verification\<close>

definition is_approval_token_expired :: "ApprovalToken \<Rightarrow> datetime \<Rightarrow> bool result" where
  "is_approval_token_expired token current =
    bind_result (fromisoformat (at_expires_at token)) (\<lambda>expires.
      dt_greater current
        (case dt_offset expires of None \<Rightarrow> expires\<lparr>dt_offset := Some 0\<rparr> | Some z \<Rightarrow> expires))"

definition verify_approval_token ::
  "registry \<Rightarrow> ApprovalToken \<Rightarrow> AgentRequest \<Rightarrow> ToolCallPayload \<Rightarrow> string \<Rightarrow> datetime
     \<Rightarrow> (bool \<times> string) result" where
  "verify_approval_token used token request tool_call risk_level now =
    (if at_used token \<or> is_approval_token_used used (at_approval_id token)
     then Inr (False, ''approval_token_reused'')
     else bind_result (is_approval_token_expired token now) (\<lambda>expired.
       if expired then Inr (False, ''approval_token_expired'')
       else if at_user_id token \<noteq> ar_user_id request then Inr (False, ''approval_token_user_mismatch'')
       else if at_tenant_id token \<noteq> ar_tenant_id request then Inr (False, ''approval_token_tenant_mismatch'')
       else if at_tool_name token \<noteq> tc_tool_name tool_call then Inr (False, ''approval_token_tool_mismatch'')
       else if at_target token \<noteq> tc_target tool_call then Inr (False, ''approval_token_target_mismatch'')
       else if at_risk_level token \<noteq> risk_level then Inr (False, ''approval_token_risk_mismatch'')
       else if at_source_context_ids token \<noteq> context_ids_of (tc_provenance tool_call)
         then Inr (False, ''approval_token_context_mismatch'')
       else if at_provenance_fingerprint token \<noteq> compute_provenance_fingerprint (tc_provenance tool_call)
         then Inr (False, ''approval_token_provenance_mismatch'')
       else if at_action_fingerprint token \<noteq> compute_action_fingerprint request tool_call risk_level
         then Inr (False, ''approval_token_action_mismatch'')
       else Inr (True, ''approval_token_valid'')))"

section \<open>The registry as a replay guard\<close>

text \<open>
  What the pipeline relies on: a fresh registry has consumed nothing, and marking adds exactly one
  id. From that, an id stays consumed through any later sequence of marks.
\<close>

locale replay_guard =
  fixes fresh :: 'r and mark :: "'i \<Rightarrow> 'r \<Rightarrow> 'r" and is_used :: "'r \<Rightarrow> 'i \<Rightarrow> bool"
  assumes fresh_unused: "\<not> is_used fresh i"
    and mark_used: "is_used (mark j r) i \<longleftrightarrow> i = j \<or> is_used r i"
begin

lemma used_after_marks: "is_used (fold mark is r) i \<longleftrightarrow> i \<in> set is \<or> is_used r i"
  by (induction "is" arbitrary: r) (auto simp: mark_used)

lemma used_stays: "is_used r i \<Longrightarrow> is_used (fold mark is r) i"
  by (simp add: used_after_marks)

lemma used_from_fresh: "is_used (fold mark is fresh) i \<longleftrightarrow> i \<in> set is"
  by (simp add: used_after_marks fresh_unused)

end

text \<open>
  A machine that keeps such a registry: its steps only mark ids, a step that spends an id finds it unused
  and marks it. Then no run spends an id twice.
\<close>

locale one_time_use = replay_guard fresh mark is_used
  for fresh :: 'r and mark :: "'i \<Rightarrow> 'r \<Rightarrow> 'r" and is_used :: "'r \<Rightarrow> 'i \<Rightarrow> bool" +
  fixes reg :: "'s \<Rightarrow> 'r" and step :: "'s \<Rightarrow> 'l \<Rightarrow> 's \<Rightarrow> bool" and spend :: "'s \<Rightarrow> 'l \<Rightarrow> 'i \<Rightarrow> bool"
  assumes step_marks: "step s l s' \<Longrightarrow> \<exists>is. reg s' = fold mark is (reg s)"
    and spend_unused: "spend s l i \<Longrightarrow> \<not> is_used (reg s) i"
    and spend_marks: "step s l s' \<Longrightarrow> spend s l i \<Longrightarrow> is_used (reg s') i"
begin

lemma used_persists: "step s l s' \<Longrightarrow> is_used (reg s) i \<Longrightarrow> is_used (reg s') i"
  using step_marks used_stays by metis

lemma used_never_spent:
  "run_of step s ls s' \<Longrightarrow> is_used (reg s) i \<Longrightarrow> filter (\<lambda>(s, l). spend s l i) ls = []"
  by (induction rule: run_of.induct) (use spend_unused used_persists in auto)

lemma spent_at_most_once: "run_of step s ls s' \<Longrightarrow> length (filter (\<lambda>(s, l). spend s l i) ls) \<le> 1"
proof (induction rule: run_of.induct)
  case (run_cons s l s1 ls s2)
  then show ?case using used_never_spent spend_marks by (cases "spend s l i") auto
qed simp

end

interpretation approvals: replay_guard USED_APPROVAL_IDS_init mark_approval_token_used is_approval_token_used
  by unfold_locales
    (auto simp: USED_APPROVAL_IDS_init_def mark_approval_token_used_def is_approval_token_used_def)

section \<open>What a verified token says\<close>

definition token_matches :: "ApprovalToken \<Rightarrow> AgentRequest \<Rightarrow> ToolCallPayload \<Rightarrow> string \<Rightarrow> bool" where
  "token_matches token request tc risk_level =
    (at_user_id token = ar_user_id request \<and> at_tenant_id token = ar_tenant_id request
     \<and> at_tool_name token = tc_tool_name tc \<and> at_target token = tc_target tc
     \<and> at_risk_level token = risk_level
     \<and> at_source_context_ids token = context_ids_of (tc_provenance tc)
     \<and> at_provenance_fingerprint token = compute_provenance_fingerprint (tc_provenance tc)
     \<and> at_action_fingerprint token = compute_action_fingerprint request tc risk_level)"

lemma verify_approval_token_iff:
  "verify_approval_token used token request tc risk_level now = Inr (True, r) \<longleftrightarrow>
     r = ''approval_token_valid'' \<and> \<not> at_used token \<and> \<not> is_approval_token_used used (at_approval_id token)
     \<and> is_approval_token_expired token now = Inr False \<and> token_matches token request tc risk_level"
proof (cases "is_approval_token_expired token now")
  case (Inl e)
  then show ?thesis by (simp add: verify_approval_token_def)
next
  case (Inr expired)
  then show ?thesis
    unfolding verify_approval_token_def token_matches_def by (simp split: if_split) blast
qed

lemma verify_approval_token_used:
  "at_used token \<or> at_approval_id token \<in> used \<Longrightarrow>
     verify_approval_token used token request tc risk_level now = Inr (False, ''approval_token_reused'')"
  by (simp add: verify_approval_token_def is_approval_token_used_def)

text \<open>The only exceptions of the verification come from an expiry text or clock it cannot compare.\<close>

lemma verify_approval_token_raises:
  "verify_approval_token used token request tc risk_level now = Inl e \<Longrightarrow>
     is_approval_token_expired token now = Inl e"
  by (auto simp: verify_approval_token_def monad_simps split: if_splits)

section \<open>Fingerprints bind the action\<close>

lemma wf_canonical_action_payload [simp]: "wf_json (canonical_action_payload request tc risk_level)"
  by (simp add: canonical_action_payload_def jopt_str_def list_all_iff split: option.splits)

lemma sha256_hex_text: "sha256_hex s = hexdigest (sha256 (utf8_encode s))"
  by (simp add: sha256_hex_def)

text \<open>What the action fingerprint covers.\<close>

definition bound_action where
  "bound_action a = (case a of (request, tc, risk_level) \<Rightarrow>
     (ar_user_id request, ar_tenant_id request, tc_tool_name tc, tc_target tc,
      json_sort (JDict (tc_arguments tc)), risk_level,
      context_ids_of (tc_provenance tc), compute_provenance_fingerprint (tc_provenance tc)))"

lemma action_label_inject:
  assumes "wf_arguments (tc_arguments tc)" and "wf_arguments (tc_arguments tc')"
    and "action_label tc = action_label tc'"
  shows "json_sort (JDict (tc_arguments tc)) = json_sort (JDict (tc_arguments tc'))"
proof -
  let ?d = "\<lambda>tc. [(''tool_name'', JStr (tc_tool_name tc)), (''arguments'', JDict (tc_arguments tc))]"
  have "json_sort (JDict (?d tc)) = json_sort (JDict (?d tc'))"
    using assms wf_arguments_json unfolding action_label_def
    by (intro json_dumps_canonical_inject) auto
  then have "map_option json_sort (map_of (?d tc) ''arguments'') = map_option json_sort (map_of (?d tc') ''arguments'')"
    by (rule json_sort_dict_map_of) simp_all
  then show ?thesis by (simp del: json_sort.simps)
qed

lemma action_payload_inject:
  assumes "wf_arguments (tc_arguments tc)" and "wf_arguments (tc_arguments tc')"
    and "json_sort (canonical_action_payload request tc risk) = json_sort (canonical_action_payload request' tc' risk')"
  shows "bound_action (request, tc, risk) = bound_action (request', tc', risk')"
proof -
  have m: "map_option json_sort (map_of (case canonical_action_payload request tc risk of JDict xs \<Rightarrow> xs) k) =
           map_option json_sort (map_of (case canonical_action_payload request' tc' risk' of JDict xs \<Rightarrow> xs) k)" for k
    using assms(3) unfolding canonical_action_payload_def json.case
    by (rule json_sort_dict_map_of) simp_all
  have lab: "action_label tc = action_label tc'"
    using m[of "''action''"] by (simp add: canonical_action_payload_def)
  show ?thesis
    using m[of "''user_id''"] m[of "''tenant_id''"] m[of "''tool_name''"] m[of "''target''"]
      m[of "''risk_level''"] m[of "''source_context_ids''"] m[of "''provenance_fingerprint''"]
      action_label_inject[OF assms(1,2) lab]
    by (simp add: canonical_action_payload_def bound_action_def o_def del: json_sort.simps(2))
qed

interpretation action_digest: digest_binding "\<lambda>bs. hexdigest (sha256 bs)"
  "\<lambda>(request, tc, risk). utf8_encode (json_dumps_sorted (canonical_action_payload request tc risk))"
  bound_action "\<lambda>(request :: AgentRequest, tc, risk :: string). wf_arguments (tc_arguments tc)"
proof
  fix a b :: "AgentRequest \<times> ToolCallPayload \<times> string"
  obtain r tc k where a: "a = (r, tc, k)" by (cases a) auto
  obtain r' tc' k' where b: "b = (r', tc', k')" by (cases b) auto
  assume wf: "case a of (request, tc, risk) \<Rightarrow> wf_arguments (tc_arguments tc)"
    "case b of (request, tc, risk) \<Rightarrow> wf_arguments (tc_arguments tc)"
    and eq: "(case a of (request, tc, risk) \<Rightarrow> utf8_encode (json_dumps_sorted (canonical_action_payload request tc risk))) =
      (case b of (request, tc, risk) \<Rightarrow> utf8_encode (json_dumps_sorted (canonical_action_payload request tc risk)))"
  from eq have "json_dumps_sorted (canonical_action_payload r tc k) = json_dumps_sorted (canonical_action_payload r' tc' k')"
    by (simp add: a b utf8_encode_inject)
  then have "json_sort (canonical_action_payload r tc k) = json_sort (canonical_action_payload r' tc' k')"
    by (intro json_dumps_sorted_inject) simp_all
  then show "bound_action a = bound_action b"
    using wf unfolding a b by (intro action_payload_inject) simp_all
qed

section \<open>Minted tokens\<close>

lemma create_approval_token_matches:
  assumes "create_approval_token approver request tc tp reason ttl at clock uid = Inr token"
  shows "token_matches token request tc (RiskLevel_value (tp_risk_level tp)) \<and> \<not> at_used token
     \<and> at_approval_id token = ''apr-'' @ uid"
  using assms
  by (auto simp: create_approval_token_def token_matches_def build_approval_fingerprint_def
      compute_action_fingerprint_def monad_simps Let_def)

lemma create_approval_token_expiry:
  assumes "create_approval_token approver request tc tp reason ttl at clock uid = Inr token"
    and "now = (case at of Some d \<Rightarrow> d | None \<Rightarrow> clock)" and "utc now" and "dt_offset t = Some 0"
  shows "is_approval_token_expired token t = Inr (dt_wall now + ttl * us_per_second < dt_wall t)"
proof -
  from assms(1,2) obtain ex where ex: "add_seconds now ttl = Inr ex" and tok: "at_expires_at token = isoformat ex"
    by (auto simp: create_approval_token_def monad_simps Let_def)
  from ex assms(3) have "utc ex" and w: "dt_wall ex = dt_wall now + ttl * us_per_second"
    and off: "dt_offset ex = Some 0"
    by (auto simp: add_seconds_def utc_def Let_def split: if_splits)
  with fromisoformat_isoformat[of ex] show ?thesis
    using assms(4) by (simp add: is_approval_token_expired_def tok dt_greater_def)
qed

lemma create_approval_token_total:
  assumes "add_seconds (case at of Some d \<Rightarrow> d | None \<Rightarrow> clock) ttl = Inr expires"
  shows "\<exists>token. create_approval_token approver request tc tp reason ttl at clock uid = Inr token"
  using assms by (simp add: create_approval_token_def Let_def)

section \<open>Provenance fingerprints bind the metadata\<close>

definition provenance_payload :: "Provenance option \<Rightarrow> json" where
  "provenance_payload provenance = (case provenance of None \<Rightarrow> JDict [(''provenance'', JNull)]
     | Some p \<Rightarrow> canonicalize_provenance p)"

lemma compute_provenance_fingerprint_payload:
  "compute_provenance_fingerprint p = hexdigest (sha256 (utf8_encode (json_dumps_canonical (provenance_payload p))))"
  by (simp add: compute_provenance_fingerprint_def provenance_payload_def sha256_hex_def)

lemma no_provenance_distinct: "json_sort (JDict [(''provenance'', JNull)]) \<noteq> json_sort (canonicalize_provenance p)"
proof
  assume "json_sort (JDict [(''provenance'', JNull)]) = json_sort (canonicalize_provenance p)"
  then have "map_option json_sort (map_of [(''provenance'', JNull)] ''provenance'') =
      map_option json_sort (map_of (case canonicalize_provenance p of JDict xs \<Rightarrow> xs) ''provenance'')"
    unfolding canonicalize_provenance_def json.case by (rule json_sort_dict_map_of) simp_all
  then show False by (simp add: canonicalize_provenance_def)
qed

lemma provenance_payload_inject:
  assumes "json_sort (provenance_payload p) = json_sort (provenance_payload q)"
  shows "map_option signed_material p = map_option signed_material q"
proof (cases p)
  case None
  then show ?thesis
    using assms no_provenance_distinct by (cases q) (simp_all only: provenance_payload_def option.case option.map)
next
  case (Some p')
  show ?thesis
  proof (cases q)
    case None
    then show ?thesis
      using assms Some no_provenance_distinct[of p'] unfolding provenance_payload_def by (metis option.case)
  next
    case (Some q')
    then show ?thesis
      using assms \<open>p = Some p'\<close> canonical_sort_inject[of p' q'] unfolding provenance_payload_def by simp
  qed
qed

interpretation provenance_digest: digest_binding "\<lambda>bs. hexdigest (sha256 bs)"
  "\<lambda>p. utf8_encode (json_dumps_canonical (provenance_payload p))" "map_option signed_material" "\<lambda>p. True"
proof
  have wf: "wf_json (provenance_payload p)" for p
    by (simp add: provenance_payload_def split: option.split)
  fix a b :: "Provenance option"
  assume "utf8_encode (json_dumps_canonical (provenance_payload a)) = utf8_encode (json_dumps_canonical (provenance_payload b))"
  then show "map_option signed_material a = map_option signed_material b"
    by (intro provenance_payload_inject json_dumps_canonical_inject wf) (rule utf8_encode_inject)
qed

section \<open>Properties\<close>

text \<open>
  C14. A freshly minted token is good for its action until it expires, and for no longer: with an
  unconsumed id and a UTC clock the verification answers ``valid'' up to and including the instant
  \<^verbatim>\<open>approved_at + ttl_seconds\<close>, and ``expired'' at every later microsecond. The expiry goes through the
  text the token carries, so this includes the round trip of \<^verbatim>\<open>isoformat\<close> and \<^verbatim>\<open>fromisoformat\<close>.
\<close>

theorem minted_token_valid_until_expiry:
  assumes "create_approval_token approver request tc tp reason ttl at clock uid = Inr token"
    and "now = (case at of Some d \<Rightarrow> d | None \<Rightarrow> clock)" and "utc now" and "dt_offset t = Some 0"
    and "\<not> is_approval_token_used used (''apr-'' @ uid)"
  shows "verify_approval_token used token request tc (RiskLevel_value (tp_risk_level tp)) t =
    Inr (if dt_wall t \<le> dt_wall now + ttl * us_per_second then (True, ''approval_token_valid'')
         else (False, ''approval_token_expired''))"
proof -
  note m = create_approval_token_matches[OF assms(1)] and e = create_approval_token_expiry[OF assms(1-4)]
  show ?thesis
  proof (cases "dt_wall t \<le> dt_wall now + ttl * us_per_second")
    case True
    with m e assms(5) show ?thesis by (simp add: verify_approval_token_iff)
  next
    case False
    with m e assms(5) show ?thesis by (simp add: verify_approval_token_def)
  qed
qed

text \<open>12:00 on 1 January 2026, UTC.\<close>

definition sample_now :: datetime where
  "sample_now = \<lparr>dt_wall = 63902865600000000, dt_offset = Some 0\<rparr>"

lemma sample_mint:
  "\<exists>token. create_approval_token ''alice'' sample_request sample_call sample_tool_policy ''ok'' 3600
     (Some sample_now) sample_now ''00ff'' = Inr token"
proof (rule create_approval_token_total)
  show "add_seconds (case Some sample_now of Some d \<Rightarrow> d | None \<Rightarrow> sample_now) 3600
    = Inr (sample_now\<lparr>dt_wall := 63902869200000000\<rparr>)"
    by (simp add: sample_now_def add_seconds_def Let_def valid_wall_def max_ordinal_def)
qed

lemma sample_now_utc: "utc sample_now" "dt_offset sample_now = Some 0"
  by (simp_all add: sample_now_def utc_def valid_wall_def max_ordinal_def)

theorem minted_token_valid_until_expiry_witness:
  "\<exists>token. verify_approval_token {} token sample_request sample_call ''low'' sample_now = Inr (True, ''approval_token_valid'')
   \<and> verify_approval_token {} token sample_request sample_call ''low'' (sample_now\<lparr>dt_wall := 63902869200000001\<rparr>)
       = Inr (False, ''approval_token_expired'')"
proof -
  obtain token where t: "create_approval_token ''alice'' sample_request sample_call sample_tool_policy ''ok'' 3600
     (Some sample_now) sample_now ''00ff'' = Inr token" using sample_mint by blast
  have u: "\<not> is_approval_token_used {} (''apr-'' @ ''00ff'')" by (simp add: is_approval_token_used_def)
  have n: "sample_now = (case Some sample_now of Some d \<Rightarrow> d | None \<Rightarrow> sample_now)" by simp
  note v = minted_token_valid_until_expiry[OF t n sample_now_utc(1) _ u]
  show ?thesis
    using v[OF sample_now_utc(2)] v[of "sample_now\<lparr>dt_wall := 63902869200000001\<rparr>"]
    by (intro exI[of _ token]) (simp add: sample_now_def sample_tool_policy_def)
qed

text \<open>
  C8. A token stands for one action: two calls that verify with one token, at any times and states of
  the registry, agree on user, tenant, tool, target, arguments (as JSON values, up to the order of
  keys), risk level, context ids and signed provenance metadata; or the action texts, or the
  provenance texts, of the two calls are a collision of SHA-256.
\<close>

theorem token_stands_for_one_action:
  assumes "verify_approval_token used token request tc risk now = Inr (True, r)"
    and "verify_approval_token used' token request' tc' risk' now' = Inr (True, r')"
    and "wf_arguments (tc_arguments tc)" and "wf_arguments (tc_arguments tc')"
  shows "(bound_action (request, tc, risk) = bound_action (request', tc', risk')
      \<and> map_option signed_material (tc_provenance tc) = map_option signed_material (tc_provenance tc'))
    \<or> collision (\<lambda>bs. hexdigest (sha256 bs))
        (utf8_encode (json_dumps_sorted (canonical_action_payload request tc risk)))
        (utf8_encode (json_dumps_sorted (canonical_action_payload request' tc' risk')))
    \<or> collision (\<lambda>bs. hexdigest (sha256 bs))
        (utf8_encode (json_dumps_canonical (provenance_payload (tc_provenance tc))))
        (utf8_encode (json_dumps_canonical (provenance_payload (tc_provenance tc'))))"
proof -
  have m: "token_matches token request tc risk" "token_matches token request' tc' risk'"
    using assms(1,2) unfolding verify_approval_token_iff by blast+
  have "compute_action_fingerprint request tc risk = compute_action_fingerprint request' tc' risk'"
    and "compute_provenance_fingerprint (tc_provenance tc) = compute_provenance_fingerprint (tc_provenance tc')"
    using m unfolding token_matches_def by metis+
  with assms(3,4) show ?thesis
    using action_digest.digest_binds[of "(request, tc, risk)" "(request', tc', risk')"]
      provenance_digest.digest_binds[of "tc_provenance tc" "tc_provenance tc'"]
    by (simp add: compute_action_fingerprint_def sha256_hex_def compute_provenance_fingerprint_payload) blast
qed

theorem token_stands_for_one_action_witness:
  "\<exists>token. verify_approval_token {} token sample_request sample_call ''low'' sample_now = Inr (True, ''approval_token_valid'')
    \<and> verify_approval_token {''apr-1''} token sample_request sample_call ''low'' sample_now = Inr (True, ''approval_token_valid'')
    \<and> bound_action (sample_request, sample_call, ''low'') = bound_action (sample_request, sample_call, ''low'')"
proof -
  obtain token where t: "create_approval_token ''alice'' sample_request sample_call sample_tool_policy ''ok'' 3600
     (Some sample_now) sample_now ''00ff'' = Inr token" using sample_mint by blast
  have e: "is_approval_token_expired token sample_now = Inr False"
    using create_approval_token_expiry[OF t _ sample_now_utc] by simp
  have v: "verify_approval_token used token sample_request sample_call ''low'' sample_now = Inr (True, ''approval_token_valid'')"
    if "''apr-00ff'' \<notin> used" for used
    using create_approval_token_matches[OF t] e that
    by (simp add: verify_approval_token_iff is_approval_token_used_def sample_tool_policy_def)
  have w: "wf_arguments (tc_arguments sample_call)" by (simp add: sample_call_def wf_arguments_def)
  note token_stands_for_one_action[OF v v w w, of "{}" "{''apr-1''}"]
  then show ?thesis using v[of "{}"] v[of "{''apr-1''}"] by (intro exI[of _ token]) (simp add: collision_def)
qed

end
