(* ===== verification/Approval_Gate.thy ===== *)
theory Approval_Gate
  imports Approval_Tokens
begin

text \<open>
  \<^verbatim>\<open>approval_gate.py\<close>: the human approval gate that runs after policy and provenance allow a tool.
\<close>

record ApprovalGateResult =
  ag_allowed :: bool
  ag_reason :: string
  ag_approval_required :: bool
  ag_approval_id :: "string option"
  ag_approver_id :: "string option"
  ag_approval_decision :: "string option"
  ag_approval_reason :: "string option"
  ag_approval_token_valid :: "bool option"
  ag_approval_token_failure_reason :: "string option"

definition approval_required :: "ToolPolicy \<Rightarrow> bool" where
  "approval_required tp = (tp_requires_human_approval tp \<or> tp_external_effect tp \<or> tp_destructive tp)"

text \<open>A refusal that names no token.\<close>

definition gate_denied :: "string \<Rightarrow> ApprovalGateResult" where
  "gate_denied reason =
    \<lparr>ag_allowed = False, ag_reason = reason, ag_approval_required = True, ag_approval_id = None,
     ag_approver_id = None, ag_approval_decision = Some ''denied'', ag_approval_reason = None,
     ag_approval_token_valid = Some False, ag_approval_token_failure_reason = Some reason\<rparr>"

definition evaluate_approval_gate ::
  "registry \<Rightarrow> datetime \<Rightarrow> AgentRequest \<Rightarrow> ToolPolicy \<Rightarrow> ToolCallPayload \<Rightarrow> bool \<Rightarrow> ApprovalGateResult result" where
  "evaluate_approval_gate used now request tool_policy tool_call require_approval_token =
    (if \<not> approval_required tool_policy then
       Inr \<lparr>ag_allowed = True, ag_reason = ''approval_not_required'', ag_approval_required = False,
            ag_approval_id = None, ag_approver_id = None, ag_approval_decision = Some ''not_required'',
            ag_approval_reason = None, ag_approval_token_valid = None,
            ag_approval_token_failure_reason = None\<rparr>
     else case ar_approval_token request of
       Some token \<Rightarrow>
         bind_result (verify_approval_token used token request tool_call
                        (RiskLevel_value (tp_risk_level tool_policy)) now)
           (\<lambda>(ok, reason).
             if \<not> ok then
               Inr \<lparr>ag_allowed = False, ag_reason = reason, ag_approval_required = True,
                    ag_approval_id = Some (at_approval_id token),
                    ag_approver_id = Some (at_approver_id token),
                    ag_approval_decision = Some ''denied'',
                    ag_approval_reason = Some (at_approval_reason token),
                    ag_approval_token_valid = Some False,
                    ag_approval_token_failure_reason = Some reason\<rparr>
             else
               Inr \<lparr>ag_allowed = True, ag_reason = ''approval_token_granted'', ag_approval_required = True,
                    ag_approval_id = Some (at_approval_id token),
                    ag_approver_id = Some (at_approver_id token),
                    ag_approval_decision = Some ''granted'',
                    ag_approval_reason = Some (at_approval_reason token),
                    ag_approval_token_valid = Some True,
                    ag_approval_token_failure_reason = None\<rparr>)
     | None \<Rightarrow>
         if require_approval_token then Inr (gate_denied ''approval_token_missing'')
         else if \<not> ar_human_approval request then
           (if tp_external_effect tool_policy \<or> tp_destructive tool_policy
            then Inr (gate_denied ''human_approval_required_for_high_impact_action'')
            else Inr (gate_denied ''human_approval_required_by_policy''))
         else
           Inr \<lparr>ag_allowed = True, ag_reason = ''human_approval_granted'', ag_approval_required = True,
                ag_approval_id = None, ag_approver_id = None, ag_approval_decision = Some ''granted'',
                ag_approval_reason = None, ag_approval_token_valid = None,
                ag_approval_token_failure_reason = None\<rparr>)"

section \<open>The gate against its specification\<close>

text \<open>The rule: no approval needed, or a token that verifies, or (without a token, when none is
  demanded) the boolean approval of the request.\<close>

definition token_verifies ::
  "registry \<Rightarrow> datetime \<Rightarrow> AgentRequest \<Rightarrow> ToolPolicy \<Rightarrow> ToolCallPayload \<Rightarrow> ApprovalToken \<Rightarrow> bool" where
  "token_verifies used now request tp tc token =
    (\<exists>r. verify_approval_token used token request tc (RiskLevel_value (tp_risk_level tp)) now = Inr (True, r))"

definition approved :: "registry \<Rightarrow> datetime \<Rightarrow> AgentRequest \<Rightarrow> ToolPolicy \<Rightarrow> ToolCallPayload \<Rightarrow> bool \<Rightarrow> bool" where
  "approved used now request tp tc require_token =
    (\<not> approval_required tp \<or>
     (case ar_approval_token request of
        Some token \<Rightarrow> token_verifies used now request tp tc token
      | None \<Rightarrow> \<not> require_token \<and> ar_human_approval request))"

lemma gate_denied_simps [simp]:
  "ag_allowed (gate_denied r) = False" "ag_reason (gate_denied r) = r"
  "ag_approval_id (gate_denied r) = None" "ag_approver_id (gate_denied r) = None"
  "ag_approval_decision (gate_denied r) = Some ''denied''"
  "ag_approval_reason (gate_denied r) = None"
  "ag_approval_token_valid (gate_denied r) = Some False"
  "ag_approval_token_failure_reason (gate_denied r) = Some r"
  by (simp_all add: gate_denied_def)

lemma evaluate_approval_gate_allowed:
  assumes "evaluate_approval_gate used now request tp tc req = Inr g"
  shows "ag_allowed g \<longleftrightarrow> approved used now request tp tc req"
  using assms
  by (auto simp: evaluate_approval_gate_def approved_def token_verifies_def monad_simps
      split: option.splits if_splits)

lemma evaluate_approval_gate_approved:
  assumes "approved used now request tp tc req"
  shows "\<exists>g. evaluate_approval_gate used now request tp tc req = Inr g \<and> ag_allowed g"
  using assms
  by (auto simp: evaluate_approval_gate_def approved_def token_verifies_def
      split: option.splits if_splits)

lemma approval_with_token_unused:
  assumes "approved used now request tp tc req" and "approval_required tp"
    and "ar_approval_token request = Some token"
  shows "at_approval_id token \<notin> used"
  using assms verify_approval_token_used
  by (fastforce simp: approved_def token_verifies_def)

section \<open>Properties\<close>

text \<open>
  C26. The gate is exact: it lets a call through if and only if the tool needs no approval, or the
  request's token verifies, or there is no token, none is demanded and a human approved the request.
  A token that does not verify is never made up for by the boolean approval.
\<close>

theorem gate_allows_exactly_approved:
  "(\<exists>g. evaluate_approval_gate used now request tp tc req = Inr g \<and> ag_allowed g) \<longleftrightarrow>
     (\<not> (tp_requires_human_approval tp \<or> tp_external_effect tp \<or> tp_destructive tp)
      \<or> (\<exists>token. ar_approval_token request = Some token \<and> token_verifies used now request tp tc token)
      \<or> (ar_approval_token request = None \<and> \<not> req \<and> ar_human_approval request))"
proof -
  have "(\<exists>g. evaluate_approval_gate used now request tp tc req = Inr g \<and> ag_allowed g)
    \<longleftrightarrow> approved used now request tp tc req"
    using evaluate_approval_gate_allowed evaluate_approval_gate_approved by blast
  then show ?thesis by (cases "ar_approval_token request") (auto simp: approved_def approval_required_def)
qed

theorem gate_allows_exactly_approved_witness:
  "let tp = sample_tool_policy\<lparr>tp_destructive := True\<rparr>; ok = sample_request\<lparr>ar_human_approval := True\<rparr>
   in \<not> (\<exists>g. evaluate_approval_gate {} sample_now sample_request tp sample_call False = Inr g \<and> ag_allowed g)
    \<and> (\<exists>g. evaluate_approval_gate {} sample_now ok tp sample_call False = Inr g \<and> ag_allowed g)
    \<and> \<not> (\<exists>g. evaluate_approval_gate {} sample_now ok tp sample_call True = Inr g \<and> ag_allowed g)"
  by (simp add: gate_allows_exactly_approved Let_def sample_request_def)

end
