(* ===== verification/Tool_Broker.thy ===== *)
theory Tool_Broker
  imports Schemas Policy_Engine Approval_Gate
begin

text \<open>
  \<^verbatim>\<open>tool_broker.py\<close>: the authority boundary between untrusted model output and execution. The broker
  composes schema validation, provenance integrity, policy and the approval gate, in this order.
\<close>

record broker_options =
  bo_require_provenance_signature :: bool
  bo_provenance_hmac_key :: "u8 list option"
  bo_require_approval_token :: bool

definition broker_refusal :: "string \<Rightarrow> bool \<Rightarrow> PolicyDecision option \<Rightarrow> BrokerDecision" where
  "broker_refusal reason schema_valid pd =
    \<lparr>bd_allowed = False, bd_reason = reason, bd_policy_decision = pd, bd_schema_valid = schema_valid,
     bd_approval_id = None, bd_approver_id = None, bd_approval_decision = None, bd_approval_reason = None,
     bd_approval_token_valid = None, bd_approval_token_failure_reason = None\<rparr>"

definition effective_key :: "broker_options \<Rightarrow> u8 list" where
  "effective_key bo = (case bo_provenance_hmac_key bo of Some k \<Rightarrow> k | None \<Rightarrow> LAB_DEMO_HMAC_KEY)"

definition broker_tool_request ::
  "validator \<Rightarrow> registry \<Rightarrow> datetime \<Rightarrow> AgentRequest \<Rightarrow> PolicyDocument \<Rightarrow> ToolCallPayload \<Rightarrow> broker_options
     \<Rightarrow> BrokerDecision result" where
  "broker_tool_request mv used now request policy tool_call bo =
    (case validate_tool_call_payload mv tool_call of
      (schema_valid, schema_reason) \<Rightarrow>
        if \<not> schema_valid then Inr (broker_refusal schema_reason False None)
        else
          bind_result (verify_provenance_integrity (tc_provenance tool_call) (effective_key bo)
                         (bo_require_provenance_signature bo))
            (\<lambda>(integrity_ok, integrity_reason).
              if \<not> integrity_ok then Inr (broker_refusal integrity_reason True None)
              else
                (let policy_decision = evaluate_policy policy request tool_call
                 in if \<not> pdec_allowed policy_decision
                    then Inr (broker_refusal (pdec_reason policy_decision) True (Some policy_decision))
                    else
                      case map_of (pd_tools policy) (tc_tool_name tool_call) of
                        None \<Rightarrow> Inl (KeyError (tc_tool_name tool_call))
                      | Some tool_policy \<Rightarrow>
                          bind_result (evaluate_approval_gate used now request tool_policy tool_call
                                         (bo_require_approval_token bo))
                            (\<lambda>approval.
                              if \<not> ag_allowed approval then
                                Inr \<lparr>bd_allowed = False, bd_reason = ag_reason approval,
                                     bd_policy_decision = Some policy_decision, bd_schema_valid = True,
                                     bd_approval_id = ag_approval_id approval,
                                     bd_approver_id = ag_approver_id approval,
                                     bd_approval_decision = ag_approval_decision approval,
                                     bd_approval_reason = ag_approval_reason approval,
                                     bd_approval_token_valid = ag_approval_token_valid approval,
                                     bd_approval_token_failure_reason = ag_approval_token_failure_reason approval\<rparr>
                              else
                                Inr \<lparr>bd_allowed = True, bd_reason = pdec_reason policy_decision,
                                     bd_policy_decision = Some policy_decision, bd_schema_valid = True,
                                     bd_approval_id = ag_approval_id approval,
                                     bd_approver_id = ag_approver_id approval,
                                     bd_approval_decision = ag_approval_decision approval,
                                     bd_approval_reason = ag_approval_reason approval,
                                     bd_approval_token_valid = ag_approval_token_valid approval,
                                     bd_approval_token_failure_reason = None\<rparr>))))"

section \<open>The broker against its specification\<close>

text \<open>Authorisation of a call: every one of the four controls agrees.\<close>

definition integrity_ok :: "broker_options \<Rightarrow> ToolCallPayload \<Rightarrow> bool" where
  "integrity_ok bo tc =
    (\<exists>p. tc_provenance tc = Some p \<and>
      (bo_require_provenance_signature bo \<longrightarrow>
        (\<exists>sig. pv_signature p = Some sig \<and> py_lower sig = compute_provenance_hmac p (effective_key bo))))"

definition authorised ::
  "validator \<Rightarrow> registry \<Rightarrow> datetime \<Rightarrow> AgentRequest \<Rightarrow> PolicyDocument \<Rightarrow> ToolCallPayload \<Rightarrow> broker_options \<Rightarrow> bool" where
  "authorised mv used now request policy tc bo =
    (fst (validate_tool_call_payload mv tc) \<and> integrity_ok bo tc \<and> pd_default_decision policy \<noteq> ''allow''
     \<and> (\<exists>tp. permitted policy request tc tp
          \<and> approved used now request tp tc (bo_require_approval_token bo)))"

lemma broker_refusal_simps [simp]:
  "bd_allowed (broker_refusal r s pd) = False" "bd_reason (broker_refusal r s pd) = r"
  "bd_schema_valid (broker_refusal r s pd) = s" "bd_policy_decision (broker_refusal r s pd) = pd"
  by (simp_all add: broker_refusal_def)

lemma verify_provenance_integrity_iff:
  "(\<exists>r. verify_provenance_integrity (tc_provenance tc) (effective_key bo) (bo_require_provenance_signature bo)
      = Inr (True, r)) \<longleftrightarrow> integrity_ok bo tc"
  by (auto simp: verify_provenance_integrity_def integrity_ok_def verify_provenance_signature_iff
      split: option.splits)

lemma permitted_unique: "permitted policy request tc tp \<Longrightarrow> permitted policy request tc tp' \<Longrightarrow> tp = tp'"
  by (simp add: permitted_def)

lemma broker_allowed_authorised:
  assumes "broker_tool_request mv used now request policy tc bo = Inr d" and "bd_allowed d"
  shows "authorised mv used now request policy tc bo"
proof -
  obtain sr where s: "validate_tool_call_payload mv tc = (True, sr)"
    using assms by (cases "validate_tool_call_payload mv tc") (auto simp: broker_tool_request_def split: if_splits)
  obtain ir where i: "verify_provenance_integrity (tc_provenance tc) (effective_key bo)
      (bo_require_provenance_signature bo) = Inr (True, ir)"
    using assms s by (auto simp: broker_tool_request_def monad_simps split: if_splits)
  have p: "pdec_allowed (evaluate_policy policy request tc)"
    using assms s i by (auto simp: broker_tool_request_def Let_def split: if_splits)
  then obtain tp where tp: "permitted policy request tc tp" and dd: "pd_default_decision policy \<noteq> ''allow''"
    by (auto simp: evaluate_policy_allowed_iff)
  then have "map_of (pd_tools policy) (tc_tool_name tc) = Some tp" by (simp add: permitted_def)
  then obtain g where g: "evaluate_approval_gate used now request tp tc (bo_require_approval_token bo) = Inr g"
    "ag_allowed g"
    using assms s i p by (auto simp: broker_tool_request_def Let_def monad_simps split: if_splits)
  with evaluate_approval_gate_allowed have "approved used now request tp tc (bo_require_approval_token bo)" by blast
  with s i tp dd verify_provenance_integrity_iff show ?thesis by (auto simp: authorised_def)
qed

lemma broker_authorised_allowed:
  assumes "authorised mv used now request policy tc bo"
  shows "\<exists>d. broker_tool_request mv used now request policy tc bo = Inr d \<and> bd_allowed d"
proof -
  from assms obtain tp where a: "fst (validate_tool_call_payload mv tc)" "integrity_ok bo tc"
    "pd_default_decision policy \<noteq> ''allow''" "permitted policy request tc tp"
    "approved used now request tp tc (bo_require_approval_token bo)" by (auto simp: authorised_def)
  obtain sr where s: "validate_tool_call_payload mv tc = (True, sr)"
    using a(1) by (cases "validate_tool_call_payload mv tc") auto
  obtain ir where i: "verify_provenance_integrity (tc_provenance tc) (effective_key bo)
      (bo_require_provenance_signature bo) = Inr (True, ir)"
    using a(2) verify_provenance_integrity_iff by blast
  have p: "pdec_allowed (evaluate_policy policy request tc)"
    using a evaluate_policy_allowed_iff by blast
  have m: "map_of (pd_tools policy) (tc_tool_name tc) = Some tp" using a(4) by (simp add: permitted_def)
  obtain g where g: "evaluate_approval_gate used now request tp tc (bo_require_approval_token bo) = Inr g" "ag_allowed g"
    using evaluate_approval_gate_approved[OF a(5)] by blast
  from s i p m g show ?thesis by (simp add: broker_tool_request_def Let_def)
qed

text \<open>An exception of the broker comes from the signature comparison or from the token's expiry.\<close>

lemma broker_raises:
  assumes "broker_tool_request mv used now request policy tc bo = Inl e"
  shows "verify_provenance_integrity (tc_provenance tc) (effective_key bo) (bo_require_provenance_signature bo) = Inl e
    \<or> (\<exists>token. ar_approval_token request = Some token \<and> is_approval_token_expired token now = Inl e)"
proof (cases "verify_provenance_integrity (tc_provenance tc) (effective_key bo) (bo_require_provenance_signature bo)")
  case (Inl e')
  then show ?thesis using assms
    by (auto simp: broker_tool_request_def split: prod.splits if_splits)
next
  case (Inr r)
  from assms have p: "pdec_allowed (evaluate_policy policy request tc)"
    using Inr by (auto simp: broker_tool_request_def Let_def split: prod.splits if_splits)
  then obtain tp where tp: "map_of (pd_tools policy) (tc_tool_name tc) = Some tp"
    by (auto simp: evaluate_policy_allowed_iff permitted_def)
  have "evaluate_approval_gate used now request tp tc (bo_require_approval_token bo) = Inl e"
    using assms Inr p tp
    by (auto simp: broker_tool_request_def Let_def monad_simps split: prod.splits if_splits)
  then show ?thesis
    using verify_approval_token_raises
    by (fastforce simp: evaluate_approval_gate_def monad_simps split: if_splits option.splits prod.splits)
qed

lemma broker_schema_invalid:
  assumes "broker_tool_request mv used now request policy tc bo = Inr d"
  shows "bd_schema_valid d \<longleftrightarrow> fst (validate_tool_call_payload mv tc)"
  using assms
  by (auto simp: broker_tool_request_def Let_def monad_simps split: prod.splits if_splits option.splits)

section \<open>The broker as an authority\<close>

text \<open>
  What a client of the broker (the pipeline) relies on: a decision function that allows exactly the
  authorised calls. Under this contract a refusal is never followed by an allowed execution of the
  same call in the same state, and every allowed call satisfies every control.
\<close>

locale authority =
  fixes decide :: "'s \<Rightarrow> 'c \<Rightarrow> 'd result" and allows :: "'d \<Rightarrow> bool" and auth :: "'s \<Rightarrow> 'c \<Rightarrow> bool"
  assumes sound: "decide s c = Inr d \<Longrightarrow> allows d \<Longrightarrow> auth s c"
    and complete: "auth s c \<Longrightarrow> \<exists>d. decide s c = Inr d \<and> allows d"
begin

lemma allows_iff: "(\<exists>d. decide s c = Inr d \<and> allows d) \<longleftrightarrow> auth s c"
  using sound complete by blast

lemma refuses: "decide s c = Inr d \<Longrightarrow> \<not> allows d \<Longrightarrow> \<not> auth s c"
  using complete by fastforce

lemma raises_unauthorised: "decide s c = Inl e \<Longrightarrow> \<not> auth s c"
  using complete by fastforce

end

interpretation broker: authority
  "\<lambda>(used, now, policy) (request, tc). broker_tool_request mv used now request policy tc bo"
  bd_allowed
  "\<lambda>(used, now, policy) (request, tc). authorised mv used now request policy tc bo"
  for mv bo
  by unfold_locales
    (auto simp: split_beta intro: broker_allowed_authorised dest: broker_authorised_allowed)

section \<open>Properties\<close>

text \<open>
  C5. The broker allows exactly the authorised calls: a decision that allows comes back if and only if
  the schema check, the provenance integrity check, the policy and the approval gate all agree.
\<close>

theorem broker_allows_exactly_authorised:
  "(\<exists>d. broker_tool_request mv used now request policy tc bo = Inr d \<and> bd_allowed d) \<longleftrightarrow>
     authorised mv used now request policy tc bo"
  using broker.allows_iff[of mv bo "(used, now, policy)" "(request, tc)"] by simp



end
