(* ===== verification/Simulator.thy ===== *)
theory Simulator
  imports Models
begin

text \<open>
  \<^verbatim>\<open>simulator.py\<close>: the simulated execution of a tool and the labelled record of the vulnerable path.
  \<^verbatim>\<open>for rid in ids\<close> iterates whatever the argument is, so the read is fallible: a value that is not
  iterable raises TypeError.
\<close>

definition args_get :: "arguments \<Rightarrow> string \<Rightarrow> json \<Rightarrow> json" where
  "args_get args k d = (case map_of args k of Some v \<Rightarrow> v | None \<Rightarrow> d)"

fun py_iter :: "json \<Rightarrow> json list result" where
  "py_iter (JList vs) = Inr vs"
| "py_iter (JStr s) = Inr (map (\<lambda>c. JStr [c]) s)"
| "py_iter (JDict kvs) = Inr (map (\<lambda>(k, v). JStr k) kvs)"
| "py_iter v = Inl (TypeError ''object is not iterable'')"

definition simulate_tool_execution :: "AgentRequest \<Rightarrow> ToolCallPayload \<Rightarrow> SimulationResult result" where
  "simulate_tool_execution request tool_call =
    (let tool = tc_tool_name tool_call; tenant = ar_tenant_id request; args = tc_arguments tool_call in
     if tool = ''read_records'' then
       bind_result (py_iter (args_get args ''record_ids'' (JList []))) (\<lambda>ids.
         Inr \<lparr>sr_success = True, sr_message = ''simulated_read_records'',
              sr_simulated_output =
                [(''tenant_id'', JStr tenant),
                 (''records'', JList (map (\<lambda>rid. JDict [(''id'', rid), (''value'', JStr ''simulated'')]) ids))]\<rparr>)
     else if tool = ''send_email'' then
       Inr \<lparr>sr_success = True, sr_message = ''simulated_send_email'',
            sr_simulated_output =
              [(''to'', args_get args ''to'' JNull), (''status'', JStr ''simulated_queued''),
               (''note'', JStr ''no real email sent'')]\<rparr>
     else if tool = ''export_records'' then
       Inr \<lparr>sr_success = True, sr_message = ''simulated_export_records'',
            sr_simulated_output =
              [(''format'', args_get args ''format'' (JStr ''json'')), (''rows'', JInt 3),
               (''note'', JStr ''simulated export only'')]\<rparr>
     else if tool = ''delete_records'' then
       Inr \<lparr>sr_success = True, sr_message = ''simulated_delete_records'',
            sr_simulated_output =
              [(''deleted_ids'', args_get args ''record_ids'' (JList [])),
               (''note'', JStr ''simulated delete only'')]\<rparr>
     else if tool = ''run_shell'' then
       Inr \<lparr>sr_success = False, sr_message = ''run_shell_must_not_execute'',
            sr_simulated_output = [(''note'', JStr ''policy should block before simulation'')]\<rparr>
     else
       Inr \<lparr>sr_success = False, sr_message = ''unknown_tool_not_simulated:'' @ tool, sr_simulated_output = []\<rparr>)"

section \<open>The vulnerable path\<close>

text \<open>\<^verbatim>\<open>str(v)\<close> of a JSON value as a Python object.\<close>

definition py_float_str :: "string \<Rightarrow> string" where
  "py_float_str s = (if s = ''NaN'' then ''nan'' else if s = ''Infinity'' then ''inf''
     else if s = ''-Infinity'' then ''-inf'' else s)"

fun json_py_repr :: "json \<Rightarrow> string" where
  "json_py_repr JNull = ''None''"
| "json_py_repr (JBool b) = (if b then ''True'' else ''False'')"
| "json_py_repr (JInt i) = int_str i"
| "json_py_repr (JFloat s) = py_float_str s"
| "json_py_repr (JStr s) = py_repr s"
| "json_py_repr (JList vs) = ''['' @ py_join '', '' (map json_py_repr vs) @ '']''"
| "json_py_repr (JDict kvs) =
     ''{'' @ py_join '', '' (map (\<lambda>(k, v). py_repr k @ '': '' @ json_py_repr v) kvs) @ ''}''"

fun json_py_str :: "json \<Rightarrow> string" where
  "json_py_str (JStr s) = s"
| "json_py_str v = json_py_repr v"

definition simulate_vulnerable_execution :: "ToolCallPayload \<Rightarrow> arguments" where
  "simulate_vulnerable_execution tool_call =
    (if tc_tool_name tool_call = ''run_shell'' then
       [(''unsafe_decision'', JStr ''would_have_invoked_shell''),
        (''simulated_command'', JStr (json_py_str (args_get (tc_arguments tool_call) ''command'' (JStr [])))),
        (''actually_executed'', JBool False),
        (''warning'', JStr ''vulnerable_path_simulation_only'')]
     else if tc_tool_name tool_call = ''send_email'' then
       [(''unsafe_decision'', JStr ''would_have_sent_email_without_broker''),
        (''actually_executed'', JBool False),
        (''warning'', JStr ''vulnerable_path_simulation_only'')]
     else
       [(''unsafe_decision'', JStr (''would_have_called_'' @ tc_tool_name tool_call)),
        (''actually_executed'', JBool False),
        (''warning'', JStr ''vulnerable_path_simulation_only'')])"

section \<open>Facts\<close>

lemma vulnerable_never_executes:
  "map_of (simulate_vulnerable_execution tc) ''actually_executed'' = Some (JBool False)"
  by (simp add: simulate_vulnerable_execution_def)

lemma vulnerable_decision:
  "\<exists>s. map_of (simulate_vulnerable_execution tc) ''unsafe_decision'' = Some (JStr s)"
  by (simp add: simulate_vulnerable_execution_def)

text \<open>The simulation of a read raises exactly when its ids are not iterable; nothing else raises.\<close>

lemma simulate_tool_execution_total:
  assumes "\<And>v. tc_tool_name tc = ''read_records'' \<Longrightarrow> map_of (tc_arguments tc) ''record_ids'' = Some v
     \<Longrightarrow> \<exists>vs. v = JList vs"
  shows "\<exists>r. simulate_tool_execution request tc = Inr r"
proof (cases "tc_tool_name tc = ''read_records''")
  case True
  then have "\<exists>vs. args_get (tc_arguments tc) ''record_ids'' (JList []) = JList vs"
    using assms by (cases "map_of (tc_arguments tc) ''record_ids''") (auto simp: args_get_def)
  with True show ?thesis by (auto simp: simulate_tool_execution_def Let_def)
qed (simp add: simulate_tool_execution_def Let_def)

end
