(* ===== verification/Output_Filter.thy ===== *)
theory Output_Filter
  imports Models Regex Complex_Main
begin

text \<open>
  \<^verbatim>\<open>output_filter.py\<close>: the layered filter between model text and its destination. Patterns are values of
  \<^typ>\<open>regex\<close>; findings, contexts and results are records with the fields of the classes. The Shannon
  entropy is taken over the reals (the program uses binary64), and \<open>low_entropy\<close> has an equivalent
  test on natural numbers as its code equation, so that the filter evaluates. The keys of a structured
  response are given in the iteration order of the set that holds them.
\<close>

section \<open>Patterns\<close>

definition b64_char :: "char \<Rightarrow> bool" where
  "b64_char c = (ascii_alnum c \<or> c = CHR ''+'' \<or> c = CHR ''/'')"

definition key_char :: "char \<Rightarrow> bool" where
  "key_char c = (ascii_alnum c \<or> c = CHR ''_'' \<or> c = CHR ''-'')"

definition colon_or_eq :: "char \<Rightarrow> bool" where
  "colon_or_eq c = (c = CHR '':'' \<or> c = CHR ''='')"

definition dash :: "char \<Rightarrow> bool" where
  "dash c = (c = CHR ''_'' \<or> c = CHR ''-'')"

abbreviation spaces :: regex where
  "spaces \<equiv> Star True py_isspace"

text \<open>\<^verbatim>\<open>\s*[:=]\s*\<close> before the rest of a pattern, and \<^verbatim>\<open>={0,2}\<close>.\<close>

definition assigns :: "regex \<Rightarrow> regex" where
  "assigns r = Sq spaces (Sq (Cls colon_or_eq) (Sq spaces r))"

definition padding :: regex where
  "padding = Opt (Sq (Lit (CHR ''='')) (Opt (Lit (CHR ''=''))))"

definition SECRET_KEY :: regex where
  "SECRET_KEY = Sq (Str ''sk-'') (Rep 20 key_char)"

definition SECRET_PASSWORD :: regex where
  "SECRET_PASSWORD = Sq (StrI ''password'') (assigns (Rep 1 (\<lambda>c. \<not> py_isspace c)))"

definition SECRET_API_KEY :: regex where
  "SECRET_API_KEY = Sq (StrI ''api'') (Sq (Opt (Cls dash)) (Sq (StrI ''key'') (assigns (Rep 1 (\<lambda>c. \<not> py_isspace c)))))"

definition SECRET_PATTERNS :: "regex list" where
  "SECRET_PATTERNS = [SECRET_KEY, SECRET_PASSWORD, SECRET_API_KEY]"

definition PRIVATE_KEY_PATTERN :: regex where
  "PRIVATE_KEY_PATTERN = Sq (Str ''-----BEGIN '') (Sq (Opt (Alt (Str ''RSA '') (Str ''EC ''))) (Str ''PRIVATE KEY-----''))"

definition JWT_PATTERN :: regex where
  "JWT_PATTERN = Sq (Str ''eyJ'') (Sq (Rep 1 key_char) (Sq (Str ''.eyJ'') (Sq (Rep 1 key_char)
     (Sq (Str ''.'') (Rep 1 key_char)))))"

definition BASE64_BLOB_PATTERN :: regex where
  "BASE64_BLOB_PATTERN = Sq (Alt Bol (Cls (\<lambda>c. \<not> b64_char c)))
     (Sq (Grp (Sq (Rep 80 b64_char) padding)) (Alt Eol (Cls (\<lambda>c. \<not> b64_char c \<and> c \<noteq> CHR ''=''))))"

definition HIGH_ENTROPY_TOKEN_PATTERN :: regex where
  "HIGH_ENTROPY_TOKEN_PATTERN = Sq Wordb (Sq (Rep 32 b64_char) (Sq padding Wordb))"

definition TENANT_MARKER_PATTERN :: regex where
  "TENANT_MARKER_PATTERN = Sq Wordb (Sq (StrI ''tenant'') (Sq (Opt (Cls dash)) (Sq (StrI ''id'')
     (assigns (Grp (Rep 1 key_char))))))"

definition SENSITIVE_CLASSIFICATION_PATTERN :: regex where
  "SENSITIVE_CLASSIFICATION_PATTERN = Sq Wordb (Sq (StrI ''classification'')
     (assigns (Sq (Grp (Alt (StrI ''sensitive'') (Alt (StrI ''restricted'') (StrI ''confidential'')))) Wordb)))"

section \<open>Contexts, findings, results\<close>

datatype OutputDestination = INTERNAL_DISPLAY | AUDIT_LOG | EXTERNAL_EMAIL | EXTERNAL_EXPORT | WEBHOOK

fun OutputDestination_value :: "OutputDestination \<Rightarrow> string" where
  "OutputDestination_value INTERNAL_DISPLAY = ''internal_display''"
| "OutputDestination_value AUDIT_LOG = ''audit_log''"
| "OutputDestination_value EXTERNAL_EMAIL = ''external_email''"
| "OutputDestination_value EXTERNAL_EXPORT = ''external_export''"
| "OutputDestination_value WEBHOOK = ''webhook''"

datatype SourceSensitivity = PUBLIC | INTERNAL | SENSITIVE | RESTRICTED

fun SourceSensitivity_value :: "SourceSensitivity \<Rightarrow> string" where
  "SourceSensitivity_value PUBLIC = ''public''"
| "SourceSensitivity_value INTERNAL = ''internal''"
| "SourceSensitivity_value SENSITIVE = ''sensitive''"
| "SourceSensitivity_value RESTRICTED = ''restricted''"

record OutputFinding =
  of_finding_type :: string
  of_severity :: string
  of_reason :: string
  of_redacted_sample :: string
  of_source :: "string option"
  of_tenant_id :: "string option"
  of_destination :: "string option"
  of_rule_id :: string

record OutputFilterContext =
  oc_tenant_id :: "string option"
  oc_destination :: OutputDestination
  oc_source_sensitivity :: SourceSensitivity
  oc_source_labels :: "string list"
  oc_strict_response_schema :: bool
  oc_allowed_response_keys :: "string set option"

record OutputFilterResult =
  fr_allowed :: bool
  fr_reason :: string
  fr_filtered_text :: string
  fr_findings :: "OutputFinding list"
  fr_output_filter_decision :: string
  fr_finding_count :: nat
  fr_finding_types :: "string list"
  fr_highest_severity :: "string option"

definition SENSITIVE_RESPONSE_KEYS :: "string set" where
  "SENSITIVE_RESPONSE_KEYS = {''password'', ''secret'', ''api_key'', ''apikey'', ''token'', ''private_key'',
     ''credential'', ''access_token''}"

definition EXTERNAL_DESTINATIONS :: "string set" where
  "EXTERNAL_DESTINATIONS = {''external_email'', ''external_export'', ''webhook''}"

definition is_external :: "OutputFilterContext \<Rightarrow> bool" where
  "is_external context = (OutputDestination_value (oc_destination context) \<in> EXTERNAL_DESTINATIONS)"

section \<open>Severities and samples\<close>

definition severity_order :: "string \<Rightarrow> int" where
  "severity_order s = (if s = ''low'' then 0 else if s = ''medium'' then 1 else if s = ''high'' then 2
     else if s = ''critical'' then 3 else 0)"

fun highest_from :: "string option \<Rightarrow> int \<Rightarrow> OutputFinding list \<Rightarrow> string option" where
  "highest_from best best_score [] = best"
| "highest_from best best_score (f # fs) =
     (let score = severity_order (of_severity f)
      in if score > best_score then highest_from (Some (of_severity f)) score fs
         else highest_from best best_score fs)"

definition highest_severity :: "OutputFinding list \<Rightarrow> string option" where
  "highest_severity findings = highest_from None (- 1) findings"

definition sensitivity_rank :: "SourceSensitivity \<Rightarrow> nat" where
  "sensitivity_rank s = (case s of PUBLIC \<Rightarrow> 0 | INTERNAL \<Rightarrow> 1 | SENSITIVE \<Rightarrow> 2 | RESTRICTED \<Rightarrow> 3)"

definition max_sensitivity :: "SourceSensitivity \<Rightarrow> SourceSensitivity \<Rightarrow> SourceSensitivity" where
  "max_sensitivity current candidate =
    (if sensitivity_rank candidate > sensitivity_rank current then candidate else current)"

definition redact_sample :: "string \<Rightarrow> nat \<Rightarrow> string" where
  "redact_sample value max_len =
    (let trimmed = py_strip value
     in if length trimmed \<le> max_len then take (max 4 (length trimmed div 2)) trimmed @ ''...[REDACTED]''
        else take max_len trimmed @ ''...[REDACTED]'')"

section \<open>Entropy and encoded blobs\<close>

text \<open>The values of the dictionary of character counts, in any order.\<close>

definition char_counts :: "string \<Rightarrow> nat list" where
  "char_counts token = map (count_list token) (remdups token)"

definition shannon_entropy :: "string \<Rightarrow> real" where
  "shannon_entropy token =
    (if token = [] then 0
     else foldl (\<lambda>entropy count. entropy - (real count / real (length token)) * log 2 (real count / real (length token)))
            0 (char_counts token))"

definition low_entropy :: "string \<Rightarrow> bool" where
  "low_entropy token = (shannon_entropy token < 42 / 10)"

text \<open>
  \<^verbatim>\<open>base64.b64decode(blob, validate=True)\<close>: CPython's \<^verbatim>\<open>a2b_base64\<close> in strict mode, character by
  character, with the position in the quad, the count of pads, whether padding has begun, the bits left
  over and the bytes so far (reversed).
\<close>

definition b64_value :: "char \<Rightarrow> nat option" where
  "b64_value c = (if ascii_upper c then Some (ord c - 65) else if ascii_lower c then Some (ord c - 71)
     else if ascii_digit c then Some (ord c + 4) else if c = CHR ''+'' then Some 62
     else if c = CHR ''/'' then Some 63 else None)"

fun a2b_strict :: "nat \<Rightarrow> nat \<Rightarrow> bool \<Rightarrow> nat \<Rightarrow> nat list \<Rightarrow> string \<Rightarrow> nat list option" where
  "a2b_strict quad pads started left out [] = (if quad = 0 then Some (rev out) else None)"
| "a2b_strict quad pads started left out (c # cs) =
     (if c = CHR ''='' then
        (if 2 \<le> quad \<and> 4 \<le> quad + pads + 1 then (if cs = [] then Some (rev out) else None)
         else a2b_strict quad (if 2 \<le> quad then pads + 1 else pads) True left out cs)
      else (case b64_value c of
              None \<Rightarrow> None
            | Some v \<Rightarrow>
               if started then None
               else if quad = 0 then a2b_strict 1 0 started v out cs
               else if quad = 1 then a2b_strict 2 0 started (v mod 16) ((left * 4 + v div 16) # out) cs
               else if quad = 2 then a2b_strict 3 0 started (v mod 4) ((left * 16 + v div 4) # out) cs
               else a2b_strict 0 0 started 0 ((left * 64 + v) # out) cs))"

definition b64decode_strict :: "string \<Rightarrow> nat list option" where
  "b64decode_strict s = (case s of c # cs \<Rightarrow> if c = CHR ''='' then None else a2b_strict 0 0 False 0 [] s | [] \<Rightarrow> Some [])"

definition looks_like_encoded_secret :: "string \<Rightarrow> bool" where
  "looks_like_encoded_secret blob =
    (case b64decode_strict blob of
       None \<Rightarrow> False
     | Some decoded \<Rightarrow>
        (if length decoded < 48 then False
         else 85 * length decoded < 100 * length (filter (\<lambda>byte. 32 \<le> byte \<and> byte < 127) decoded)))"

section \<open>The layers\<close>

definition finding ::
  "string \<Rightarrow> string \<Rightarrow> string \<Rightarrow> string \<Rightarrow> OutputFilterContext \<Rightarrow> string \<Rightarrow> string option \<Rightarrow> OutputFinding" where
  "finding finding_type severity reason redacted_sample context rule_id tenant_id =
    \<lparr>of_finding_type = finding_type, of_severity = severity, of_reason = reason,
     of_redacted_sample = redacted_sample,
     of_source = (case oc_source_labels context of [] \<Rightarrow> None | l # _ \<Rightarrow> Some l),
     of_tenant_id = (case tenant_id of Some t \<Rightarrow> if t = [] then oc_tenant_id context else Some t
                     | None \<Rightarrow> oc_tenant_id context),
     of_destination = Some (OutputDestination_value (oc_destination context)),
     of_rule_id = rule_id\<rparr>"

definition group1 :: "match_obj \<Rightarrow> string" where
  "group1 m = (case m_group1 m of Some g \<Rightarrow> g | None \<Rightarrow> [])"

text \<open>A loop over matches that adds one finding and stops: the finding of the first match that qualifies.\<close>

definition first_finding :: "(match_obj \<Rightarrow> OutputFinding option) \<Rightarrow> match_obj list \<Rightarrow> OutputFinding list" where
  "first_finding f ms = (case List.find (\<lambda>m. f m \<noteq> None) ms of None \<Rightarrow> [] | Some m \<Rightarrow> [the (f m)])"

definition pattern_findings :: "string \<Rightarrow> OutputFilterContext \<Rightarrow> OutputFinding list" where
  "pattern_findings txt context =
    (if search PRIVATE_KEY_PATTERN txt \<noteq> None
     then [finding ''private_key_material'' ''critical'' ''private_key_material_blocked''
             (redact_sample txt 24) context ''pattern.private_key'' None] else [])
    @ (if search JWT_PATTERN txt \<noteq> None
       then [finding ''jwt_like_token'' ''critical'' ''jwt_like_token_blocked''
               (redact_sample txt 24) context ''pattern.jwt'' None] else [])
    @ (if list_ex (\<lambda>pattern. search pattern txt \<noteq> None) SECRET_PATTERNS
       then [finding ''secret_pattern'' ''critical'' ''secret_pattern_blocked''
               (redact_sample txt 24) context ''pattern.secret'' None] else [])
    @ first_finding (\<lambda>m. if looks_like_encoded_secret (group1 m)
         then Some (finding ''encoded_blob'' ''high'' ''encoded_blob_blocked''
                (redact_sample (group1 m) 16) context ''pattern.encoded_blob'' None)
         else None) (finditer BASE64_BLOB_PATTERN txt)"

definition ENTROPY_MIN_TOKEN_LEN :: nat where
  "ENTROPY_MIN_TOKEN_LEN = 32"

definition entropy_findings :: "string \<Rightarrow> OutputFilterContext \<Rightarrow> OutputFinding list" where
  "entropy_findings txt context =
    first_finding (\<lambda>m. let token = m_group0 m in
        if length token < ENTROPY_MIN_TOKEN_LEN then None
        else if low_entropy token then None
        else if py_isdigit token then None
        else Some (finding ''high_entropy_string'' ''high'' ''high_entropy_string_blocked''
               (redact_sample token 12) context ''entropy.token'' None))
      (finditer HIGH_ENTROPY_TOKEN_PATTERN txt)"

definition tenant_marker_findings :: "string \<Rightarrow> OutputFilterContext \<Rightarrow> OutputFinding list" where
  "tenant_marker_findings txt context =
    (if oc_tenant_id context = None \<or> oc_tenant_id context = Some [] then []
     else first_finding (\<lambda>m. if Some (group1 m) \<noteq> oc_tenant_id context
            then Some (finding ''cross_tenant_content'' ''high'' ''cross_tenant_output_blocked''
                   ''tenant_id:[REDACTED]'' context ''tenant.marker_mismatch'' (Some (group1 m)))
            else None) (finditer TENANT_MARKER_PATTERN txt))"

definition classification_findings :: "string \<Rightarrow> OutputFilterContext \<Rightarrow> OutputFinding list" where
  "classification_findings txt context =
    (case search SENSITIVE_CLASSIFICATION_PATTERN txt of
       None \<Rightarrow> []
     | Some m \<Rightarrow> [finding ''sensitive_classification'' ''medium'' ''sensitive_classification_detected''
                    (''classification:'' @ py_lower (group1 m)) context ''classification.marker'' None])"

definition source_sensitivity_findings :: "OutputFilterContext \<Rightarrow> OutputFinding list" where
  "source_sensitivity_findings context =
    (if \<not> is_external context then []
     else (if oc_source_sensitivity context = SENSITIVE \<or> oc_source_sensitivity context = RESTRICTED
           then [finding ''source_sensitivity'' ''high'' ''sensitive_source_external_destination_blocked''
                   (''sensitivity:'' @ SourceSensitivity_value (oc_source_sensitivity context)) context
                   ''source.sensitivity_external'' None] else [])
       @ (if ''tool_output_untrusted'' \<in> set (oc_source_labels context)
          then [finding ''tool_output_source'' ''high'' ''tool_output_external_destination_blocked''
                  ''source:tool_output'' context ''source.tool_output_external'' None] else []))"

definition schema_findings :: "string list \<Rightarrow> OutputFilterContext \<Rightarrow> OutputFinding list" where
  "schema_findings keys context =
    map (\<lambda>key. finding ''sensitive_response_key'' ''critical'' ''sensitive_response_key_blocked''
           (''key:'' @ key) context ''schema.sensitive_key'' None)
      (filter (\<lambda>key. py_lower key \<in> SENSITIVE_RESPONSE_KEYS) keys)
    @ (case oc_allowed_response_keys context of
         Some allowed \<Rightarrow>
           (if oc_strict_response_schema context
            then map (\<lambda>key. finding ''unknown_response_key'' ''high'' ''unknown_response_key_blocked''
                        (''key:'' @ key) context ''schema.unknown_key'' None)
                   (sort (filter (\<lambda>key. key \<notin> allowed) keys))
            else [])
       | None \<Rightarrow> [])"

section \<open>The decision\<close>

definition finding_key :: "OutputFinding \<Rightarrow> string \<times> string" where
  "finding_key f = (of_rule_id f, of_reason f)"

fun dedupe_from :: "(string \<times> string) set \<Rightarrow> OutputFinding list \<Rightarrow> OutputFinding list" where
  "dedupe_from seen [] = []"
| "dedupe_from seen (f # fs) =
     (if finding_key f \<in> seen then dedupe_from seen fs else f # dedupe_from (insert (finding_key f) seen) fs)"

definition dedupe_findings :: "OutputFinding list \<Rightarrow> OutputFinding list" where
  "dedupe_findings findings = dedupe_from {} findings"

definition should_block :: "OutputFinding list \<Rightarrow> OutputFilterContext \<Rightarrow> bool" where
  "should_block findings context =
    (if findings = [] then False
     else let highest = highest_severity findings
          in if highest = Some ''critical'' \<or> highest = Some ''high'' then True
             else if is_external context then True
             else if oc_destination context = INTERNAL_DISPLAY then highest = Some ''medium''
             else False)"

definition preferred_reasons :: "string list" where
  "preferred_reasons =
    [''secret_pattern_blocked'', ''private_key_material_blocked'', ''jwt_like_token_blocked'',
     ''encoded_blob_blocked'', ''high_entropy_string_blocked'', ''cross_tenant_output_blocked'',
     ''sensitive_source_external_destination_blocked'', ''tool_output_external_destination_blocked'',
     ''sensitive_response_key_blocked'', ''unknown_response_key_blocked'']"

definition primary_block_reason :: "OutputFinding list \<Rightarrow> string" where
  "primary_block_reason findings =
    (case List.find (\<lambda>preferred. list_ex (\<lambda>f. of_reason f = preferred) findings) preferred_reasons of
       Some preferred \<Rightarrow> preferred | None \<Rightarrow> of_reason (hd findings))"

definition filter_result :: "bool \<Rightarrow> string \<Rightarrow> string \<Rightarrow> OutputFinding list \<Rightarrow> OutputFilterResult" where
  "filter_result allowed reason filtered_text findings =
    \<lparr>fr_allowed = allowed, fr_reason = reason, fr_filtered_text = filtered_text, fr_findings = findings,
     fr_output_filter_decision = (if allowed then ''allow'' else ''block''),
     fr_finding_count = length findings,
     fr_finding_types = sort (remdups (map of_finding_type findings)),
     fr_highest_severity = highest_severity findings\<rparr>"

definition all_findings :: "string \<Rightarrow> OutputFilterContext \<Rightarrow> string list option \<Rightarrow> OutputFinding list" where
  "all_findings txt context structured =
    (case structured of Some keys \<Rightarrow> schema_findings keys context | None \<Rightarrow> [])
    @ (if txt \<noteq> []
       then pattern_findings txt context @ entropy_findings txt context @ tenant_marker_findings txt context
              @ classification_findings txt context
       else [])
    @ source_sensitivity_findings context"

definition filter_output ::
  "string \<Rightarrow> OutputFilterContext \<Rightarrow> string list option \<Rightarrow> OutputFilterResult" where
  "filter_output txt context structured =
    (let findings = dedupe_findings (all_findings txt context structured)
     in if findings = [] then filter_result True ''output_allowed'' txt []
        else if should_block findings context
          then filter_result False (primary_block_reason findings) [] findings
        else if oc_destination context = AUDIT_LOG
          then filter_result True ''audit_log_redacted_only'' [] findings
        else filter_result True ''output_allowed'' txt findings)"

definition default_context :: OutputFilterContext where
  "default_context =
    \<lparr>oc_tenant_id = None, oc_destination = INTERNAL_DISPLAY, oc_source_sensitivity = PUBLIC,
     oc_source_labels = [], oc_strict_response_schema = False, oc_allowed_response_keys = None\<rparr>"

definition filter_model_output :: "string \<Rightarrow> OutputFilterResult" where
  "filter_model_output txt = filter_output txt default_context None"

section \<open>The context of a request\<close>

definition chunk_step :: "string \<Rightarrow> SourceSensitivity \<times> string list \<Rightarrow> RetrievedChunk \<Rightarrow> SourceSensitivity \<times> string list" where
  "chunk_step tenant_id st chunk =
    (let (sensitivity, labels) = st;
         content = rc_content chunk;
         labels' = (if rc_tenant_id chunk \<noteq> tenant_id then labels @ [''retrieved_cross_tenant:'' @ rc_tenant_id chunk] else labels);
         s1 = (if search SENSITIVE_CLASSIFICATION_PATTERN content \<noteq> None then max_sensitivity sensitivity SENSITIVE else sensitivity);
         s2 = (if rc_trust chunk = UNTRUSTED \<and> py_in ''sensitive'' (py_lower content) then max_sensitivity s1 SENSITIVE else s1)
     in (s2, labels'))"

definition segment_step :: "SourceSensitivity \<times> string list \<Rightarrow> ToolOutputSegment \<Rightarrow> SourceSensitivity \<times> string list" where
  "segment_step st segment =
    (let (sensitivity, labels) = st; content = ts_content segment
     in (if py_in ''sensitive'' (py_lower content) \<or> py_in ''confidential'' (py_lower content)
         then max_sensitivity sensitivity RESTRICTED else sensitivity,
         labels @ [''tool_output_untrusted'']))"

definition build_filter_context_from_request :: "AgentRequest \<Rightarrow> OutputDestination \<Rightarrow> OutputFilterContext" where
  "build_filter_context_from_request request destination =
    (let st1 = foldl (chunk_step (ar_tenant_id request)) (PUBLIC, []) (ar_retrieved_chunks request);
         (sensitivity, labels) = foldl segment_step st1 (ar_tool_output_segments request)
     in \<lparr>oc_tenant_id = Some (ar_tenant_id request), oc_destination = destination,
         oc_source_sensitivity = sensitivity, oc_source_labels = labels,
         oc_strict_response_schema = False, oc_allowed_response_keys = None\<rparr>)"

definition findings_for_audit :: "OutputFinding list \<Rightarrow> (string \<times> string) list list" where
  "findings_for_audit findings =
    map (\<lambda>f. [(''finding_type'', of_finding_type f), (''severity'', of_severity f), (''reason'', of_reason f),
              (''redacted_sample'', of_redacted_sample f), (''rule_id'', of_rule_id f)]) findings"

section \<open>Entropy by natural numbers\<close>

lemma sum_char_counts: "sum_list (char_counts token) = length token"
proof -
  have "sum_list (char_counts token) = sum (count_list token) (set token)"
    unfolding char_counts_def by (simp add: sum_list_distinct_conv_sum_set)
  then show ?thesis by (simp add: sum_count_set)
qed

lemma char_counts_pos: "c \<in> set (char_counts token) \<Longrightarrow> 0 < c"
  by (auto simp: char_counts_def) (metis count_list_0_iff gr0I)

lemma foldl_minus: "foldl (\<lambda>e c. e - f c) (a :: real) cs = a - sum_list (map f cs)"
  by (induction cs arbitrary: a) auto

lemma prod_counts_pos: "(\<And>c. c \<in> set cs \<Longrightarrow> 0 < c) \<Longrightarrow> 0 < prod_list (map (\<lambda>c. (c :: nat) ^ (5 * c)) cs)"
  by (induction cs) auto

lemma log_prod_counts:
  "(\<And>c. c \<in> set cs \<Longrightarrow> 0 < c) \<Longrightarrow>
     log 2 (real (prod_list (map (\<lambda>c. c ^ (5 * c)) cs))) = 5 * sum_list (map (\<lambda>c. real c * log 2 (real c)) cs)"
proof (induction cs)
  case (Cons c cs)
  have pos: "0 < real (prod_list (map (\<lambda>c. c ^ (5 * c)) cs))"
    using prod_counts_pos[of cs] Cons.prems by simp
  have c: "0 < real c" using Cons.prems by simp
  then have "log 2 (real (c ^ (5 * c))) = 5 * (real c * log 2 (real c))"
    by (simp add: log_nat_power)
  with c pos Cons show ?case by (simp add: log_mult distrib_left)
qed simp

lemma entropy_closed_form:
  assumes "token \<noteq> []"
  shows "shannon_entropy token = log 2 (length token)
    - sum_list (map (\<lambda>c. real c * log 2 (real c)) (char_counts token)) / length token"
proof -
  let ?n = "real (length token)" and ?cs = "char_counts token"
  have n: "0 < ?n" using assms by simp
  have "real c / ?n * log 2 (real c / ?n) = real c * log 2 (real c) / ?n - real c * (log 2 ?n / ?n)" if "c \<in> set ?cs" for c
    using char_counts_pos[OF that] n by (simp add: log_divide field_simps)
  then have "map (\<lambda>c. real c / ?n * log 2 (real c / ?n)) ?cs
      = map (\<lambda>c. real c * log 2 (real c) / ?n - real c * (log 2 ?n / ?n)) ?cs" by (intro map_cong) auto
  moreover have "sum_list (map (\<lambda>c. real c * log 2 (real c) / ?n - real c * k) cs)
      = sum_list (map (\<lambda>c. real c * log 2 (real c)) cs) / ?n - real (sum_list cs) * k" for cs k
    by (induction cs) (simp_all add: field_simps add_divide_distrib)
  ultimately have "sum_list (map (\<lambda>c. real c / ?n * log 2 (real c / ?n)) ?cs)
      = sum_list (map (\<lambda>c. real c * log 2 (real c)) ?cs) / ?n - ?n * (log 2 ?n / ?n)"
    by (simp only: sum_char_counts)
  then show ?thesis using assms n by (simp add: shannon_entropy_def foldl_minus)
qed

lemma low_entropy_nat [code]:
  "low_entropy token \<longleftrightarrow> token = [] \<or>
     (let n = length token in n ^ (5 * n) < 2 ^ (21 * n) * prod_list (map (\<lambda>c. c ^ (5 * c)) (char_counts token)))"
proof (cases "token = []")
  case True
  then show ?thesis by (simp add: low_entropy_def shannon_entropy_def)
next
  case False
  let ?n = "length token" and ?P = "prod_list (map (\<lambda>c. c ^ (5 * c)) (char_counts token))"
    and ?S = "sum_list (map (\<lambda>c. real c * log 2 (real c)) (char_counts token))"
  have n: "0 < real ?n" using False by simp
  have P: "0 < ?P" using prod_counts_pos[of "char_counts token"] char_counts_pos[of _ token] by simp
  have "low_entropy token \<longleftrightarrow> 5 * real ?n * log 2 ?n < 21 * real ?n + 5 * ?S"
    using n unfolding low_entropy_def entropy_closed_form[OF False] by (simp add: field_simps)
  also have "\<dots> \<longleftrightarrow> log 2 (real (?n ^ (5 * ?n))) < log 2 (real (2 ^ (21 * ?n) * ?P))"
    using n P log_prod_counts[of "char_counts token"] char_counts_pos[of _ token]
    by (simp add: log_mult log_nat_power)
  also have "\<dots> \<longleftrightarrow> ?n ^ (5 * ?n) < 2 ^ (21 * ?n) * ?P"
    using n P by (subst log_less_cancel_iff) (simp_all only: of_nat_less_iff of_nat_0_less_iff, simp_all)
  finally show ?thesis using False by (simp add: Let_def)
qed

section \<open>Sensitivities are ordered\<close>

instantiation SourceSensitivity :: linorder
begin

definition less_eq_SourceSensitivity :: "SourceSensitivity \<Rightarrow> SourceSensitivity \<Rightarrow> bool" where
  "less_eq_SourceSensitivity a b = (sensitivity_rank a \<le> sensitivity_rank b)"

definition less_SourceSensitivity :: "SourceSensitivity \<Rightarrow> SourceSensitivity \<Rightarrow> bool" where
  "less_SourceSensitivity a b = (sensitivity_rank a < sensitivity_rank b)"

instance
proof
  fix a b :: SourceSensitivity
  show "a \<le> b \<Longrightarrow> b \<le> a \<Longrightarrow> a = b"
    by (cases a; cases b) (simp_all add: less_eq_SourceSensitivity_def sensitivity_rank_def)
qed (auto simp: less_eq_SourceSensitivity_def less_SourceSensitivity_def)

end

lemma max_sensitivity_max: "max_sensitivity a b = max a b"
  by (cases a; cases b)
    (simp_all add: max_sensitivity_def max_def less_eq_SourceSensitivity_def sensitivity_rank_def)

section \<open>What the layers produce\<close>

text \<open>Every rule with its reason and severity.\<close>

definition catalogue :: "(string \<times> string \<times> string) list" where
  "catalogue =
    [(''pattern.private_key'', ''private_key_material_blocked'', ''critical''),
     (''pattern.jwt'', ''jwt_like_token_blocked'', ''critical''),
     (''pattern.secret'', ''secret_pattern_blocked'', ''critical''),
     (''pattern.encoded_blob'', ''encoded_blob_blocked'', ''high''),
     (''entropy.token'', ''high_entropy_string_blocked'', ''high''),
     (''tenant.marker_mismatch'', ''cross_tenant_output_blocked'', ''high''),
     (''classification.marker'', ''sensitive_classification_detected'', ''medium''),
     (''source.sensitivity_external'', ''sensitive_source_external_destination_blocked'', ''high''),
     (''source.tool_output_external'', ''tool_output_external_destination_blocked'', ''high''),
     (''schema.sensitive_key'', ''sensitive_response_key_blocked'', ''critical''),
     (''schema.unknown_key'', ''unknown_response_key_blocked'', ''high'')]"

definition catalogued :: "OutputFinding \<Rightarrow> bool" where
  "catalogued f = (map_of catalogue (of_rule_id f) = Some (of_reason f, of_severity f))"

lemma finding_simps [simp]:
  "of_rule_id (finding t s r smp ctx rid ten) = rid" "of_reason (finding t s r smp ctx rid ten) = r"
  "of_severity (finding t s r smp ctx rid ten) = s"
  by (simp_all add: finding_def)

lemma catalogued_finding [simp]:
  "catalogued (finding t s r smp ctx rid ten) \<longleftrightarrow> map_of catalogue rid = Some (r, s)"
  by (simp add: catalogued_def)

lemma first_finding_in: "f \<in> set (first_finding g ms) \<Longrightarrow> \<exists>m. g m = Some f"
proof (cases "List.find (\<lambda>m. g m \<noteq> None) ms")
  case (Some m)
  then have "g m \<noteq> None" unfolding find_Some_iff by auto
  then show "f \<in> set (first_finding g ms) \<Longrightarrow> ?thesis" using Some by (auto simp: first_finding_def)
qed (simp add: first_finding_def)

lemma catalogued_first: "(\<And>m f. g m = Some f \<Longrightarrow> catalogued f) \<Longrightarrow> list_all catalogued (first_finding g ms)"
  using first_finding_in by (fastforce simp: list_all_iff)

lemma catalogued_layers:
  "list_all catalogued (pattern_findings txt ctx)"
  "list_all catalogued (entropy_findings txt ctx)"
  "list_all catalogued (tenant_marker_findings txt ctx)"
  "list_all catalogued (classification_findings txt ctx)"
  "list_all catalogued (source_sensitivity_findings ctx)"
  "list_all catalogued (schema_findings keys ctx)"
proof -
  show "list_all catalogued (pattern_findings txt ctx)"
    unfolding pattern_findings_def list_all_append
    by (intro conjI catalogued_first) (auto simp: catalogue_def split: if_splits)
  show "list_all catalogued (entropy_findings txt ctx)"
    unfolding entropy_findings_def by (rule catalogued_first) (auto simp: catalogue_def Let_def split: if_splits)
  show "list_all catalogued (tenant_marker_findings txt ctx)"
    unfolding tenant_marker_findings_def
    by (auto intro!: catalogued_first simp: catalogue_def split: if_splits)
  show "list_all catalogued (classification_findings txt ctx)"
    by (simp add: classification_findings_def catalogue_def split: option.split)
  show "list_all catalogued (source_sensitivity_findings ctx)"
    by (simp add: source_sensitivity_findings_def catalogue_def)
  show "list_all catalogued (schema_findings keys ctx)"
    by (auto simp: schema_findings_def catalogue_def list_all_iff split: option.split)
qed

lemma catalogued_all: "list_all catalogued (all_findings txt ctx st)"
  by (simp add: all_findings_def catalogued_layers split: option.split)

section \<open>Deduplication and severity\<close>

lemma dedupe_from_sub: "set (dedupe_from seen fs) \<subseteq> set fs"
  by (induction fs arbitrary: seen) auto

lemma dedupe_from_key:
  "f \<in> set fs \<Longrightarrow> finding_key f \<in> seen \<or> (\<exists>g \<in> set (dedupe_from seen fs). finding_key g = finding_key f)"
proof (induction fs arbitrary: seen)
  case (Cons a fs)
  show ?case
  proof (cases "finding_key a \<in> seen")
    case True
    with Cons show ?thesis by auto
  next
    case False
    with Cons.prems Cons.IH[of "insert (finding_key a) seen"] show ?thesis by auto
  qed
qed simp

lemma dedupe_sub: "f \<in> set (dedupe_findings fs) \<Longrightarrow> f \<in> set fs"
  using dedupe_from_sub by (auto simp: dedupe_findings_def)

lemma dedupe_key: "f \<in> set fs \<Longrightarrow> \<exists>g \<in> set (dedupe_findings fs). finding_key g = finding_key f"
  using dedupe_from_key[of f fs "{}"] by (simp add: dedupe_findings_def)

lemma dedupe_empty [simp]: "dedupe_findings fs = [] \<longleftrightarrow> fs = []"
  using dedupe_key[of "hd fs" fs] by (cases fs) (auto simp: dedupe_findings_def)

text \<open>A finding of the layers survives deduplication as one of the same rule, reason and severity.\<close>

lemma dedupe_catalogued:
  assumes "list_all catalogued fs" and "f \<in> set fs"
  shows "\<exists>g \<in> set (dedupe_findings fs). of_reason g = of_reason f \<and> of_severity g = of_severity f"
proof -
  obtain g where g: "g \<in> set (dedupe_findings fs)" "finding_key g = finding_key f"
    using dedupe_key[OF assms(2)] by blast
  with assms have "catalogued g" "catalogued f" by (auto simp: list_all_iff dest: dedupe_sub)
  with g have "of_reason g = of_reason f \<and> of_severity g = of_severity f"
    by (simp add: catalogued_def finding_key_def)
  with g(1) show ?thesis by blast
qed

lemma highest_from_ge:
  "best_score = (case best of None \<Rightarrow> - 1 | Some s \<Rightarrow> severity_order s) \<Longrightarrow>
    (case highest_from best best_score fs of None \<Rightarrow> best = None \<and> fs = []
     | Some s \<Rightarrow> (\<forall>f \<in> set fs. severity_order (of_severity f) \<le> severity_order s) \<and> best_score \<le> severity_order s
                 \<and> (best = Some s \<or> s \<in> of_severity ` set fs))"
proof (induction fs arbitrary: best best_score)
  case Nil
  then show ?case by (simp split: option.splits)
next
  case (Cons f fs)
  let ?sc = "severity_order (of_severity f)"
  have nn: "0 \<le> ?sc" by (simp add: severity_order_def)
  show ?case
  proof (cases "?sc > best_score")
    case True
    with Cons.IH[of ?sc "Some (of_severity f)"] show ?thesis by (auto simp: Let_def split: option.splits)
  next
    case False
    with nn Cons.prems have "best \<noteq> None" by (auto split: option.splits)
    with False Cons.IH[OF Cons.prems] show ?thesis by (auto simp: Let_def split: option.splits)
  qed
qed

lemma highest_severity_Some:
  assumes "fs \<noteq> []"
  shows "\<exists>s. highest_severity fs = Some s \<and> s \<in> of_severity ` set fs
    \<and> (\<forall>f \<in> set fs. severity_order (of_severity f) \<le> severity_order s)"
  using highest_from_ge[of "- 1" None fs] assms
  by (cases "highest_severity fs") (auto simp: highest_severity_def)

lemma catalogued_severity: "catalogued f \<Longrightarrow> of_severity f \<in> {''critical'', ''high'', ''medium''}"
  by (auto simp: catalogued_def catalogue_def split: if_splits)

section \<open>Blocking\<close>

definition serious :: "OutputFinding \<Rightarrow> bool" where
  "serious f = (of_severity f = ''critical'' \<or> of_severity f = ''high'')"

lemma should_block_serious:
  assumes "list_all catalogued fs" and "f \<in> set fs" and "serious f"
  shows "should_block fs ctx"
proof -
  from assms(2) have "fs \<noteq> []" by auto
  then obtain s where s: "highest_severity fs = Some s" "s \<in> of_severity ` set fs"
    "severity_order (of_severity f) \<le> severity_order s"
    using highest_severity_Some assms(2) by blast
  then have "s \<in> {''critical'', ''high'', ''medium''}"
    using assms(1) catalogued_severity by (fastforce simp: list_all_iff)
  moreover have "2 \<le> severity_order (of_severity f)" using assms(3) by (auto simp: serious_def severity_order_def)
  then have "2 \<le> severity_order s" using s(3) by linarith
  ultimately have "s = ''critical'' \<or> s = ''high''" by (auto simp: severity_order_def)
  with s(1) assms(2) show ?thesis by (auto simp: should_block_def)
qed

lemma catalogued_dedupe: "list_all catalogued (dedupe_findings (all_findings txt ctx st))"
  using catalogued_all dedupe_sub by (fastforce simp: list_all_iff)

lemma filter_result_simps [simp]:
  "fr_allowed (filter_result a r t fs) = a" "fr_reason (filter_result a r t fs) = r"
  "fr_filtered_text (filter_result a r t fs) = t" "fr_findings (filter_result a r t fs) = fs"
  by (simp_all add: filter_result_def)

lemma filter_blocks:
  assumes "should_block (dedupe_findings (all_findings txt ctx st)) ctx"
  shows "filter_output txt ctx st =
    filter_result False (primary_block_reason (dedupe_findings (all_findings txt ctx st))) []
      (dedupe_findings (all_findings txt ctx st))"
  using assms by (auto simp: filter_output_def Let_def should_block_def)

lemma filter_blocks_serious:
  assumes "f \<in> set (all_findings txt ctx st)" and "serious f"
  shows "filter_output txt ctx st =
    filter_result False (primary_block_reason (dedupe_findings (all_findings txt ctx st))) []
      (dedupe_findings (all_findings txt ctx st))"
proof -
  obtain g where "g \<in> set (dedupe_findings (all_findings txt ctx st))" "serious g"
    using dedupe_catalogued[OF catalogued_all assms(1)] assms(2) by (auto simp: serious_def)
  then show ?thesis by (intro filter_blocks should_block_serious[OF catalogued_dedupe])
qed

lemma primary_reason_first:
  assumes "f \<in> set fs" and "of_reason f = ''secret_pattern_blocked''"
  shows "primary_block_reason fs = ''secret_pattern_blocked''"
  using assms by (auto simp: primary_block_reason_def preferred_reasons_def list_ex_iff)

lemma plain_secret_patterns:
  "plain PRIVATE_KEY_PATTERN" "plain JWT_PATTERN" "pattern \<in> set SECRET_PATTERNS \<Longrightarrow> plain pattern"
  by (auto simp: PRIVATE_KEY_PATTERN_def JWT_PATTERN_def SECRET_PATTERNS_def SECRET_KEY_def
      SECRET_PASSWORD_def SECRET_API_KEY_def assigns_def)

lemma occurs_nonempty:
  assumes "occurs r txt" and "consuming r"
  shows "txt \<noteq> []"
  using assms by (auto simp: occurs_def consuming_def)

lemma lang_SECRET_KEY: "lang SECRET_KEY w \<longleftrightarrow> (\<exists>v. w = ''sk-'' @ v \<and> 20 \<le> length v \<and> list_all key_char v)"
  unfolding SECRET_KEY_def by (simp only: lang_Str_Sq plain_Rep lang_simps)

lemma consuming_Str: "plain r \<Longrightarrow> t \<noteq> [] \<Longrightarrow> consuming (Sq (Str t) r)"
  by (auto simp: consuming_def lang_Str_Sq)

lemma consuming_StrI: "plain r \<Longrightarrow> t \<noteq> [] \<Longrightarrow> consuming (Sq (StrI t) r)"
  by (auto simp: consuming_def lang_Sq lang_simps py_lower_def)

lemma consuming_secret_patterns:
  "consuming PRIVATE_KEY_PATTERN" "consuming JWT_PATTERN" "pattern \<in> set SECRET_PATTERNS \<Longrightarrow> consuming pattern"
  by (auto simp: PRIVATE_KEY_PATTERN_def JWT_PATTERN_def SECRET_PATTERNS_def SECRET_KEY_def
      SECRET_PASSWORD_def SECRET_API_KEY_def assigns_def intro!: consuming_Str consuming_StrI)

lemma critical_finding:
  assumes "pattern \<in> set (PRIVATE_KEY_PATTERN # JWT_PATTERN # SECRET_PATTERNS)" and "occurs pattern txt"
  shows "\<exists>f \<in> set (all_findings txt ctx st). of_severity f = ''critical'' \<and>
    (pattern \<in> set SECRET_PATTERNS \<longrightarrow> of_reason f = ''secret_pattern_blocked'')"
proof -
  have "plain pattern" "consuming pattern"
    using assms(1) plain_secret_patterns consuming_secret_patterns by auto
  then have ne: "txt \<noteq> []" and s: "search pattern txt \<noteq> None"
    using assms(2) occurs_nonempty search_occurs by blast+
  have "\<exists>f \<in> set (pattern_findings txt ctx). of_severity f = ''critical'' \<and>
      (pattern \<in> set SECRET_PATTERNS \<longrightarrow> of_reason f = ''secret_pattern_blocked'')"
  proof (cases "pattern \<in> set SECRET_PATTERNS")
    case True
    with s have "list_ex (\<lambda>pattern. search pattern txt \<noteq> None) SECRET_PATTERNS" by (auto simp: list_ex_iff)
    then show ?thesis by (simp add: pattern_findings_def)
  next
    case False
    with s assms(1) show ?thesis by (auto simp: pattern_findings_def)
  qed
  with ne show ?thesis by (auto simp: all_findings_def)
qed

text \<open>On display, any finding blocks.\<close>

lemma filter_display:
  assumes "oc_destination ctx = INTERNAL_DISPLAY"
  shows "filter_output txt ctx st =
    (if all_findings txt ctx st = [] then filter_result True ''output_allowed'' txt []
     else filter_result False (primary_block_reason (dedupe_findings (all_findings txt ctx st))) []
       (dedupe_findings (all_findings txt ctx st)))"
proof (cases "all_findings txt ctx st = []")
  case True
  then show ?thesis by (simp add: filter_output_def dedupe_findings_def)
next
  case False
  let ?fs = "dedupe_findings (all_findings txt ctx st)"
  from False have "?fs \<noteq> []" by simp
  then obtain s where s: "highest_severity ?fs = Some s" "s \<in> of_severity ` set ?fs"
    using highest_severity_Some by blast
  then have "s \<in> {''critical'', ''high'', ''medium''}"
    using catalogued_dedupe catalogued_severity by (fastforce simp: list_all_iff)
  with s(1) False assms have "should_block ?fs ctx" by (auto simp: should_block_def)
  with False show ?thesis by (simp add: filter_blocks)
qed

section \<open>The context of a request\<close>

definition marks_sensitive :: "RetrievedChunk \<Rightarrow> bool" where
  "marks_sensitive chunk = (search SENSITIVE_CLASSIFICATION_PATTERN (rc_content chunk) \<noteq> None
     \<or> (rc_trust chunk = UNTRUSTED \<and> py_in ''sensitive'' (py_lower (rc_content chunk))))"

definition marks_restricted :: "ToolOutputSegment \<Rightarrow> bool" where
  "marks_restricted seg = (py_in ''sensitive'' (py_lower (ts_content seg)) \<or> py_in ''confidential'' (py_lower (ts_content seg)))"

lemma fst_chunk_step: "fst (chunk_step t st chunk) = (if marks_sensitive chunk then max (fst st) SENSITIVE else fst st)"
  by (auto simp: chunk_step_def Let_def split_beta max_sensitivity_max marks_sensitive_def)

lemma fst_segment_step: "fst (segment_step st seg) = (if marks_restricted seg then max (fst st) RESTRICTED else fst st)"
  by (simp add: segment_step_def Let_def split_beta max_sensitivity_max marks_restricted_def)

lemma fold_chunks:
  "fst (foldl (chunk_step t) st chunks) = (if \<exists>c \<in> set chunks. marks_sensitive c then max (fst st) SENSITIVE else fst st)"
  by (induction chunks arbitrary: st) (auto simp: fst_chunk_step max.assoc)

lemma fold_segments:
  "fst (foldl segment_step st segs) = (if \<exists>s \<in> set segs. marks_restricted s then max (fst st) RESTRICTED else fst st)"
  by (induction segs arbitrary: st) (auto simp: fst_segment_step max.assoc)

lemma labels_segments: "snd (foldl segment_step st segs) = snd st @ replicate (length segs) ''tool_output_untrusted''"
proof (induction segs arbitrary: st)
  case (Cons seg segs)
  then show ?case by (simp add: segment_step_def Let_def split_beta replicate_app_Cons_same)
qed simp

section \<open>Properties\<close>

text \<open>
  An API key never passes: any text that contains \<^verbatim>\<open>sk-\<close> followed by twenty or more key characters,
  anywhere and in any context, is blocked with reason \<^verbatim>\<open>secret_pattern_blocked\<close> and no text comes out.
\<close>

theorem api_keys_blocked:
  assumes "20 \<le> length k" and "list_all key_char k"
  shows "\<not> fr_allowed (filter_output (pre @ ''sk-'' @ k @ post) ctx structured)
    \<and> fr_reason (filter_output (pre @ ''sk-'' @ k @ post) ctx structured) = ''secret_pattern_blocked''
    \<and> fr_filtered_text (filter_output (pre @ ''sk-'' @ k @ post) ctx structured) = []"
proof -
  let ?txt = "pre @ ''sk-'' @ k @ post"
  have "lang SECRET_KEY (''sk-'' @ k)" using assms unfolding lang_SECRET_KEY by blast
  moreover have "sublist (''sk-'' @ k) ?txt" by (metis append_assoc sublist_appendI)
  ultimately have "occurs SECRET_KEY ?txt" unfolding occurs_def by blast
  then obtain f where f: "f \<in> set (all_findings ?txt ctx structured)" "of_severity f = ''critical''"
    "of_reason f = ''secret_pattern_blocked''"
    using critical_finding[of SECRET_KEY ?txt ctx structured] by (auto simp: SECRET_PATTERNS_def)
  obtain g where "g \<in> set (dedupe_findings (all_findings ?txt ctx structured))" "of_reason g = ''secret_pattern_blocked''"
    using dedupe_catalogued[OF catalogued_all f(1)] f(3) by auto
  with filter_blocks_serious[OF f(1)] f(2) primary_reason_first show ?thesis by (simp add: serious_def)
qed

theorem api_keys_blocked_witness:
  "\<not> fr_allowed (filter_output (''Key: '' @ ''sk-'' @ ''live_0123456789abcdefXYZ'' @ '' .'') default_context None)"
proof -
  have "list_all key_char ''live_0123456789abcdefXYZ''" by code_simp
  then show ?thesis using api_keys_blocked[of "''live_0123456789abcdefXYZ''" "''Key: ''" "'' .''" default_context None]
    by simp
qed

text \<open>
  C9. Known secret material is blocked: when a private key header, a JWT, an API key or a password or
  API key assignment occurs in a text, the filter refuses it for every destination and returns none
  of it.
\<close>

theorem known_secrets_blocked:
  assumes "pattern \<in> set (PRIVATE_KEY_PATTERN # JWT_PATTERN # SECRET_PATTERNS)" and "occurs pattern txt"
  shows "\<not> fr_allowed (filter_output txt ctx structured) \<and> fr_filtered_text (filter_output txt ctx structured) = []"
proof -
  obtain f where "f \<in> set (all_findings txt ctx structured)" "serious f"
    using critical_finding[OF assms] unfolding serious_def by blast
  from filter_blocks_serious[OF this] show ?thesis by simp
qed

theorem known_secrets_blocked_witness:
  "\<not> fr_allowed (filter_output ''x PassWord : hunter2'' default_context None)"
proof -
  have "search SECRET_PASSWORD ''x PassWord : hunter2'' \<noteq> None" by code_simp
  then have "occurs SECRET_PASSWORD ''x PassWord : hunter2''"
    using search_occurs[of SECRET_PASSWORD] plain_secret_patterns(3)[of SECRET_PASSWORD]
    by (simp add: SECRET_PATTERNS_def)
  then show ?thesis
    using known_secrets_blocked[of SECRET_PASSWORD "''x PassWord : hunter2''"] by (simp add: SECRET_PATTERNS_def)
qed

text \<open>
  C22. What is displayed is clean and unchanged: for the internal display the filter lets a text through
  if and only if no layer finds anything in it, then returns the very text; otherwise nothing.
\<close>

theorem display_only_clean_text:
  assumes "oc_destination ctx = INTERNAL_DISPLAY"
  shows "fr_allowed (filter_output txt ctx structured) = (all_findings txt ctx structured = [])
    \<and> fr_filtered_text (filter_output txt ctx structured) = (if all_findings txt ctx structured = [] then txt else [])"
  using filter_display[OF assms, of "txt" structured] by simp

theorem display_only_clean_text_witness:
  "fr_filtered_text (filter_output ''I will read records.'' default_context None) = ''I will read records.''"
proof -
  have "all_findings ''I will read records.'' default_context None = []" by code_simp
  then show ?thesis
    using display_only_clean_text[of default_context "''I will read records.''" None]
    by (simp add: default_context_def)
qed

text \<open>
  Sensitivity propagates to the context: it is \<^verbatim>\<open>restricted\<close> when a tool output mentions sensitive or
  confidential content, else \<^verbatim>\<open>sensitive\<close> when a retrieved chunk carries a classification marker or is
  untrusted and mentions sensitive content, else \<^verbatim>\<open>public\<close>.
\<close>

theorem context_sensitivity:
  "oc_source_sensitivity (build_filter_context_from_request request destination) =
    (if \<exists>seg \<in> set (ar_tool_output_segments request). marks_restricted seg then RESTRICTED
     else if \<exists>chunk \<in> set (ar_retrieved_chunks request). marks_sensitive chunk then SENSITIVE
     else PUBLIC)"
proof -
  have "max PUBLIC SENSITIVE = SENSITIVE" "max PUBLIC RESTRICTED = RESTRICTED" "max SENSITIVE RESTRICTED = RESTRICTED"
    by (simp_all add: max_def less_eq_SourceSensitivity_def sensitivity_rank_def)
  then show ?thesis
    by (simp add: build_filter_context_from_request_def Let_def split_beta fold_segments fold_chunks)
qed

text \<open>
  C28. Tool output does not leave: with an external destination, a request whose context holds tool
  output gets every text blocked, the empty one too.
\<close>

theorem tool_output_never_leaves:
  assumes "ar_tool_output_segments request \<noteq> []"
    and "OutputDestination_value destination \<in> EXTERNAL_DESTINATIONS"
  shows "\<not> fr_allowed (filter_output txt (build_filter_context_from_request request destination) structured)
    \<and> fr_filtered_text (filter_output txt (build_filter_context_from_request request destination) structured) = []"
proof -
  let ?ctx = "build_filter_context_from_request request destination"
  have "''tool_output_untrusted'' \<in> set (oc_source_labels ?ctx)"
    using assms(1) by (simp add: build_filter_context_from_request_def Let_def split_beta labels_segments)
  moreover have "is_external ?ctx"
    using assms(2) by (simp add: is_external_def build_filter_context_from_request_def Let_def split_beta)
  ultimately have "\<exists>f \<in> set (all_findings txt ?ctx structured). serious f"
    by (auto simp: all_findings_def source_sensitivity_findings_def serious_def)
  then obtain f where "f \<in> set (all_findings txt ?ctx structured)" "serious f" by blast
  from filter_blocks_serious[OF this] show ?thesis by simp
qed

theorem tool_output_never_leaves_witness:
  "let request = sample_request\<lparr>ar_tool_output_segments := [\<lparr>ts_execution_id = ''e1'', ts_tool_name = ''read_records'',
         ts_content = ''rows'', ts_trust = UNTRUSTED\<rparr>]\<rparr>
   in \<not> fr_allowed (filter_output ''ok'' (build_filter_context_from_request request WEBHOOK) None)"
  using tool_output_never_leaves[of "sample_request\<lparr>ar_tool_output_segments := [\<lparr>ts_execution_id = ''e1'',
      ts_tool_name = ''read_records'', ts_content = ''rows'', ts_trust = UNTRUSTED\<rparr>]\<rparr>" WEBHOOK "''ok''" None]
  by (simp add: EXTERNAL_DESTINATIONS_def)



end
