(* ===== verification/Pipeline.thy ===== *)
theory Pipeline
  imports Tool_Broker Agent_Core Simulator Audit_Log Output_Filter
begin

text \<open>
  \<^verbatim>\<open>pipeline.py\<close>: one agent turn through the control plane, protected and vulnerable. The state is the
  registry of consumed approvals and the text of the audit file; the configuration is what the
  constructor stores, with the parameters that stand for pydantic and PyYAML; the environment of a turn
  holds what it reads from outside: the policy file, the two clock readings and the adapter's latency.
  A turn returns the new state together with its result or the exception it raises, since a failing
  adapter is audited before the exception goes on.
\<close>

section \<open>State, configuration, environment\<close>

record plane_state =
  ps_used :: registry
  ps_log :: string

record ControlPlanePipeline =
  cp_validator :: validator
  cp_externals :: policy_externals
  cp_options :: broker_options
  cp_llm_adapter :: LLMAdapter

record turn_env =
  te_policy_file :: "string option"
  te_elapsed_ms :: int
  te_now :: datetime
  te_audit_now :: datetime

text \<open>The constructor: without an adapter the simulated one.\<close>

definition ControlPlanePipeline_init ::
  "validator \<Rightarrow> policy_externals \<Rightarrow> bool \<Rightarrow> u8 list option \<Rightarrow> bool \<Rightarrow> LLMAdapter option \<Rightarrow> ControlPlanePipeline" where
  "ControlPlanePipeline_init mv pe require_provenance_signature provenance_hmac_key require_approval_token llm_adapter =
    \<lparr>cp_validator = mv, cp_externals = pe,
     cp_options = \<lparr>bo_require_provenance_signature = require_provenance_signature,
       bo_provenance_hmac_key = provenance_hmac_key, bo_require_approval_token = require_approval_token\<rparr>,
     cp_llm_adapter = (case llm_adapter of None \<Rightarrow> SimulatedLLMAdapter | Some a \<Rightarrow> a)\<rparr>"

section \<open>Audit events of a turn\<close>

definition blocked_event_type :: "string \<Rightarrow> string" where
  "blocked_event_type reason =
    (if reason = ''cross_tenant_target_denied'' then ''cross_tenant_blocked''
     else if py_startswith reason ''approval_token'' then ''approval_denied''
     else if py_in ''human_approval_required'' reason \<or> reason = ''approval_token_missing'' then ''approval_denied''
     else if reason = ''missing_provenance_denied'' then ''provenance_denied''
     else if py_in ''cannot_authorize'' reason \<or> py_in ''provenance'' reason then ''provenance_denied''
     else ''tool_blocked'')"

definition approval_required_from_reason :: "string \<Rightarrow> PolicyDecision option \<Rightarrow> bool" where
  "approval_required_from_reason reason policy_decision =
    (if py_startswith reason ''approval_token'' then True
     else py_in ''human_approval_required'' reason
          \<or> (case policy_decision of None \<Rightarrow> False | Some pd \<Rightarrow> pdec_requires_human_approval pd))"

definition approval_required_from_broker :: "BrokerDecision \<Rightarrow> PolicyDecision option \<Rightarrow> bool" where
  "approval_required_from_broker broker_decision policy_decision =
    (case bd_approval_decision broker_decision of
       Some d \<Rightarrow> d \<noteq> ''not_required''
     | None \<Rightarrow> (case policy_decision of None \<Rightarrow> False | Some pd \<Rightarrow> pdec_requires_human_approval pd))"

definition risk_level_str :: "PolicyDecision option \<Rightarrow> string option" where
  "risk_level_str policy_decision =
    (case policy_decision of None \<Rightarrow> None | Some pd \<Rightarrow> map_option RiskLevel_value (pdec_risk_level pd))"

definition context_ids :: "Provenance option \<Rightarrow> string list" where
  "context_ids provenance = (case provenance of None \<Rightarrow> [] | Some p \<Rightarrow> pv_context_ids p)"

definition provenance_trust :: "Provenance option \<Rightarrow> string option" where
  "provenance_trust provenance = map_option (\<lambda>p. ContextTrust_value (pv_trust p)) provenance"

definition audit_event ::
  "AgentRequest \<Rightarrow> string \<Rightarrow> string \<Rightarrow> bool \<Rightarrow> string \<Rightarrow> bool \<Rightarrow> OutputFilterResult option \<Rightarrow> AuditEvent" where
  "audit_event request event_type stage allowed policy_reason contains_sensitive output_result =
    \<lparr>ae_event_type = event_type, ae_correlation_id = resolve_correlation_id request,
     ae_request_id = ar_request_id request, ae_user_id = ar_user_id request,
     ae_session_id = ar_session_id request, ae_tenant_id = ar_tenant_id request, ae_model = ar_model request,
     ae_tool_name = None, ae_target = None, ae_risk_level = None, ae_source_context_ids = [],
     ae_retrieved_context_trust = None, ae_policy_decision = ''deny'', ae_policy_reason = policy_reason,
     ae_contains_sensitive_data = contains_sensitive, ae_human_approval_required = False,
     ae_stage = stage, ae_allowed = allowed, ae_approval_id = None, ae_approver_id = None,
     ae_approval_decision = None, ae_approval_reason = None, ae_approval_token_valid = None,
     ae_approval_token_failure_reason = None,
     ae_output_filter_decision = map_option fr_output_filter_decision output_result,
     ae_output_finding_count = map_option (\<lambda>r. int (fr_finding_count r)) output_result,
     ae_output_finding_types = map_option fr_finding_types output_result,
     ae_output_highest_severity = (case output_result of None \<Rightarrow> None | Some r \<Rightarrow> fr_highest_severity r),
     ae_output_findings_redacted = map_option (\<lambda>r. findings_for_audit (fr_findings r)) output_result\<rparr>"

definition audit_event_for_tool ::
  "AgentRequest \<Rightarrow> ToolCallPayload \<Rightarrow> string \<Rightarrow> string \<Rightarrow> bool \<Rightarrow> string \<Rightarrow> bool \<Rightarrow> PolicyDecision option
     \<Rightarrow> BrokerDecision option \<Rightarrow> AuditEvent" where
  "audit_event_for_tool request tool_call event_type stage allowed policy_reason human_approval_required
     policy_decision broker_decision =
    (let token = ar_approval_token request
     in \<lparr>ae_event_type = event_type, ae_correlation_id = resolve_correlation_id request,
         ae_request_id = ar_request_id request, ae_user_id = ar_user_id request,
         ae_session_id = ar_session_id request, ae_tenant_id = ar_tenant_id request, ae_model = ar_model request,
         ae_tool_name = Some (tc_tool_name tool_call), ae_target = tc_target tool_call,
         ae_risk_level = risk_level_str policy_decision,
         ae_source_context_ids = context_ids (tc_provenance tool_call),
         ae_retrieved_context_trust = provenance_trust (tc_provenance tool_call),
         ae_policy_decision = (if allowed then ''allow'' else ''deny''), ae_policy_reason = policy_reason,
         ae_contains_sensitive_data = False, ae_human_approval_required = human_approval_required,
         ae_stage = stage, ae_allowed = allowed,
         ae_approval_id = (case broker_decision of Some bd \<Rightarrow> bd_approval_id bd
                           | None \<Rightarrow> map_option at_approval_id token),
         ae_approver_id = (case broker_decision of Some bd \<Rightarrow> bd_approver_id bd
                           | None \<Rightarrow> map_option at_approver_id token),
         ae_approval_decision = (case broker_decision of Some bd \<Rightarrow> bd_approval_decision bd | None \<Rightarrow> None),
         ae_approval_reason = (case broker_decision of Some bd \<Rightarrow> bd_approval_reason bd
                               | None \<Rightarrow> map_option at_approval_reason token),
         ae_approval_token_valid = (case broker_decision of Some bd \<Rightarrow> bd_approval_token_valid bd | None \<Rightarrow> None),
         ae_approval_token_failure_reason =
           (case broker_decision of Some bd \<Rightarrow> bd_approval_token_failure_reason bd | None \<Rightarrow> None),
         ae_output_filter_decision = None, ae_output_finding_count = None, ae_output_finding_types = None,
         ae_output_highest_severity = None, ae_output_findings_redacted = None\<rparr>)"

definition logged :: "turn_env \<Rightarrow> AuditEvent \<Rightarrow> plane_state \<Rightarrow> plane_state" where
  "logged env event st = st\<lparr>ps_log := audit_write (te_audit_now env) event (ps_log st)\<rparr>"

section \<open>The turns\<close>

definition generate_model_turn ::
  "ControlPlanePipeline \<Rightarrow> turn_env \<Rightarrow> AgentRequest \<Rightarrow> ModelTurnResult result" where
  "generate_model_turn cp env request =
    bind_result (adapter_generate (te_elapsed_ms env) (cp_llm_adapter cp) \<lparr>lr_agent_request = request\<rparr>)
      (\<lambda>response. Inr (to_model_turn_result response))"

definition turn_result ::
  "AgentRequest \<Rightarrow> string \<Rightarrow> bool \<Rightarrow> string \<Rightarrow> string \<Rightarrow> string \<Rightarrow> string \<Rightarrow> SimulationResult option \<Rightarrow> PipelineResult" where
  "turn_result request path allowed stage reason model_text filtered_output simulation =
    \<lparr>pr_request_id = ar_request_id request, pr_path = path, pr_allowed = allowed, pr_stage = stage,
     pr_reason = reason, pr_model_text = model_text, pr_filtered_output = filtered_output,
     pr_tool_executed = (simulation \<noteq> None), pr_simulation = simulation\<rparr>"

text \<open>The part of a protected turn from the broker on.\<close>

definition run_tool_call ::
  "ControlPlanePipeline \<Rightarrow> turn_env \<Rightarrow> PolicyDocument \<Rightarrow> AgentRequest \<Rightarrow> string \<Rightarrow> string \<Rightarrow> ToolCallPayload
     \<Rightarrow> plane_state \<Rightarrow> plane_state \<times> PipelineResult result" where
  "run_tool_call cp env policy request model_text filtered_text tool_call st =
    (case broker_tool_request (cp_validator cp) (ps_used st) (te_now env) request policy tool_call (cp_options cp) of
       Inl e \<Rightarrow> (st, Inl e)
     | Inr broker_decision \<Rightarrow>
        (let reason = bd_reason broker_decision; pd = bd_policy_decision broker_decision in
         if \<not> bd_schema_valid broker_decision then
           (logged env (audit_event_for_tool request tool_call ''schema_validation_failed'' ''schema_validation''
              False reason False None None) st,
            Inr (turn_result request ''protected'' False ''schema_validation'' reason model_text filtered_text None))
         else if \<not> bd_allowed broker_decision then
           (logged env (audit_event_for_tool request tool_call (blocked_event_type reason) ''tool_broker''
              False reason (approval_required_from_reason reason pd) pd (Some broker_decision)) st,
            Inr (turn_result request ''protected'' False ''tool_broker'' reason model_text filtered_text None))
         else
           (case simulate_tool_execution request tool_call of
              Inl e \<Rightarrow> (st, Inl e)
            | Inr simulation \<Rightarrow>
               (let st1 = (case ar_approval_token request of
                       Some token \<Rightarrow> st\<lparr>ps_used := mark_approval_token_used (at_approval_id token) (ps_used st)\<rparr>
                     | None \<Rightarrow> st)
                in (logged env (audit_event_for_tool request tool_call ''tool_allowed'' ''simulation'' True reason
                      (approval_required_from_broker broker_decision pd) pd (Some broker_decision)) st1,
                    Inr (turn_result request ''protected'' True ''simulation'' reason model_text filtered_text
                      (Some simulation)))))))"

definition run_protected ::
  "ControlPlanePipeline \<Rightarrow> turn_env \<Rightarrow> AgentRequest \<Rightarrow> plane_state \<Rightarrow> plane_state \<times> PipelineResult result" where
  "run_protected cp env request st =
    (case load_policy (cp_externals cp) (te_policy_file env) of
       Inl e \<Rightarrow> (st, Inl e)
     | Inr policy \<Rightarrow>
        (case generate_model_turn cp env request of
           Inl (LLMAdapterError msg) \<Rightarrow>
             (logged env (audit_event request ''adapter_failure'' ''llm_adapter'' False msg False None) st,
              Inl (LLMAdapterError msg))
         | Inl e \<Rightarrow> (st, Inl e)
         | Inr model_turn \<Rightarrow>
            (let model_text = mt_natural_language model_turn;
                 output_result = filter_output model_text
                   (build_filter_context_from_request request INTERNAL_DISPLAY) None
             in if \<not> fr_allowed output_result then
                  (logged env (audit_event request ''output_filter_blocked'' ''output_filter'' False
                     (fr_reason output_result) True (Some output_result)) st,
                   Inr (turn_result request ''protected'' False ''output_filter'' (fr_reason output_result)
                     model_text [] None))
                else (case mt_tool_call model_turn of
                    None \<Rightarrow>
                      (logged env (audit_event request ''model_response_allowed'' ''complete'' True ''no_tool_call''
                         False None) st,
                       Inr (turn_result request ''protected'' True ''complete'' ''no_tool_call'' model_text
                         (fr_filtered_text output_result) None))
                  | Some tool_call \<Rightarrow>
                      run_tool_call cp env policy request model_text (fr_filtered_text output_result) tool_call st))))"

definition vulnerable_event :: "AgentRequest \<Rightarrow> ToolCallPayload \<Rightarrow> string \<Rightarrow> AuditEvent" where
  "vulnerable_event request tool_call reason =
    \<lparr>ae_event_type = ''vulnerable_path_simulation'', ae_correlation_id = resolve_correlation_id request,
     ae_request_id = ar_request_id request, ae_user_id = ar_user_id request,
     ae_session_id = ar_session_id request, ae_tenant_id = ar_tenant_id request, ae_model = ar_model request,
     ae_tool_name = Some (tc_tool_name tool_call), ae_target = tc_target tool_call,
     ae_risk_level = Some ''simulated'', ae_source_context_ids = context_ids (tc_provenance tool_call),
     ae_retrieved_context_trust = provenance_trust (tc_provenance tool_call),
     ae_policy_decision = ''bypassed'', ae_policy_reason = reason, ae_contains_sensitive_data = False,
     ae_human_approval_required = False, ae_stage = ''vulnerable_simulation'', ae_allowed = True,
     ae_approval_id = None, ae_approver_id = None, ae_approval_decision = None, ae_approval_reason = None,
     ae_approval_token_valid = None, ae_approval_token_failure_reason = None,
     ae_output_filter_decision = None, ae_output_finding_count = None, ae_output_finding_types = None,
     ae_output_highest_severity = None, ae_output_findings_redacted = None\<rparr>"

definition run_vulnerable ::
  "ControlPlanePipeline \<Rightarrow> turn_env \<Rightarrow> AgentRequest \<Rightarrow> plane_state \<Rightarrow> plane_state \<times> PipelineResult result" where
  "run_vulnerable cp env request st =
    (case generate_model_turn cp env request of
       Inl e \<Rightarrow> (st, Inl e)
     | Inr model_turn \<Rightarrow>
        (let model_text = mt_natural_language model_turn in
         case mt_tool_call model_turn of
           None \<Rightarrow>
             (st, Inr (turn_result request ''vulnerable'' True ''complete'' ''no_tool_call_vulnerable_path''
                model_text model_text None))
         | Some tool_call \<Rightarrow>
             (let unsafe = simulate_vulnerable_execution tool_call in
              (logged env (vulnerable_event request tool_call
                 (json_py_str (args_get unsafe ''unsafe_decision'' (JStr ''simulated'')))) st,
               Inr (turn_result request ''vulnerable'' True ''vulnerable_simulation''
                 (json_py_str (args_get unsafe ''unsafe_decision'' JNull)) model_text model_text None)))))"

section \<open>Case analysis of a turn\<close>

lemma turn_result_simps [simp]:
  "pr_request_id (turn_result q path a stage reason mt out sim) = ar_request_id q"
  "pr_allowed (turn_result q path a stage reason mt out sim) = a"
  "pr_stage (turn_result q path a stage reason mt out sim) = stage"
  "pr_reason (turn_result q path a stage reason mt out sim) = reason"
  "pr_filtered_output (turn_result q path a stage reason mt out sim) = out"
  "pr_tool_executed (turn_result q path a stage reason mt out sim) = (sim \<noteq> None)"
  "pr_simulation (turn_result q path a stage reason mt out sim) = sim"
  by (simp_all add: turn_result_def)

lemma logged_simps [simp]:
  "ps_used (logged env e st) = ps_used st"
  "ps_log (logged env e st) = audit_write (te_audit_now env) e (ps_log st)"
  by (simp_all add: logged_def)

lemma audit_event_simps [simp]:
  "ae_allowed (audit_event q t stage a reason c out) = a" "ae_stage (audit_event q t stage a reason c out) = stage"
  "ae_policy_reason (audit_event q t stage a reason c out) = reason"
  "ae_request_id (audit_event q t stage a reason c out) = ar_request_id q"
  "ae_allowed (audit_event_for_tool q tc t stage a reason h pd bd) = a"
  "ae_stage (audit_event_for_tool q tc t stage a reason h pd bd) = stage"
  "ae_policy_reason (audit_event_for_tool q tc t stage a reason h pd bd) = reason"
  "ae_request_id (audit_event_for_tool q tc t stage a reason h pd bd) = ar_request_id q"
  by (simp_all add: audit_event_def audit_event_for_tool_def Let_def)

text \<open>The verdict of the output filter on the text of a turn.\<close>

abbreviation shown :: "AgentRequest \<Rightarrow> ModelTurnResult \<Rightarrow> OutputFilterResult" where
  "shown request turn \<equiv>
    filter_output (mt_natural_language turn) (build_filter_context_from_request request INTERNAL_DISPLAY) None"

abbreviation decide ::
  "ControlPlanePipeline \<Rightarrow> turn_env \<Rightarrow> PolicyDocument \<Rightarrow> AgentRequest \<Rightarrow> ToolCallPayload \<Rightarrow> plane_state \<Rightarrow> BrokerDecision result" where
  "decide cp env policy request tc st \<equiv>
    broker_tool_request (cp_validator cp) (ps_used st) (te_now env) request policy tc (cp_options cp)"

definition consume :: "AgentRequest \<Rightarrow> plane_state \<Rightarrow> plane_state" where
  "consume request st = (case ar_approval_token request of
     Some token \<Rightarrow> st\<lparr>ps_used := mark_approval_token_used (at_approval_id token) (ps_used st)\<rparr>
   | None \<Rightarrow> st)"

lemma consume_simps [simp]:
  "ps_log (consume request st) = ps_log st"
  "ps_used (consume request st) =
     (case ar_approval_token request of Some token \<Rightarrow> insert (at_approval_id token) (ps_used st) | None \<Rightarrow> ps_used st)"
  by (simp_all add: consume_def mark_approval_token_used_def split: option.split)

lemma run_tool_call_cases:
  obtains (raised) e where "run_tool_call cp env policy request mt out tc st = (st, Inl e)"
      "decide cp env policy request tc st = Inl e \<or> simulate_tool_execution request tc = Inl e"
  | (refused) d e stage where "decide cp env policy request tc st = Inr d" "\<not> bd_allowed d \<or> \<not> bd_schema_valid d"
      "run_tool_call cp env policy request mt out tc st =
         (logged env e st, Inr (turn_result request ''protected'' False stage (bd_reason d) mt out None))"
      "ae_allowed e = False" "ae_stage e = stage" "ae_policy_reason e = bd_reason d" "ae_request_id e = ar_request_id request"
  | (executed) d e sim where "decide cp env policy request tc st = Inr d" "bd_allowed d" "bd_schema_valid d"
      "simulate_tool_execution request tc = Inr sim"
      "run_tool_call cp env policy request mt out tc st =
         (logged env e (consume request st),
          Inr (turn_result request ''protected'' True ''simulation'' (bd_reason d) mt out (Some sim)))"
      "ae_allowed e = True" "ae_stage e = ''simulation''" "ae_policy_reason e = bd_reason d"
      "ae_request_id e = ar_request_id request"
proof (cases "decide cp env policy request tc st")
  case (Inl e)
  then show thesis by (intro raised[of e]) (simp_all add: run_tool_call_def)
next
  case (Inr d)
  show thesis
  proof (cases "bd_schema_valid d \<and> bd_allowed d")
    case False
    let ?s = "audit_event_for_tool request tc ''schema_validation_failed'' ''schema_validation'' False (bd_reason d) False None None"
    let ?b = "audit_event_for_tool request tc (blocked_event_type (bd_reason d)) ''tool_broker'' False (bd_reason d)
      (approval_required_from_reason (bd_reason d) (bd_policy_decision d)) (bd_policy_decision d) (Some d)"
    show thesis
    proof (cases "bd_schema_valid d")
      case True
      with False Inr show thesis
        by (intro refused[of d ?b "''tool_broker''"]) (simp_all add: run_tool_call_def Let_def)
    next
      case False
      with Inr show thesis
        by (intro refused[of d ?s "''schema_validation''"]) (simp_all add: run_tool_call_def Let_def)
    qed
  next
    case True
    show thesis
    proof (cases "simulate_tool_execution request tc")
      case (Inl e)
      with Inr True show thesis by (intro raised[of e]) (simp_all add: run_tool_call_def Let_def)
    next
      case (Inr sim)
      let ?a = "audit_event_for_tool request tc ''tool_allowed'' ''simulation'' True (bd_reason d)
        (approval_required_from_broker d (bd_policy_decision d)) (bd_policy_decision d) (Some d)"
      from Inr \<open>decide cp env policy request tc st = Inr d\<close> True show thesis
        by (intro executed[of d sim ?a]) (simp_all add: run_tool_call_def Let_def consume_def)
    qed
  qed
qed

lemma run_protected_cases:
  obtains (load_failed) e where "load_policy (cp_externals cp) (te_policy_file env) = Inl e"
      "run_protected cp env request st = (st, Inl e)"
  | (adapter_failed) msg where "generate_model_turn cp env request = Inl (LLMAdapterError msg)"
      "run_protected cp env request st =
         (logged env (audit_event request ''adapter_failure'' ''llm_adapter'' False msg False None) st, Inl (LLMAdapterError msg))"
  | (adapter_raised) e where "generate_model_turn cp env request = Inl e" "run_protected cp env request st = (st, Inl e)"
  | (output_blocked) policy turn where "load_policy (cp_externals cp) (te_policy_file env) = Inr policy"
      "generate_model_turn cp env request = Inr turn" "\<not> fr_allowed (shown request turn)"
      "run_protected cp env request st =
         (logged env (audit_event request ''output_filter_blocked'' ''output_filter'' False
            (fr_reason (shown request turn)) True (Some (shown request turn))) st,
          Inr (turn_result request ''protected'' False ''output_filter'' (fr_reason (shown request turn))
            (mt_natural_language turn) [] None))"
  | (text_only) policy turn where "load_policy (cp_externals cp) (te_policy_file env) = Inr policy"
      "generate_model_turn cp env request = Inr turn" "fr_allowed (shown request turn)" "mt_tool_call turn = None"
      "run_protected cp env request st =
         (logged env (audit_event request ''model_response_allowed'' ''complete'' True ''no_tool_call'' False None) st,
          Inr (turn_result request ''protected'' True ''complete'' ''no_tool_call'' (mt_natural_language turn)
            (fr_filtered_text (shown request turn)) None))"
  | (tool) policy turn tc where "load_policy (cp_externals cp) (te_policy_file env) = Inr policy"
      "generate_model_turn cp env request = Inr turn" "fr_allowed (shown request turn)" "mt_tool_call turn = Some tc"
      "run_protected cp env request st =
         run_tool_call cp env policy request (mt_natural_language turn) (fr_filtered_text (shown request turn)) tc st"
proof (cases "load_policy (cp_externals cp) (te_policy_file env)")
  case (Inl e)
  then show thesis by (intro load_failed[of e]) (simp_all add: run_protected_def)
next
  case (Inr policy)
  note pol = this
  show thesis
  proof (cases "generate_model_turn cp env request")
    case (Inl e)
    show thesis
    proof (cases "\<exists>msg. e = LLMAdapterError msg")
      case True
      with pol Inl show thesis by (auto intro!: adapter_failed simp: run_protected_def)
    next
      case False
      with pol Inl show thesis
        by (intro adapter_raised[of e]) (auto simp: run_protected_def split: py_error.split)
    qed
  next
    case (Inr turn)
    note gen = this
    show thesis
    proof (cases "fr_allowed (shown request turn)")
      case False
      with pol gen show thesis by (intro output_blocked[OF pol gen]) (simp_all add: run_protected_def Let_def)
    next
      case True
      then show thesis
        using text_only[OF pol gen True] tool[OF pol gen True] pol gen
        by (cases "mt_tool_call turn") (simp_all add: run_protected_def Let_def)
    qed
  qed
qed

section \<open>What an execution presupposes\<close>

lemma run_tool_call_executed:
  assumes "run_tool_call cp env policy request mt out tc st = (st', Inr r)" and "pr_tool_executed r"
  shows "authorised (cp_validator cp) (ps_used st) (te_now env) request policy tc (cp_options cp)
    \<and> ps_used st' = ps_used (consume request st)"
  using run_tool_call_cases[of cp env policy request mt out tc st]
proof cases
  case (executed d e sim)
  have "authorised (cp_validator cp) (ps_used st) (te_now env) request policy tc (cp_options cp)"
    using executed(1,2) broker_allowed_authorised by blast
  moreover have "st' = logged env e (consume request st)" using assms(1) executed(5) by simp
  ultimately show ?thesis by simp
qed (use assms in auto)

text \<open>A protected turn that executed a tool, with the policy, the model's turn and the call behind it.\<close>

definition mediated ::
  "ControlPlanePipeline \<Rightarrow> turn_env \<Rightarrow> AgentRequest \<Rightarrow> plane_state \<Rightarrow> PolicyDocument \<Rightarrow> ToolCallPayload \<Rightarrow> bool" where
  "mediated cp env request st policy tc =
    (\<exists>turn. load_policy (cp_externals cp) (te_policy_file env) = Inr policy
       \<and> generate_model_turn cp env request = Inr turn \<and> mt_tool_call turn = Some tc
       \<and> fr_allowed (shown request turn)
       \<and> authorised (cp_validator cp) (ps_used st) (te_now env) request policy tc (cp_options cp))"

lemma executed_mediated:
  assumes "run_protected cp env request st = (st', Inr r)" and "pr_tool_executed r"
  shows "\<exists>policy tc. mediated cp env request st policy tc \<and> ps_used st' = ps_used (consume request st)"
  using run_protected_cases[of cp env request st]
proof cases
  case (tool policy turn tc)
  with assms run_tool_call_executed[of cp env policy request "mt_natural_language turn"] show ?thesis
    unfolding mediated_def by force
qed (use assms in auto)

lemma mediated_deterministic:
  "mediated cp env request st policy tc \<Longrightarrow> mediated cp env request st policy' tc' \<Longrightarrow> policy = policy' \<and> tc = tc'"
  by (auto simp: mediated_def)

lemma not_executed_used:
  assumes "run_protected cp env request st = (st', r)" and "\<And>x. r = Inr x \<Longrightarrow> \<not> pr_tool_executed x"
  shows "ps_used st' = ps_used st"
  using run_protected_cases[of cp env request st]
proof cases
  case (tool policy turn tc)
  show ?thesis
    using run_tool_call_cases[of cp env policy request "mt_natural_language turn" "fr_filtered_text (shown request turn)" tc st]
    by cases (use tool assms in auto)
qed (use assms in auto)

lemma run_protected_used:
  assumes "run_protected cp env request st = (st', r)"
  shows "ps_used st' = ps_used st \<or> ps_used st' = ps_used (consume request st)"
proof (cases "\<exists>x. r = Inr x \<and> pr_tool_executed x")
  case True
  then show ?thesis using executed_mediated assms by blast
next
  case False
  then show ?thesis using not_executed_used[OF assms] by blast
qed

text \<open>One turn writes one line, or none when it raises.\<close>

lemma run_protected_log:
  assumes "run_protected cp env request st = (st', Inr r)"
  shows "\<exists>e. ps_log st' = audit_write (te_audit_now env) e (ps_log st) \<and> ae_allowed e = pr_allowed r
    \<and> ae_stage e = pr_stage r \<and> ae_policy_reason e = pr_reason r \<and> ae_request_id e = pr_request_id r"
  using run_protected_cases[of cp env request st]
proof cases
  case (output_blocked policy turn)
  then show ?thesis
    using assms by (intro exI[of _ "audit_event request ''output_filter_blocked'' ''output_filter'' False
        (fr_reason (shown request turn)) True (Some (shown request turn))"]) auto
next
  case (text_only policy turn)
  then show ?thesis
    using assms by (intro exI[of _ "audit_event request ''model_response_allowed'' ''complete'' True ''no_tool_call'' False None"]) auto
next
  case (tool policy turn tc)
  show ?thesis
    using run_tool_call_cases[of cp env policy request "mt_natural_language turn" "fr_filtered_text (shown request turn)" tc st]
    by cases (use tool assms in auto)
qed (use assms in auto)

lemma run_protected_raised:
  assumes "run_protected cp env request st = (st', Inl err)"
  shows "st' = st \<or> (\<exists>msg. err = LLMAdapterError msg \<and>
     st' = logged env (audit_event request ''adapter_failure'' ''llm_adapter'' False msg False None) st)"
  using run_protected_cases[of cp env request st]
proof cases
  case (tool policy turn tc)
  show ?thesis
    using run_tool_call_cases[of cp env policy request "mt_natural_language turn" "fr_filtered_text (shown request turn)" tc st]
    by cases (use tool assms in auto)
qed (use assms in auto)

lemma run_vulnerable_state:
  assumes "run_vulnerable cp env request st = (st', r)"
  shows "ps_used st' = ps_used st \<and> (ps_log st' = ps_log st \<or> (\<exists>e. ps_log st' = audit_write (te_audit_now env) e (ps_log st)))"
  using assms by (auto simp: run_vulnerable_def Let_def split: sum.splits option.splits)

section \<open>The control plane as a state machine\<close>

text \<open>
  A process serves turns one after the other, on either path. A run lists its turns, each with the
  state it met and its outcome.
\<close>

datatype turn =
    Protected turn_env AgentRequest
  | Vulnerable turn_env AgentRequest

definition plane_init :: plane_state where
  "plane_init = \<lparr>ps_used = USED_APPROVAL_IDS_init, ps_log = []\<rparr>"

inductive plane_step :: "ControlPlanePipeline \<Rightarrow> plane_state \<Rightarrow> turn \<Rightarrow> PipelineResult result \<Rightarrow> plane_state \<Rightarrow> bool"
  for cp where
  step_protected: "run_protected cp env request st = (st', r) \<Longrightarrow> plane_step cp st (Protected env request) r st'"
| step_vulnerable: "run_vulnerable cp env request st = (st', r) \<Longrightarrow> plane_step cp st (Vulnerable env request) r st'"

abbreviation plane_run ::
  "ControlPlanePipeline \<Rightarrow> plane_state \<Rightarrow> (plane_state \<times> turn \<times> PipelineResult result) list \<Rightarrow> plane_state \<Rightarrow> bool" where
  "plane_run cp \<equiv> run_of (\<lambda>s (t, r) s'. plane_step cp s t r s')"

inductive_cases plane_step_protectedE: "plane_step cp st (Protected env request) r st'"

lemma plane_step_total: "\<exists>r st'. plane_step cp st t r st'"
proof (cases t)
  case (Protected env request)
  then show ?thesis using step_protected by (metis surj_pair)
next
  case (Vulnerable env request)
  then show ?thesis using step_vulnerable by (metis surj_pair)
qed

lemma plane_step_marks:
  "plane_step cp st t r st' \<Longrightarrow> \<exists>is. ps_used st' = fold mark_approval_token_used is (ps_used st)"
proof (induction rule: plane_step.induct)
  case (step_protected env request st st' r)
  from run_protected_used[OF this] show ?case
  proof
    assume "ps_used st' = ps_used st"
    then show ?case by (intro exI[of _ "[]"]) simp
  next
    assume "ps_used st' = ps_used (consume request st)"
    then show ?case
      by (intro exI[of _ "case ar_approval_token request of None \<Rightarrow> [] | Some token \<Rightarrow> [at_approval_id token]"])
        (simp add: mark_approval_token_used_def split: option.split)
  qed
next
  case (step_vulnerable env request st st' r)
  from run_vulnerable_state[OF this] show ?case by (intro exI[of _ "[]"]) simp
qed

text \<open>
  A turn spends an approval when it executes, on the protected path and under a token of that id, a
  call of a tool that needs approval.
\<close>

definition spends :: "ControlPlanePipeline \<Rightarrow> plane_state \<Rightarrow> turn \<Rightarrow> PipelineResult result \<Rightarrow> string \<Rightarrow> bool" where
  "spends cp st t r i =
    (\<exists>env request x policy tc tp token. t = Protected env request \<and> r = Inr x \<and> pr_tool_executed x
       \<and> mediated cp env request st policy tc \<and> map_of (pd_tools policy) (tc_tool_name tc) = Some tp
       \<and> approval_required tp \<and> ar_approval_token request = Some token \<and> at_approval_id token = i)"

lemma spends_fresh: "spends cp st t r i \<Longrightarrow> i \<notin> ps_used st"
proof -
  assume "spends cp st t r i"
  then obtain env request policy tc tp token where h: "mediated cp env request st policy tc"
    "map_of (pd_tools policy) (tc_tool_name tc) = Some tp" "approval_required tp"
    "ar_approval_token request = Some token" "at_approval_id token = i" unfolding spends_def by blast
  then obtain tp' where "permitted policy request tc tp'"
    "approved (ps_used st) (te_now env) request tp' tc (bo_require_approval_token (cp_options cp))"
    by (auto simp: mediated_def authorised_def)
  moreover from this(1) h(2) have "tp' = tp" by (simp add: permitted_def)
  ultimately show ?thesis using approval_with_token_unused h by blast
qed

lemma spends_consumes: "plane_step cp st t r st' \<Longrightarrow> spends cp st t r i \<Longrightarrow> i \<in> ps_used st'"
proof -
  assume st: "plane_step cp st t r st'" and sp: "spends cp st t r i"
  then obtain env request x token where h: "t = Protected env request" "r = Inr x" "pr_tool_executed x"
    "ar_approval_token request = Some token" "at_approval_id token = i" unfolding spends_def by blast
  from st h have "run_protected cp env request st = (st', Inr x)" by (auto elim: plane_step_protectedE)
  from executed_mediated[OF this h(3)] h show ?thesis by auto
qed

interpretation plane: one_time_use USED_APPROVAL_IDS_init mark_approval_token_used is_approval_token_used
  ps_used "\<lambda>s (t, r) s'. plane_step cp s t r s'" "\<lambda>s (t, r) i. spends cp s t r i"
  for cp
  by unfold_locales
    (auto simp: is_approval_token_used_def dest: plane_step_marks spends_fresh spends_consumes)

lemma plane_step_log: "plane_step cp st t r st' \<Longrightarrow> written_log (ps_log st) \<Longrightarrow> written_log (ps_log st')"
proof (induction rule: plane_step.induct)
  case (step_protected env request st st' r)
  show ?case
  proof (cases r)
    case (Inl e)
    with run_protected_raised[of cp env request st st' e] step_protected show ?thesis
      by (auto intro: written_log_write)
  next
    case (Inr x)
    with run_protected_log[of cp env request st st' x] step_protected show ?thesis
      by (auto intro: written_log_write)
  qed
next
  case (step_vulnerable env request st st' r)
  with run_vulnerable_state[OF step_vulnerable(1)] show ?case by (auto intro: written_log_write)
qed

interpretation plane_log: audited_process "\<lambda>s (t, r) s'. plane_step cp s t r s'" ps_log for cp
  by unfold_locales (auto intro: plane_step_log)

section \<open>When a turn returns\<close>

lemma valid_read_iterates:
  assumes "pydantic_checks mv" and "fst (validate_tool_call_payload mv tc)"
  shows "\<exists>sim. simulate_tool_execution request tc = Inr sim"
proof (rule simulate_tool_execution_total)
  fix v
  assume t: "tc_tool_name tc = ''read_records''" and v: "map_of (tc_arguments tc) ''record_ids'' = Some v"
  from assms t have "list_all (field_ok (tc_arguments tc)) ReadRecordsArgs"
    by (auto simp: validate_tool_call_payload_ok pydantic_checks_def TOOL_SCHEMAS_def)
  with v have "conforms FListStr v" by (simp add: ReadRecordsArgs_def field_ok_def)
  then show "\<exists>vs. v = JList vs" by (cases v) auto
qed

lemma mediated_executes:
  assumes "mediated cp env request st policy tc" and "simulate_tool_execution request tc = Inr sim"
  shows "\<exists>st' r. run_protected cp env request st = (st', Inr r) \<and> pr_tool_executed r"
proof -
  obtain turn where t: "load_policy (cp_externals cp) (te_policy_file env) = Inr policy"
    "generate_model_turn cp env request = Inr turn" "mt_tool_call turn = Some tc" "fr_allowed (shown request turn)"
    "authorised (cp_validator cp) (ps_used st) (te_now env) request policy tc (cp_options cp)"
    using assms(1) unfolding mediated_def by blast
  obtain d where d: "decide cp env policy request tc st = Inr d" "bd_allowed d"
    using broker_authorised_allowed[OF t(5)] by blast
  have sv: "bd_schema_valid d" using broker_schema_invalid[OF d(1)] t(5) by (simp add: authorised_def)
  have e: "run_protected cp env request st =
      run_tool_call cp env policy request (mt_natural_language turn) (fr_filtered_text (shown request turn)) tc st"
    using t by (simp add: run_protected_def Let_def)
  show ?thesis unfolding e
    using run_tool_call_cases[of cp env policy request "mt_natural_language turn" "fr_filtered_text (shown request turn)" tc st]
    by cases (use d sv assms(2) in auto)
qed

section \<open>A sample configuration\<close>

definition sample_externals :: policy_externals where
  "sample_externals =
    \<lparr>pe_safe_load = (\<lambda>body. Inr (YMap [(YStr ''tools'', YMap [(YStr ''read_records'', YMap [])])])),
     pe_tool_policy_validate = (\<lambda>cfg. Inr sample_tool_policy)\<rparr>"

definition sample_cp :: ControlPlanePipeline where
  "sample_cp = ControlPlanePipeline_init model_validate_ref sample_externals False None False None"

definition sample_env :: turn_env where
  "sample_env = \<lparr>te_policy_file = Some ''tools: ...'', te_elapsed_ms = 0, te_now = sample_now, te_audit_now = sample_now\<rparr>"

lemma sample_policy_loaded: "load_policy (cp_externals sample_cp) (te_policy_file sample_env) = Inr sample_policy"
  by (simp add: sample_cp_def ControlPlanePipeline_init_def sample_externals_def sample_env_def load_policy_def
      yaml_get_def sample_policy_def)

definition sample_turn :: ModelTurnResult where
  "sample_turn = \<lparr>mt_natural_language = ''I will read records for this tenant.'', mt_tool_call = Some sample_call\<rparr>"

lemma sample_generated: "generate_model_turn sample_cp sample_env sample_request = Inr sample_turn"
  by (simp add: generate_model_turn_def sample_cp_def ControlPlanePipeline_init_def simulated_generate_def Let_def
      to_model_turn_result_def simulated_agent_defs turn_with_tool_def record_ids_def plain_provenance_def
      sample_turn_def sample_request_def sample_call_def sample_provenance_def)

lemma sample_shown: "fr_allowed (shown sample_request sample_turn)"
  unfolding sample_turn_def sample_request_def by code_simp

lemma sample_authorised: "authorised (cp_validator sample_cp) {} sample_now sample_request sample_policy sample_call (cp_options sample_cp)"
proof -
  have "map_sum (\<lambda>e. ()) bd_allowed (broker_tool_request (cp_validator sample_cp) {} sample_now sample_request sample_policy
      sample_call (cp_options sample_cp)) = Inr True"
    by code_simp
  then show ?thesis
    using broker_allowed_authorised by (cases "broker_tool_request (cp_validator sample_cp) {} sample_now sample_request
      sample_policy sample_call (cp_options sample_cp)") auto
qed

lemma sample_mediated: "mediated sample_cp sample_env sample_request plane_init sample_policy sample_call"
  using sample_policy_loaded sample_generated sample_shown sample_authorised
  by (auto simp: mediated_def plane_init_def USED_APPROVAL_IDS_init_def sample_turn_def sample_env_def)

lemma sample_executes:
  "\<exists>st' r. run_protected sample_cp sample_env sample_request plane_init = (st', Inr r) \<and> pr_tool_executed r"
proof (rule mediated_executes[OF sample_mediated])
  show "simulate_tool_execution sample_request sample_call = Inr \<lparr>sr_success = True, sr_message = ''simulated_read_records'',
     sr_simulated_output = [(''tenant_id'', JStr ''tenant-a''),
       (''records'', JList [JDict [(''id'', JStr ''r-100''), (''value'', JStr ''simulated'')]])]\<rparr>"
    by (simp add: simulate_tool_execution_def Let_def sample_call_def sample_request_def args_get_def)
qed

text \<open>The same with a tool of external effect, approved by a human.\<close>

definition export_policy :: ToolPolicy where
  "export_policy = sample_tool_policy\<lparr>tp_external_effect := True, tp_requires_human_approval := True\<rparr>"

definition export_document :: PolicyDocument where
  "export_document = sample_policy\<lparr>pd_tools := [(''export_records'', export_policy)]\<rparr>"

definition export_cp :: ControlPlanePipeline where
  "export_cp = sample_cp\<lparr>cp_externals :=
    \<lparr>pe_safe_load = (\<lambda>body. Inr (YMap [(YStr ''tools'', YMap [(YStr ''export_records'', YMap [])])])),
     pe_tool_policy_validate = (\<lambda>cfg. Inr export_policy)\<rparr>\<rparr>"

definition export_request :: AgentRequest where
  "export_request = sample_request\<lparr>ar_scenario := ''export_approved'', ar_human_approval := True\<rparr>"

definition export_call :: ToolCallPayload where
  "export_call = sample_call\<lparr>tc_tool_name := ''export_records'', tc_arguments := [(''format'', JStr ''json'')]\<rparr>"

definition export_turn :: ModelTurnResult where
  "export_turn = \<lparr>mt_natural_language = ''Exporting records with approval.'', mt_tool_call = Some export_call\<rparr>"

lemma export_loaded: "load_policy (cp_externals export_cp) (te_policy_file sample_env) = Inr export_document"
  by (simp add: export_cp_def sample_env_def load_policy_def yaml_get_def export_document_def sample_policy_def)

lemma export_generated: "generate_model_turn export_cp sample_env export_request = Inr export_turn"
  by (simp add: generate_model_turn_def export_cp_def sample_cp_def ControlPlanePipeline_init_def
      simulated_generate_def Let_def to_model_turn_result_def simulated_agent_defs turn_with_tool_def
      plain_provenance_def export_turn_def export_request_def sample_request_def export_call_def sample_call_def
      sample_provenance_def)

lemma export_shown: "fr_allowed (shown export_request export_turn)"
  unfolding export_turn_def export_request_def sample_request_def by code_simp

lemma export_executes:
  "\<exists>st' r. run_protected export_cp sample_env export_request plane_init = (st', Inr r) \<and> pr_tool_executed r"
proof -
  have b: "map_sum (\<lambda>e. ()) bd_allowed (broker_tool_request (cp_validator export_cp) {} sample_now export_request
      export_document export_call (cp_options export_cp)) = Inr True"
    by code_simp
  then have "authorised (cp_validator export_cp) {} sample_now export_request export_document export_call (cp_options export_cp)"
    using broker_allowed_authorised by (cases "broker_tool_request (cp_validator export_cp) {} sample_now export_request
      export_document export_call (cp_options export_cp)") auto
  then have m: "mediated export_cp sample_env export_request plane_init export_document export_call"
    using export_loaded export_generated export_shown
    by (auto simp: mediated_def plane_init_def USED_APPROVAL_IDS_init_def export_turn_def sample_env_def)
  have "\<exists>sim. simulate_tool_execution export_request export_call = Inr sim"
    by (simp add: simulate_tool_execution_def export_call_def Let_def)
  with mediated_executes[OF m] show ?thesis by blast
qed

section \<open>Observations on the audit trail\<close>

text \<open>
  The event of an allowed text-only turn carries \<^verbatim>\<open>allowed\<close> true beside the policy decision \<^verbatim>\<open>deny\<close>, the
  default of \<^verbatim>\<open>_audit_event\<close>.
\<close>

lemma allowed_text_audited_as_deny:
  assumes "load_policy (cp_externals cp) (te_policy_file env) = Inr policy"
    and "generate_model_turn cp env request = Inr turn" and "fr_allowed (shown request turn)"
    and "mt_tool_call turn = None"
  shows "\<exists>r e. run_protected cp env request st = (logged env e st, Inr r) \<and> pr_allowed r \<and> ae_allowed e
    \<and> ae_policy_decision e = ''deny''"
proof -
  let ?e = "audit_event request ''model_response_allowed'' ''complete'' True ''no_tool_call'' False None"
  have "ae_policy_decision ?e = ''deny''" by (simp add: audit_event_def)
  moreover have "run_protected cp env request st = (logged env ?e st, Inr (turn_result request ''protected'' True ''complete''
      ''no_tool_call'' (mt_natural_language turn) (fr_filtered_text (shown request turn)) None))"
    using assms by (simp add: run_protected_def Let_def)
  ultimately show ?thesis using turn_result_simps(2) audit_event_simps(1) by metis
qed

text \<open>
  A password that the filter blocks is in the sample of its finding, which goes to the audit log, and the
  logger's redaction does not remove it.
\<close>

lemma password_in_audit_sample:
  "map of_redacted_sample (fr_findings (filter_model_output ''my password=hunter2 and more text''))
     = [''my password=hunter2 and ...[REDACTED]'']"
  by code_simp

lemma password_sample_not_redacted:
  "redact ''my password=hunter2 and ...[REDACTED]'' = ''my password=hunter2 and ...[REDACTED]''"
  by code_simp

section \<open>Properties\<close>

text \<open>
  C1. Complete mediation: whatever the model adapter produces, a tool is executed only if the policy
  file loaded, the output filter passed the turn's text, and the broker's four controls (schema,
  provenance integrity, policy, approval) all authorise exactly the call that was executed.
\<close>

theorem complete_mediation:
  assumes "run_protected cp env request st = (st', Inr r)" and "pr_tool_executed r"
  shows "\<exists>policy turn tc. load_policy (cp_externals cp) (te_policy_file env) = Inr policy
    \<and> generate_model_turn cp env request = Inr turn \<and> mt_tool_call turn = Some tc
    \<and> fr_allowed (filter_output (mt_natural_language turn) (build_filter_context_from_request request INTERNAL_DISPLAY) None)
    \<and> authorised (cp_validator cp) (ps_used st) (te_now env) request policy tc (cp_options cp)"
  using executed_mediated[OF assms] unfolding mediated_def by blast

theorem complete_mediation_witness:
  "\<exists>st' r. run_protected sample_cp sample_env sample_request plane_init = (st', Inr r) \<and> pr_tool_executed r \<and>
    authorised (cp_validator sample_cp) (ps_used plane_init) (te_now sample_env) sample_request sample_policy sample_call
      (cp_options sample_cp)"
proof -
  obtain st' r where x: "run_protected sample_cp sample_env sample_request plane_init = (st', Inr r)" "pr_tool_executed r"
    using sample_executes by blast
  have "authorised (cp_validator sample_cp) (ps_used plane_init) (te_now sample_env) sample_request sample_policy sample_call
      (cp_options sample_cp)"
    using complete_mediation[OF x] unfolding sample_policy_loaded sample_generated by (auto simp: sample_turn_def)
  with x show ?thesis by blast
qed



text \<open>
  C2. An approval is spent at most once: in every run of the control plane, from any state and through
  any sequence of protected and vulnerable turns, at most one turn executes an approval-required tool
  under a token of a given id.
\<close>

theorem approval_spent_at_most_once:
  assumes "plane_run cp st ts st'"
  shows "length (filter (\<lambda>(s, t, r). spends cp s t r i) ts) \<le> 1"
proof -
  have "(\<lambda>(s, l). (case l of (t, r) \<Rightarrow> \<lambda>i. spends cp s t r i) i) = (\<lambda>(s, t, r). spends cp s t r i)" by auto
  with plane.spent_at_most_once[OF assms, of i] show ?thesis by simp
qed

theorem approval_spent_at_most_once_witness:
  "\<exists>ts st'. plane_run sample_cp plane_init ts st' \<and> length ts = 2
    \<and> length (filter (\<lambda>(s, t, r). spends sample_cp s t r ''apr-1'') ts) \<le> 1"
proof -
  obtain r1 st1 where 1: "plane_step sample_cp plane_init (Protected sample_env sample_request) r1 st1"
    using plane_step_total by blast
  obtain r2 st2 where 2: "plane_step sample_cp st1 (Vulnerable sample_env sample_request) r2 st2"
    using plane_step_total by blast
  let ?ts = "[(plane_init, Protected sample_env sample_request, r1), (st1, Vulnerable sample_env sample_request, r2)]"
  have run: "plane_run sample_cp plane_init ?ts st2" using 1 2 by simp
  have "length ?ts = 2" by simp
  with run approval_spent_at_most_once[OF run, of "''apr-1''"] show ?thesis by blast
qed

text \<open>
  C6. Every answer is audited: a protected turn that returns appends exactly one event to the log, with
  the verdict, stage, reason and request id of the result.
\<close>

theorem every_answer_audited:
  assumes "run_protected cp env request st = (st', Inr r)"
  shows "\<exists>e. ps_log st' = ps_log st @ audit_line (te_audit_now env) e @ [CHR 0x0A] \<and> ae_allowed e = pr_allowed r
    \<and> ae_stage e = pr_stage r \<and> ae_policy_reason e = pr_reason r \<and> ae_request_id e = pr_request_id r"
  using run_protected_log[OF assms] by (simp add: audit_write_def)

theorem every_answer_audited_witness:
  "\<exists>st' e. fst (run_protected sample_cp sample_env sample_request plane_init) = st' \<and> ps_log st' = audit_line sample_now e @ [CHR 0x0A]"
proof -
  obtain st' r where x: "run_protected sample_cp sample_env sample_request plane_init = (st', Inr r)"
    using sample_executes by blast
  from every_answer_audited[OF x] x show ?thesis by (auto simp: plane_init_def sample_env_def)
qed

text \<open>
  The log of the process never shows a known secret: after any run from the initial state, every line
  of the audit file is a redacted event in which no redaction pattern finds a match.
\<close>

theorem process_log_shows_no_secret:
  assumes "plane_run cp plane_init ts st" and "line \<in> set (event_lines (Some (ps_log st)))"
  shows "map (\<lambda>pattern. search pattern line) REDACT_PATTERNS = [None, None, None]"
  using plane_log.run_shows_no_secret[OF assms(1) _ assms(2)] by (simp add: plane_init_def)

theorem process_log_shows_no_secret_witness:
  "\<exists>ts st line. plane_run sample_cp plane_init ts st \<and> line \<in> set (event_lines (Some (ps_log st)))
    \<and> map (\<lambda>pattern. search pattern line) REDACT_PATTERNS = [None, None, None]"
proof -
  obtain st' r where x: "run_protected sample_cp sample_env sample_request plane_init = (st', Inr r)"
    using sample_executes by blast
  have run: "plane_run sample_cp plane_init [(plane_init, Protected sample_env sample_request, Inr r)] st'"
    using step_protected[OF x] by simp
  obtain e where "ps_log st' = log_of [audit_line sample_now e]"
    using run_protected_log[OF x] by (auto simp: audit_write_def log_of_def plane_init_def sample_env_def)
  then have l: "audit_line sample_now e \<in> set (event_lines (Some (ps_log st')))"
    using event_lines_log_of[of "[audit_line sample_now e]"] good_audit_line by simp
  show ?thesis by (intro exI conjI) (rule run, rule l, rule process_log_shows_no_secret[OF run l])
qed



text \<open>
  Blocked text stops the turn: when the output filter refuses the model's text, the turn answers
  with no text and no execution whatever tool call came with it, spends no approval, and the state is
  the same for every broker configuration.
\<close>

theorem blocked_output_stops_turn:
  assumes "load_policy (cp_externals cp) (te_policy_file env) = Inr policy"
    and "generate_model_turn cp env request = Inr turn"
    and "\<not> fr_allowed (filter_output (mt_natural_language turn) (build_filter_context_from_request request INTERNAL_DISPLAY) None)"
  shows "\<exists>st' r. run_protected cp env request st = (st', Inr r) \<and> pr_allowed r = False \<and> pr_tool_executed r = False
    \<and> pr_filtered_output r = [] \<and> ps_used st' = ps_used st
    \<and> run_protected (cp\<lparr>cp_options := bo, cp_validator := mv\<rparr>) env request st = (st', Inr r)"
proof -
  have "generate_model_turn (cp\<lparr>cp_options := bo, cp_validator := mv\<rparr>) env request = Inr turn"
    using assms(2) by (simp add: generate_model_turn_def)
  with assms show ?thesis by (simp add: run_protected_def Let_def)
qed

theorem blocked_output_stops_turn_witness:
  "let q = sample_request\<lparr>ar_scenario := ''output_secret_leak''\<rparr>
   in \<exists>st' r. run_protected sample_cp sample_env q plane_init = (st', Inr r) \<and> pr_filtered_output r = []"
proof -
  define q where "q = sample_request\<lparr>ar_scenario := ''output_secret_leak''\<rparr>"
  define turn where "turn = turn_text (''Here is the API key you asked for: '' @ ''sk-live-FAKE-TEST-ONLY-abcdef0123456789abcdef0123456789'')"
  have g: "generate_model_turn sample_cp sample_env q = Inr turn"
    by (simp add: generate_model_turn_def sample_cp_def ControlPlanePipeline_init_def simulated_generate_def Let_def
        to_model_turn_result_def simulated_agent_defs turn_def turn_text_def q_def)
  have "\<not> fr_allowed (shown q turn)"
    unfolding q_def turn_def turn_text_def sample_request_def by code_simp
  from blocked_output_stops_turn[OF sample_policy_loaded g this, of plane_init] show ?thesis
    unfolding Let_def q_def[symmetric] by blast
qed



text \<open>
  C10. High-impact tools need approval: a tool with external or destructive effect, or marked so by the
  policy, is executed only under an unconsumed token that verifies for exactly this call, or, without a
  token and when none is demanded, under the request's human approval.
\<close>

theorem high_impact_needs_approval:
  assumes "run_protected cp env request st = (st', Inr r)" and "pr_tool_executed r"
    and "load_policy (cp_externals cp) (te_policy_file env) = Inr policy"
    and "generate_model_turn cp env request = Inr turn" and "mt_tool_call turn = Some tc"
    and "map_of (pd_tools policy) (tc_tool_name tc) = Some tp"
    and "tp_external_effect tp \<or> tp_destructive tp \<or> tp_requires_human_approval tp"
  shows "(\<exists>token. ar_approval_token request = Some token \<and> at_approval_id token \<notin> ps_used st
        \<and> token_verifies (ps_used st) (te_now env) request tp tc token \<and> at_approval_id token \<in> ps_used st')
    \<or> (ar_approval_token request = None \<and> bo_require_approval_token (cp_options cp) = False \<and> ar_human_approval request)"
proof -
  obtain policy' tc' where m: "mediated cp env request st policy' tc'" "ps_used st' = ps_used (consume request st)"
    using executed_mediated[OF assms(1,2)] by blast
  with assms(3-5) have eq: "policy' = policy" "tc' = tc" by (auto simp: mediated_def)
  then obtain tp' where "permitted policy request tc tp'"
    "approved (ps_used st) (te_now env) request tp' tc (bo_require_approval_token (cp_options cp))"
    using m(1) by (auto simp: mediated_def authorised_def)
  moreover from this(1) assms(6) have "tp' = tp" by (simp add: permitted_def)
  ultimately have a: "approved (ps_used st) (te_now env) request tp tc (bo_require_approval_token (cp_options cp))" by simp
  have req: "approval_required tp" using assms(7) by (auto simp: approval_required_def)
  show ?thesis
  proof (cases "ar_approval_token request")
    case None
    with a req show ?thesis by (simp add: approved_def)
  next
    case (Some token)
    with a req m(2) approval_with_token_unused[OF a req Some] show ?thesis by (simp add: approved_def)
  qed
qed

theorem high_impact_needs_approval_witness:
  "tp_external_effect export_policy \<and> ar_human_approval export_request
   \<and> (\<exists>st' r. run_protected export_cp sample_env export_request plane_init = (st', Inr r) \<and> pr_tool_executed r)"
proof -
  obtain st' r where x: "run_protected export_cp sample_env export_request plane_init = (st', Inr r)" "pr_tool_executed r"
    using export_executes by blast
  have t: "mt_tool_call export_turn = Some export_call"
    "map_of (pd_tools export_document) (tc_tool_name export_call) = Some export_policy" "tp_external_effect export_policy"
    "ar_approval_token export_request = None"
    by (simp_all add: export_turn_def export_document_def export_call_def export_policy_def export_request_def sample_request_def)
  have "ar_human_approval export_request"
    using high_impact_needs_approval[OF x export_loaded export_generated t(1,2)] t(3,4) by simp
  with x t(3) show ?thesis by blast
qed

text \<open>
  The injection scenarios of the laboratory never execute: with the simulated agent, under every
  policy file, configuration and state, no turn of a scenario whose tool call comes from retrieved
  content, from tool output or without provenance executes a tool.
\<close>

theorem injection_scenarios_never_execute:
  assumes "cp_llm_adapter cp = SimulatedLLMAdapter"
    and "ar_scenario request \<in> {''injection_send_email'', ''tool_output_injection_send_email'',
      ''tool_output_injection_shell'', ''tool_output_cross_tenant'', ''missing_provenance''}"
    and "run_protected cp env request st = (st', Inr r)"
  shows "pr_tool_executed r = False"
proof -
  have "\<exists>turn tc. generate_model_turn cp env request = Inr turn \<and> mt_tool_call turn = Some tc
    \<and> (tc_provenance tc = None \<or> (\<exists>p. tc_provenance tc = Some p \<and> pv_source p \<in> {RETRIEVED, TOOL_OUTPUT}))"
    using assms(1,2)
    by (auto simp: generate_model_turn_def simulated_generate_def Let_def to_model_turn_result_def
        simulated_agent_defs turn_with_tool_def plain_provenance_def)
  then have "\<not> mediated cp env request st policy tc" for policy tc
    by (auto simp: mediated_def authorised_def permitted_def provenance_supports_def)
  then show ?thesis using executed_mediated[OF assms(3)] by blast
qed

theorem injection_scenarios_never_execute_witness:
  "\<exists>st' r. run_protected sample_cp sample_env (sample_request\<lparr>ar_scenario := ''missing_provenance''\<rparr>) plane_init = (st', Inr r)
    \<and> pr_tool_executed r = False"
proof -
  let ?q = "sample_request\<lparr>ar_scenario := ''missing_provenance''\<rparr>"
  have a: "cp_llm_adapter sample_cp = SimulatedLLMAdapter"
    by (simp add: sample_cp_def ControlPlanePipeline_init_def)
  obtain st' r where x: "run_protected sample_cp sample_env ?q plane_init = (st', r)" by fastforce
  have "\<exists>y. r = Inr y"
  proof -
    have s: "fr_allowed (shown ?q \<lparr>mt_natural_language = ''Read without provenance metadata.'',
        mt_tool_call = Some (sample_call\<lparr>tc_provenance := None\<rparr>)\<rparr>)" unfolding sample_request_def by code_simp
    have g: "generate_model_turn sample_cp sample_env ?q = Inr \<lparr>mt_natural_language = ''Read without provenance metadata.'',
        mt_tool_call = Some (sample_call\<lparr>tc_provenance := None\<rparr>)\<rparr>"
      by (simp add: generate_model_turn_def sample_cp_def ControlPlanePipeline_init_def simulated_generate_def Let_def
          to_model_turn_result_def simulated_agent_defs turn_with_tool_def record_ids_def sample_request_def sample_call_def)
    have b: "\<exists>d. broker_tool_request (cp_validator sample_cp) (ps_used plane_init) (te_now sample_env) ?q sample_policy
        (sample_call\<lparr>tc_provenance := None\<rparr>) (cp_options sample_cp) = Inr d \<and> \<not> bd_allowed d"
      by (simp add: broker_tool_request_def verify_provenance_integrity_def split: prod.split)
    show ?thesis using x s g b sample_policy_loaded
      by (auto simp: run_protected_def run_tool_call_def Let_def split: if_splits)
  qed
  then obtain y where "r = Inr y" by blast
  with injection_scenarios_never_execute[OF a, of ?q sample_env plane_init st' y] x show ?thesis by auto
qed



end
