(* ===== verification/Api.thy ===== *)
theory Api
  imports Config Pipeline
begin

text \<open>
  \<^verbatim>\<open>api.py\<close>: the HTTP boundary. The callables that the module registers (the body-limit middleware, the
  API-key dependency, the endpoints and the exception handlers) and \<^verbatim>\<open>create_app\<close>/\<^verbatim>\<open>get_app\<close> are
  functions. FastAPI and Starlette decide which of them run: that is the relation \<open>route\<close>, which allows
  everything their documentation allows. A dependency that raises stops the endpoint, the endpoint
  gets a body only after validation, an exception goes to its handler, and anything else is answered
  without the module. The state is that of the pipeline.
\<close>

section \<open>Requests and responses\<close>

text \<open>The headers the module reads, as the framework's case-insensitive lookup delivers them.\<close>

record http_request =
  hq_method :: string
  hq_content_length :: "string option"
  hq_correlation_id :: "string option"
  hq_api_key :: "string option"
  hq_authorization :: "string option"

record RunRequestBody =
  rb_request_id :: string
  rb_correlation_id :: "string option"
  rb_user_id :: string
  rb_session_id :: string
  rb_tenant_id :: string
  rb_role :: string
  rb_human_approval :: bool
  rb_user_message :: string
  rb_scenario :: string
  rb_path :: string
  rb_retrieved_chunks :: "RetrievedChunk list"

text \<open>A body with its required fields only, and the pattern of the field \<^verbatim>\<open>path\<close>.\<close>

definition RunRequestBody_default :: "string \<Rightarrow> string \<Rightarrow> string \<Rightarrow> string \<Rightarrow> string \<Rightarrow> RunRequestBody" where
  "RunRequestBody_default request_id user_id session_id tenant_id user_message =
    \<lparr>rb_request_id = request_id, rb_correlation_id = None, rb_user_id = user_id, rb_session_id = session_id,
     rb_tenant_id = tenant_id, rb_role = ''user'', rb_human_approval = False, rb_user_message = user_message,
     rb_scenario = ''safe_read'', rb_path = ''protected'', rb_retrieved_chunks = []\<rparr>"

definition valid_body :: "RunRequestBody \<Rightarrow> bool" where
  "valid_body body = (rb_path body \<in> set [''protected'', ''vulnerable''])"

text \<open>
  The content of a response: a flat JSON object, the dump of a result, the list of validation errors
  (which the framework renders), or a response the module has no part in.
\<close>

datatype content =
    Payload "(string \<times> string) list"
  | Result PipelineResult
  | Errors "json list"
  | Foreign

record http_response =
  rs_status :: int
  rs_content :: content

definition json_response :: "int \<Rightarrow> (string \<times> string) list \<Rightarrow> http_response" where
  "json_response status_code payload = \<lparr>rs_status = status_code, rs_content = Payload payload\<rparr>"

text \<open>
  What reaches the exception handler: FastAPI's \<^verbatim>\<open>HTTPException\<close> with its status and its detail (when
  that is a string), or another exception with its text and the name of its type.
\<close>

datatype api_exception =
    HTTPException int "string option"
  | OtherException string string

section \<open>The callables of the module\<close>

text \<open>
  \<^verbatim>\<open>MaxBodySizeMiddleware.dispatch\<close>. \<^verbatim>\<open>None\<close> stands for \<^verbatim>\<open>return await call_next(request)\<close>.
\<close>

definition dispatch :: "int \<Rightarrow> turn_env \<Rightarrow> http_request \<Rightarrow> plane_state \<Rightarrow> (plane_state \<times> http_response) option" where
  "dispatch max_body_bytes env request st =
    (if hq_method request \<in> set [''POST'', ''PUT'', ''PATCH''] then
       (case hq_content_length request of
          None \<Rightarrow> None
        | Some content_length \<Rightarrow>
           (case py_int content_length of
              None \<Rightarrow> Some (st, json_response 400 [(''detail'', ''invalid_content_length'')])
            | Some body_size \<Rightarrow>
                if body_size > max_body_bytes then
                  (let correlation_id = normalize_correlation_id (hq_correlation_id request) ''api-body-limit''
                   in Some (st\<lparr>ps_log := write_operational_audit (te_audit_now env) ''request_body_limit_blocked''
                              correlation_id correlation_id ''api_middleware'' ''request_entity_too_large'' False
                              ''unknown'' ''unknown'' ''unknown'' None None (ps_log st)\<rparr>,
                            json_response 413 [(''detail'', ''request_entity_too_large'')]))
                else None))
     else None)"

definition extract_api_key :: "string option \<Rightarrow> string option \<Rightarrow> string option" where
  "extract_api_key x_api_key authorization =
    (let bearer = (case authorization of
           Some a \<Rightarrow> if py_startswith (py_lower a) ''bearer '' then
                       (let token = py_strip (drop 7 a) in if token \<noteq> [] then Some token else None)
                     else None
         | None \<Rightarrow> None)
     in case x_api_key of
          Some k \<Rightarrow> if py_strip k \<noteq> [] then Some (py_strip k) else bearer
        | None \<Rightarrow> bearer)"

definition require_api_key ::
  "AppConfig \<Rightarrow> turn_env \<Rightarrow> http_request \<Rightarrow> plane_state \<Rightarrow> plane_state \<times> api_exception option" where
  "require_api_key cfg env request st =
    (if \<not> cf_require_api_auth cfg then (st, None)
     else (let presented = extract_api_key (hq_api_key request) (hq_authorization request)
           in if (case presented of None \<Rightarrow> True | Some k \<Rightarrow> k \<notin> cf_api_keys cfg) then
                (let correlation_id = normalize_correlation_id (hq_correlation_id request) ''api-unauthenticated''
                 in (st\<lparr>ps_log := write_operational_audit (te_audit_now env) ''api_auth_failure'' correlation_id
                           correlation_id ''api_auth'' ''unauthorized'' False ''unknown'' ''unknown'' ''unknown''
                           None None (ps_log st)\<rparr>,
                     Some (HTTPException 401 (Some ''unauthorized''))))
              else (st, None)))"

definition unhandled_exception_handler :: "AppConfig \<Rightarrow> api_exception \<Rightarrow> http_response" where
  "unhandled_exception_handler cfg exc =
    (case exc of
       HTTPException status detail \<Rightarrow>
         json_response status [(''detail'', case detail of Some d \<Rightarrow> d | None \<Rightarrow> ''error'')]
     | OtherException exc_text exc_type \<Rightarrow> json_response 500 (production_error_detail cfg exc_text exc_type))"

definition validation_exception_handler :: "AppConfig \<Rightarrow> json list \<Rightarrow> http_response" where
  "validation_exception_handler cfg errors =
    (if cf_enable_debug_errors cfg then \<lparr>rs_status = 422, rs_content = Errors errors\<rparr>
     else json_response 422 [(''detail'', ''validation_error'')])"

definition health :: "AppConfig \<Rightarrow> http_response" where
  "health cfg = json_response 200 [(''status'', ''ok''), (''mode'', EnvironmentMode_value (cf_environment_mode cfg))]"

definition api_agent_request :: "http_request \<Rightarrow> RunRequestBody \<Rightarrow> AgentRequest" where
  "api_agent_request request body =
    (let correlation_id = normalize_correlation_id
           (case rb_correlation_id body of
              Some c \<Rightarrow> if c \<noteq> [] then Some c else hq_correlation_id request
            | None \<Rightarrow> hq_correlation_id request)
           (rb_request_id body)
     in \<lparr>ar_request_id = rb_request_id body, ar_correlation_id = Some correlation_id,
         ar_user_id = rb_user_id body, ar_session_id = rb_session_id body, ar_tenant_id = rb_tenant_id body,
         ar_role = rb_role body, ar_model = ''simulated-v1'', ar_human_approval = rb_human_approval body,
         ar_approval_token = None, ar_user_message = rb_user_message body,
         ar_retrieved_chunks = rb_retrieved_chunks body, ar_tool_output_segments = [],
         ar_scenario = rb_scenario body\<rparr>)"

definition run_turn ::
  "ControlPlanePipeline \<Rightarrow> turn_env \<Rightarrow> http_request \<Rightarrow> RunRequestBody \<Rightarrow> plane_state
     \<Rightarrow> plane_state \<times> PipelineResult result" where
  "run_turn pipeline env request body st =
    (let agent_request = api_agent_request request body
     in if rb_path body = ''vulnerable'' then run_vulnerable pipeline env agent_request st
        else run_protected pipeline env agent_request st)"

section \<open>Building the application\<close>

record app =
  ap_config :: AppConfig
  ap_pipeline :: ControlPlanePipeline
  ap_audit_path :: path
  ap_cors_origins :: "string list option"
  ap_max_body_bytes :: int

definition key_bytes :: "string \<Rightarrow> u8 list" where
  "key_bytes s = map (\<lambda>c. word_of_nat (ord c)) s"

definition create_app :: "validator \<Rightarrow> policy_externals \<Rightarrow> host \<Rightarrow> AppConfig \<Rightarrow> app result" where
  "create_app mv pe h cfg =
    bind_result (validate_config h cfg) (\<lambda>_.
    bind_result (if cf_enable_strict_provenance cfg then load_provenance_hmac_key h cfg else Inr None) (\<lambda>provenance_key.
      Inr \<lparr>ap_config = cfg,
           ap_pipeline = ControlPlanePipeline_init mv pe (cf_enable_strict_provenance cfg)
             (map_option key_bytes provenance_key) (cf_require_approval_token cfg)
             (Some (create_llm_adapter_from_config (Some cfg))),
           ap_audit_path = path_join (cf_audit_log_dir cfg) ''api_events.jsonl'',
           ap_cors_origins = (if cf_allowed_origins cfg \<noteq> [] then Some (cf_allowed_origins cfg) else None),
           ap_max_body_bytes = cf_max_request_body_bytes cfg\<rparr>))"

text \<open>The default instance: built on the first call, then kept.\<close>

definition get_app :: "validator \<Rightarrow> policy_externals \<Rightarrow> host \<Rightarrow> path \<Rightarrow> environ \<Rightarrow> app option \<Rightarrow> app option \<times> app result" where
  "get_app mv pe h repo_root env app_instance =
    (case app_instance of
       Some a \<Rightarrow> (app_instance, Inr a)
     | None \<Rightarrow>
        (case bind_result (load_config_from_env h repo_root env) (create_app mv pe h) of
           Inr a \<Rightarrow> (Some a, Inr a)
         | Inl (ConfigurationError m) \<Rightarrow> (None, Inl (RuntimeError m))
         | Inl e \<Rightarrow> (None, Inl e)))"

section \<open>What the framework may do with a request\<close>

text \<open>
  The response, the turn of the pipeline if one served, and the state after it. \<open>text_of\<close> and \<open>type_of\<close> of an
  exception are arbitrary.
\<close>

inductive route ::
  "app \<Rightarrow> turn_env \<Rightarrow> http_request \<Rightarrow> plane_state \<Rightarrow> http_response \<Rightarrow> (turn \<times> PipelineResult result) option \<Rightarrow> plane_state \<Rightarrow> bool"
  for ap env request where
  route_health: "route ap env request st (health (ap_config ap)) None st"
| route_foreign: "route ap env request st \<lparr>rs_status = status, rs_content = Foreign\<rparr> None st"
| route_unreadable: "route ap env request st (validation_exception_handler (ap_config ap) errors) None st"
| route_refused: "require_api_key (ap_config ap) env request st = (st', Some exc)
    \<Longrightarrow> route ap env request st (unhandled_exception_handler (ap_config ap) exc) None st'"
| route_invalid: "require_api_key (ap_config ap) env request st = (st', None)
    \<Longrightarrow> route ap env request st (validation_exception_handler (ap_config ap) errors) None st'"
| route_run: "require_api_key (ap_config ap) env request st = (st1, None) \<Longrightarrow> valid_body body
    \<Longrightarrow> run_turn (ap_pipeline ap) env request body st1 = (st2, Inr r)
    \<Longrightarrow> route ap env request st \<lparr>rs_status = 200, rs_content = Result r\<rparr>
          (Some ((if rb_path body = ''vulnerable'' then Vulnerable else Protected) env (api_agent_request request body), Inr r)) st2"
| route_raised: "require_api_key (ap_config ap) env request st = (st1, None) \<Longrightarrow> valid_body body
    \<Longrightarrow> run_turn (ap_pipeline ap) env request body st1 = (st2, Inl e)
    \<Longrightarrow> route ap env request st (unhandled_exception_handler (ap_config ap) (OtherException exc_text exc_type))
          (Some ((if rb_path body = ''vulnerable'' then Vulnerable else Protected) env (api_agent_request request body), Inl e)) st2"

record api_call =
  ac_env :: turn_env
  ac_request :: http_request
  ac_response :: http_response
  ac_turn :: "(turn \<times> PipelineResult result) option"

inductive api_step :: "app \<Rightarrow> plane_state \<Rightarrow> api_call \<Rightarrow> plane_state \<Rightarrow> bool" for ap where
  step_stopped: "dispatch (ap_max_body_bytes ap) env request st = Some (st', response)
    \<Longrightarrow> api_step ap st \<lparr>ac_env = env, ac_request = request, ac_response = response, ac_turn = None\<rparr> st'"
| step_routed: "dispatch (ap_max_body_bytes ap) env request st = None \<Longrightarrow> route ap env request st response served st'
    \<Longrightarrow> api_step ap st \<lparr>ac_env = env, ac_request = request, ac_response = response, ac_turn = served\<rparr> st'"

abbreviation api_run :: "app \<Rightarrow> plane_state \<Rightarrow> (plane_state \<times> api_call) list \<Rightarrow> plane_state \<Rightarrow> bool" where
  "api_run ap \<equiv> run_of (api_step ap)"

section \<open>Authentication\<close>

definition authenticated :: "AppConfig \<Rightarrow> http_request \<Rightarrow> bool" where
  "authenticated cfg request =
    (cf_require_api_auth cfg \<longrightarrow>
      (\<exists>k \<in> cf_api_keys cfg. extract_api_key (hq_api_key request) (hq_authorization request) = Some k))"

text \<open>One operational event was appended: a refusal, with this type and reason.\<close>

definition refusal_logged :: "turn_env \<Rightarrow> string \<Rightarrow> string \<Rightarrow> plane_state \<Rightarrow> plane_state \<Rightarrow> bool" where
  "refusal_logged env event_type reason st st' =
    (\<exists>e. st' = st\<lparr>ps_log := audit_write (te_audit_now env) e (ps_log st)\<rparr> \<and> ae_event_type e = event_type
       \<and> ae_policy_reason e = reason \<and> \<not> ae_allowed e \<and> ae_policy_decision e = ''deny'')"

lemma refusal_loggedI:
  "refusal_logged env t reason st
     (st\<lparr>ps_log := write_operational_audit (te_audit_now env) t c q stage reason False u s n tool target (ps_log st)\<rparr>)"
  unfolding refusal_logged_def write_operational_audit_def
  by (intro exI conjI, rule refl) (simp_all add: operational_event_def)

lemma refusal_logged_state:
  assumes "refusal_logged env t reason st st'"
  shows "ps_used st' = ps_used st" and "written_log (ps_log st) \<Longrightarrow> written_log (ps_log st')"
  using assms by (auto simp: refusal_logged_def written_log_write)

lemma require_api_key_ok: "require_api_key cfg env request st = (st', None) \<longleftrightarrow> authenticated cfg request \<and> st' = st"
  by (auto simp: require_api_key_def authenticated_def Let_def split: option.splits if_splits)

lemma require_api_key_refused:
  assumes "require_api_key cfg env request st = (st', Some exc)"
  shows "\<not> authenticated cfg request \<and> exc = HTTPException 401 (Some ''unauthorized'')
    \<and> refusal_logged env ''api_auth_failure'' ''unauthorized'' st st'"
proof -
  from assms have "\<not> authenticated cfg request" using require_api_key_ok[of cfg env request st] by (metis prod.inject require_api_key_ok option.distinct(1))
  moreover from assms have "exc = HTTPException 401 (Some ''unauthorized'')"
    and "\<exists>c. st' = st\<lparr>ps_log := write_operational_audit (te_audit_now env) ''api_auth_failure'' c c ''api_auth'' ''unauthorized'' False
        ''unknown'' ''unknown'' ''unknown'' None None (ps_log st)\<rparr>"
    by (auto simp: require_api_key_def Let_def split: if_splits)
  ultimately show ?thesis using refusal_loggedI by metis
qed

lemma dispatch_stopped:
  assumes "dispatch m env request st = Some (st', response)"
  shows "(st' = st \<and> response = json_response 400 [(''detail'', ''invalid_content_length'')])
    \<or> (refusal_logged env ''request_body_limit_blocked'' ''request_entity_too_large'' st st'
       \<and> response = json_response 413 [(''detail'', ''request_entity_too_large'')])"
  using assms refusal_loggedI by (auto simp: dispatch_def Let_def split: if_splits option.splits)

inductive_cases route_turnE: "route ap env request st response (Some (t, r)) st'"

lemma route_turn:
  assumes "route ap env request st response (Some (t, r)) st'"
  obtains body where "authenticated (ap_config ap) request" and "valid_body body"
    and "run_turn (ap_pipeline ap) env request body st = (st', r)"
    and "t = (if rb_path body = ''vulnerable'' then Vulnerable else Protected) env (api_agent_request request body)"
  using assms by (elim route_turnE) (auto simp: require_api_key_ok)

lemma route_no_turn:
  assumes "route ap env request st response None st'"
  shows "st' = st \<or> (refusal_logged env ''api_auth_failure'' ''unauthorized'' st st'
    \<and> response = json_response 401 [(''detail'', ''unauthorized'')])"
  using assms
proof cases
  case (route_refused exc)
  from require_api_key_refused[OF route_refused(2)] route_refused(1) show ?thesis by (simp add: unhandled_exception_handler_def)
qed (auto simp: require_api_key_ok)

lemma run_turn_plane_step:
  assumes "run_turn pipeline env request body st = (st', r)"
  shows "plane_step pipeline st ((if rb_path body = ''vulnerable'' then Vulnerable else Protected) env (api_agent_request request body)) r st'"
  using assms by (auto simp: run_turn_def Let_def intro: plane_step.intros split: if_splits)

text \<open>A request is answered at the boundary, or it is one turn of the pipeline.\<close>

lemma api_step_cases:
  assumes "api_step ap st call st'"
  obtains (boundary) "ac_turn call = None"
      "st' = st \<or> (\<exists>t reason. refusal_logged (ac_env call) t reason st st' \<and>
         t \<in> {''api_auth_failure'', ''request_body_limit_blocked''})"
  | (turn) t r body where "ac_turn call = Some (t, r)" "authenticated (ap_config ap) (ac_request call)" "valid_body body"
      "t = (if rb_path body = ''vulnerable'' then Vulnerable else Protected) (ac_env call) (api_agent_request (ac_request call) body)"
      "plane_step (ap_pipeline ap) st t r st'"
  using assms
proof cases
  case (step_stopped env request response)
  then show thesis using dispatch_stopped[OF step_stopped(2)] by (intro boundary) auto
next
  case (step_routed env request response served)
  show thesis
  proof (cases served)
    case None
    with step_routed route_no_turn[of ap env request st response st'] show thesis by (intro boundary) auto
  next
    case (Some tr)
    obtain t r where tr: "tr = (t, r)" by fastforce
    from step_routed(3)[unfolded Some tr] obtain body where b: "authenticated (ap_config ap) request" "valid_body body"
      "run_turn (ap_pipeline ap) env request body st = (st', r)"
      "t = (if rb_path body = ''vulnerable'' then Vulnerable else Protected) env (api_agent_request request body)"
      by (rule route_turn)
    with run_turn_plane_step[OF b(3)] step_routed(1) Some tr show thesis by (intro turn[of t r body]) simp_all
  qed
qed

lemma boundary_content:
  assumes "api_step ap st call st'" and "ac_turn call = None"
  shows "rs_content (ac_response call) \<noteq> Result r"
  using assms(1)
proof cases
  case (step_stopped env request response)
  then show ?thesis using dispatch_stopped[OF step_stopped(2)] by (auto simp: json_response_def)
next
  case (step_routed env request response served)
  with assms(2) have "route ap env request st response None st'" by simp
  then have "rs_content response \<noteq> Result r"
    by cases (auto simp: health_def json_response_def validation_exception_handler_def unhandled_exception_handler_def
        split: api_exception.splits)
  with step_routed show ?thesis by simp
qed

text \<open>A tool that a request over the API executes went through the protected path of the pipeline.\<close>

lemma api_executed:
  assumes "api_step ap st call st'" and "ac_turn call = Some (t, Inr r)" and "pr_tool_executed r"
  obtains body policy tc where "authenticated (ap_config ap) (ac_request call)"
    and "mediated (ap_pipeline ap) (ac_env call) (api_agent_request (ac_request call) body) st policy tc"
  using assms(1)
proof (cases rule: api_step_cases)
  case boundary
  with assms(2) show thesis by simp
next
  case (turn t' r' body)
  let ?q = "api_agent_request (ac_request call) body"
  from turn assms(2) have step: "plane_step (ap_pipeline ap) st t (Inr r) st'" and t: "t = t'" by simp_all
  have "run_protected (ap_pipeline ap) (ac_env call) ?q st = (st', Inr r)"
  proof (cases "rb_path body = ''vulnerable''")
    case True
    with turn t step have "run_vulnerable (ap_pipeline ap) (ac_env call) ?q st = (st', Inr r)"
      by (auto elim: plane_step.cases)
    then have "\<not> pr_tool_executed r"
      by (auto simp: run_vulnerable_def Let_def split: sum.splits option.splits)
    with assms(3) show ?thesis by simp
  next
    case False
    with turn t step show ?thesis by (auto elim: plane_step_protectedE)
  qed
  with executed_mediated[of _ _ ?q st st' r] assms(3) turn(2) show thesis using that by blast
qed

section \<open>Properties\<close>




text \<open>
  C21. In production the API hides what went wrong: once an application is built from a production
  configuration, whatever the exceptions say, every content it produces itself is a result, the
  health report or one of five fixed words.
\<close>

theorem production_api_hides_errors:
  assumes "create_app mv pe h cfg = Inr ap" and "cf_environment_mode cfg = PRODUCTION"
    and "api_step ap st call st'" and "rs_content (ac_response call) = c"
  shows "(\<exists>r. c = Result r) \<or> c = Foreign \<or> c = Payload [(''status'', ''ok''), (''mode'', ''production'')]
    \<or> c \<in> (\<lambda>word. Payload [(''detail'', word)]) ` {''invalid_content_length'', ''request_entity_too_large'',
        ''unauthorized'', ''validation_error'', ''internal_error''}"
proof -
  from assms(1) have cfg: "ap_config ap = cfg" and valid: "validate_config h cfg = Inr ()"
    by (auto simp: create_app_def monad_simps)
  have quiet: "\<not> cf_enable_debug_errors cfg"
    using valid assms(2) by (simp add: validate_config_ok validation_errors_def production_errors_def)
  from assms(3) show ?thesis
  proof cases
    case (step_stopped env request response)
    then show ?thesis using dispatch_stopped[OF step_stopped(2)] assms(4) by (auto simp: json_response_def)
  next
    case (step_routed env request response served)
    from step_routed(3) have "c = rs_content response \<Longrightarrow> ?thesis"
      by cases (auto simp: health_def json_response_def validation_exception_handler_def unhandled_exception_handler_def
          production_error_detail_def cfg quiet assms(2) dest: require_api_key_refused)
    with step_routed assms(4) show ?thesis by simp
  qed
qed

lemma api_step_log: "api_step ap st call st' \<Longrightarrow> written_log (ps_log st) \<Longrightarrow> written_log (ps_log st')"
  by (erule api_step_cases) (auto intro: plane_step_log refusal_logged_state(2))

interpretation api_log: audited_process "api_step ap" ps_log for ap
  by unfold_locales (rule api_step_log)

text \<open>
  C7. Over any sequence of requests the API's audit file shows no known secret: no redaction pattern
  matches a line of it.
\<close>

theorem api_log_shows_no_secret:
  assumes "api_run ap plane_init calls st" and "line \<in> set (event_lines (Some (ps_log st)))"
  shows "map (\<lambda>pattern. search pattern line) REDACT_PATTERNS = [None, None, None]"
  using api_log.run_shows_no_secret[OF assms(1) _ assms(2)] by (simp add: plane_init_def)

text \<open>
  The application is built once and only from a deployable configuration: a successful first call of
  \<^verbatim>\<open>get_app\<close> gives an application whose configuration passed validation, every later call returns the
  same one whatever the environment has become, and a configuration error surfaces as
  \<^verbatim>\<open>RuntimeError\<close> and leaves nothing behind.
\<close>

theorem app_built_once:
  "(\<forall>a i. get_app mv pe h repo_root env None = (i, Inr a) \<longrightarrow>
       i = Some a \<and> deployable h (ap_config a) \<and> get_app mv pe h' repo_root' env' i = (i, Inr a))
   \<and> (\<forall>m. configure h repo_root env = Inl (ConfigurationError m) \<longrightarrow>
       get_app mv pe h repo_root env None = (None, Inl (RuntimeError m)))"
proof (intro conjI allI impI)
  fix a i
  assume "get_app mv pe h repo_root env None = (i, Inr a)"
  then have i: "i = Some a" and "bind_result (load_config_from_env h repo_root env) (create_app mv pe h) = Inr a"
    by (auto simp: get_app_def split: sum.splits py_error.splits)
  then show "i = Some a" and "deployable h (ap_config a)" and "get_app mv pe h' repo_root' env' i = (i, Inr a)"
    by (auto simp: get_app_def monad_simps create_app_def validate_config_deployable)
next
  fix m
  assume "configure h repo_root env = Inl (ConfigurationError m)"
  then have "bind_result (load_config_from_env h repo_root env) (create_app mv pe h) = Inl (ConfigurationError m)"
    by (auto simp: configure_def create_app_def bind_result_def split: sum.splits)
  then show "get_app mv pe h repo_root env None = (None, Inl (RuntimeError m))" by (simp add: get_app_def)
qed

lemma created_app:
  assumes "create_app mv pe h cfg = Inr ap"
  shows "ap_config ap = cfg" and "ap_max_body_bytes ap = cf_max_request_body_bytes cfg"
    and "\<not> cf_enable_strict_provenance cfg \<Longrightarrow> ap_pipeline ap = ControlPlanePipeline_init mv pe False None
      (cf_require_approval_token cfg) (Some (create_llm_adapter_from_config (Some cfg)))"
  using assms by (auto simp: create_app_def monad_simps)

section \<open>A concrete application\<close>

definition token_config :: AppConfig where
  "token_config = sample_production_config\<lparr>cf_require_approval_token := True\<rparr>"

definition sample_app :: app where
  "sample_app =
    \<lparr>ap_config = token_config,
     ap_pipeline = ControlPlanePipeline_init model_validate_ref sample_externals False None True (Some SimulatedLLMAdapter),
     ap_audit_path = mk_path ''/srv/lab/audit_logs/api_events.jsonl'',
     ap_cors_origins = Some [''https://a.example'', ''https://b.example''], ap_max_body_bytes = 1048576\<rparr>"

lemma sample_app_created:
  "create_app model_validate_ref sample_externals (sample_host sample_keys) token_config = Inr sample_app"
proof -
  have "validation_errors (sample_host sample_keys) token_config = []" by code_simp
  then have "validate_config (sample_host sample_keys) token_config = Inr ()" by (simp add: validate_config_ok)
  moreover have "path_join (mk_path ''/srv/lab/audit_logs'') ''api_events.jsonl'' = mk_path ''/srv/lab/audit_logs/api_events.jsonl''"
    by code_simp
  ultimately show ?thesis
    by (simp add: create_app_def sample_app_def token_config_def sample_production_config_def
        create_llm_adapter_from_config_def create_llm_adapter_def)
qed

definition post :: "string option \<Rightarrow> string option \<Rightarrow> http_request" where
  "post content_length authorization =
    \<lparr>hq_method = ''POST'', hq_content_length = content_length, hq_correlation_id = Some '' c-1 '', hq_api_key = None,
     hq_authorization = authorization\<rparr>"

definition sample_body :: RunRequestBody where
  "sample_body = (RunRequestBody_default ''req-1'' ''user-1'' ''sess-1'' ''tenant-a'' ''Read records'')\<lparr>rb_role := ''analyst''\<rparr>"

abbreviation keyed :: http_request where
  "keyed \<equiv> post (Some ''120'') (Some ''Bearer k1 '')"

abbreviation sample_api_request :: AgentRequest where
  "sample_api_request \<equiv> api_agent_request keyed sample_body"

lemma sample_api_executes:
  "\<exists>st' r. run_protected (ap_pipeline sample_app) sample_env sample_api_request plane_init = (st', Inr r) \<and> pr_tool_executed r"
proof (rule mediated_executes)
  have q: "sample_api_request = sample_request\<lparr>ar_correlation_id := Some ''c-1'', ar_model := ''simulated-v1''\<rparr>"
  proof -
    have "normalize_correlation_id (Some '' c-1 '') ''req-1'' = ''c-1''" by code_simp
    then show ?thesis
      by (simp add: api_agent_request_def post_def sample_body_def RunRequestBody_default_def sample_request_def)
  qed
  let ?cp = "ap_pipeline sample_app"
  have "load_policy (cp_externals ?cp) (te_policy_file sample_env) = Inr sample_policy"
    using sample_policy_loaded by (simp add: sample_app_def sample_cp_def ControlPlanePipeline_init_def)
  moreover have "generate_model_turn ?cp sample_env sample_api_request = Inr sample_turn"
    unfolding q by (simp add: sample_app_def generate_model_turn_def ControlPlanePipeline_init_def simulated_generate_def Let_def
      to_model_turn_result_def simulated_agent_defs turn_with_tool_def record_ids_def plain_provenance_def
      sample_turn_def sample_request_def sample_call_def sample_provenance_def)
  moreover have "fr_allowed (shown sample_api_request sample_turn)"
    unfolding q sample_turn_def sample_request_def by code_simp
  moreover have "map_sum (\<lambda>e. ()) bd_allowed (broker_tool_request (cp_validator ?cp) {} sample_now sample_api_request sample_policy
      sample_call (cp_options ?cp)) = Inr True"
    unfolding q by code_simp
  then have "authorised (cp_validator ?cp) {} sample_now sample_api_request sample_policy sample_call (cp_options ?cp)"
    using broker_allowed_authorised by (cases "broker_tool_request (cp_validator ?cp) {} sample_now sample_api_request
      sample_policy sample_call (cp_options ?cp)") auto
  ultimately show "mediated ?cp sample_env sample_api_request plane_init sample_policy sample_call"
    by (auto simp: mediated_def plane_init_def USED_APPROVAL_IDS_init_def sample_turn_def sample_env_def)
  show "simulate_tool_execution sample_api_request sample_call = Inr \<lparr>sr_success = True, sr_message = ''simulated_read_records'',
     sr_simulated_output = [(''tenant_id'', JStr ''tenant-a''),
       (''records'', JList [JDict [(''id'', JStr ''r-100''), (''value'', JStr ''simulated'')]])]\<rparr>"
    unfolding q by (simp add: simulate_tool_execution_def Let_def sample_call_def sample_request_def args_get_def)
qed

definition refused_call :: api_call where
  "refused_call = \<lparr>ac_env = sample_env, ac_request = post (Some ''120'') None,
     ac_response = json_response 401 [(''detail'', ''unauthorized'')], ac_turn = None\<rparr>"

lemma sample_not_authenticated: "\<not> authenticated (ap_config sample_app) (ac_request refused_call)"
  by (simp add: authenticated_def sample_app_def token_config_def sample_production_config_def refused_call_def
      post_def extract_api_key_def)

lemma sample_not_stopped: "dispatch (ap_max_body_bytes sample_app) sample_env (post (Some ''120'') a) st = None"
proof -
  have "py_int ''120'' = Some 120" by code_simp
  then show ?thesis by (simp add: dispatch_def post_def sample_app_def)
qed

lemma refused_step: "\<exists>st'. api_step sample_app plane_init refused_call st' \<and>
  (\<exists>e. ps_log st' = audit_write sample_now e [])"
proof -
  let ?q = "post (Some ''120'') None"
  obtain st' exc where r: "require_api_key (ap_config sample_app) sample_env ?q plane_init = (st', exc)" by fastforce
  then obtain x where exc: "exc = Some x"
    using require_api_key_ok[of "ap_config sample_app" sample_env ?q plane_init st'] sample_not_authenticated
    by (cases exc) (auto simp: refused_call_def)
  from require_api_key_refused[of "ap_config sample_app" sample_env ?q plane_init st' x] r exc
  have x: "x = HTTPException 401 (Some ''unauthorized'')" and l: "refusal_logged sample_env ''api_auth_failure'' ''unauthorized'' plane_init st'"
    by auto
  have "route sample_app sample_env ?q plane_init (unhandled_exception_handler (ap_config sample_app) x) None st'"
    using r exc by (intro route_refused) simp
  from step_routed[OF sample_not_stopped this] have "api_step sample_app plane_init refused_call st'"
    by (simp add: refused_call_def x unhandled_exception_handler_def)
  moreover from l have "\<exists>e. ps_log st' = audit_write sample_now e []"
    by (auto simp: refusal_logged_def plane_init_def sample_env_def)
  ultimately show ?thesis by blast
qed



lemma sample_authenticated: "authenticated (ap_config sample_app) keyed"
proof -
  have "extract_api_key None (Some ''Bearer k1 '') = Some ''k1''" by code_simp
  then show ?thesis by (simp add: authenticated_def sample_app_def token_config_def sample_production_config_def post_def)
qed


theorem production_api_hides_errors_witness:
  "cf_environment_mode token_config = PRODUCTION
   \<and> (\<exists>st'. api_step sample_app plane_init refused_call st'
        \<and> rs_content (ac_response refused_call) = Payload [(''detail'', ''unauthorized'')])"
proof -
  have p: "cf_environment_mode token_config = PRODUCTION" by (simp add: token_config_def sample_production_config_def)
  obtain st' where st': "api_step sample_app plane_init refused_call st'" using refused_step by blast
  from production_api_hides_errors[OF sample_app_created p st' refl] p st' show ?thesis
    by (auto simp: refused_call_def json_response_def)
qed

theorem api_log_shows_no_secret_witness:
  "\<exists>calls st line. api_run sample_app plane_init calls st \<and> line \<in> set (event_lines (Some (ps_log st)))
     \<and> map (\<lambda>pattern. search pattern line) REDACT_PATTERNS = [None, None, None]"
proof -
  obtain st' e where st': "api_step sample_app plane_init refused_call st'" "ps_log st' = audit_write sample_now e []"
    using refused_step by blast
  then have run: "api_run sample_app plane_init [(plane_init, refused_call)] st'" by simp
  have "ps_log st' = log_of [audit_line sample_now e]" using st'(2) by (simp add: audit_write_def log_of_def)
  then have l: "audit_line sample_now e \<in> set (event_lines (Some (ps_log st')))"
    using event_lines_log_of[of "[audit_line sample_now e]"] good_audit_line by simp
  show ?thesis by (intro exI conjI) (rule run, rule l, rule api_log_shows_no_secret[OF run l])
qed

theorem app_built_once_witness:
  "\<exists>a. get_app model_validate_ref sample_externals (sample_host sample_keys) sample_root sample_production None = (Some a, Inr a)
     \<and> get_app model_validate_ref sample_externals (sample_host []) sample_root Map.empty (Some a) = (Some a, Inr a)"
proof -
  have "create_app model_validate_ref sample_externals (sample_host sample_keys) sample_production_config \<noteq> Inl e" for e
  proof -
    have "\<not> cf_enable_strict_provenance sample_production_config" by (simp add: sample_production_config_def)
    then show ?thesis by (simp add: create_app_def sample_production_valid)
  qed
  then obtain a where a: "create_app model_validate_ref sample_externals (sample_host sample_keys) sample_production_config = Inr a"
    by (cases "create_app model_validate_ref sample_externals (sample_host sample_keys) sample_production_config") auto
  then have g: "get_app model_validate_ref sample_externals (sample_host sample_keys) sample_root sample_production None = (Some a, Inr a)"
    by (simp add: get_app_def sample_production_loads)
  with app_built_once[of model_validate_ref sample_externals "sample_host sample_keys" sample_root sample_production
      "sample_host []" sample_root Map.empty] show ?thesis by blast
qed

end
