(* ===== verification/Policy_Integrity.thy ===== *)
theory Policy_Integrity
  imports Policy_Engine Py_Host Audit_Log Sha256
begin

text \<open>
  \<^verbatim>\<open>policy_integrity.py\<close> and \<^verbatim>\<open>scripts/validate_policy.py\<close>: the schema and the security invariants of
  a policy file, its canonical JSON and digest, and the command that compares the digest with the
  checked-in one.

  Documents are the \<open>yaml\<close> values of \<open>Policy_Engine\<close>; \<^verbatim>\<open>yaml.safe_load\<close> is the same parameter as
  there. The order in which \<^verbatim>\<open>sorted\<close> puts keys that are neither all strings nor all integers (floats,
  dates) is the argument \<open>srt\<close>, since documents know such values by their texts only. Messages of
  \<^verbatim>\<open>TypeError\<close> are abbreviated. The frozen sets of the source are lists; which of several faulty
  boolean fields a message names first depends on a set's iteration order, and is here the order of
  the source.
\<close>

section \<open>Constants\<close>

definition ALLOWED_TOP_LEVEL_KEYS :: "string list" where
  "ALLOWED_TOP_LEVEL_KEYS = [''default_decision'', ''tools'', ''tenant_isolation'']"

definition REQUIRED_TOOL_KEYS :: "string list" where
  "REQUIRED_TOOL_KEYS =
    [''enabled'', ''risk_level'', ''external_effect'', ''destructive'', ''requires_human_approval'', ''allowed_roles'']"

definition REQUIRED_DEMO_TOOLS :: "string list" where
  "REQUIRED_DEMO_TOOLS = [''read_records'', ''send_email'', ''export_records'', ''delete_records'', ''run_shell'']"

definition BOOL_KEYS :: "string list" where
  "BOOL_KEYS = [''enabled'', ''external_effect'', ''destructive'', ''requires_human_approval'']"

definition VALID_RISK_LEVELS :: "string list" where
  "VALID_RISK_LEVELS = map RiskLevel_value [LOW, MEDIUM, HIGH, CRITICAL]"

section \<open>Loading\<close>

definition load_policy_yaml :: "policy_externals \<Rightarrow> host \<Rightarrow> path \<Rightarrow> (yaml \<times> yaml) list result" where
  "load_policy_yaml pe h p =
    (if \<not> is_file h p then Inl (PolicyIntegrityError (''policy file not found: '' @ path_str p))
     else bind_result (read_text h p) (\<lambda>content.
       bind_result (pe_safe_load pe content) (\<lambda>raw.
         case raw of YMap m \<Rightarrow> Inr m | _ \<Rightarrow> Inl (PolicyIntegrityError ''policy root must be a mapping''))))"

section \<open>Canonical form\<close>

fun yaml_string :: "yaml \<Rightarrow> string option" where
  "yaml_string (YStr s) = Some s"
| "yaml_string _ = None"

fun yaml_integer :: "yaml \<Rightarrow> int option" where
  "yaml_integer (YInt i) = Some i"
| "yaml_integer (YBool b) = Some (if b then 1 else 0)"
| "yaml_integer _ = None"

text \<open>\<^verbatim>\<open>sorted(d.keys())\<close>: strings by code points, integers and booleans by value, never both.\<close>

definition sorted_keys :: "(yaml list \<Rightarrow> yaml list result) \<Rightarrow> yaml list \<Rightarrow> yaml list result" where
  "sorted_keys srt ks =
    (if list_all (\<lambda>k. yaml_string k \<noteq> None) ks then Inr (sort_key (\<lambda>k. the (yaml_string k)) ks)
     else if list_all (\<lambda>k. yaml_integer k \<noteq> None) ks then Inr (sort_key (\<lambda>k. the (yaml_integer k)) ks)
     else if length ks \<le> 1 then Inr ks
     else if list_ex (\<lambda>k. yaml_string k \<noteq> None) ks then Inl (TypeError ''keys are not comparable'')
     else srt ks)"

definition sorted_items ::
  "(yaml list \<Rightarrow> yaml list result) \<Rightarrow> (yaml \<times> 'a) list \<Rightarrow> (yaml \<times> 'a) list result" where
  "sorted_items srt kvs =
    bind_result (sorted_keys srt (map fst kvs)) (\<lambda>ks. Inr (map (\<lambda>k. (k, the (map_of kvs k))) ks))"

definition canonical_tool_value :: "yaml \<Rightarrow> yaml \<Rightarrow> yaml result" where
  "canonical_tool_value key v =
    (if key = YStr ''allowed_roles'' then
       (case v of YList items \<Rightarrow> Inr (YList (map YStr (sort (map yaml_str items))))
        | _ \<Rightarrow> Inl (PolicyIntegrityError ''allowed_roles must be a list''))
     else if key \<in> YStr ` set BOOL_KEYS then
       (case v of YBool b \<Rightarrow> Inr v | _ \<Rightarrow> Inl (PolicyIntegrityError (yaml_str key @ '' must be a boolean'')))
     else if key = YStr ''risk_level'' then Inr (YStr (yaml_str v))
     else Inr v)"

definition canonical_tool ::
  "(yaml list \<Rightarrow> yaml list result) \<Rightarrow> yaml \<times> yaml \<Rightarrow> (yaml \<times> yaml) result" where
  "canonical_tool srt item =
    (case item of
       (name, YMap cfg) \<Rightarrow>
         bind_result (sorted_items srt cfg) (\<lambda>items.
           bind_result (map_result (\<lambda>(key, v). bind_result (canonical_tool_value key v) (\<lambda>w. Inr (key, w))) items)
             (\<lambda>entry. Inr (name, YMap entry)))
     | (name, _) \<Rightarrow> Inl (PolicyIntegrityError (''tool '' @ yaml_repr name @ '' must be a mapping'')))"

definition canonical_policy_payload ::
  "(yaml list \<Rightarrow> yaml list result) \<Rightarrow> (yaml \<times> yaml) list \<Rightarrow> (yaml \<times> yaml) list result" where
  "canonical_policy_payload srt raw =
    (case yaml_get raw ''tools'' YNull of
       YMap tools_raw \<Rightarrow>
         bind_result (sorted_items srt tools_raw) (\<lambda>items.
           bind_result (map_result (canonical_tool srt) items) (\<lambda>canonical_tools.
             Inr [(YStr ''default_decision'', yaml_get raw ''default_decision'' YNull),
                  (YStr ''tenant_isolation'', yaml_get raw ''tenant_isolation'' YNull),
                  (YStr ''tools'', YMap canonical_tools)]))
     | _ \<Rightarrow> Inl (PolicyIntegrityError ''tools must be a mapping''))"

text \<open>
  \<^verbatim>\<open>json.dumps(payload, sort_keys=True, ...)\<close> of a document value: the items of a mapping in the order
  of their keys, keys turned into strings, and a value that JSON does not have is refused.
\<close>

definition json_float :: "string \<Rightarrow> string" where
  "json_float s = (if s = ''nan'' then ''NaN'' else if s = ''inf'' then ''Infinity''
     else if s = ''-inf'' then ''-Infinity'' else s)"

fun json_key :: "yaml \<Rightarrow> string result" where
  "json_key (YStr s) = Inr s"
| "json_key YNull = Inr ''null''"
| "json_key (YBool b) = Inr (if b then ''true'' else ''false'')"
| "json_key (YInt i) = Inr (int_str i)"
| "json_key (YFloat s) = Inr (json_float s)"
| "json_key _ = Inl (TypeError ''keys must be str, int, float, bool or None'')"

fun to_json :: "(yaml list \<Rightarrow> yaml list result) \<Rightarrow> yaml \<Rightarrow> json result" where
  "to_json srt YNull = Inr JNull"
| "to_json srt (YBool b) = Inr (JBool b)"
| "to_json srt (YInt i) = Inr (JInt i)"
| "to_json srt (YFloat s) = Inr (JFloat (json_float s))"
| "to_json srt (YStr s) = Inr (JStr s)"
| "to_json srt (YOther st re) = Inl (TypeError ''value is not JSON serializable'')"
| "to_json srt (YList vs) = bind_result (map_result id (map (to_json srt) vs)) (\<lambda>js. Inr (JList js))"
| "to_json srt (YMap kvs) =
     bind_result (sorted_items srt (map (\<lambda>(k, v). (k, to_json srt v)) kvs)) (\<lambda>items.
       bind_result (map_result (\<lambda>(k, r). bind_result (json_key k) (\<lambda>s. bind_result r (\<lambda>j. Inr (s, j)))) items)
         (\<lambda>js. Inr (JDict js)))"

definition canonical_policy_json :: "(yaml list \<Rightarrow> yaml list result) \<Rightarrow> (yaml \<times> yaml) list \<Rightarrow> string result" where
  "canonical_policy_json srt raw =
    bind_result (canonical_policy_payload srt raw) (\<lambda>payload.
      bind_result (to_json srt (YMap payload)) (\<lambda>j. Inr (json_dumps_compact j)))"

definition compute_policy_sha256 :: "(yaml list \<Rightarrow> yaml list result) \<Rightarrow> (yaml \<times> yaml) list \<Rightarrow> string result" where
  "compute_policy_sha256 srt raw =
    bind_result (canonical_policy_json srt raw) (\<lambda>t. Inr (hexdigest (sha256 (utf8_encode t))))"

section \<open>The expected digest\<close>

definition hex_token :: "string \<Rightarrow> bool" where
  "hex_token t = (length t = 64 \<and> list_all (\<lambda>c. c \<in> set ''0123456789abcdef'') t)"

fun first_hash :: "string \<Rightarrow> string list \<Rightarrow> string result" where
  "first_hash shown [] = Inl (PolicyIntegrityError (''no hash found in '' @ shown))"
| "first_hash shown (line # lines) =
     (let stripped = py_strip line
      in if stripped = [] \<or> py_startswith stripped ''#'' then first_hash shown lines
         else let token = py_lower (first_word stripped)
              in if hex_token token then Inr token
                 else Inl (PolicyIntegrityError (''invalid hash in '' @ shown @ '': '' @ py_repr stripped)))"

definition read_expected_hash :: "host \<Rightarrow> path \<Rightarrow> string result" where
  "read_expected_hash h p =
    (if \<not> is_file h p then Inl (PolicyIntegrityError (''expected hash file not found: '' @ path_str p))
     else bind_result (read_text h p) (\<lambda>content. first_hash (path_str p) (splitlines_from [] content)))"

section \<open>Validation\<close>

definition cfg_item :: "(yaml \<times> yaml) list \<Rightarrow> string \<Rightarrow> yaml result" where
  "cfg_item cfg k = (case map_of cfg (YStr k) of Some v \<Rightarrow> Inr v | None \<Rightarrow> Inl (KeyError k))"

text \<open>\<^verbatim>\<open>', '.join(sorted(keys))\<close>, which only works on strings.\<close>

definition join_sorted :: "yaml list \<Rightarrow> string result" where
  "join_sorted ks =
    (if list_all (\<lambda>k. yaml_string k \<noteq> None) ks then Inr (py_join '', '' (sort (map (\<lambda>k. the (yaml_string k)) ks)))
     else Inl (TypeError ''keys are not strings''))"

fun check_bools :: "string \<Rightarrow> (yaml \<times> yaml) list \<Rightarrow> string list \<Rightarrow> unit result" where
  "check_bools name cfg [] = Inr ()"
| "check_bools name cfg (key # keys) =
     bind_result (cfg_item cfg key) (\<lambda>v.
       case v of YBool _ \<Rightarrow> check_bools name cfg keys
       | _ \<Rightarrow> Inl (PolicyIntegrityError (''tool '' @ py_repr name @ '': '' @ key @ '' must be a boolean'')))"

definition validate_tool_field_types :: "string \<Rightarrow> (yaml \<times> yaml) list \<Rightarrow> unit result" where
  "validate_tool_field_types name cfg =
    bind_result (check_bools name cfg BOOL_KEYS) (\<lambda>_.
    bind_result (cfg_item cfg ''allowed_roles'') (\<lambda>roles.
      case roles of
        YList items \<Rightarrow>
          if \<not> list_all (\<lambda>role. yaml_string role \<noteq> None) items
          then Inl (PolicyIntegrityError (''tool '' @ py_repr name @ '': allowed_roles entries must be strings''))
          else bind_result (cfg_item cfg ''risk_level'') (\<lambda>risk.
            if \<not> (\<exists>s \<in> set VALID_RISK_LEVELS. risk = YStr s)
            then Inl (PolicyIntegrityError (''tool '' @ py_repr name @ '': risk_level must be one of ''
                   @ yaml_repr (YList (map YStr (sort VALID_RISK_LEVELS)))))
            else Inr ())
      | _ \<Rightarrow> Inl (PolicyIntegrityError (''tool '' @ py_repr name @ '': allowed_roles must be a list''))))"

text \<open>The fields have passed the type check here: a boolean field is true or false, the roles are a list.\<close>

definition cfg_true :: "(yaml \<times> yaml) list \<Rightarrow> string \<Rightarrow> bool" where
  "cfg_true cfg k = (map_of cfg (YStr k) = Some (YBool True))"

definition validate_tool_security_invariants :: "string \<Rightarrow> (yaml \<times> yaml) list \<Rightarrow> unit result" where
  "validate_tool_security_invariants name cfg =
    bind_result (cfg_item cfg ''allowed_roles'') (\<lambda>roles.
      if cfg_true cfg ''enabled'' \<and> roles = YList []
        then Inl (PolicyIntegrityError (''tool '' @ py_repr name @ '': enabled tools must declare at least one allowed role''))
      else if name = ''run_shell'' \<and> cfg_true cfg ''enabled''
        then Inl (PolicyIntegrityError ''run_shell must remain disabled (enabled: false)'')
      else if name = ''send_email'' \<and> \<not> cfg_true cfg ''requires_human_approval''
        then Inl (PolicyIntegrityError ''send_email must require human approval'')
      else if name = ''export_records'' \<and> \<not> cfg_true cfg ''requires_human_approval''
        then Inl (PolicyIntegrityError ''export_records must require human approval'')
      else if name = ''export_records'' \<and> roles \<noteq> YList [YStr ''admin'']
        then Inl (PolicyIntegrityError (''export_records allowed_roles must be ['' @ py_repr ''admin'' @ ''] only''))
      else Inr ())"

definition validate_tool :: "yaml \<times> yaml \<Rightarrow> unit result" where
  "validate_tool item =
    (case item of
       (YStr name, YMap cfg) \<Rightarrow>
         (let keys = map fst cfg;
              unknown = filter (\<lambda>k. k \<notin> YStr ` set REQUIRED_TOOL_KEYS) keys;
              missing = filter (\<lambda>k. YStr k \<notin> set keys) REQUIRED_TOOL_KEYS
          in if unknown \<noteq> [] then
               bind_result (join_sorted unknown) (\<lambda>t.
                 Inl (PolicyIntegrityError (''tool '' @ py_repr name @ '' has unknown keys: '' @ t)))
             else if missing \<noteq> [] then
               Inl (PolicyIntegrityError (''tool '' @ py_repr name @ '' missing fields: '' @ py_join '', '' (sort missing)))
             else bind_result (validate_tool_field_types name cfg) (\<lambda>_. validate_tool_security_invariants name cfg))
     | (YStr name, _) \<Rightarrow> Inl (PolicyIntegrityError (''tool '' @ py_repr name @ '' must be a mapping''))
     | _ \<Rightarrow> Inl (PolicyIntegrityError ''tool names must be strings''))"

definition validate_policy_invariants :: "(yaml \<times> yaml) list \<Rightarrow> unit result" where
  "validate_policy_invariants raw =
    (let unknown_top = filter (\<lambda>k. k \<notin> YStr ` set ALLOWED_TOP_LEVEL_KEYS) (map fst raw)
     in if unknown_top \<noteq> [] then
          bind_result (join_sorted unknown_top) (\<lambda>t. Inl (PolicyIntegrityError (''unknown top-level keys: '' @ t)))
        else if yaml_get raw ''default_decision'' YNull \<noteq> YStr ''deny''
          then Inl (PolicyIntegrityError (''default_decision must be '' @ py_repr ''deny''))
        else if yaml_get raw ''tenant_isolation'' YNull \<noteq> YStr ''strict''
          then Inl (PolicyIntegrityError (''tenant_isolation must be '' @ py_repr ''strict''))
        else (case yaml_get raw ''tools'' YNull of
            YMap tools_raw \<Rightarrow>
              (let missing_tools = filter (\<lambda>t. YStr t \<notin> fst ` set tools_raw) REQUIRED_DEMO_TOOLS
               in if tools_raw = [] then Inl (PolicyIntegrityError ''tools mapping must not be empty'')
                  else if missing_tools \<noteq> []
                    then Inl (PolicyIntegrityError (''missing required demo tools: '' @ py_join '', '' (sort missing_tools)))
                  else bind_result (map_result validate_tool tools_raw) (\<lambda>_. Inr ()))
          | _ \<Rightarrow> Inl (PolicyIntegrityError ''tools must be a mapping'')))"

section \<open>Files\<close>

record integrity_env =
  ie_externals :: policy_externals
  ie_sorted :: "yaml list \<Rightarrow> yaml list result"

definition validate_policy_file :: "integrity_env \<Rightarrow> host \<Rightarrow> path \<Rightarrow> string result" where
  "validate_policy_file ie h p =
    bind_result (load_policy_yaml (ie_externals ie) h p) (\<lambda>raw.
    bind_result (validate_policy_invariants raw) (\<lambda>_.
      compute_policy_sha256 (ie_sorted ie) raw))"

definition verify_policy_file_hash :: "integrity_env \<Rightarrow> host \<Rightarrow> path \<Rightarrow> path \<Rightarrow> string result" where
  "verify_policy_file_hash ie h policy_path hash_path =
    bind_result (validate_policy_file ie h policy_path) (\<lambda>actual.
    bind_result (read_expected_hash h hash_path) (\<lambda>expected.
      if actual \<noteq> expected
      then Inl (PolicyIntegrityError (''policy hash mismatch: expected '' @ expected @ '', got '' @ actual))
      else Inr actual))"

text \<open>
  The command \<^verbatim>\<open>scripts/validate_policy.py\<close> on resolved paths: the machine afterwards, the lines it
  prints (standard output and error) and its exit code. An exception other than
  \<^verbatim>\<open>PolicyIntegrityError\<close> ends it with a traceback.
\<close>

definition write_text :: "path \<Rightarrow> string \<Rightarrow> host \<Rightarrow> host" where
  "write_text p content h = h\<lparr>h_file := (h_file h)(p \<mapsto> \<lparr>hf_text = content, hf_bytes = content\<rparr>)\<rparr>"

definition validate_policy_main ::
  "integrity_env \<Rightarrow> path \<Rightarrow> path \<Rightarrow> bool \<Rightarrow> host \<Rightarrow> host \<times> (string list \<times> int) result" where
  "validate_policy_main ie policy_path hash_path write_hash h =
    (case validate_policy_file ie h policy_path of
       Inl (PolicyIntegrityError m) \<Rightarrow> (h, Inr ([''FAIL: policy validation failed: '' @ m], 1))
     | Inl e \<Rightarrow> (h, Inl e)
     | Inr digest \<Rightarrow>
        (let head = [''OK: policy schema and invariants valid ('' @ path_str policy_path @ '')'',
                     ''     canonical SHA-256: '' @ digest]
         in if write_hash then
              (write_text hash_path (digest @ [CHR 0x0A]) h, Inr (head @ [''OK: wrote hash to '' @ path_str hash_path], 0))
            else (case verify_policy_file_hash ie h policy_path hash_path of
                Inl (PolicyIntegrityError m) \<Rightarrow>
                  (h, Inr (head @ [''FAIL: '' @ m, ''Hint: if the policy changed intentionally, run ''
                     @ ''python scripts/validate_policy.py --write-hash''], 1))
              | Inl e \<Rightarrow> (h, Inl e)
              | Inr d \<Rightarrow> (h, Inr (head @ [''OK: hash matches '' @ path_str hash_path], 0)))))"

section \<open>What validation admits\<close>

text \<open>
  The tool policy that an entry spells out, and the security rules of the laboratory on it. An entry
  has exactly the six fields, each of its type.
\<close>

definition entry_spells :: "(yaml \<times> yaml) list \<Rightarrow> ToolPolicy \<Rightarrow> bool" where
  "entry_spells cfg tp =
    (set (map fst cfg) = YStr ` set REQUIRED_TOOL_KEYS
     \<and> map_of cfg (YStr ''enabled'') = Some (YBool (tp_enabled tp))
     \<and> map_of cfg (YStr ''risk_level'') = Some (YStr (RiskLevel_value (tp_risk_level tp)))
     \<and> map_of cfg (YStr ''external_effect'') = Some (YBool (tp_external_effect tp))
     \<and> map_of cfg (YStr ''destructive'') = Some (YBool (tp_destructive tp))
     \<and> map_of cfg (YStr ''requires_human_approval'') = Some (YBool (tp_requires_human_approval tp))
     \<and> map_of cfg (YStr ''allowed_roles'') = Some (YList (map YStr (tp_allowed_roles tp))))"

definition tool_secure :: "string \<Rightarrow> ToolPolicy \<Rightarrow> bool" where
  "tool_secure name tp =
    ((tp_enabled tp \<longrightarrow> tp_allowed_roles tp \<noteq> [])
     \<and> (name = ''run_shell'' \<longrightarrow> \<not> tp_enabled tp)
     \<and> (name = ''send_email'' \<longrightarrow> tp_requires_human_approval tp)
     \<and> (name = ''export_records'' \<longrightarrow> tp_requires_human_approval tp \<and> tp_allowed_roles tp = [''admin'']))"

definition entry_sound :: "yaml \<times> yaml \<Rightarrow> bool" where
  "entry_sound item = (\<exists>name cfg tp. item = (YStr name, YMap cfg) \<and> entry_spells cfg tp \<and> tool_secure name tp)"

definition policy_sound :: "(yaml \<times> yaml) list \<Rightarrow> bool" where
  "policy_sound raw =
    (fst ` set raw \<subseteq> YStr ` set ALLOWED_TOP_LEVEL_KEYS
     \<and> map_of raw (YStr ''default_decision'') = Some (YStr ''deny'')
     \<and> map_of raw (YStr ''tenant_isolation'') = Some (YStr ''strict'')
     \<and> (\<exists>ts. map_of raw (YStr ''tools'') = Some (YMap ts)
          \<and> YStr ` set REQUIRED_DEMO_TOOLS \<subseteq> fst ` set ts \<and> (\<forall>item \<in> set ts. entry_sound item)))"

lemma strings_of_list: "list_all (\<lambda>r. yaml_string r \<noteq> None) vs \<longleftrightarrow> (\<exists>ss. vs = map YStr ss)"
proof (induction vs)
  case (Cons v vs)
  have "yaml_string v \<noteq> None \<longleftrightarrow> (\<exists>s. v = YStr s)" by (cases v) auto
  with Cons show ?case by (auto simp: Cons_eq_map_conv)
qed simp

text \<open>A type check that lets one kind of value through.\<close>

lemma yaml_case_ok [monad_simps]:
  "(case v of YBool _ \<Rightarrow> r | _ \<Rightarrow> Inl e) = Inr x \<longleftrightarrow> (\<exists>b. v = YBool b) \<and> r = Inr x"
  "(case v of YList l \<Rightarrow> f l | _ \<Rightarrow> Inl e) = Inr x \<longleftrightarrow> (\<exists>l. v = YList l \<and> f l = Inr x)"
  "(case v of YMap m \<Rightarrow> g m | _ \<Rightarrow> Inl e) = Inr x \<longleftrightarrow> (\<exists>m. v = YMap m \<and> g m = Inr x)"
  by (cases v; auto)+

lemma cfg_item_ok [monad_simps]: "cfg_item cfg k = Inr v \<longleftrightarrow> map_of cfg (YStr k) = Some v"
  by (simp add: cfg_item_def split: option.split)

lemma if_error_ok [monad_simps]: "(if c then Inl e else r) = Inr x \<longleftrightarrow> \<not> c \<and> r = Inr x"
  by simp

lemma yaml_get_eq: "v \<noteq> d \<Longrightarrow> yaml_get m k d = v \<longleftrightarrow> map_of m (YStr k) = Some v"
  by (auto simp: yaml_get_def split: option.splits)

lemma check_bools_ok:
  "check_bools name cfg keys = Inr () \<longleftrightarrow> (\<forall>k \<in> set keys. \<exists>b. map_of cfg (YStr k) = Some (YBool b))"
  by (induction keys) (auto simp: monad_simps)

lemma valid_risk_level: "(\<exists>s \<in> set VALID_RISK_LEVELS. v = YStr s) \<longleftrightarrow> (\<exists>level. v = YStr (RiskLevel_value level))"
proof -
  have "level \<in> set [LOW, MEDIUM, HIGH, CRITICAL]" for level by (cases level) auto
  then have "set [LOW, MEDIUM, HIGH, CRITICAL] = UNIV" by blast
  then have "set VALID_RISK_LEVELS = range RiskLevel_value" by (simp only: VALID_RISK_LEVELS_def set_map)
  then show ?thesis by auto
qed

lemma validate_tool_field_types_ok:
  "validate_tool_field_types name cfg = Inr () \<longleftrightarrow>
     (\<forall>k \<in> set BOOL_KEYS. \<exists>b. map_of cfg (YStr k) = Some (YBool b))
     \<and> (\<exists>roles. map_of cfg (YStr ''allowed_roles'') = Some (YList (map YStr roles)))
     \<and> (\<exists>level. map_of cfg (YStr ''risk_level'') = Some (YStr (RiskLevel_value level)))"
  unfolding validate_tool_field_types_def
  by (simp add: monad_simps check_bools_ok strings_of_list[simplified] valid_risk_level) blast

lemma validate_tool_security_invariants_ok:
  assumes "entry_spells cfg tp"
  shows "validate_tool_security_invariants name cfg = Inr () \<longleftrightarrow> tool_secure name tp"
  using assms
  by (auto simp: validate_tool_security_invariants_def entry_spells_def cfg_item_def cfg_true_def tool_secure_def
      map_eq_Cons_conv split: if_splits)

lemma entry_spells_iff:
  "(\<exists>tp. entry_spells cfg tp) \<longleftrightarrow>
     set (map fst cfg) = YStr ` set REQUIRED_TOOL_KEYS \<and> validate_tool_field_types name cfg = Inr ()"
proof
  assume "\<exists>tp. entry_spells cfg tp"
  then show "set (map fst cfg) = YStr ` set REQUIRED_TOOL_KEYS \<and> validate_tool_field_types name cfg = Inr ()"
    by (auto simp: entry_spells_def validate_tool_field_types_ok BOOL_KEYS_def)
next
  assume r: "set (map fst cfg) = YStr ` set REQUIRED_TOOL_KEYS \<and> validate_tool_field_types name cfg = Inr ()"
  then obtain a b c d roles level where
    "map_of cfg (YStr ''enabled'') = Some (YBool a)" "map_of cfg (YStr ''external_effect'') = Some (YBool b)"
    "map_of cfg (YStr ''destructive'') = Some (YBool c)" "map_of cfg (YStr ''requires_human_approval'') = Some (YBool d)"
    "map_of cfg (YStr ''allowed_roles'') = Some (YList (map YStr roles))"
    "map_of cfg (YStr ''risk_level'') = Some (YStr (RiskLevel_value level))"
    unfolding validate_tool_field_types_ok BOOL_KEYS_def by auto
  with r have "entry_spells cfg \<lparr>tp_enabled = a, tp_risk_level = level, tp_external_effect = b, tp_destructive = c,
      tp_requires_human_approval = d, tp_allowed_roles = roles\<rparr>" by (simp add: entry_spells_def)
  then show "\<exists>tp. entry_spells cfg tp" by blast
qed

lemma validate_tool_entry:
  "validate_tool (YStr name, YMap cfg) = Inr () \<longleftrightarrow>
     set (map fst cfg) = YStr ` set REQUIRED_TOOL_KEYS \<and> validate_tool_field_types name cfg = Inr ()
     \<and> validate_tool_security_invariants name cfg = Inr ()"
  by (auto simp: validate_tool_def Let_def monad_simps filter_empty_conv)

lemma validate_tool_ok: "validate_tool item = Inr () \<longleftrightarrow> entry_sound item"
proof (cases "\<exists>name cfg. item = (YStr name, YMap cfg)")
  case True
  then obtain name cfg where i: "item = (YStr name, YMap cfg)" by blast
  show ?thesis
    unfolding i validate_tool_entry entry_sound_def
    using entry_spells_iff[of cfg name] validate_tool_security_invariants_ok[of cfg _ name] by auto
next
  case False
  then have "validate_tool item \<noteq> Inr ()"
    by (cases item; cases "fst item"; cases "snd item") (auto simp: validate_tool_def)
  with False show ?thesis by (auto simp: entry_sound_def)
qed

lemma map_result_units: "map_result f xs = Inr (us :: unit list) \<Longrightarrow> x \<in> set xs \<Longrightarrow> f x = Inr ()"
  by (induction xs arbitrary: us) (auto simp: monad_simps)

lemma map_result_all: "(\<forall>x \<in> set xs. f x = Inr ()) \<Longrightarrow> map_result f xs = Inr (map (\<lambda>_. ()) xs)"
  by (induction xs) auto

lemma policy_validation_sound: "validate_policy_invariants raw = Inr () \<longleftrightarrow> policy_sound raw"
proof -
  have tools: "(\<exists>us. map_result validate_tool ts = Inr us) \<longleftrightarrow> (\<forall>item \<in> set ts. entry_sound item)" for ts
    using map_result_units[of validate_tool ts] map_result_all[of ts validate_tool]
    unfolding validate_tool_ok[symmetric] by blast
  have missing: "(\<forall>t \<in> set REQUIRED_DEMO_TOOLS. YStr t \<in> fst ` set ts) \<longleftrightarrow> YStr ` set REQUIRED_DEMO_TOOLS \<subseteq> fst ` set ts" for ts :: "(yaml \<times> yaml) list"
    by blast
  have ne: "YStr ` set REQUIRED_DEMO_TOOLS \<subseteq> fst ` set ts \<Longrightarrow> ts \<noteq> []" for ts :: "(yaml \<times> yaml) list"
    by (auto simp: REQUIRED_DEMO_TOOLS_def)
  show ?thesis
    unfolding validate_policy_invariants_def policy_sound_def Let_def
    by (auto simp: monad_simps yaml_get_eq filter_empty_conv tools missing dest: ne)
qed

text \<open>
  C29. Validation accepts a policy document exactly when it is sound: no unknown top-level key, default
  \<^verbatim>\<open>deny\<close>, strict tenant isolation, all five demo tools, and every tool entry under a string name with
  exactly the six fields, each of its type, that obeys the security rules: an enabled tool has a
  role, \<^verbatim>\<open>run_shell\<close> is disabled, \<^verbatim>\<open>send_email\<close> and \<^verbatim>\<open>export_records\<close> need human approval, and
  \<^verbatim>\<open>export_records\<close> is for \<^verbatim>\<open>admin\<close> alone.
\<close>

theorem policy_validation_exact: "validate_policy_invariants raw = Inr () \<longleftrightarrow> policy_sound raw"
  by (rule policy_validation_sound)

section \<open>Decisions under a validated policy\<close>

text \<open>
  The documented behaviour of pydantic on an entry with the six fields, each of its declared type:
  \<^verbatim>\<open>ToolPolicy.model_validate\<close> returns the policy with these values.
\<close>

definition faithful_model :: "policy_externals \<Rightarrow> bool" where
  "faithful_model pe = (\<forall>cfg tp. entry_spells cfg tp \<longrightarrow> pe_tool_policy_validate pe cfg = Inr tp)"

definition loaded_as :: "yaml \<times> yaml \<Rightarrow> string \<times> ToolPolicy \<Rightarrow> bool" where
  "loaded_as item named =
    (\<exists>cfg. item = (YStr (fst named), YMap cfg) \<and> entry_spells cfg (snd named) \<and> tool_secure (fst named) (snd named))"

lemma load_tools_sound:
  assumes "faithful_model pe" and "\<forall>item \<in> set ts. entry_sound item"
  shows "\<exists>named. load_tools pe ts = Inr (map (apfst YStr) named) \<and> list_all2 loaded_as ts named"
  using assms(2)
proof (induction ts)
  case (Cons item ts)
  then obtain name cfg tp where i: "item = (YStr name, YMap cfg)" "entry_spells cfg tp" "tool_secure name tp"
    by (auto simp: entry_sound_def)
  from Cons obtain named where "load_tools pe ts = Inr (map (apfst YStr) named)" "list_all2 loaded_as ts named" by auto
  with i assms(1) have "load_tools pe (item # ts) = Inr (map (apfst YStr) ((name, tp) # named))"
    and "list_all2 loaded_as (item # ts) ((name, tp) # named)"
    by (simp_all add: faithful_model_def loaded_as_def)
  then show ?case by blast
qed simp

lemma string_keys_strings [simp]: "string_keys (map (apfst YStr) named) = Inr named"
  by (induction named) auto

lemma load_policy_sound:
  assumes "faithful_model pe" and "pe_safe_load pe content = Inr (YMap raw)" and "policy_sound raw"
  obtains doc ts where "load_policy pe (Some content) = Inr doc" and "map_of raw (YStr ''tools'') = Some (YMap ts)"
    and "list_all2 loaded_as ts (pd_tools doc)" and "pd_default_decision doc = ''deny''"
    and "pd_tenant_isolation doc = ''strict''"
proof -
  from assms(3) obtain ts where ts: "map_of raw (YStr ''tools'') = Some (YMap ts)" "\<forall>item \<in> set ts. entry_sound item"
    by (auto simp: policy_sound_def)
  from load_tools_sound[OF assms(1) ts(2)] obtain named
    where named: "load_tools pe ts = Inr (map (apfst YStr) named)" "list_all2 loaded_as ts named" by blast
  let ?doc = "\<lparr>pd_default_decision = ''deny'', pd_tools = named, pd_tenant_isolation = ''strict''\<rparr>"
  have "load_policy pe (Some content) = Inr ?doc"
    using assms ts(1) named(1) by (simp add: load_policy_def policy_sound_def yaml_get_def)
  then show thesis using that ts(1) named(2) by simp
qed

lemma loaded_secure:
  assumes "list_all2 loaded_as ts named" and "(n, tp) \<in> set named"
  shows "tool_secure n tp"
  using assms by (induction rule: list_all2_induct) (auto simp: loaded_as_def)

lemma load_policy_yaml_ok:
  "load_policy_yaml pe h p = Inr raw \<longleftrightarrow> (\<exists>content. read_text h p = Inr content \<and> pe_safe_load pe content = Inr (YMap raw))"
  by (auto simp: load_policy_yaml_def monad_simps is_file_def read_text_def split: option.splits)

lemma validated_policy_loads:
  assumes "faithful_model (ie_externals ie)" and "validate_policy_file ie h p = Inr digest"
    and "read_text h p = Inr content"
  obtains doc where "load_policy (ie_externals ie) (Some content) = Inr doc" and "pd_tenant_isolation doc = ''strict''"
    and "\<And>n tp. map_of (pd_tools doc) n = Some tp \<Longrightarrow> tool_secure n tp"
proof -
  from assms(2,3) obtain raw where raw: "pe_safe_load (ie_externals ie) content = Inr (YMap raw)"
    "validate_policy_invariants raw = Inr ()"
    by (auto simp: validate_policy_file_def monad_simps load_policy_yaml_ok)
  from raw(2) have "policy_sound raw" by (simp add: policy_validation_sound)
  with load_policy_sound[OF assms(1) raw(1)] obtain doc ts where doc: "load_policy (ie_externals ie) (Some content) = Inr doc"
    "list_all2 loaded_as ts (pd_tools doc)" "pd_tenant_isolation doc = ''strict''" by blast
  show thesis by (rule that[OF doc(1,3)]) (blast dest: map_of_SomeD intro: loaded_secure[OF doc(2)])
qed

text \<open>
  C12. What a validated policy file guarantees of every decision: when the file passes validation, the
  policy engine loads it, and under the loaded policy a call that is allowed is never \<^verbatim>\<open>run_shell\<close>, stays
  in the caller's tenant, carries the demand for human approval if it is \<^verbatim>\<open>send_email\<close> or
  \<^verbatim>\<open>export_records\<close>, and is \<^verbatim>\<open>export_records\<close> only for the role \<^verbatim>\<open>admin\<close>.
\<close>

theorem validated_policy_decisions:
  assumes "faithful_model (ie_externals ie)" and "validate_policy_file ie h p = Inr digest"
    and "read_text h p = Inr content"
  shows "\<exists>doc. load_policy (ie_externals ie) (Some content) = Inr doc \<and>
    (\<forall>request tc. pdec_allowed (evaluate_policy doc request tc) \<longrightarrow>
       tc_tool_name tc \<noteq> ''run_shell'' \<and> tc_target tc = Some (ar_tenant_id request)
       \<and> (tc_tool_name tc \<in> {''send_email'', ''export_records''} \<longrightarrow>
            pdec_requires_human_approval (evaluate_policy doc request tc))
       \<and> (tc_tool_name tc = ''export_records'' \<longrightarrow> ar_role request = ''admin''))"
proof -
  from validated_policy_loads[OF assms] obtain doc where doc: "load_policy (ie_externals ie) (Some content) = Inr doc"
    "pd_tenant_isolation doc = ''strict''" and secure: "\<And>n tp. map_of (pd_tools doc) n = Some tp \<Longrightarrow> tool_secure n tp" by blast
  { fix request tc
    assume allowed: "pdec_allowed (evaluate_policy doc request tc)"
    then obtain tp where tp: "permitted doc request tc tp" by (auto simp: evaluate_policy_allowed_iff)
    then have m: "map_of (pd_tools doc) (tc_tool_name tc) = Some tp" by (simp add: permitted_def)
    then have sec: "tool_secure (tc_tool_name tc) tp" by (rule secure)
    have "pdec_requires_human_approval (evaluate_policy doc request tc) = tp_requires_human_approval tp"
      using allowed m by (auto simp: evaluate_policy_def Let_def split: if_splits prod.splits)
    with sec tp doc(2)
    have "tc_tool_name tc \<noteq> ''run_shell'' \<and> tc_target tc = Some (ar_tenant_id request)
       \<and> (tc_tool_name tc \<in> {''send_email'', ''export_records''} \<longrightarrow>
            pdec_requires_human_approval (evaluate_policy doc request tc))
       \<and> (tc_tool_name tc = ''export_records'' \<longrightarrow> ar_role request = ''admin'')"
      by (auto simp: tool_secure_def permitted_def tenant_ok_def) }
  with doc(1) show ?thesis by blast
qed

section \<open>The canonical form of a validated policy\<close>

text \<open>The Python dictionaries of a document have one value per key.\<close>

fun wf_yaml :: "yaml \<Rightarrow> bool" where
  "wf_yaml (YList vs) = list_all wf_yaml vs"
| "wf_yaml (YMap kvs) = (distinct (map fst kvs) \<and> list_all (\<lambda>(k, v). wf_yaml v) kvs)"
| "wf_yaml _ = True"

definition dict_loader :: "policy_externals \<Rightarrow> bool" where
  "dict_loader pe = (\<forall>t v. pe_safe_load pe t = Inr v \<longrightarrow> wf_yaml v)"

lemma sort_key_map: "sort_key f (map g xs) = map g (sort_key (\<lambda>x. f (g x)) xs)"
proof -
  have "insort_key f (g x) (map g ys) = map g (insort_key (\<lambda>x. f (g x)) x ys)" for x ys
    by (induction ys) auto
  then show ?thesis by (induction xs) auto
qed

lemma map_of_apfst_YStr: "map_of (map (apfst YStr) kvs) (YStr k) = map_of kvs k"
  by (induction kvs) auto

lemma fst_apfst_YStr: "map fst (map (apfst YStr) kvs) = map YStr (map fst kvs)"
  by simp

lemma sorted_items_strings:
  "sorted_items srt (map (apfst YStr) kvs) = Inr (map (\<lambda>k. (YStr k, the (map_of kvs k))) (sort (map fst kvs)))"
proof -
  have "sorted_keys srt (map YStr ks) = Inr (map YStr (sort ks))" for ks
    by (simp add: sorted_keys_def sort_key_map list_all_iff)
  then show ?thesis
    unfolding sorted_items_def fst_apfst_YStr by (simp only: bind_result_simps) (simp add: map_of_apfst_YStr)
qed

lemma map_of_self: "distinct (map fst kvs) \<Longrightarrow> map (\<lambda>k. (f k, the (map_of kvs k))) (map fst kvs) = map (apfst f) kvs"
  by (auto simp: map_of_is_SomeI)

lemma map_result_ok: "(\<And>x. x \<in> set xs \<Longrightarrow> f x = Inr (g x)) \<Longrightarrow> map_result f xs = Inr (map g xs)"
  by (induction xs) auto

lemma map_result_map: "map_result f (map g xs) = map_result (\<lambda>x. f (g x)) xs"
  by (induction xs) auto

lemma to_json_strings:
  assumes "sorted (map fst kvs)" and "distinct (map fst kvs)"
    and "\<And>k v. (k, v) \<in> set kvs \<Longrightarrow> to_json srt v = Inr (f v)"
  shows "to_json srt (YMap (map (apfst YStr) kvs)) = Inr (JDict (map (apsnd f) kvs))"
proof -
  let ?js = "map (apsnd (to_json srt)) kvs"
  have "map (\<lambda>(k, v). (k, to_json srt v)) (map (apfst YStr) kvs) = map (apfst YStr) ?js" by auto
  moreover have "map fst ?js = map fst kvs" by simp
  ultimately have "sorted_items srt (map (\<lambda>(k, v). (k, to_json srt v)) (map (apfst YStr) kvs)) = Inr (map (apfst YStr) ?js)"
    using assms(1,2) map_of_self[of ?js YStr] by (simp only: sorted_items_strings sorted_sort_id)
  moreover have "map_result (\<lambda>(k, r). bind_result (json_key k) (\<lambda>s. bind_result r (\<lambda>j. Inr (s, j)))) (map (apfst YStr) ?js)
      = Inr (map (apsnd f) kvs)"
    unfolding map_result_map using assms(3) by (intro map_result_ok) auto
  ultimately show ?thesis by simp
qed

definition canonical_entry :: "ToolPolicy \<Rightarrow> (string \<times> yaml) list" where
  "canonical_entry tp =
    [(''allowed_roles'', YList (map YStr (sort (tp_allowed_roles tp)))), (''destructive'', YBool (tp_destructive tp)),
     (''enabled'', YBool (tp_enabled tp)), (''external_effect'', YBool (tp_external_effect tp)),
     (''requires_human_approval'', YBool (tp_requires_human_approval tp)),
     (''risk_level'', YStr (RiskLevel_value (tp_risk_level tp)))]"

definition entry_json :: "ToolPolicy \<Rightarrow> json" where
  "entry_json tp = JDict
    [(''allowed_roles'', JList (map JStr (sort (tp_allowed_roles tp)))), (''destructive'', JBool (tp_destructive tp)),
     (''enabled'', JBool (tp_enabled tp)), (''external_effect'', JBool (tp_external_effect tp)),
     (''requires_human_approval'', JBool (tp_requires_human_approval tp)),
     (''risk_level'', JStr (RiskLevel_value (tp_risk_level tp)))]"

definition policy_json :: "(string \<times> ToolPolicy) list \<Rightarrow> json" where
  "policy_json named = JDict
    [(''default_decision'', JStr ''deny''), (''tenant_isolation'', JStr ''strict''),
     (''tools'', JDict (map (\<lambda>n. (n, entry_json (the (map_of named n)))) (sort (map fst named))))]"

lemma sort_REQUIRED_TOOL_KEYS: "sort REQUIRED_TOOL_KEYS = map fst (canonical_entry tp)"
  and sorted_canonical: "sorted (map fst (canonical_entry tp))" and distinct_canonical: "distinct (map fst (canonical_entry tp))"
proof -
  have keys: "map fst (canonical_entry tp) =
      [''allowed_roles'', ''destructive'', ''enabled'', ''external_effect'', ''requires_human_approval'', ''risk_level'']"
    by (simp add: canonical_entry_def)
  show "sort REQUIRED_TOOL_KEYS = map fst (canonical_entry tp)" unfolding keys by code_simp
  show "sorted (map fst (canonical_entry tp))" unfolding keys by code_simp
  show "distinct (map fst (canonical_entry tp))" unfolding keys by code_simp
qed

lemma to_json_strings_list: "to_json srt (YList (map YStr ss)) = Inr (JList (map JStr ss))"
proof -
  have "map_result id (map (to_json srt) (map YStr ss)) = Inr (map JStr ss)" by (induction ss) auto
  then show ?thesis by simp
qed

lemma to_json_entry: "to_json srt (YMap (map (apfst YStr) (canonical_entry tp))) = Inr (entry_json tp)"
proof -
  have "to_json srt v = Inr (projr (to_json srt v))" if "(k, v) \<in> set (canonical_entry tp)" for k v
    using that by (auto simp: canonical_entry_def to_json_strings_list simp del: to_json.simps(7))
  from to_json_strings[OF sorted_canonical distinct_canonical this]
  show ?thesis by (simp add: canonical_entry_def entry_json_def to_json_strings_list del: to_json.simps(7,8))
qed

lemma string_keyed: "fst ` set kvs \<subseteq> range YStr \<Longrightarrow> \<exists>kvs'. kvs = map (apfst YStr) kvs'"
proof (induction kvs)
  case (Cons kv kvs)
  then obtain k kvs' where "fst kv = YStr k" "kvs = map (apfst YStr) kvs'" by auto
  then have "kv # kvs = map (apfst YStr) ((k, snd kv) # kvs')" by (cases kv) auto
  then show ?case by (rule exI)
qed simp

lemma sort_same_set: "distinct xs \<Longrightarrow> distinct ys \<Longrightarrow> set xs = set ys \<Longrightarrow> sort xs = sort ys" for xs :: "string list"
  by (metis distinct_remdups_id sorted_list_of_set_sort_remdups)

lemma distinct_REQUIRED_TOOL_KEYS: "distinct REQUIRED_TOOL_KEYS"
  by code_simp

lemma distinct_map_YStr: "distinct (map YStr xs) \<longleftrightarrow> distinct xs"
  by (simp add: distinct_map inj_on_def)

lemma canonical_tool_spelled:
  assumes "distinct (map fst cfg)" and "entry_spells cfg tp"
  shows "canonical_tool srt (YStr n, YMap cfg) = Inr (YStr n, YMap (map (apfst YStr) (canonical_entry tp)))"
proof -
  from assms(2) have "fst ` set cfg = YStr ` set REQUIRED_TOOL_KEYS" by (simp add: entry_spells_def)
  then obtain kvs where cfg: "cfg = map (apfst YStr) kvs" using string_keyed[of cfg] by auto
  from assms(1) have "distinct (map fst kvs)" unfolding cfg fst_apfst_YStr by (simp only: distinct_map_YStr)
  moreover from \<open>fst ` set cfg = _\<close> have "YStr ` set (map fst kvs) = YStr ` set REQUIRED_TOOL_KEYS"
    unfolding cfg by (simp add: image_image)
  then have "set (map fst kvs) = set REQUIRED_TOOL_KEYS" by (simp add: inj_image_eq_iff inj_on_def)
  ultimately have "sort (map fst kvs) = map fst (canonical_entry tp)"
    using sort_same_set distinct_REQUIRED_TOOL_KEYS sort_REQUIRED_TOOL_KEYS by metis
  then have items: "sorted_items srt cfg = Inr (map (\<lambda>k. (YStr k, the (map_of kvs k))) (map fst (canonical_entry tp)))"
    by (simp only: cfg sorted_items_strings)
  have at: "map_of kvs k = map_of cfg (YStr k)" for k unfolding cfg map_of_apfst_YStr ..
  have "map_result (\<lambda>(key, v). bind_result (canonical_tool_value key v) (\<lambda>w. Inr (key, w)))
      (map (\<lambda>k. (YStr k, the (map_of kvs k))) (map fst (canonical_entry tp))) = Inr (map (apfst YStr) (canonical_entry tp))"
    using assms(2) unfolding at entry_spells_def
    by (simp add: canonical_entry_def canonical_tool_value_def BOOL_KEYS_def comp_def)
  with items show ?thesis by (simp add: canonical_tool_def)
qed

lemma loaded_names:
  assumes "list_all2 loaded_as ts named"
  shows "ts = map (apfst YStr) (zip (map fst named) (map snd ts))"
  using assms by (induction rule: list_all2_induct) (auto simp: loaded_as_def)

lemma loaded_lookup:
  assumes "list_all2 loaded_as ts named" and "n \<in> set (map fst named)"
  shows "\<exists>cfg. map_of ts (YStr n) = Some (YMap cfg) \<and> entry_spells cfg (the (map_of named n))"
  using assms by (induction rule: list_all2_induct) (auto simp: loaded_as_def)

lemma wf_yaml_lookup: "wf_yaml (YMap kvs) \<Longrightarrow> map_of kvs k = Some v \<Longrightarrow> wf_yaml v"
  by (induction kvs) (auto split: if_splits)

lemma canonical_tools_spelled:
  assumes "list_all2 loaded_as ts named" and "wf_yaml (YMap ts)"
  shows "bind_result (sorted_items srt ts) (map_result (canonical_tool srt)) =
    Inr (map (apfst YStr) (map (\<lambda>n. (n, YMap (map (apfst YStr) (canonical_entry (the (map_of named n)))))) (sort (map fst named))))"
proof -
  let ?kvs = "zip (map fst named) (map snd ts)"
  have len: "length named = length ts" using assms(1) by (simp add: list_all2_lengthD)
  have items: "sorted_items srt ts = Inr (map (\<lambda>k. (YStr k, the (map_of ts (YStr k)))) (sort (map fst named)))"
    using sorted_items_strings[of srt ?kvs] loaded_names[OF assms(1)] len map_of_apfst_YStr[of ?kvs] by simp
  have "canonical_tool srt (YStr k, the (map_of ts (YStr k))) =
      Inr (YStr k, YMap (map (apfst YStr) (canonical_entry (the (map_of named k)))))" if "k \<in> set (map fst named)" for k
  proof -
    from loaded_lookup[OF assms(1) that] obtain cfg where cfg: "map_of ts (YStr k) = Some (YMap cfg)"
      "entry_spells cfg (the (map_of named k))" by blast
    from wf_yaml_lookup[OF assms(2) cfg(1)] have "distinct (map fst cfg)" by simp
    with cfg show ?thesis by (simp add: canonical_tool_spelled)
  qed
  then have "map_result (canonical_tool srt) (map (\<lambda>k. (YStr k, the (map_of ts (YStr k)))) (sort (map fst named))) =
    Inr (map (\<lambda>k. (YStr k, YMap (map (apfst YStr) (canonical_entry (the (map_of named k)))))) (sort (map fst named)))"
    unfolding map_result_map by (intro map_result_ok) simp
  then show ?thesis by (simp add: items comp_def)
qed

lemma canonical_policy_json_sound:
  assumes "list_all2 loaded_as ts named" and "wf_yaml (YMap raw)" and "policy_sound raw"
    and "map_of raw (YStr ''tools'') = Some (YMap ts)"
  shows "canonical_policy_json srt raw = Inr (json_dumps_compact (policy_json named))"
proof -
  from assms(2,4) have wf: "wf_yaml (YMap ts)" by (rule wf_yaml_lookup)
  have "list_all2 loaded_as ts named \<Longrightarrow> map fst ts = map YStr (map fst named)"
    by (induction rule: list_all2_induct) (auto simp: loaded_as_def)
  with assms(1) wf have dist: "distinct (map fst named)" by (metis distinct_map_YStr wf_yaml.simps(2))
  let ?tools = "map (\<lambda>n. (n, YMap (map (apfst YStr) (canonical_entry (the (map_of named n)))))) (sort (map fst named))"
  let ?payload = "[(''default_decision'', YStr ''deny''), (''tenant_isolation'', YStr ''strict''), (''tools'', YMap (map (apfst YStr) ?tools))]"
  have payload: "canonical_policy_payload srt raw = Inr (map (apfst YStr) ?payload)"
    using assms(3,4) canonical_tools_spelled[OF assms(1) wf, of srt]
    by (auto simp: canonical_policy_payload_def policy_sound_def yaml_get_def bind_result_eq_Inr)
  have tools: "to_json srt (YMap (map (apfst YStr) ?tools)) =
      Inr (JDict (map (apsnd (\<lambda>v. projr (to_json srt v))) ?tools))"
    using dist by (intro to_json_strings) (auto simp: to_json_entry comp_def simp del: to_json.simps)
  have "to_json srt (YMap (map (apfst YStr) ?payload)) = Inr (JDict (map (apsnd (\<lambda>v. projr (to_json srt v))) ?payload))"
  proof (rule to_json_strings)
    have keys: "map fst ?payload = [''default_decision'', ''tenant_isolation'', ''tools'']" by simp
    show "sorted (map fst ?payload)" unfolding keys by code_simp
    show "distinct (map fst ?payload)" unfolding keys by code_simp
  qed (use tools in \<open>auto simp del: to_json.simps(8)\<close>)
  then show ?thesis
    unfolding canonical_policy_json_def payload using tools
    by (simp add: policy_json_def to_json_entry comp_def del: to_json.simps(8))
qed

section \<open>The digest fixes the decisions\<close>

text \<open>Two tool policies that differ in the order of their roles only.\<close>

definition same_rules :: "ToolPolicy \<Rightarrow> ToolPolicy \<Rightarrow> bool" where
  "same_rules tp tq = (set (tp_allowed_roles tp) = set (tp_allowed_roles tq) \<and> tp_enabled tp = tp_enabled tq
     \<and> tp_risk_level tp = tp_risk_level tq \<and> tp_external_effect tp = tp_external_effect tq
     \<and> tp_destructive tp = tp_destructive tq \<and> tp_requires_human_approval tp = tp_requires_human_approval tq)"

lemma entry_json_same: "entry_json tp = entry_json tq \<Longrightarrow> same_rules tp tq"
proof -
  assume eq: "entry_json tp = entry_json tq"
  then have "map JStr (sort (tp_allowed_roles tp)) = map JStr (sort (tp_allowed_roles tq))" by (simp add: entry_json_def)
  then have "sort (tp_allowed_roles tp) = sort (tp_allowed_roles tq)" by (rule list.inj_map_strong[rotated]) auto
  then have "set (tp_allowed_roles tp) = set (tp_allowed_roles tq)" by (metis set_sort)
  with eq show ?thesis by (simp add: entry_json_def same_rules_def)
qed

lemma wf_policy_json: "wf_json (policy_json named)"
  by (simp add: policy_json_def entry_json_def list_all_iff)

lemma policy_json_same:
  assumes "policy_json a = policy_json b"
  shows "rel_option same_rules (map_of a n) (map_of b n)"
proof -
  from assms have eq: "map (\<lambda>n. (n, entry_json (the (map_of a n)))) (sort (map fst a)) =
      map (\<lambda>n. (n, entry_json (the (map_of b n)))) (sort (map fst b))" (is "map ?f ?xs = map ?g ?ys")
    by (simp add: policy_json_def)
  then have "map fst (map ?f ?xs) = map fst (map ?g ?ys)" by simp
  then have keys: "?xs = ?ys" by (simp add: comp_def)
  then have "set (sort (map fst a)) = set (sort (map fst b))" by (rule arg_cong)
  then have dom: "fst ` set a = fst ` set b" by simp
  show ?thesis
  proof (cases "n \<in> fst ` set a")
    case True
    then have "map_of a n \<noteq> None" and "map_of b n \<noteq> None" using dom by (simp_all add: map_of_eq_None_iff)
    then obtain tp tq where tp: "map_of a n = Some tp" and tq: "map_of b n = Some tq" by blast
    from eq have "\<forall>n \<in> set ?ys. ?f n = ?g n" unfolding keys map_eq_conv .
    moreover from True have "n \<in> set ?ys" unfolding keys[symmetric] by simp
    ultimately have "?f n = ?g n" by (rule bspec)
    with tp tq show ?thesis by (simp add: entry_json_same)
  next
    case False
    with dom have "map_of a n = None" and "map_of b n = None" by (simp_all add: map_of_eq_None_iff)
    then show ?thesis by simp
  qed
qed

lemma evaluate_policy_same:
  assumes "\<And>n. rel_option same_rules (map_of (pd_tools a) n) (map_of (pd_tools b) n)"
    and "pd_default_decision a = pd_default_decision b" and "pd_tenant_isolation a = pd_tenant_isolation b"
  shows "evaluate_policy a request tc = evaluate_policy b request tc"
proof (cases "map_of (pd_tools a) (tc_tool_name tc)")
  case None
  with assms(1)[of "tc_tool_name tc"] show ?thesis by (simp add: evaluate_policy_def)
next
  case (Some tp)
  with assms(1)[of "tc_tool_name tc"] obtain tq where tq: "map_of (pd_tools b) (tc_tool_name tc) = Some tq" "same_rules tp tq"
    by (cases "map_of (pd_tools b) (tc_tool_name tc)") auto
  then have "validate_provenance_for_tool tp (tc_provenance tc) = validate_provenance_for_tool tq (tc_provenance tc)"
    by (simp add: validate_provenance_for_tool_def same_rules_def cong: option.case_cong)
  with Some tq assms(2,3) show ?thesis by (simp add: evaluate_policy_def denied_for_def same_rules_def split: prod.split)
qed

lemma verified_file:
  assumes "faithful_model (ie_externals ie)" and "dict_loader (ie_externals ie)"
    and "verify_policy_file_hash ie h p hp = Inr digest" and "read_text h p = Inr content"
  obtains doc where "load_policy (ie_externals ie) (Some content) = Inr doc" and "pd_default_decision doc = ''deny''"
    and "pd_tenant_isolation doc = ''strict''"
    and "bind_result (load_policy_yaml (ie_externals ie) h p) (canonical_policy_json (ie_sorted ie)) =
      Inr (json_dumps_compact (policy_json (pd_tools doc)))"
    and "digest = hexdigest (sha256 (utf8_encode (json_dumps_compact (policy_json (pd_tools doc)))))"
proof -
  from assms(3,4) obtain raw where raw: "pe_safe_load (ie_externals ie) content = Inr (YMap raw)" "policy_sound raw"
    "compute_policy_sha256 (ie_sorted ie) raw = Inr digest"
    by (auto simp: verify_policy_file_hash_def validate_policy_file_def monad_simps load_policy_yaml_ok
        policy_validation_sound split: if_splits)
  from load_policy_sound[OF assms(1) raw(1,2)] obtain doc ts where doc:
    "load_policy (ie_externals ie) (Some content) = Inr doc" "map_of raw (YStr ''tools'') = Some (YMap ts)"
    "list_all2 loaded_as ts (pd_tools doc)" "pd_default_decision doc = ''deny''" "pd_tenant_isolation doc = ''strict''" .
  have "canonical_policy_json (ie_sorted ie) raw = Inr (json_dumps_compact (policy_json (pd_tools doc)))"
    using assms(2) raw(1) unfolding dict_loader_def by (intro canonical_policy_json_sound[OF doc(3) _ raw(2) doc(2)]) blast
  moreover have "load_policy_yaml (ie_externals ie) h p = Inr raw" using raw(1) assms(4) by (simp add: load_policy_yaml_ok)
  ultimately show thesis using that[OF doc(1,4,5)] raw(3) by (simp add: compute_policy_sha256_def)
qed

text \<open>
  C11. The checked-in digest fixes every decision: if two policy files, on whatever machines, verify
  against the same expected digest, then the policies loaded from them decide every call of every
  request alike, or the canonical texts of these two files are an explicit collision of SHA-256.
  (\<^verbatim>\<open>safe_load\<close> builds Python dictionaries, which have one value per key.)
\<close>

theorem digest_fixes_decisions:
  assumes "faithful_model (ie_externals ie)"
    and "dict_loader (ie_externals ie)"
    and "verify_policy_file_hash ie h1 p1 hp1 = Inr digest" and "verify_policy_file_hash ie h2 p2 hp2 = Inr digest"
    and "read_text h1 p1 = Inr content1" and "read_text h2 p2 = Inr content2"
  shows "\<exists>doc1 doc2 t1 t2. load_policy (ie_externals ie) (Some content1) = Inr doc1
    \<and> load_policy (ie_externals ie) (Some content2) = Inr doc2
    \<and> bind_result (load_policy_yaml (ie_externals ie) h1 p1) (canonical_policy_json (ie_sorted ie)) = Inr t1
    \<and> bind_result (load_policy_yaml (ie_externals ie) h2 p2) (canonical_policy_json (ie_sorted ie)) = Inr t2
    \<and> ((\<forall>request tc. evaluate_policy doc1 request tc = evaluate_policy doc2 request tc)
       \<or> collision (\<lambda>bs. hexdigest (sha256 bs)) (utf8_encode t1) (utf8_encode t2))"
proof -
  from verified_file[OF assms(1,2,3,5)] obtain d1 where d1: "load_policy (ie_externals ie) (Some content1) = Inr d1"
    "pd_default_decision d1 = ''deny''" "pd_tenant_isolation d1 = ''strict''"
    "bind_result (load_policy_yaml (ie_externals ie) h1 p1) (canonical_policy_json (ie_sorted ie)) =
      Inr (json_dumps_compact (policy_json (pd_tools d1)))"
    "digest = hexdigest (sha256 (utf8_encode (json_dumps_compact (policy_json (pd_tools d1)))))" by blast
  from verified_file[OF assms(1,2,4,6)] obtain d2 where d2: "load_policy (ie_externals ie) (Some content2) = Inr d2"
    "pd_default_decision d2 = ''deny''" "pd_tenant_isolation d2 = ''strict''"
    "bind_result (load_policy_yaml (ie_externals ie) h2 p2) (canonical_policy_json (ie_sorted ie)) =
      Inr (json_dumps_compact (policy_json (pd_tools d2)))"
    "digest = hexdigest (sha256 (utf8_encode (json_dumps_compact (policy_json (pd_tools d2)))))" by blast
  let ?t1 = "json_dumps_compact (policy_json (pd_tools d1))" and ?t2 = "json_dumps_compact (policy_json (pd_tools d2))"
  have "evaluate_policy d1 request tc = evaluate_policy d2 request tc" if "?t1 = ?t2" for request tc
  proof -
    from that have "policy_json (pd_tools d1) = policy_json (pd_tools d2)"
      unfolding json_dumps_compact_def by (rule jdump_inject[OF wf_policy_json wf_policy_json])
    then show ?thesis using d1(2,3) d2(2,3) by (intro evaluate_policy_same policy_json_same) simp_all
  qed
  with sha_text.digest_binds[of ?t1 ?t2] d1 d2 show ?thesis by metis
qed

section \<open>The command\<close>

lemma hex_token_chars:
  assumes "hex_token t" and "c \<in> set t"
  shows "\<not> py_isspace c" and "printable c" and "py_lower_char c = c" and "c \<noteq> CHR ''#''"
proof -
  have "list_all (\<lambda>c. \<not> py_isspace c \<and> printable c \<and> c \<noteq> CHR ''#'') ''0123456789abcdef''"
    by (simp add: py_isspace_def printable_def ord_def)
  moreover from assms have c: "c \<in> set ''0123456789abcdef''" by (simp add: hex_token_def list_all_iff del: set_simps)
  ultimately have "\<not> py_isspace c \<and> printable c \<and> c \<noteq> CHR ''#''" unfolding list_all_iff by (rule bspec)
  then show "\<not> py_isspace c" and "printable c" and "c \<noteq> CHR ''#''" by simp_all
  from c show "py_lower_char c = c" by (rule hex_lower)
qed

lemma strip_solid:
  assumes "\<And>c. c \<in> set t \<Longrightarrow> \<not> py_isspace c"
  shows "py_lstrip t = t" and "py_strip t = t" and "takeWhile (\<lambda>c. \<not> py_isspace c) t = t"
proof -
  have drop: "dropWhile py_isspace s = s" if "\<And>c. c \<in> set s \<Longrightarrow> \<not> py_isspace c" for s
    using that by (cases s) auto
  show "py_lstrip t = t" using drop assms by (simp add: py_lstrip_def)
  then show "py_strip t = t" using drop[of "rev t"] assms by (simp add: py_strip_def py_rstrip_def)
  show "takeWhile (\<lambda>c. \<not> py_isspace c) t = t" using assms by (simp add: takeWhile_eq_all_conv)
qed

lemma first_hash_hex:
  assumes "hex_token t"
  shows "first_hash shown (t # lines) = Inr t"
proof -
  note solid = strip_solid[of t, OF hex_token_chars(1)[OF assms]]
  have "t \<noteq> []" using assms by (auto simp: hex_token_def)
  then have "\<not> py_startswith t ''#''"
    using hex_token_chars(4)[OF assms, of "hd t"] \<open>t \<noteq> []\<close> by (cases t) (simp_all add: py_startswith_def)
  moreover have "py_lower t = t" using hex_token_chars(3)[OF assms] by (simp add: py_lower_def map_idI)
  ultimately show ?thesis using assms \<open>t \<noteq> []\<close> by (simp add: first_word_def solid Let_def)
qed

lemma hex_token_digest: "hex_token (hexdigest (sha256 m))"
proof -
  have "length (hexdigest (sha256 m)) = 64" by simp
  moreover have "list_all (\<lambda>c. c \<in> set ''0123456789abcdef'') (hexdigest (sha256 m))"
    using hexdigest_chars[of "sha256 m"] unfolding list_all_iff by blast
  ultimately show ?thesis unfolding hex_token_def by (rule conjI)
qed

lemma read_written_hash:
  assumes "hex_token t"
  shows "read_expected_hash (write_text hp (t @ [CHR 0x0A]) h) hp = Inr t"
proof -
  have "list_all printable t" using hex_token_chars(2)[OF assms] by (simp add: list_all_iff)
  then have "splitlines_from [] (t @ [CHR 0x0A]) = [t]" using splitlines_line[of t "[]" "[]"] by simp
  then show ?thesis
    by (simp add: read_expected_hash_def is_file_def read_text_def write_text_def first_hash_hex[OF assms] del: first_hash.simps)
qed

lemma validate_policy_file_other:
  "p \<noteq> hp \<Longrightarrow> validate_policy_file ie (write_text hp c h) p = validate_policy_file ie h p"
  by (simp add: validate_policy_file_def load_policy_yaml_def is_file_def read_text_def write_text_def)

lemma validate_policy_file_hex: "validate_policy_file ie h p = Inr d \<Longrightarrow> hex_token d"
  by (auto simp: validate_policy_file_def compute_policy_sha256_def monad_simps hex_token_digest)

lemma verify_written:
  assumes "validate_policy_file ie h p = Inr d" and "p \<noteq> hp"
  shows "verify_policy_file_hash ie (write_text hp (d @ [CHR 0x0A]) h) p hp = Inr d"
  using assms read_written_hash[OF validate_policy_file_hex[OF assms(1)], of hp h]
  by (simp add: verify_policy_file_hash_def validate_policy_file_other)

text \<open>
  C30. Writing the digest and checking it agree: when \<^verbatim>\<open>validate_policy.py --write-hash\<close> ends with exit
  code 0 (the hash file being another file than the policy), the check that follows on that machine
  ends with exit code 0 as well and changes nothing.
\<close>

theorem written_hash_verifies:
  assumes "validate_policy_main ie p hp True h = (h', Inr (out, 0))" and "p \<noteq> hp"
  shows "\<exists>out'. validate_policy_main ie p hp False h' = (h', Inr (out', 0))"
proof -
  from assms(1) obtain d where d: "validate_policy_file ie h p = Inr d" "h' = write_text hp (d @ [CHR 0x0A]) h"
    by (auto simp: validate_policy_main_def Let_def split: sum.splits py_error.splits)
  with assms(2) have "validate_policy_file ie h' p = Inr d" and "verify_policy_file_hash ie h' p hp = Inr d"
    by (simp_all add: validate_policy_file_other verify_written)
  then show ?thesis by (simp add: validate_policy_main_def)
qed

text \<open>
  The check is exact and fails closed: without \<^verbatim>\<open>--write-hash\<close> the command never changes a file, and
  it ends with exit code 0 if and only if the policy file holds a mapping that is sound and the
  expected digest is the SHA-256 of its canonical JSON.
\<close>

theorem check_passes_exactly:
  "fst (validate_policy_main ie p hp False h) = h \<and>
   ((\<exists>out. snd (validate_policy_main ie p hp False h) = Inr (out, 0)) \<longleftrightarrow>
    (\<exists>raw t. load_policy_yaml (ie_externals ie) h p = Inr raw \<and> policy_sound raw
       \<and> canonical_policy_json (ie_sorted ie) raw = Inr t
       \<and> read_expected_hash h hp = Inr (hexdigest (sha256 (utf8_encode t)))))"
proof -
  have verify: "(\<exists>d. verify_policy_file_hash ie h p hp = Inr d) \<longleftrightarrow>
    (\<exists>raw t. load_policy_yaml (ie_externals ie) h p = Inr raw \<and> policy_sound raw
       \<and> canonical_policy_json (ie_sorted ie) raw = Inr t
       \<and> read_expected_hash h hp = Inr (hexdigest (sha256 (utf8_encode t))))"
    by (auto simp: verify_policy_file_hash_def validate_policy_file_def compute_policy_sha256_def monad_simps
        policy_validation_sound)
  have "(\<exists>out. snd (validate_policy_main ie p hp False h) = Inr (out, 0)) \<longleftrightarrow> (\<exists>d. verify_policy_file_hash ie h p hp = Inr d)"
    by (auto simp: validate_policy_main_def verify_policy_file_hash_def bind_result_def split: sum.splits py_error.splits)
  moreover have "fst (validate_policy_main ie p hp False h) = h"
    by (simp add: validate_policy_main_def Let_def split: sum.split py_error.split)
  ultimately show ?thesis using verify by blast
qed

section \<open>Errors\<close>

definition non_string_key :: "(yaml \<times> 'a) list \<Rightarrow> bool" where
  "non_string_key m = list_ex (\<lambda>kv. yaml_string (fst kv) = None) m"

lemma map_result_error: "map_result f xs = Inl e \<Longrightarrow> \<exists>x \<in> set xs. f x = Inl e"
  by (induction xs) (auto simp: monad_simps)

lemma join_sorted_error: "join_sorted ks = Inl e \<Longrightarrow> (\<exists>m. e = TypeError m) \<and> (\<exists>k \<in> set ks. yaml_string k = None)"
  by (auto simp: join_sorted_def list_all_iff split: if_splits)

lemma cfg_item_error: "cfg_item cfg k = Inl e \<Longrightarrow> YStr k \<notin> fst ` set cfg"
  by (auto simp: cfg_item_def map_of_eq_None_iff split: option.splits)

lemma yaml_case_error:
  "(case v of YBool _ \<Rightarrow> r | _ \<Rightarrow> Inl e') = Inl e \<Longrightarrow> r = Inl e \<or> e = e'"
  "(case v of YList l \<Rightarrow> f l | _ \<Rightarrow> Inl e') = Inl e \<Longrightarrow> (\<exists>l. f l = Inl e) \<or> e = e'"
  by (cases v; auto)+

lemma check_bools_error:
  assumes "check_bools name cfg keys = Inl e" and "YStr ` set keys \<subseteq> fst ` set cfg"
  shows "\<exists>m. e = PolicyIntegrityError m"
  using assms
proof (induction keys)
  case (Cons key keys)
  then have "cfg_item cfg key \<noteq> Inl e" using cfg_item_error[of cfg key e] by auto
  with Cons.prems(1) obtain v where "(case v of YBool _ \<Rightarrow> check_bools name cfg keys
      | _ \<Rightarrow> Inl (PolicyIntegrityError (''tool '' @ py_repr name @ '': '' @ key @ '' must be a boolean''))) = Inl e"
    unfolding check_bools.simps bind_result_eq_Inl by blast
  from yaml_case_error(1)[OF this] Cons show ?case by auto
qed simp

lemma field_types_error:
  assumes "validate_tool_field_types name cfg = Inl e" and "YStr ` set REQUIRED_TOOL_KEYS \<subseteq> fst ` set cfg"
  shows "\<exists>m. e = PolicyIntegrityError m"
proof (cases "check_bools name cfg BOOL_KEYS = Inl e")
  case True
  moreover have "YStr ` set BOOL_KEYS \<subseteq> fst ` set cfg"
    using assms(2) by (auto simp: BOOL_KEYS_def REQUIRED_TOOL_KEYS_def)
  ultimately show ?thesis by (rule check_bools_error)
next
  case False
  have "cfg_item cfg ''allowed_roles'' \<noteq> Inl e" and risk: "cfg_item cfg ''risk_level'' \<noteq> Inl e"
    using assms(2) cfg_item_error[of cfg _ e] by (auto simp: REQUIRED_TOOL_KEYS_def)
  with False assms(1) obtain roles where "(case roles of
        YList items \<Rightarrow>
          if \<not> list_all (\<lambda>role. yaml_string role \<noteq> None) items
          then Inl (PolicyIntegrityError (''tool '' @ py_repr name @ '': allowed_roles entries must be strings''))
          else bind_result (cfg_item cfg ''risk_level'') (\<lambda>risk.
            if \<not> (\<exists>s \<in> set VALID_RISK_LEVELS. risk = YStr s)
            then Inl (PolicyIntegrityError (''tool '' @ py_repr name @ '': risk_level must be one of ''
                   @ yaml_repr (YList (map YStr (sort VALID_RISK_LEVELS)))))
            else Inr ())
      | _ \<Rightarrow> Inl (PolicyIntegrityError (''tool '' @ py_repr name @ '': allowed_roles must be a list''))) = Inl e"
    unfolding validate_tool_field_types_def bind_result_eq_Inl by blast
  from yaml_case_error(2)[OF this] risk show ?thesis
    by (auto simp: bind_result_eq_Inl split: if_splits simp del: append.simps)
qed

lemma security_error:
  assumes "validate_tool_security_invariants name cfg = Inl e" and "YStr ` set REQUIRED_TOOL_KEYS \<subseteq> fst ` set cfg"
  shows "\<exists>m. e = PolicyIntegrityError m"
proof -
  have "YStr ''allowed_roles'' \<in> fst ` set cfg" using assms(2) by (auto simp: REQUIRED_TOOL_KEYS_def)
  then show ?thesis
    using assms(1)
    by (auto simp: validate_tool_security_invariants_def bind_result_eq_Inl dest: cfg_item_error split: if_splits)
qed

lemma validate_tool_error:
  assumes "validate_tool item = Inl e"
  shows "(\<exists>m. e = PolicyIntegrityError m) \<or>
    (\<exists>m name cfg. e = TypeError m \<and> item = (YStr name, YMap cfg) \<and> non_string_key cfg)"
proof (cases "\<exists>name cfg. item = (YStr name, YMap cfg)")
  case True
  then obtain name cfg where i: "item = (YStr name, YMap cfg)" by blast
  let ?unknown = "filter (\<lambda>k. k \<notin> YStr ` set REQUIRED_TOOL_KEYS) (map fst cfg)"
  let ?missing = "filter (\<lambda>k. YStr k \<notin> set (map fst cfg)) REQUIRED_TOOL_KEYS"
  consider "?unknown \<noteq> []" | "?unknown = []" "?missing \<noteq> []" | "?unknown = []" "?missing = []" by blast
  then show ?thesis
  proof cases
    case 1
    with assms i have "(\<exists>m. e = PolicyIntegrityError m) \<or> join_sorted ?unknown = Inl e"
      by (auto simp: validate_tool_def Let_def bind_result_eq_Inl)
    moreover have "non_string_key cfg" if "\<exists>k \<in> set ?unknown. yaml_string k = None"
      using that by (auto simp: non_string_key_def list_ex_iff)
    ultimately show ?thesis using join_sorted_error[of ?unknown e] i by blast
  next
    case 2
    with assms i show ?thesis by (auto simp: validate_tool_def Let_def)
  next
    case 3
    then have "YStr ` set REQUIRED_TOOL_KEYS \<subseteq> fst ` set cfg" by (auto simp: filter_empty_conv)
    moreover from 3 assms i have "validate_tool_field_types name cfg = Inl e \<or> validate_tool_security_invariants name cfg = Inl e"
      by (auto simp: validate_tool_def Let_def bind_result_eq_Inl)
    ultimately show ?thesis using field_types_error security_error by blast
  qed
next
  case False
  with assms show ?thesis by (cases item; cases "fst item"; cases "snd item") (auto simp: validate_tool_def)
qed

text \<open>
  C31. How validation fails: a document that is not sound is refused with \<^verbatim>\<open>PolicyIntegrityError\<close>, with one
  exception. An unknown key that is not a string, at the top level or in a tool entry, can make
  the message itself fail with \<^verbatim>\<open>TypeError\<close>. A missing field never surfaces as \<^verbatim>\<open>KeyError\<close>.
\<close>

theorem validation_failures:
  assumes "validate_policy_invariants raw = Inl e"
  shows "(\<exists>m. e = PolicyIntegrityError m) \<or>
    (\<exists>m. e = TypeError m \<and> (non_string_key raw \<or>
       (\<exists>ts name cfg. map_of raw (YStr ''tools'') = Some (YMap ts) \<and> (name, YMap cfg) \<in> set ts \<and> non_string_key cfg)))"
proof -
  let ?unknown = "filter (\<lambda>k. k \<notin> YStr ` set ALLOWED_TOP_LEVEL_KEYS) (map fst raw)"
  have top: "non_string_key raw" if "\<exists>k \<in> set ?unknown. yaml_string k = None"
    using that by (auto simp: non_string_key_def list_ex_iff)
  from assms consider (integrity) "\<exists>m. e = PolicyIntegrityError m" | (top) "join_sorted ?unknown = Inl e"
    | (tool) ts where "yaml_get raw ''tools'' YNull = YMap ts" and "map_result validate_tool ts = Inl e"
    by (auto simp: validate_policy_invariants_def Let_def bind_result_eq_Inl split: if_splits yaml.splits)
  then show ?thesis
  proof cases
    case top
    from join_sorted_error[OF this] \<open>(\<exists>k \<in> set ?unknown. yaml_string k = None) \<Longrightarrow> non_string_key raw\<close> show ?thesis by blast
  next
    case tool
    then have "map_of raw (YStr ''tools'') = Some (YMap ts)" by (simp add: yaml_get_eq)
    moreover from map_result_error[OF tool(2)] obtain item where "item \<in> set ts" "validate_tool item = Inl e" by blast
    ultimately show ?thesis using validate_tool_error[of item e] by blast
  qed blast
qed

section \<open>The shipped policy\<close>

text \<open>The document of \<^verbatim>\<open>policies/default.yaml\<close>.\<close>

definition default_policy :: "(yaml \<times> yaml) list" where
  "default_policy =
    [(YStr ''default_decision'', YStr ''deny''),
     (YStr ''tools'', YMap [
       (YStr ''read_records'', YMap [(YStr ''enabled'', YBool True), (YStr ''risk_level'', YStr ''low''), (YStr ''external_effect'', YBool False),
         (YStr ''destructive'', YBool False), (YStr ''requires_human_approval'', YBool False),
         (YStr ''allowed_roles'', YList [YStr ''user'', YStr ''admin''])]),
       (YStr ''send_email'', YMap [(YStr ''enabled'', YBool True), (YStr ''risk_level'', YStr ''high''), (YStr ''external_effect'', YBool True),
         (YStr ''destructive'', YBool False), (YStr ''requires_human_approval'', YBool True),
         (YStr ''allowed_roles'', YList [YStr ''user'', YStr ''admin''])]),
       (YStr ''export_records'', YMap [(YStr ''enabled'', YBool True), (YStr ''risk_level'', YStr ''high''), (YStr ''external_effect'', YBool True),
         (YStr ''destructive'', YBool False), (YStr ''requires_human_approval'', YBool True),
         (YStr ''allowed_roles'', YList [YStr ''admin''])]),
       (YStr ''delete_records'', YMap [(YStr ''enabled'', YBool True), (YStr ''risk_level'', YStr ''critical''), (YStr ''external_effect'', YBool False),
         (YStr ''destructive'', YBool True), (YStr ''requires_human_approval'', YBool True),
         (YStr ''allowed_roles'', YList [YStr ''admin''])]),
       (YStr ''run_shell'', YMap [(YStr ''enabled'', YBool False), (YStr ''risk_level'', YStr ''critical''), (YStr ''external_effect'', YBool True),
         (YStr ''destructive'', YBool True), (YStr ''requires_human_approval'', YBool True),
         (YStr ''allowed_roles'', YList [])])]),
     (YStr ''tenant_isolation'', YStr ''strict'')]"

lemma default_policy_valid: "validate_policy_invariants default_policy = Inr ()"
  by code_simp

lemma default_policy_wf: "wf_yaml (YMap default_policy)"
  by code_simp

text \<open>A loader that satisfies the documented laws: it reads an entry field by field.\<close>

definition enum_risk :: "string \<Rightarrow> RiskLevel option" where
  "enum_risk s = find (\<lambda>l. RiskLevel_value l = s) [LOW, MEDIUM, HIGH, CRITICAL]"

lemma enum_risk_value: "enum_risk (RiskLevel_value l) = Some l"
  by (cases l) (simp_all add: enum_risk_def)

definition read_entry :: "(yaml \<times> yaml) list \<Rightarrow> ToolPolicy" where
  "read_entry cfg =
    \<lparr>tp_enabled = cfg_true cfg ''enabled'',
     tp_risk_level = the (enum_risk (yaml_str (yaml_get cfg ''risk_level'' YNull))),
     tp_external_effect = cfg_true cfg ''external_effect'', tp_destructive = cfg_true cfg ''destructive'',
     tp_requires_human_approval = cfg_true cfg ''requires_human_approval'',
     tp_allowed_roles = (case yaml_get cfg ''allowed_roles'' YNull of YList rs \<Rightarrow> map yaml_str rs | _ \<Rightarrow> [])\<rparr>"

definition sample_integrity :: integrity_env where
  "sample_integrity =
    \<lparr>ie_externals = \<lparr>pe_safe_load = (\<lambda>t. Inr (YMap default_policy)), pe_tool_policy_validate = (\<lambda>cfg. Inr (read_entry cfg))\<rparr>,
     ie_sorted = (\<lambda>ks. Inr ks)\<rparr>"

lemma read_entry_spells: "entry_spells cfg tp \<Longrightarrow> read_entry cfg = tp"
  by (simp add: read_entry_def entry_spells_def cfg_true_def yaml_get_def enum_risk_value comp_def)

lemma sample_integrity_laws: "faithful_model (ie_externals sample_integrity)" "dict_loader (ie_externals sample_integrity)"
  by (simp_all add: faithful_model_def read_entry_spells dict_loader_def sample_integrity_def default_policy_wf del: wf_yaml.simps)

definition sample_files :: host where
  "sample_files = \<lparr>h_file = (\<lambda>p. Some \<lparr>hf_text = [], hf_bytes = []\<rparr>), h_home = (\<lambda>_. None)\<rparr>"

text \<open>A sound document has a digest.\<close>

lemma sound_policy_digest:
  assumes "faithful_model (ie_externals ie)" and "load_policy_yaml (ie_externals ie) h p = Inr raw"
    and "validate_policy_invariants raw = Inr ()" and "wf_yaml (YMap raw)"
  shows "\<exists>t. validate_policy_file ie h p = Inr (hexdigest (sha256 (utf8_encode t)))"
proof -
  from assms(2) obtain content where load: "pe_safe_load (ie_externals ie) content = Inr (YMap raw)"
    by (auto simp: load_policy_yaml_ok)
  from assms(3) have sound: "policy_sound raw" by (simp add: policy_validation_sound)
  from load_policy_sound[OF assms(1) load sound] obtain doc ts where "load_policy (ie_externals ie) (Some content) = Inr doc"
    and doc: "map_of raw (YStr ''tools'') = Some (YMap ts)" "list_all2 loaded_as ts (pd_tools doc)" by blast
  show ?thesis
    unfolding validate_policy_file_def compute_policy_sha256_def assms(2,3) bind_result_simps
      canonical_policy_json_sound[OF doc(2) assms(4) sound doc(1)] by (rule exI, rule refl)
qed

lemma default_digest:
  "is_file h p \<Longrightarrow> \<exists>t. validate_policy_file sample_integrity h p = Inr (hexdigest (sha256 (utf8_encode t)))"
  by (rule sound_policy_digest[OF sample_integrity_laws(1) _ default_policy_valid default_policy_wf])
    (auto simp: load_policy_yaml_ok read_text_def is_file_def sample_integrity_def)

lemma sample_digest: "\<exists>t. validate_policy_file sample_integrity sample_files p = Inr (hexdigest (sha256 (utf8_encode t)))"
  by (rule default_digest) (simp add: is_file_def sample_files_def)

lemma sample_read: "read_text sample_files p = Inr []"
  by (simp add: read_text_def sample_files_def)

theorem validated_policy_decisions_witness:
  "\<exists>doc. load_policy (ie_externals sample_integrity) (Some []) = Inr doc \<and>
     (\<forall>request tc. pdec_allowed (evaluate_policy doc request tc) \<longrightarrow> tc_tool_name tc \<noteq> ''run_shell'')"
proof -
  obtain d where "validate_policy_file sample_integrity sample_files (mk_path ''/p'') = Inr d"
    using sample_digest by blast
  from validated_policy_decisions[OF sample_integrity_laws(1) this sample_read] show ?thesis by blast
qed

theorem written_hash_verifies_witness:
  "\<exists>h' out. validate_policy_main sample_integrity (mk_path ''/p'') (mk_path ''/h'') True sample_files = (h', Inr (out, 0))
     \<and> (\<exists>out'. validate_policy_main sample_integrity (mk_path ''/p'') (mk_path ''/h'') False h' = (h', Inr (out', 0)))"
proof -
  obtain t where "validate_policy_file sample_integrity sample_files (mk_path ''/p'') = Inr (hexdigest (sha256 (utf8_encode t)))"
    using sample_digest by blast
  then obtain h' out where run: "validate_policy_main sample_integrity (mk_path ''/p'') (mk_path ''/h'') True sample_files = (h', Inr (out, 0))"
    by (simp add: validate_policy_main_def)
  moreover have "mk_path ''/p'' \<noteq> mk_path ''/h''" by code_simp
  ultimately show ?thesis using written_hash_verifies[OF run] by blast
qed

theorem digest_fixes_decisions_witness:
  "\<exists>h d doc1 doc2 t1 t2. verify_policy_file_hash sample_integrity h (mk_path ''/p'') (mk_path ''/h'') = Inr d
     \<and> load_policy (ie_externals sample_integrity) (Some []) = Inr doc1
     \<and> load_policy (ie_externals sample_integrity) (Some []) = Inr doc2
     \<and> ((\<forall>request tc. evaluate_policy doc1 request tc = evaluate_policy doc2 request tc)
       \<or> collision (\<lambda>bs. hexdigest (sha256 bs)) (utf8_encode t1) (utf8_encode t2))"
proof -
  obtain t where t: "validate_policy_file sample_integrity sample_files (mk_path ''/p'') = Inr (hexdigest (sha256 (utf8_encode t)))"
    using sample_digest by blast
  have "mk_path ''/p'' \<noteq> mk_path ''/h''" by code_simp
  with t obtain d h where v: "verify_policy_file_hash sample_integrity h (mk_path ''/p'') (mk_path ''/h'') = Inr d"
    and "read_text h (mk_path ''/p'') = Inr []"
    using verify_written[OF t, of "mk_path ''/h''"] sample_read[of "mk_path ''/p''"]
    by (auto simp: read_text_def write_text_def)
  from digest_fixes_decisions[OF sample_integrity_laws v v this(2) this(2)] v show ?thesis by blast
qed

definition sample_bad_policy :: "(yaml \<times> yaml) list" where
  "sample_bad_policy = (YInt 7, YNull) # default_policy"

theorem validation_failures_witness:
  "validate_policy_invariants sample_bad_policy = Inl (TypeError ''keys are not strings'') \<and> non_string_key sample_bad_policy"
proof -
  have bad: "validate_policy_invariants sample_bad_policy = Inl (TypeError ''keys are not strings'')" by code_simp
  from validation_failures[OF this] bad show ?thesis by (simp add: sample_bad_policy_def non_string_key_def)
qed

end
