(* ===== verification/Repo_Hygiene.thy ===== *)
theory Repo_Hygiene
  imports Py_Host
begin

text \<open>
  \<^verbatim>\<open>scripts/validate_repo.py\<close>, the scan of the repository for prompt artifacts, and
  \<^verbatim>\<open>scripts/check_python_version.py\<close>. The walk \<^verbatim>\<open>root.rglob("*")\<close> is the list of the parts of the
  regular files below the root, in any order; a command is the lines it prints and its exit code.
\<close>

section \<open>Constants\<close>

definition FORBIDDEN_EXACT_FILES :: "string list" where
  "FORBIDDEN_EXACT_FILES = [''AGENTS.md'', ''PROJECT_DOCTRINE.md'']"

definition SKIP_DIR_NAMES :: "string list" where
  "SKIP_DIR_NAMES = [''.git'', ''.venv'', ''venv'', ''__pycache__'', ''.pytest_cache'', ''.mypy_cache'',
     ''.ruff_cache'', ''audit_logs'', ''htmlcov'', ''dist'', ''build'', ''.eggs'']"

definition FORBIDDEN_DIR_NAMES :: "string list" where
  "FORBIDDEN_DIR_NAMES = [''.cursor'', ''master-prompts'', ''prompts'', ''prompt-artifacts'', ''chat-logs'',
     ''cursor-transcripts'', ''conversation-exports'', ''agent-reports'', ''scratchpads'', ''validation-notes'', ''ai-notes'']"

definition FORBIDDEN_PATH_SUBSTRINGS :: "string list" where
  "FORBIDDEN_PATH_SUBSTRINGS = [''.cursor/'', ''master-prompts'', ''prompt-artifacts'', ''cursor-transcripts'',
     ''conversation-exports'', ''chat-logs'', ''agent-reports'', ''scratchpads'', ''validation-notes'', ''ai-notes'', ''cycle-report'']"

definition FORBIDDEN_SUFFIXES :: "string list" where
  "FORBIDDEN_SUFFIXES = [''.prompt.md'', ''.prompts.md'', ''.chat.md'', ''.transcript.md'']"

definition FORBIDDEN_NAME_FRAGMENTS :: "string list" where
  "FORBIDDEN_NAME_FRAGMENTS = [''cursor_project_doctrine'', ''cycle-report'',
     ''llm-agent-control-plane-cycle-report.md'', ''master-prompt'', ''chatgpt-'']"

section \<open>The checks\<close>

text \<open>\<^verbatim>\<open>path.parents\<close>, the nearest first, and the search for \<^verbatim>\<open>pyproject.toml\<close> from a resolved path.\<close>

definition path_parents :: "path \<Rightarrow> path list" where
  "path_parents p = map (\<lambda>n. p\<lparr>p_tail := take n (p_tail p)\<rparr>) (rev [0..<length (p_tail p)])"

definition find_repo_root :: "host \<Rightarrow> path \<Rightarrow> path" where
  "find_repo_root h current =
    (case find (\<lambda>candidate. is_file h (path_join candidate ''pyproject.toml'')) (current # path_parents current) of
       Some candidate \<Rightarrow> candidate | None \<Rightarrow> current)"

definition is_skipped_dir :: "string list \<Rightarrow> bool" where
  "is_skipped_dir parts = list_ex (\<lambda>part. part \<in> set SKIP_DIR_NAMES \<or> py_startswith part ''pytest-of-'') parts"

definition path_all_parts :: "path \<Rightarrow> string list" where
  "path_all_parts p = (if p_root p \<noteq> [] then p_root p # p_tail p else p_tail p)"

text \<open>A message quotes what it found and names the path.\<close>

definition quoted :: "string \<Rightarrow> string \<Rightarrow> string \<Rightarrow> string" where
  "quoted what found relative_path = what @ [CHR 0x20, CHR 0x27] @ found @ [CHR 0x27] @ '': '' @ relative_path"

definition posix :: "string \<Rightarrow> string" where
  "posix s = map (\<lambda>c. if c = CHR 0x5C then CHR ''/'' else c) s"

definition check_file :: "string \<Rightarrow> string option" where
  "check_file relative_path =
    (if relative_path \<in> set FORBIDDEN_EXACT_FILES
     then Some (''internal governance file not allowed in public repo: '' @ relative_path)
     else
       (let path_obj = mk_path relative_path;
            name_lower = py_lower (path_name path_obj);
            rel_lower = py_lower (posix relative_path)
        in case find (\<lambda>part. part \<in> set FORBIDDEN_DIR_NAMES) (path_all_parts path_obj) of
             Some part \<Rightarrow> Some (quoted ''forbidden directory segment'' part relative_path)
           | None \<Rightarrow>
         (case find (\<lambda>fragment. py_in fragment rel_lower) FORBIDDEN_PATH_SUBSTRINGS of
             Some fragment \<Rightarrow> Some (quoted ''forbidden path fragment'' fragment relative_path)
           | None \<Rightarrow>
         (case find (\<lambda>s. suffix s name_lower) FORBIDDEN_SUFFIXES of
             Some s \<Rightarrow> Some (quoted ''forbidden filename suffix'' s relative_path)
           | None \<Rightarrow>
         (case find (\<lambda>fragment. py_in fragment name_lower) FORBIDDEN_NAME_FRAGMENTS of
             Some fragment \<Rightarrow> Some (quoted ''forbidden filename fragment'' fragment relative_path)
           | None \<Rightarrow> None)))))"

definition scan_repository :: "string list list \<Rightarrow> string list" where
  "scan_repository files =
    sort (List.map_filter (\<lambda>parts. if is_skipped_dir parts then None else check_file (py_join ''/'' parts)) files)"

definition validate_repo_main :: "path \<Rightarrow> string list list \<Rightarrow> string list \<times> int" where
  "validate_repo_main root_path files =
    (let violations = scan_repository files
     in if violations = [] then ([''OK: no prompt artifacts found under '' @ path_str root_path], 0)
        else ([''ERROR: prompt artifact hygiene violations detected:'']
              @ map (\<lambda>item. ''  - '' @ item) violations
              @ [''Do not commit prompt exports, IDE metadata (.cursor/), AGENTS.md, ''
                 @ ''PROJECT_DOCTRINE.md, master prompts, or cycle reports.''], 1))"

text \<open>The interpreter check: \<^verbatim>\<open>shown\<close> is the version text up to its first blank.\<close>

definition check_python_version :: "int \<Rightarrow> int \<Rightarrow> string \<Rightarrow> string list \<times> int" where
  "check_python_version major minor version =
    (if major \<noteq> 3 \<or> minor \<noteq> 12 then
       ([''ERROR: Expected Python 3.12.x for this project, got '' @ first_word version @ ''.'',
         ''Use pyenv, asdf, or Docker (see README). Python 3.14+ is a local mismatch only.''], 1)
     else ([''OK: Python '' @ first_word version], 0))"

section \<open>What the scan finds\<close>

text \<open>The naming rules, on the parts of a relative path.\<close>

definition forbidden :: "string list \<Rightarrow> bool" where
  "forbidden parts =
    (let rel = py_join ''/'' parts; name = py_lower (if parts = [] then [] else last parts)
     in rel \<in> set FORBIDDEN_EXACT_FILES
        \<or> (\<exists>part \<in> set parts. part \<in> set FORBIDDEN_DIR_NAMES)
        \<or> (\<exists>f \<in> set FORBIDDEN_PATH_SUBSTRINGS. py_in f (py_lower (posix rel)))
        \<or> (\<exists>s \<in> set FORBIDDEN_SUFFIXES. suffix s name)
        \<or> (\<exists>f \<in> set FORBIDDEN_NAME_FRAGMENTS. py_in f name))"

text \<open>The parts of a path as the walk yields them.\<close>

definition plain_parts :: "string list \<Rightarrow> bool" where
  "plain_parts parts = (parts \<noteq> [] \<and> (\<forall>x \<in> set parts. x \<noteq> [] \<and> x \<noteq> ''.'' \<and> CHR ''/'' \<notin> set x))"

lemma mk_path_parts:
  assumes "plain_parts parts"
  shows "mk_path (py_join ''/'' parts) = \<lparr>p_root = [], p_tail = parts\<rparr>"
proof -
  have "wf_path \<lparr>p_root = [], p_tail = parts\<rparr>"
    using assms unfolding wf_path_def plain_parts_def path.select_convs by blast
  from mk_path_path_str[OF this] assms show ?thesis by (simp add: path_str_def plain_parts_def)
qed

lemma find_Some_iff_ex: "(find P xs \<noteq> None) \<longleftrightarrow> (\<exists>x \<in> set xs. P x)"
  by (auto simp: find_None_iff)

lemma check_file_iff:
  assumes "plain_parts parts"
  shows "check_file (py_join ''/'' parts) \<noteq> None \<longleftrightarrow> forbidden parts"
proof -
  have "parts \<noteq> []" using assms by (simp add: plain_parts_def)
  then show ?thesis
    unfolding check_file_def mk_path_parts[OF assms] forbidden_def Let_def
    by (auto simp: path_all_parts_def path_name_def find_None_iff find_Some_iff simp del: py_join.simps
        split: option.splits)
qed

lemma set_scan: "set (scan_repository files) =
  {m. \<exists>parts \<in> set files. \<not> is_skipped_dir parts \<and> check_file (py_join ''/'' parts) = Some m}"
  by (auto simp: scan_repository_def List.map_filter_def image_iff split: if_splits) (metis option.sel)+

text \<open>A governance file below the top level is not found, and neither is one in a skipped directory.\<close>

lemma nested_governance_file_passes: "check_file ''docs/AGENTS.md'' = None"
  by code_simp

lemma skipped_artifact_passes: "scan_repository [[''build'', ''master-prompts'', ''x.md'']] = []"
  by code_simp

section \<open>Properties\<close>

text \<open>
  C39. The scan passes exactly the clean repositories: over the files of a walk the command ends with exit
  code 0 if and only if no file outside the skipped directories breaks a naming rule; otherwise the
  exit code is 1 and every offending file has its line.
\<close>

theorem scan_passes_exactly_clean:
  assumes "list_all plain_parts files"
  shows "(snd (validate_repo_main root_path files) = 0 \<longleftrightarrow> (\<forall>parts \<in> set files. \<not> is_skipped_dir parts \<longrightarrow> \<not> forbidden parts))
    \<and> (\<forall>parts \<in> set files. \<not> is_skipped_dir parts \<and> forbidden parts \<longrightarrow>
         snd (validate_repo_main root_path files) = 1
         \<and> (\<exists>m. check_file (py_join ''/'' parts) = Some m \<and> ''  - '' @ m \<in> set (fst (validate_repo_main root_path files))))"
proof (intro conjI ballI impI)
  have check: "check_file (py_join ''/'' parts) \<noteq> None \<longleftrightarrow> forbidden parts" if "parts \<in> set files" for parts
    using assms that check_file_iff by (auto simp: list_all_iff)
  have "scan_repository files = [] \<longleftrightarrow> (\<forall>parts \<in> set files. \<not> is_skipped_dir parts \<longrightarrow> \<not> forbidden parts)"
    unfolding set_empty[symmetric] set_scan using check by (simp, blast)
  then show "snd (validate_repo_main root_path files) = 0 \<longleftrightarrow> (\<forall>parts \<in> set files. \<not> is_skipped_dir parts \<longrightarrow> \<not> forbidden parts)"
    by (simp add: validate_repo_main_def Let_def)
  fix parts
  assume p: "parts \<in> set files" "\<not> is_skipped_dir parts \<and> forbidden parts"
  then obtain m where m: "check_file (py_join ''/'' parts) = Some m" using check by blast
  then have v: "m \<in> set (scan_repository files)" using p set_scan by blast
  then have "scan_repository files \<noteq> []" by auto
  with v m show "snd (validate_repo_main root_path files) = 1"
    and "\<exists>m. check_file (py_join ''/'' parts) = Some m \<and> ''  - '' @ m \<in> set (fst (validate_repo_main root_path files))"
    by (auto simp: validate_repo_main_def Let_def)
qed

theorem scan_passes_exactly_clean_witness:
  "snd (validate_repo_main (mk_path ''/r'') [[''src'', ''a.py''], [''docs'', ''notes.chat.md'']]) = 1
   \<and> forbidden [''docs'', ''notes.chat.md'']"
proof -
  have f: "forbidden [''docs'', ''notes.chat.md'']" by code_simp
  have "list_all plain_parts [[''src'', ''a.py''], [''docs'', ''notes.chat.md'']]" by code_simp
  from scan_passes_exactly_clean[OF this, of "mk_path ''/r''"] f show ?thesis by (simp add: is_skipped_dir_def SKIP_DIR_NAMES_def py_startswith_def)
qed

text \<open>The first \<open>n\<close> parts of a path.\<close>

definition ancestor :: "path \<Rightarrow> nat \<Rightarrow> path" where
  "ancestor p n = p\<lparr>p_tail := take n (p_tail p)\<rparr>"

definition has_pyproject :: "host \<Rightarrow> path \<Rightarrow> bool" where
  "has_pyproject h p = is_file h (path_join p ''pyproject.toml'')"

lemma find_rev_upt:
  "find P (map f (rev [0..<n])) = None \<longleftrightarrow> (\<forall>m < n. \<not> P (f m))"
  "find P (map f (rev [0..<n])) = Some x \<Longrightarrow> \<exists>k < n. x = f k \<and> P (f k) \<and> (\<forall>m. k < m \<and> m < n \<longrightarrow> \<not> P (f m))"
proof -
  show "find P (map f (rev [0..<n])) = None \<longleftrightarrow> (\<forall>m < n. \<not> P (f m))" by (auto simp: find_None_iff)
  show "find P (map f (rev [0..<n])) = Some x \<Longrightarrow> \<exists>k < n. x = f k \<and> P (f k) \<and> (\<forall>m. k < m \<and> m < n \<longrightarrow> \<not> P (f m))"
  proof (induction n)
    case (Suc n)
    show ?case
    proof (cases "P (f n)")
      case True
      with Suc.prems show ?thesis by (intro exI[of _ n]) auto
    next
      case False
      with Suc obtain k where "k < n" "x = f k" "P (f k)" "\<forall>m. k < m \<and> m < n \<longrightarrow> \<not> P (f m)" by auto
      with False show ?thesis by (intro exI[of _ k]) (auto simp: less_Suc_eq)
    qed
  qed simp
qed

lemma candidates: "current # path_parents current = map (ancestor current) (rev [0..<Suc (length (p_tail current))])"
  by (simp add: path_parents_def ancestor_def)

text \<open>
  The repository root is the nearest enclosing directory with a \<^verbatim>\<open>pyproject.toml\<close>: the search ends with
  an ancestor of the starting path (or the path itself) that holds the file while no directory between
  the two does, or, when no ancestor holds it, with the starting path.
\<close>

theorem repo_root_is_nearest:
  "(\<exists>n \<le> length (p_tail current). find_repo_root h current = ancestor current n \<and> has_pyproject h (ancestor current n)
      \<and> (\<forall>m. n < m \<and> m \<le> length (p_tail current) \<longrightarrow> \<not> has_pyproject h (ancestor current m)))
   \<or> ((\<forall>n \<le> length (p_tail current). \<not> has_pyproject h (ancestor current n)) \<and> find_repo_root h current = current)"
proof -
  let ?n = "Suc (length (p_tail current))"
  have root: "find_repo_root h current = (case find (has_pyproject h) (map (ancestor current) (rev [0..<?n])) of
      Some candidate \<Rightarrow> candidate | None \<Rightarrow> current)"
    unfolding find_repo_root_def candidates by (simp add: has_pyproject_def[abs_def])
  show ?thesis
  proof (cases "find (has_pyproject h) (map (ancestor current) (rev [0..<?n]))")
    case None
    with find_rev_upt(1)[of "has_pyproject h" "ancestor current" ?n] root show ?thesis by (auto simp: less_Suc_eq_le)
  next
    case (Some x)
    from find_rev_upt(2)[OF Some] Some root show ?thesis by (auto simp: less_Suc_eq_le)
  qed
qed

theorem repo_root_is_nearest_witness:
  "find_repo_root \<lparr>h_file = (\<lambda>p. if path_str p = ''/r/pyproject.toml'' then Some \<lparr>hf_text = [], hf_bytes = []\<rparr> else None),
     h_home = (\<lambda>_. None)\<rparr> (mk_path ''/r/src/x'') = mk_path ''/r''" (is "find_repo_root ?h ?p = _")
proof -
  have tail: "p_tail ?p = [''r'', ''src'', ''x'']" by code_simp
  have "has_pyproject ?h (ancestor ?p 1)" "\<not> has_pyproject ?h (ancestor ?p 2)" "\<not> has_pyproject ?h (ancestor ?p 3)"
    "\<not> has_pyproject ?h (ancestor ?p 0)" "ancestor ?p 1 = mk_path ''/r''"
    by code_simp+
  note facts = this
  from tail have len: "length (p_tail ?p) = 3" by simp
  from repo_root_is_nearest[of ?p ?h] have "\<exists>n \<le> 3. find_repo_root ?h ?p = ancestor ?p n \<and> has_pyproject ?h (ancestor ?p n)
      \<and> (\<forall>m. n < m \<and> m \<le> 3 \<longrightarrow> \<not> has_pyproject ?h (ancestor ?p m))"
    unfolding len using \<open>has_pyproject ?h (ancestor ?p 1)\<close> by (elim disjE) (assumption, simp)
  then obtain n where n: "n \<le> 3" "find_repo_root ?h ?p = ancestor ?p n" "has_pyproject ?h (ancestor ?p n)" by blast
  from n(1) have "n = 0 \<or> n = 1 \<or> n = 2 \<or> n = 3" by arith
  with n facts have "n = 1" by (elim disjE) simp_all
  with n(2) facts show ?thesis by simp
qed

end
