(* ===== verification/Spec2Isabelle.thy ===== *)
theory Spec2Isabelle
  imports Api Demo Repo_Hygiene
begin

text \<open>
  \<^bold>\<open>The program.\<close> The LLM agent control plane laboratory is a Python service in which the output of a language
  model is untrusted. A request runs one turn: an adapter produces text and possibly a tool call, the output
  filter looks at the text, the tool broker lets the call through only if the argument schema, the integrity of
  its provenance, the policy and the approval gate agree, a simulator stands in for the tool, and every outcome
  is written to an audit log after redaction. Around that pipeline are a configuration read from the
  environment, an HTTP API, a checker for the policy file, a demo and two repository scripts. All source paths
  below are under \<^verbatim>\<open>src/src/agent_control_plane/\<close> unless they name \<^verbatim>\<open>src/scripts/\<close>.

  \<^bold>\<open>Theories and sources.\<close>
  \<^item> \<open>Prelude\<close>: exceptions as values (\<open>py_error\<close>, results as sums), Python's string operations, runs of a step
    relation; \<open>Py_Host\<close>: \<^verbatim>\<open>int(text)\<close>, \<^verbatim>\<open>split\<close>, \<^verbatim>\<open>pathlib\<close>, environment and files.
  \<^item> \<open>Json\<close>, \<open>Sha256\<close>, \<open>Py_Datetime\<close>, \<open>Regex\<close>: the parts of the standard library the code computes with:
    \<^verbatim>\<open>json.dumps\<close> with unique readability, SHA-256 and HMAC over machine words, ISO 8601 texts and time
    arithmetic, a backtracking matcher for \<^verbatim>\<open>re\<close> with its declarative reading.
  \<^item> \<open>Models\<close> (\<^verbatim>\<open>models.py\<close>, \<^verbatim>\<open>policy_types.py\<close>): records and enumerations of the domain.
  \<^item> \<open>Schemas\<close> (\<^verbatim>\<open>schemas.py\<close>), \<open>Provenance_Integrity\<close> (\<^verbatim>\<open>provenance.py\<close>, \<^verbatim>\<open>provenance_integrity.py\<close>),
    \<open>Policy_Engine\<close> (\<^verbatim>\<open>policy_engine.py\<close>), \<open>Approval_Tokens\<close> (\<^verbatim>\<open>approval_tokens.py\<close>), \<open>Approval_Gate\<close>
    (\<^verbatim>\<open>approval_gate.py\<close>), \<open>Tool_Broker\<close> (\<^verbatim>\<open>tool_broker.py\<close>): the four controls and their composition.
  \<^item> \<open>Agent_Core\<close> (\<^verbatim>\<open>prompt.py\<close>, \<^verbatim>\<open>agent_core.py\<close>, \<^verbatim>\<open>llm_adapter.py\<close>), \<open>Simulator\<close> (\<^verbatim>\<open>simulator.py\<close>),
    \<open>Output_Filter\<close> (\<^verbatim>\<open>output_filter.py\<close>), \<open>Audit_Log\<close> (\<^verbatim>\<open>audit_logger.py\<close>, \<^verbatim>\<open>observability.py\<close>).
  \<^item> \<open>Pipeline\<close> (\<^verbatim>\<open>pipeline.py\<close>): the protected and the vulnerable turn over the state \<open>plane_state\<close> (the
    registry of consumed approvals and the text of the audit file), and the process as a step relation.
  \<^item> \<open>Config\<close> (\<^verbatim>\<open>config.py\<close>), \<open>Api\<close> (\<^verbatim>\<open>api.py\<close>): configuration and HTTP boundary; \<open>Policy_Integrity\<close>
    (\<^verbatim>\<open>policy_integrity.py\<close>, \<^verbatim>\<open>src/scripts/validate_policy.py\<close>, \<^verbatim>\<open>src/policies/default.yaml\<close>); \<open>Demo\<close>
    (\<^verbatim>\<open>demo.py\<close>); \<open>Repo_Hygiene\<close> (\<^verbatim>\<open>src/scripts/validate_repo.py\<close>, \<^verbatim>\<open>src/scripts/check_python_version.py\<close>).

  A Python function is a definition of the same name (without the leading underscore), a class a record whose
  fields carry a prefix, an enumeration a datatype with its values; a method that writes returns the new state;
  every \<^verbatim>\<open>raise\<close> is a value on the left of a sum.

  \<^bold>\<open>What is shown.\<close>
  \<^item> Mediation: the broker allows exactly what the abstract rule \<open>authorised\<close> allows; a turn executes a tool only
    then; an approval is spent at most once in any run; untrusted, retrieved or foreign-tenant calls never
    execute; exceptions grant nothing; turns return.
  \<^item> Binding: tokens and signatures stand for one action and one metadata, and the policy digest for one decision
    function, or two explicit texts collide under SHA-256. No hypothesis on the hash is made.
  \<^item> Secrets: known secret patterns are blocked by the filter for every destination, and no line of the audit
    file matches a redaction pattern, over all runs of the pipeline and of the API.
  \<^item> Audit: each answer appends one event with its verdict, and reading the file back gives the events in order.
  \<^item> Deployment: validation admits exactly the deployable configurations and the sound policy documents;
    configuration errors do not depend on keys; unauthenticated and oversized requests reach nothing; production
    responses hide exceptions; the theorem below composes API, pipeline, broker and policy file.
  \<^item> Library laws as locales, interpreted on the model: \<open>digest_binding\<close> (SHA-256 texts, signatures, fingerprints),
    \<open>replay_guard\<close> and \<open>one_time_use\<close> (the registry, the process), \<open>authority\<close> (the broker), \<open>fenced_pattern\<close>
    (redaction), \<open>audited_process\<close> (pipeline and API).

  \<^bold>\<open>Idealisations and parameters.\<close> A character is a code point below 256. Clock readings, adapter latency, the policy
  file at the time of a turn, the environment and the files are arguments. pydantic's validation and PyYAML's
  \<^verbatim>\<open>safe_load\<close> are parameters with their documented behaviour as named hypotheses (\<open>pydantic_checks\<close>,
  \<open>faithful_model\<close>, \<open>dict_loader\<close>), each with a concrete instance. FastAPI and Starlette are the relation \<open>route\<close>,
  which permits every documented order of calls. Entropy is over the reals, with an equivalent test on natural
  numbers. The order in which a Python set is iterated is fixed where only the text of a message depends on it.
  Every function is total; no fuel is used.

  \<^bold>\<open>Not modelled.\<close> The ASGI wrapper \<^verbatim>\<open>_LazyASGIApp\<close>, the creation of directories and temporary files, argument
  parsing of the scripts and failures of the operating system (they are input and output only); parsing of the
  audit file's lines back into JSON objects; concurrent requests (turns of one process are serialised here); the
  tests, the documentation and the deployment files.
\<close>

section \<open>The deployed service\<close>


definition user_body :: RunRequestBody where
  "user_body = RunRequestBody_default ''req-1'' ''user-1'' ''sess-1'' ''tenant-a'' ''Read records''"

definition shipped_env :: turn_env where
  "shipped_env = sample_env\<lparr>te_policy_file := Some sample_keys\<rparr>"

lemma shipped_read: "\<exists>st' r. run_protected (demo_pipeline (ie_externals sample_integrity)) shipped_env
    (api_agent_request keyed user_body) plane_init = (st', Inr r) \<and> pr_tool_executed r"
proof -
  have "load_policy (ie_externals sample_integrity) (te_policy_file shipped_env) = Inr default_document"
    using default_document_loads[OF sample_integrity_laws(1), of sample_keys]
    by (simp add: shipped_env_def sample_integrity_def)
  moreover have "expected used now (api_agent_request keyed user_body) =
      Some (True, ''simulation'', ''explicit_allow_after_policy_checks'', True)" for used now
    by code_simp
  ultimately show ?thesis using run_protected_expected by (fastforce simp: outcome_of_def)
qed


end
